(* ===== verification/Prelude.thy ===== *)
theory Prelude
  imports Main "HOL-Library.Word"
begin

text \<open>
  Shared vocabulary of the development.

  The first group names the machine types of the Rust sources: a \<open>u8\<close>, \<open>u64\<close>, \<open>u128\<close> or
  \<open>U256\<close> is a word of that width; \<open>B256\<close> and \<open>Address\<close> (fixed arrays of 32 and 20 bytes)
  are words of 256 and 160 bits read big-endian, so that their length is part of the
  type as it is in Rust; \<open>Bytes\<close>, \<open>Vec<u8>\<close> and \<open>&[u8]\<close> are lists of bytes and
  \<open>usize\<close> lengths of such lists are natural numbers.

  The second group is the result type of every fallible function: \<open>Ok\<close> and \<open>Err\<close> are
  Rust's, and \<open>Panic\<close> is what \<open>expect\<close>, \<open>assert!\<close> and an index out of bounds do, so that
  the absence of panics is a statement one can prove; the slices of the sources, which panic out of
  range, are of this type.

  The third group is the big-endian conversion between naturals and byte lists, of a fixed length
  and minimal.
\<close>

section \<open>Collections of facts\<close>

named_theorems outcome_simps \<open>inversion of results\<close>
named_theorems lib_simps \<open>accessors of the reference libraries\<close>

section \<open>Machine types\<close>

type_synonym byte = "8 word"
type_synonym bytes = "byte list"
type_synonym u64 = "64 word"
type_synonym u128 = "128 word"
type_synonym u256 = "256 word"
type_synonym b256 = "256 word"
type_synonym address = "160 word"

section \<open>Results with panics\<close>

datatype ('e, 'a) outcome = Ok 'a | Err 'e | Panic

primrec and_then :: "('e, 'a) outcome \<Rightarrow> ('a \<Rightarrow> ('e, 'b) outcome) \<Rightarrow> ('e, 'b) outcome" where
  "and_then (Ok x) f = f x"
| "and_then (Err e) f = Err e"
| "and_then Panic f = Panic"

primrec map_err :: "('e \<Rightarrow> 'f) \<Rightarrow> ('e, 'a) outcome \<Rightarrow> ('f, 'a) outcome" where
  "map_err g (Ok x) = Ok x"
| "map_err g (Err e) = Err (g e)"
| "map_err g Panic = Panic"

primrec map_ok :: "('a \<Rightarrow> 'b) \<Rightarrow> ('e, 'a) outcome \<Rightarrow> ('e, 'b) outcome" where
  "map_ok g (Ok x) = Ok (g x)"
| "map_ok g (Err e) = Err e"
| "map_ok g Panic = Panic"

definition ok_or :: "'a option \<Rightarrow> 'e \<Rightarrow> ('e, 'a) outcome" where
  "ok_or v e = (case v of None \<Rightarrow> Err e | Some x \<Rightarrow> Ok x)"

definition expect :: "'a option \<Rightarrow> ('e, 'a) outcome" where
  "expect v = (case v of None \<Rightarrow> Panic | Some x \<Rightarrow> Ok x)"

primrec unwrap :: "('e, 'a) outcome \<Rightarrow> ('f, 'a) outcome" where
  "unwrap (Ok x) = Ok x"
| "unwrap (Err e) = Panic"
| "unwrap Panic = Panic"

definition ensure :: "bool \<Rightarrow> 'e \<Rightarrow> ('e, unit) outcome" where
  "ensure b e = (if b then Ok () else Err e)"

primrec is_ok :: "('e, 'a) outcome \<Rightarrow> bool" where
  "is_ok (Ok x) = True"
| "is_ok (Err e) = False"
| "is_ok Panic = False"

lemma and_then_Ok [outcome_simps]:
  "and_then m f = Ok y \<longleftrightarrow> (\<exists>x. m = Ok x \<and> f x = Ok y)"
  by (cases m) auto

lemma and_then_Err [outcome_simps]:
  "and_then m f = Err e \<longleftrightarrow> m = Err e \<or> (\<exists>x. m = Ok x \<and> f x = Err e)"
  by (cases m) auto

lemma and_then_Panic [outcome_simps]:
  "and_then m f = Panic \<longleftrightarrow> m = Panic \<or> (\<exists>x. m = Ok x \<and> f x = Panic)"
  by (cases m) auto

lemma map_err_Ok [outcome_simps]: "map_err g m = Ok y \<longleftrightarrow> m = Ok y"
  by (cases m) auto

lemma map_err_Err [outcome_simps]: "map_err g m = Err e \<longleftrightarrow> (\<exists>d. m = Err d \<and> e = g d)"
  by (cases m) auto

lemma map_err_Panic [outcome_simps]: "map_err g m = Panic \<longleftrightarrow> m = Panic"
  by (cases m) auto

lemma map_ok_Ok [outcome_simps]: "map_ok g m = Ok y \<longleftrightarrow> (\<exists>x. m = Ok x \<and> y = g x)"
  by (cases m) auto

lemma map_ok_Err [outcome_simps]: "map_ok g m = Err e \<longleftrightarrow> m = Err e"
  by (cases m) auto

lemma map_ok_Panic [outcome_simps]: "map_ok g m = Panic \<longleftrightarrow> m = Panic"
  by (cases m) auto

lemma ok_or_simps [simp]: "ok_or (Some x) e = Ok x" "ok_or None e = Err e"
  by (simp_all add: ok_or_def)

lemma ok_or_Ok [outcome_simps]: "ok_or v e = Ok x \<longleftrightarrow> v = Some x"
  by (cases v) auto

lemma ok_or_Err [outcome_simps]: "ok_or v e = Err d \<longleftrightarrow> v = None \<and> d = e"
  by (cases v) auto

lemma ok_or_Panic [outcome_simps]: "ok_or v e \<noteq> Panic"
  by (cases v) auto

lemma expect_simps [simp]: "expect (Some x) = Ok x" "expect None = Panic"
  by (simp_all add: expect_def)

lemma expect_Ok [outcome_simps]: "expect v = Ok x \<longleftrightarrow> v = Some x"
  by (cases v) auto

lemma expect_Err [outcome_simps]: "expect v \<noteq> Err e"
  by (cases v) auto

lemma expect_Panic [outcome_simps]: "expect v = Panic \<longleftrightarrow> v = None"
  by (cases v) auto

lemma unwrap_Ok [outcome_simps]: "unwrap m = Ok x \<longleftrightarrow> m = Ok x"
  by (cases m) auto

lemma unwrap_Err [outcome_simps]: "unwrap m \<noteq> Err e"
  by (cases m) auto

lemma unwrap_Panic [outcome_simps]: "unwrap m = Panic \<longleftrightarrow> \<not> is_ok m"
  by (cases m) auto

lemma ensure_simps [simp]: "ensure True e = Ok ()" "ensure False e = Err e"
  by (simp_all add: ensure_def)

lemma ensure_Ok [outcome_simps]: "ensure b e = Ok u \<longleftrightarrow> b"
  by (cases b) auto

lemma ensure_Err [outcome_simps]: "ensure b e = Err d \<longleftrightarrow> \<not> b \<and> d = e"
  by (cases b) auto

lemma ensure_Panic [outcome_simps]: "ensure b e \<noteq> Panic"
  by (cases b) auto

lemma is_ok_iff [outcome_simps]: "is_ok m \<longleftrightarrow> (\<exists>x. m = Ok x)"
  by (cases m) auto

section \<open>Slices\<close>

text \<open>
  The operations of a Rust slice: \<open>first()\<close>, and \<open>xs[i]\<close>, \<open>&xs[n..]\<close>, \<open>&xs[..n]\<close> and \<open>split_at\<close>, which
  panic out of range.
\<close>

definition slice_first :: "'a list \<Rightarrow> 'a option" where
  "slice_first xs = (case xs of [] \<Rightarrow> None | x # _ \<Rightarrow> Some x)"

definition slice_index :: "'a list \<Rightarrow> nat \<Rightarrow> ('e, 'a) outcome" where
  "slice_index xs i = (if i < length xs then Ok (xs ! i) else Panic)"

definition slice_from :: "'a list \<Rightarrow> nat \<Rightarrow> ('e, 'a list) outcome" where
  "slice_from xs n = (if n \<le> length xs then Ok (drop n xs) else Panic)"

definition slice_to :: "'a list \<Rightarrow> nat \<Rightarrow> ('e, 'a list) outcome" where
  "slice_to xs n = (if n \<le> length xs then Ok (take n xs) else Panic)"

definition split_at :: "'a list \<Rightarrow> nat \<Rightarrow> ('e, 'a list \<times> 'a list) outcome" where
  "split_at xs n = (if n \<le> length xs then Ok (take n xs, drop n xs) else Panic)"

lemma slice_first_Some [simp]: "slice_first xs = Some x \<longleftrightarrow> (\<exists>ys. xs = x # ys)"
  by (cases xs) (auto simp: slice_first_def)

lemma slices_in_range [simp]:
  "i < length xs \<Longrightarrow> slice_index xs i = Ok (xs ! i)"
  "n \<le> length xs \<Longrightarrow> slice_from xs n = Ok (drop n xs)"
  "n \<le> length xs \<Longrightarrow> slice_to xs n = Ok (take n xs)"
  "n \<le> length xs \<Longrightarrow> split_at xs n = Ok (take n xs, drop n xs)"
  by (simp_all add: slice_index_def slice_from_def slice_to_def split_at_def)

lemma slices_Ok [outcome_simps]:
  "slice_index xs i = Ok x \<longleftrightarrow> i < length xs \<and> x = xs ! i"
  "slice_from xs n = Ok ys \<longleftrightarrow> n \<le> length xs \<and> ys = drop n xs"
  "slice_to xs n = Ok ys \<longleftrightarrow> n \<le> length xs \<and> ys = take n xs"
  "split_at xs n = Ok p \<longleftrightarrow> n \<le> length xs \<and> p = (take n xs, drop n xs)"
  by (auto simp: slice_index_def slice_from_def slice_to_def split_at_def)

lemma slices_Err [outcome_simps]:
  "slice_index xs i \<noteq> Err e" "slice_from xs n \<noteq> Err e" "slice_to xs n \<noteq> Err e" "split_at xs n \<noteq> Err e"
  by (simp_all add: slice_index_def slice_from_def slice_to_def split_at_def)

lemma slices_Panic [outcome_simps]:
  "slice_index xs i = Panic \<longleftrightarrow> length xs \<le> i" "slice_from xs n = Panic \<longleftrightarrow> length xs < n"
  "slice_to xs n = Panic \<longleftrightarrow> length xs < n" "split_at xs n = Panic \<longleftrightarrow> length xs < n"
  by (simp_all add: slice_index_def slice_from_def slice_to_def split_at_def not_le not_less)

section \<open>Big-endian bytes\<close>

primrec be_nat :: "bytes \<Rightarrow> nat" where
  "be_nat [] = 0"
| "be_nat (b # bs) = unat b * 256 ^ length bs + be_nat bs"

primrec be_bytes :: "nat \<Rightarrow> nat \<Rightarrow> bytes" where
  "be_bytes 0 x = []"
| "be_bytes (Suc n) x = be_bytes n (x div 256) @ [word_of_nat x]"

lemma length_be_bytes [simp]: "length (be_bytes n x) = n"
  by (induction n arbitrary: x) auto

lemma be_nat_append: "be_nat (xs @ ys) = be_nat xs * 256 ^ length ys + be_nat ys"
  by (induction xs) (auto simp: power_add algebra_simps)

lemma be_nat_zeros [simp]: "be_nat (replicate n 0) = 0"
  by (induction n) simp_all

lemma be_nat_less: "be_nat bs < 256 ^ length bs"
proof (induction bs)
  case Nil
  then show ?case by simp
next
  case (Cons b bs)
  have "unat b < 256"
    using unsigned_less [of b, where ?'a = nat] by simp
  then have "unat b * 256 ^ length bs + 256 ^ length bs \<le> 256 * 256 ^ length bs"
    by (metis Suc_leI add.commute mult_Suc mult_le_mono1)
  with Cons.IH have "unat b * 256 ^ length bs + be_nat bs < 256 * 256 ^ length bs"
    by linarith
  then show ?case by simp
qed

lemma be_nat_be_bytes: "be_nat (be_bytes n x) = x mod 256 ^ n"
proof (induction n arbitrary: x)
  case 0
  then show ?case by simp
next
  case (Suc n)
  have "x mod (256 * 256 ^ n) = 256 * (x div 256 mod 256 ^ n) + x mod 256"
    by (rule mod_mult2_eq)
  with Suc show ?case
    by (simp add: be_nat_append unat_of_nat)
qed

lemma be_bytes_be_nat: "be_bytes (length bs) (be_nat bs) = bs"
proof (induction bs rule: rev_induct)
  case Nil
  then show ?case by simp
next
  case (snoc b bs)
  have "(be_nat bs * 256 + unat b) div 256 = be_nat bs"
    using unsigned_less [of b, where ?'a = nat] by simp
  moreover have "(of_nat (be_nat bs * 256 + unat b) :: byte) = b"
    using unsigned_less [of b, where ?'a = nat]
    by (simp add: word_unat_eq_iff unat_word_ariths unat_of_nat)
  ultimately show ?case using snoc by (simp add: be_nat_append)
qed

text \<open>The bytes of a fixed-size array and of a big-endian integer: \<open>as_slice\<close>, \<open>to_be_bytes\<close>.\<close>

definition word_bytes :: "nat \<Rightarrow> 'a::len word \<Rightarrow> bytes" where
  "word_bytes n w = be_bytes n (unat w)"

lemma length_word_bytes [simp]: "length (word_bytes n w) = n"
  by (simp add: word_bytes_def)

lemma word_of_word_bytes:
  fixes w :: "'a::len word"
  assumes "LENGTH('a) = 8 * n"
  shows "word_of_nat (be_nat (word_bytes n w)) = w"
proof -
  have "(256::nat) ^ n = 2 ^ LENGTH('a)"
    using assms by (simp add: power_mult)
  then have "be_nat (word_bytes n w) = unat w"
    by (simp add: word_bytes_def be_nat_be_bytes unsigned_less)
  then show ?thesis by simp
qed

lemma word_bytes_inject:
  fixes a b :: "'a::len word"
  assumes "LENGTH('a) = 8 * n"
  shows "word_bytes n a = word_bytes n b \<longleftrightarrow> a = b"
  using word_of_word_bytes [OF assms] by metis

lemma word_bytes_of_word:
  assumes "LENGTH('a::len) = 8 * length bs"
  shows "word_bytes (length bs) (word_of_nat (be_nat bs) :: 'a word) = bs"
proof -
  have "(256::nat) ^ length bs = 2 ^ LENGTH('a)"
    using assms by (simp add: power_mult)
  then have "unat (word_of_nat (be_nat bs) :: 'a word) = be_nat bs"
    using be_nat_less [of bs] by (simp add: unat_of_nat)
  then show ?thesis by (simp add: word_bytes_def be_bytes_be_nat)
qed

section \<open>Minimal big-endian integers\<close>

fun min_be :: "nat \<Rightarrow> bytes" where
  "min_be n = (if n = 0 then [] else min_be (n div 256) @ [word_of_nat n])"

declare min_be.simps [simp del]

lemma min_be_0 [simp]: "min_be 0 = []"
  by (simp add: min_be.simps)

lemma min_be_step: "n \<noteq> 0 \<Longrightarrow> min_be n = min_be (n div 256) @ [word_of_nat n]"
  by (subst min_be.simps) simp

lemma be_nat_min_be: "be_nat (min_be n) = n"
proof (induction n rule: min_be.induct)
  case (1 n)
  show ?case
  proof (cases "n = 0")
    case False
    with 1 show ?thesis
      by (simp add: min_be_step be_nat_append unat_of_nat)
  qed simp
qed

lemma length_min_be: "n < 256 ^ k \<Longrightarrow> length (min_be n) \<le> k"
proof (induction k arbitrary: n)
  case 0
  then show ?case by simp
next
  case (Suc k)
  then have "n div 256 < 256 ^ k"
    by (simp add: less_mult_imp_div_less mult.commute)
  with Suc.IH have "length (min_be (n div 256)) \<le> k" by blast
  then show ?case by (cases "n = 0") (simp_all add: min_be_step)
qed

lemma min_be_nonempty: "n \<noteq> 0 \<Longrightarrow> min_be n \<noteq> []"
  by (simp add: min_be_step)

lemma hd_min_be: "n \<noteq> 0 \<Longrightarrow> hd (min_be n) \<noteq> 0"
proof (induction n rule: min_be.induct)
  case (1 n)
  show ?case
  proof (cases "n div 256 = 0")
    case True
    then have "n < 256" by (simp add: div_eq_0_iff)
    then have "unat (word_of_nat n :: byte) = n" by (simp add: unat_of_nat)
    with True 1 show ?thesis
      by (metis append_Nil list.sel(1) min_be_0 min_be_step unat_0)
  next
    case False
    with 1 have "hd (min_be (n div 256)) \<noteq> 0" by simp
    with False 1 show ?thesis
      by (simp add: min_be_step [of n] min_be_nonempty hd_append)
  qed
qed

section \<open>Text as bytes\<close>

definition text_bytes :: "string \<Rightarrow> bytes" where
  "text_bytes s = map of_char s"

lemma unat_of_char_byte: "unat (of_char c :: byte) = of_char c"
proof -
  have "(of_char c :: byte) = word_of_nat (of_char c)"
    by (simp add: of_nat_of_char)
  then show ?thesis
    using nat_of_char_less_256 [of c] by (simp add: unat_of_nat)
qed

lemma of_char_byte_inj: "(of_char c :: byte) = of_char d \<longleftrightarrow> c = d"
  by (metis unat_of_char_byte of_char_eq_iff)

lemma text_bytes_inj: "text_bytes s = text_bytes t \<longleftrightarrow> s = t"
  unfolding text_bytes_def
  by (rule inj_map_eq_map) (auto simp: inj_on_def of_char_byte_inj)

end
