(* ===== verification/Third_Party.thy ===== *)
theory Third_Party
  imports Prelude
begin

text \<open>
  The interfaces of the packages that the crate \<open>cosmos-auth\<close> and the primitives call and
  that are not part of the repository: \<open>alloy_rlp\<close>, \<open>base64\<close>, \<open>bech32\<close>, \<open>serde_json\<close>,
  \<open>sha2\<close>, \<open>ripemd\<close>, \<open>k256\<close> and \<open>alloy_primitives\<close>. Each is a record of functions, so that
  every definition that calls one of them takes the record as an argument, and each has
  a locale that lists the documented laws the sources rely on. The theory
  \<open>Reference_Libs\<close> instantiates all of them.
\<close>

section \<open>alloy\_rlp\<close>

datatype rlp_error =
    Overflow | LeadingZero | InputTooShort | NonCanonicalSingleByte | NonCanonicalSize
  | UnexpectedLength | UnexpectedString | UnexpectedList
  | ListLengthMismatch nat nat | Custom string

text \<open>\<open>Header\<close>: \<open>list\<close> is the flag of a list, \<open>payload_length\<close> the length of what follows.\<close>

record rlp_header =
  list_flag :: bool
  payload_length :: nat

text \<open>
  \<open>Decodable::decode(&mut buf)\<close> reads a value off the front of \<open>buf\<close> and leaves the rest in it;
  \<open>Encodable::encode(&self, out)\<close> appends the returned bytes to \<open>out\<close>.
\<close>

type_synonym 'a decoder = "bytes \<Rightarrow> (rlp_error, 'a \<times> bytes) outcome"
type_synonym 'a encoder = "'a \<Rightarrow> bytes"

record rlp_lib =
  header_encode :: "rlp_header encoder"
  header_decode :: "rlp_header decoder"
  header_length :: "rlp_header \<Rightarrow> nat"
  bytes_encode :: "bytes encoder"
  bytes_decode :: "bytes decoder"
  bytes_length :: "bytes \<Rightarrow> nat"
  u8_encode :: "byte encoder"
  u8_decode :: "byte decoder"
  u8_length :: "byte \<Rightarrow> nat"
  u64_encode :: "u64 encoder"
  u64_decode :: "u64 decoder"
  u128_encode :: "u128 encoder"
  u128_decode :: "u128 decoder"
  u256_encode :: "u256 encoder"
  u256_decode :: "u256 decoder"
  b256_encode :: "b256 encoder"
  b256_decode :: "b256 decoder"
  address_encode :: "address encoder"
  address_decode :: "address decoder"

abbreviation list_header :: "nat \<Rightarrow> rlp_header" where
  "list_header n \<equiv> \<lparr>list_flag = True, payload_length = n\<rparr>"

text \<open>
  The laws: each decoder reads back what its encoder wrote, whatever follows, the
  encodings are as long as RLP makes them, and a decoder returns an error rather than panic. Canonicity of the decoders is not among them:
  the sources check it themselves.
\<close>

locale rlp_codec =
  fixes R :: "'m rlp_lib_scheme"
  assumes header_roundtrip:
      "\<And>n rest. n < 2 ^ 64 \<Longrightarrow> n \<le> length rest \<Longrightarrow>
         header_decode R (header_encode R (list_header n) @ rest) = Ok (list_header n, rest)"
    and header_length_eq: "\<And>h. header_length R h = length (header_encode R h)"
    and header_size: "\<And>n. n < 2 ^ 16 \<Longrightarrow> length (header_encode R (list_header n)) \<le> 3"
    and bytes_roundtrip:
      "\<And>xs rest. length xs < 2 ^ 64 \<Longrightarrow>
         bytes_decode R (bytes_encode R xs @ rest) = Ok (xs, rest)"
    and bytes_length_eq: "\<And>xs. bytes_length R xs = length (bytes_encode R xs)"
    and bytes_size: "\<And>xs. length xs < 2 ^ 16 \<Longrightarrow> length (bytes_encode R xs) \<le> length xs + 3"
    and u8_roundtrip: "\<And>v rest. u8_decode R (u8_encode R v @ rest) = Ok (v, rest)"
    and u8_length_eq: "\<And>v. u8_length R v = length (u8_encode R v)"
    and u8_size: "\<And>v. length (u8_encode R v) \<le> 2"
    and u64_roundtrip: "\<And>v rest. u64_decode R (u64_encode R v @ rest) = Ok (v, rest)"
    and u64_size: "\<And>v. length (u64_encode R v) \<le> 9"
    and u128_roundtrip: "\<And>v rest. u128_decode R (u128_encode R v @ rest) = Ok (v, rest)"
    and u128_size: "\<And>v. length (u128_encode R v) \<le> 17"
    and u256_roundtrip: "\<And>v rest. u256_decode R (u256_encode R v @ rest) = Ok (v, rest)"
    and u256_size: "\<And>v. length (u256_encode R v) \<le> 33"
    and b256_roundtrip: "\<And>v rest. b256_decode R (b256_encode R v @ rest) = Ok (v, rest)"
    and b256_size: "\<And>v. length (b256_encode R v) = 33"
    and address_roundtrip: "\<And>v rest. address_decode R (address_encode R v @ rest) = Ok (v, rest)"
    and address_size: "\<And>v. length (address_encode R v) = 21"
    and decoders_return: "\<And>buf. header_decode R buf \<noteq> Panic" "\<And>buf. bytes_decode R buf \<noteq> Panic"
      "\<And>buf. u8_decode R buf \<noteq> Panic" "\<And>buf. u64_decode R buf \<noteq> Panic"
      "\<And>buf. u128_decode R buf \<noteq> Panic" "\<And>buf. u256_decode R buf \<noteq> Panic"
      "\<And>buf. b256_decode R buf \<noteq> Panic" "\<And>buf. address_decode R buf \<noteq> Panic"

section \<open>base64, bech32 and serde\_json\<close>

text \<open>The constructors of \<open>serde_json::Value\<close> that the \<open>json!\<close> documents of the code build.\<close>

datatype json = JString string | JArray "json list" | JObject "(string \<times> json) list"

text \<open>
  \<open>bech32::encode(hrp, data, Variant::Bech32)\<close> and \<open>serde_json::to_vec\<close> are fallible:
  \<open>None\<close> is their error.
\<close>

record text_lib = rlp_lib +
  base64_standard :: "bytes \<Rightarrow> string"
  to_base32 :: "bytes \<Rightarrow> 5 word list"
  bech32_encode :: "string \<Rightarrow> 5 word list \<Rightarrow> string option"
  json_to_vec :: "json \<Rightarrow> bytes option"

text \<open>Text that JSON writes without an escape, and documents made of such text only.\<close>

definition plain_char :: "char \<Rightarrow> bool" where
  "plain_char c \<longleftrightarrow> 32 \<le> (of_char c :: nat) \<and> (of_char c :: nat) < 127
     \<and> c \<noteq> CHR 0x22 \<and> c \<noteq> CHR 0x5C"

definition plain_text :: "string \<Rightarrow> bool" where
  "plain_text s \<longleftrightarrow> list_all plain_char s"

fun plain_json :: "json \<Rightarrow> bool" where
  "plain_json (JString s) = plain_text s"
| "plain_json (JArray xs) = list_all plain_json xs"
| "plain_json (JObject kvs) = list_all (\<lambda>(k, v). plain_text k \<and> plain_json v) kvs"

locale sign_text =
  fixes T :: "'m text_lib_scheme"
  assumes base64_inj: "\<And>xs ys. base64_standard T xs = base64_standard T ys \<Longrightarrow> xs = ys"
    and base64_plain: "\<And>xs. plain_text (base64_standard T xs)"
    and bech32_cosmos: "\<And>d. \<exists>s. bech32_encode T ''cosmos'' d = Some s \<and> plain_text s"
    and json_total: "\<And>j. \<exists>bs. json_to_vec T j = Some bs"
    and json_inj:
      "\<And>i j bs. plain_json i \<Longrightarrow> plain_json j \<Longrightarrow>
         json_to_vec T i = Some bs \<Longrightarrow> json_to_vec T j = Some bs \<Longrightarrow> i = j"

section \<open>Hashes and signatures\<close>

text \<open>
  \<open>sha2\<close>, \<open>ripemd\<close> and \<open>keccak256\<close> are functions of the bytes hashed; \<open>'sg\<close> is
  \<open>k256::ecdsa::Signature\<close> and \<open>'vk\<close> is \<open>VerifyingKey\<close>. \<open>Signature::from_slice\<close>,
  \<open>VerifyingKey::from_sec1_bytes\<close> and \<open>normalize_s\<close> return an option, \<open>verify\<close> is true for \<open>Ok(())\<close>.
\<close>

record ('vk, 'sg) crypto_lib = text_lib +
  sha256_digest :: "bytes \<Rightarrow> b256"
  ripemd160_digest :: "bytes \<Rightarrow> address"
  keccak256 :: "bytes \<Rightarrow> b256"
  sig_from_slice :: "bytes \<Rightarrow> 'sg option"
  sig_normalize_s :: "'sg \<Rightarrow> 'sg option"
  vk_from_sec1 :: "bytes \<Rightarrow> 'vk option"
  vk_verify :: "'vk \<Rightarrow> bytes \<Rightarrow> 'sg \<Rightarrow> bool"

section \<open>alloy\_primitives\<close>

text \<open>
  \<open>alloy_primitives::Signature\<close> holds \<open>r\<close>, \<open>s\<close> and the parity \<open>v\<close>; \<open>as_bytes\<close> is the 65-byte
  form \<open>r || s || v\<close>, and \<open>U256::from_be_slice\<close> reads a big-endian integer.
\<close>

record eth_signature =
  sig_r :: u256
  sig_s :: u256
  sig_v :: bool

record ('vk, 'sg) prim_lib = "('vk, 'sg) crypto_lib" +
  u256_from_be_slice :: "bytes \<Rightarrow> u256"
  sig_as_bytes :: "eth_signature \<Rightarrow> bytes"
  calc_effective_gas_price :: "u128 \<Rightarrow> u128 \<Rightarrow> u64 option \<Rightarrow> u128"

locale signature_layout =
  fixes P :: "('vk, 'sg, 'm) prim_lib_scheme"
  assumes as_bytes_from_be:
      "\<And>xs ys v. length xs = 32 \<Longrightarrow> length ys = 32 \<Longrightarrow>
         take 64 (sig_as_bytes P
           \<lparr>sig_r = u256_from_be_slice P xs, sig_s = u256_from_be_slice P ys, sig_v = v\<rparr>) = xs @ ys"

text \<open>Everything the chain's primitives rely on.\<close>

locale chain_libs = rlp_codec P + sign_text P + signature_layout P
  for P :: "('vk, 'sg, 'm) prim_lib_scheme"

end
