(* ===== verification/Codec.thy ===== *)
theory Codec
  imports Prelude
begin

text \<open>
  The contract of a canonical byte format: \<open>enc\<close> writes the valid values, \<open>dec\<close> reads a whole
  byte string, and each undoes the other. The transaction payload, the signed transaction and the
  transaction type provide it; the envelope, the database codec and the RPC entry point use it.
\<close>

locale canonical_codec =
  fixes enc :: "'x \<Rightarrow> bytes"
    and dec :: "bytes \<Rightarrow> ('e, 'x) outcome"
    and valid :: "'x \<Rightarrow> bool"
  assumes dec_enc: "\<And>x. valid x \<Longrightarrow> dec (enc x) = Ok x"
    and enc_dec: "\<And>b x. dec b = Ok x \<Longrightarrow> enc x = b"
    and dec_valid: "\<And>b x. dec b = Ok x \<Longrightarrow> valid x"
begin

lemma enc_inj: "valid x \<Longrightarrow> valid y \<Longrightarrow> enc x = enc y \<Longrightarrow> x = y"
  by (metis dec_enc outcome.inject(1))

lemma dec_inj: "dec b = Ok x \<Longrightarrow> dec c = Ok x \<Longrightarrow> b = c"
  by (metis enc_dec)

lemma dec_Ok_iff: "dec b = Ok x \<longleftrightarrow> valid x \<and> b = enc x"
  by (metis dec_enc dec_valid enc_dec)

end

text \<open>A format that also carries its own length: no encoding is a proper prefix of another.\<close>

locale framed_codec = canonical_codec +
  assumes frame: "\<And>x y r s. valid x \<Longrightarrow> valid y \<Longrightarrow> enc x @ r = enc y @ s \<Longrightarrow> r = s"
begin

lemma framed_inj: "valid x \<Longrightarrow> valid y \<Longrightarrow> enc x @ r = enc y @ s \<Longrightarrow> x = y \<and> r = s"
  by (metis append_same_eq enc_inj frame)

lemma trailing_rejected:
  assumes "valid x" "r \<noteq> []"
  shows "\<not> is_ok (dec (enc x @ r))"
proof
  assume "is_ok (dec (enc x @ r))"
  then obtain y where "valid y" "enc x @ r = enc y @ []"
    by (auto simp: is_ok_iff dec_Ok_iff)
  with assms show False using frame by blast
qed

lemma truncated_rejected:
  assumes "valid x" "n < length (enc x)"
  shows "\<not> is_ok (dec (take n (enc x)))"
proof
  assume "is_ok (dec (take n (enc x)))"
  then obtain y where "valid y" "enc y = take n (enc x)"
    by (auto simp: is_ok_iff dec_Ok_iff)
  then have "enc y @ drop n (enc x) = enc x @ []" by simp
  with assms \<open>valid y\<close> have "drop n (enc x) = []" using frame by blast
  with assms show False by simp
qed

end

end
