(* ===== verification/Cosmos_Auth.thy ===== *)
theory Cosmos_Auth
  imports Third_Party Codec
begin

text \<open>
  The crate \<open>crates/cosmos-auth\<close>: the authorized operation, its versioned RLP payload, the
  ADR-036 sign document, the wire form of a signed transaction and the authorization check.
  The definitions are in the order of \<open>lib.rs\<close>. The argument \<open>L\<close> is the record of the
  third-party functions each of them calls.
\<close>

section \<open>Constants\<close>

definition CHAIN_ID :: u64 where
  "CHAIN_ID = 366036"

definition GENESIS_HASH :: b256 where
  "GENESIS_HASH = 0x09171e117af661185d9a4a4ff7cf83d29b4b99893bc95b204c0e6e0a6d6a5272"

definition TX_TYPE :: byte where
  "TX_TYPE = 0x7e"

definition MAX_CALLDATA :: nat where
  "MAX_CALLDATA = 32 * 1024"

definition MAX_RAW_TX :: nat where
  "MAX_RAW_TX = MAX_CALLDATA + 512"

definition MAX_GAS :: u64 where
  "MAX_GAS = 30000000"

definition PROTOCOL :: bytes where
  "PROTOCOL = text_bytes ''reth-cosmos-adr036''"

section \<open>Data\<close>

record operation =
  op_chain_id :: u64
  op_genesis_hash :: b256
  op_sender :: address
  op_nonce :: u64
  op_to :: address
  op_value :: u256
  op_input :: bytes
  op_gas_limit :: u64
  op_max_fee_per_gas :: u128
  op_max_priority_fee_per_gas :: u128

datatype auth_error = Encoding | Limit | Domain | PublicKey | Sender | Signature

text \<open>The messages of the \<open>#[error]\<close> attributes: \<open>to_string\<close> of the error.\<close>

fun auth_error_message :: "auth_error \<Rightarrow> string" where
  "auth_error_message Encoding = ''invalid or noncanonical transaction encoding''"
| "auth_error_message Limit = ''transaction exceeds protocol limits''"
| "auth_error_message Domain = ''wrong chain or genesis''"
| "auth_error_message PublicKey = ''invalid compressed secp256k1 public key''"
| "auth_error_message Sender = ''sender does not match public key''"
| "auth_error_message Signature = ''invalid or noncanonical Cosmos signature''"

definition auth_error_from_rlp :: "rlp_error \<Rightarrow> auth_error" where
  "auth_error_from_rlp e = Encoding"

section \<open>Limits\<close>

definition validate_limits :: "operation \<Rightarrow> (auth_error, unit) outcome" where
  "validate_limits op =
     (if MAX_CALLDATA < length (op_input op)
        \<or> MAX_GAS < op_gas_limit op
        \<or> op_gas_limit op < 21000
        \<or> op_nonce op = 0xffffffffffffffff
        \<or> op_max_fee_per_gas op < op_max_priority_fee_per_gas op
      then Err Limit else Ok ())"

section \<open>The payload\<close>

definition rlp_list :: "'m rlp_lib_scheme \<Rightarrow> bytes \<Rightarrow> bytes" where
  "rlp_list L body = header_encode L (list_header (length body)) @ body"

definition list_body :: "'m rlp_lib_scheme \<Rightarrow> bytes \<Rightarrow> (auth_error, bytes) outcome" where
  "list_body L raw =
     and_then (map_err auth_error_from_rlp (header_decode L raw)) (\<lambda>(header, raw).
       if \<not> list_flag header \<or> length raw \<noteq> payload_length header then Err Encoding else Ok raw)"

definition payload_fields :: "'m rlp_lib_scheme \<Rightarrow> operation \<Rightarrow> bytes" where
  "payload_fields L op =
     bytes_encode L PROTOCOL
     @ u8_encode L 1
     @ u64_encode L (op_chain_id op)
     @ b256_encode L (op_genesis_hash op)
     @ address_encode L (op_sender op)
     @ u64_encode L (op_nonce op)
     @ address_encode L (op_to op)
     @ u256_encode L (op_value op)
     @ bytes_encode L (op_input op)
     @ u64_encode L (op_gas_limit op)
     @ u128_encode L (op_max_fee_per_gas op)
     @ u128_encode L (op_max_priority_fee_per_gas op)"

definition payload :: "'m rlp_lib_scheme \<Rightarrow> operation \<Rightarrow> bytes" where
  "payload L op = rlp_list L (payload_fields L op)"

text \<open>One field read with \<open>?\<close>: the decoder's error becomes an \<open>AuthError\<close>.\<close>

definition decode_field :: "'a decoder \<Rightarrow> bytes \<Rightarrow> (auth_error, 'a \<times> bytes) outcome" where
  "decode_field d buf = map_err auth_error_from_rlp (d buf)"

text \<open>The struct expression that reads the ten fields in order.\<close>

definition decode_operation :: "'m rlp_lib_scheme \<Rightarrow> bytes \<Rightarrow> (auth_error, operation \<times> bytes) outcome" where
  "decode_operation L buf =
     and_then (decode_field (u64_decode L) buf) (\<lambda>(chain_id, buf).
     and_then (decode_field (b256_decode L) buf) (\<lambda>(genesis_hash, buf).
     and_then (decode_field (address_decode L) buf) (\<lambda>(sender, buf).
     and_then (decode_field (u64_decode L) buf) (\<lambda>(nonce, buf).
     and_then (decode_field (address_decode L) buf) (\<lambda>(to, buf).
     and_then (decode_field (u256_decode L) buf) (\<lambda>(value, buf).
     and_then (decode_field (bytes_decode L) buf) (\<lambda>(input, buf).
     and_then (decode_field (u64_decode L) buf) (\<lambda>(gas_limit, buf).
     and_then (decode_field (u128_decode L) buf) (\<lambda>(max_fee_per_gas, buf).
     and_then (decode_field (u128_decode L) buf) (\<lambda>(max_priority_fee_per_gas, buf).
       Ok (\<lparr>op_chain_id = chain_id, op_genesis_hash = genesis_hash, op_sender = sender,
            op_nonce = nonce, op_to = to, op_value = value, op_input = input,
            op_gas_limit = gas_limit, op_max_fee_per_gas = max_fee_per_gas,
            op_max_priority_fee_per_gas = max_priority_fee_per_gas\<rparr>, buf)))))))))))"

definition decode_payload :: "'m rlp_lib_scheme \<Rightarrow> bytes \<Rightarrow> (auth_error, operation) outcome" where
  "decode_payload L raw =
     (if MAX_RAW_TX < length raw then Err Limit else
      and_then (list_body L raw) (\<lambda>buf.
      and_then (decode_field (bytes_decode L) buf) (\<lambda>(protocol, buf).
      and_then (decode_field (u8_decode L) buf) (\<lambda>(version, buf).
        if protocol \<noteq> PROTOCOL \<or> version \<noteq> 1 then Err Encoding else
        and_then (decode_operation L buf) (\<lambda>(op, buf).
          if buf \<noteq> [] \<or> payload L op \<noteq> raw then Err Encoding else
          and_then (validate_limits op) (\<lambda>_. Ok op))))))"

section \<open>The ADR-036 sign document\<close>

definition cosmos_address :: "'m text_lib_scheme \<Rightarrow> address \<Rightarrow> ('e, string) outcome" where
  "cosmos_address L sender =
     expect (bech32_encode L ''cosmos'' (to_base32 L (word_bytes 20 sender)))"

definition sign_document :: "string \<Rightarrow> string \<Rightarrow> json" where
  "sign_document data signer =
     JObject [
       (''account_number'', JString ''0''),
       (''chain_id'', JString ''''),
       (''fee'', JObject [(''amount'', JArray []), (''gas'', JString ''0'')]),
       (''memo'', JString ''''),
       (''msgs'', JArray [JObject [
          (''type'', JString ''sign/MsgSignData''),
          (''value'', JObject [(''data'', JString data), (''signer'', JString signer)])]]),
       (''sequence'', JString ''0'')]"

definition sign_bytes :: "'m text_lib_scheme \<Rightarrow> operation \<Rightarrow> ('e, bytes) outcome" where
  "sign_bytes L op =
     and_then (cosmos_address L (op_sender op)) (\<lambda>signer.
       expect (json_to_vec L (sign_document (base64_standard L (payload L op)) signer)))"

definition sign_hash :: "('vk, 'sg, 'm) crypto_lib_scheme \<Rightarrow> operation \<Rightarrow> ('e, b256) outcome" where
  "sign_hash L op = map_ok (sha256_digest L) (sign_bytes L op)"

section \<open>The authorization check\<close>

definition derive_sender :: "('vk, 'sg, 'm) crypto_lib_scheme \<Rightarrow> bytes \<Rightarrow> (auth_error, address) outcome" where
  "derive_sender L key =
     (if length key \<noteq> 33 then Err PublicKey else
      and_then (slice_index key 0) (\<lambda>prefix.
      if \<not> (prefix = 2 \<or> prefix = 3) then Err PublicKey else
      and_then (ok_or (vk_from_sec1 L key) PublicKey) (\<lambda>_.
        Ok (ripemd160_digest L (word_bytes 32 (sha256_digest L key))))))"

definition verify ::
  "('vk, 'sg, 'm) crypto_lib_scheme \<Rightarrow> operation \<Rightarrow> bytes \<Rightarrow> bytes \<Rightarrow> b256 \<Rightarrow> (auth_error, address) outcome" where
  "verify L op key signature genesis =
     and_then (validate_limits op) (\<lambda>_.
     if op_chain_id op \<noteq> CHAIN_ID \<or> op_genesis_hash op \<noteq> genesis then Err Domain else
     and_then (derive_sender L key) (\<lambda>sender.
     if op_sender op \<noteq> sender then Err Sender else
     and_then (ok_or (sig_from_slice L signature) Signature) (\<lambda>sg.
     if sig_normalize_s L sg \<noteq> None then Err Signature else
     and_then (ok_or (vk_from_sec1 L key) PublicKey) (\<lambda>vk.
     and_then (sign_bytes L op) (\<lambda>msg.
     and_then (ensure (vk_verify L vk msg sg) Signature) (\<lambda>_.
       Ok sender))))))"

section \<open>The wire form\<close>

definition wire_fields :: "'m rlp_lib_scheme \<Rightarrow> operation \<Rightarrow> bytes \<Rightarrow> bytes \<Rightarrow> bytes" where
  "wire_fields L op key signature =
     bytes_encode L (payload L op) @ bytes_encode L key @ bytes_encode L signature"

definition encode_wire :: "'m rlp_lib_scheme \<Rightarrow> operation \<Rightarrow> bytes \<Rightarrow> bytes \<Rightarrow> bytes" where
  "encode_wire L op key signature = TX_TYPE # rlp_list L (wire_fields L op key signature)"

definition decode_wire ::
  "'m rlp_lib_scheme \<Rightarrow> bytes \<Rightarrow> (auth_error, operation \<times> bytes \<times> bytes) outcome" where
  "decode_wire L raw =
     (if MAX_RAW_TX < length raw then Err Limit
      else if slice_first raw \<noteq> Some TX_TYPE then Err Encoding else
      and_then (slice_from raw 1) (\<lambda>body.
      and_then (list_body L body) (\<lambda>buf.
      and_then (decode_field (bytes_decode L) buf) (\<lambda>(payload, buf).
      and_then (decode_field (bytes_decode L) buf) (\<lambda>(key, buf).
      and_then (decode_field (bytes_decode L) buf) (\<lambda>(signature, buf).
      and_then (decode_payload L payload) (\<lambda>op.
      if length key \<noteq> 33 then Err PublicKey
      else if length signature \<noteq> 64 then Err Signature
      else if buf \<noteq> [] \<or> encode_wire L op key signature \<noteq> raw then Err Encoding
      else Ok (op, key, signature))))))))"

definition transaction_hash :: "('vk, 'sg, 'm) crypto_lib_scheme \<Rightarrow> bytes \<Rightarrow> b256" where
  "transaction_hash L raw = keccak256 L raw"

end
