(* ===== verification/Reference_Rlp.thy ===== *)
theory Reference_Rlp
  imports Third_Party
begin

text \<open>
  An executable instance of the \<open>alloy_rlp\<close> interface: recursive length prefix encoding as
  the Ethereum specification describes it, with the strict decoder that refuses
  non-canonical forms. It is no part of the program. It shows that the laws of the locale
  \<open>rlp_codec\<close> can be met together, and the witnesses of the development evaluate the
  program's definitions over it.
\<close>

section \<open>Headers\<close>

definition ref_header_encode :: "rlp_header encoder" where
  "ref_header_encode h =
     (let n = payload_length h
      in if n < 56 then [word_of_nat ((if list_flag h then 192 else 128) + n)]
         else word_of_nat ((if list_flag h then 247 else 183) + length (min_be n)) # min_be n)"

definition long_header :: "bool \<Rightarrow> nat \<Rightarrow> bytes \<Rightarrow> (rlp_error, rlp_header \<times> bytes) outcome" where
  "long_header l k buf =
     (if length buf < k then Err InputTooShort
      else if hd (take k buf) = 0 then Err LeadingZero
      else let n = be_nat (take k buf); rest = drop k buf
           in if n < 56 then Err NonCanonicalSize
              else if length rest < n then Err InputTooShort
              else Ok (\<lparr>list_flag = l, payload_length = n\<rparr>, rest))"

definition short_header :: "bool \<Rightarrow> nat \<Rightarrow> bytes \<Rightarrow> (rlp_error, rlp_header \<times> bytes) outcome" where
  "short_header l n rest =
     (if length rest < n then Err InputTooShort
      else if \<not> l \<and> n = 1 \<and> unat (hd rest) < 128 then Err NonCanonicalSingleByte
      else Ok (\<lparr>list_flag = l, payload_length = n\<rparr>, rest))"

fun ref_header_decode :: "rlp_header decoder" where
  "ref_header_decode [] = Err InputTooShort"
| "ref_header_decode (b # buf) =
     (let v = unat b
      in if v < 128 then Ok (\<lparr>list_flag = False, payload_length = 1\<rparr>, b # buf)
         else if v < 184 then short_header False (v - 128) buf
         else if v < 192 then long_header False (v - 183) buf
         else if v < 248 then short_header True (v - 192) buf
         else long_header True (v - 247) buf)"

lemma ref_header_decode_short:
  assumes "n < 56"
  shows "ref_header_decode (word_of_nat ((if l then 192 else 128) + n) # buf) = short_header l n buf"
proof -
  have "unat (word_of_nat ((if l then 192 else 128) + n) :: byte) = (if l then 192 else 128) + n"
    using assms by (simp add: unat_of_nat del: of_nat_add)
  with assms show ?thesis by (cases l) (simp_all add: Let_def del: of_nat_add)
qed

lemma ref_header_decode_long:
  assumes "0 < k" "k \<le> 8"
  shows "ref_header_decode (word_of_nat ((if l then 247 else 183) + k) # buf) = long_header l k buf"
proof -
  have "unat (word_of_nat ((if l then 247 else 183) + k) :: byte) = (if l then 247 else 183) + k"
    using assms by (simp add: unat_of_nat del: of_nat_add)
  with assms show ?thesis by (cases l) (simp_all add: Let_def del: of_nat_add)
qed

lemma long_header_min_be:
  assumes "56 \<le> n" "n \<le> length rest"
  shows "long_header l (length (min_be n)) (min_be n @ rest)
     = Ok (\<lparr>list_flag = l, payload_length = n\<rparr>, rest)"
  using assms hd_min_be [of n] by (simp add: long_header_def Let_def be_nat_min_be)

lemma ref_header_decode_encode:
  assumes "n < 2 ^ 64" "n \<le> length rest" "l \<or> \<not> (n = 1 \<and> unat (hd rest) < 128)"
  shows "ref_header_decode (ref_header_encode \<lparr>list_flag = l, payload_length = n\<rparr> @ rest)
     = Ok (\<lparr>list_flag = l, payload_length = n\<rparr>, rest)"
proof (cases "n < 56")
  case True
  then show ?thesis
    using assms ref_header_decode_short [of n l rest]
    by (simp add: ref_header_encode_def short_header_def del: of_nat_add ref_header_decode.simps)
next
  case False
  have "length (min_be n) \<le> 8" "0 < length (min_be n)"
    using False assms(1) length_min_be [of n 8] min_be_nonempty [of n] by auto
  then show ?thesis
    using False ref_header_decode_long [of "length (min_be n)" l "min_be n @ rest"]
      long_header_min_be [of n rest l] assms(2)
    by (simp add: ref_header_encode_def Let_def del: of_nat_add ref_header_decode.simps)
qed

lemma ref_header_size: "n < 2 ^ 16 \<Longrightarrow> length (ref_header_encode \<lparr>list_flag = l, payload_length = n\<rparr>) \<le> 3"
  using length_min_be [of n 2] by (simp add: ref_header_encode_def Let_def)

section \<open>Byte strings\<close>

fun ref_bytes_encode :: "bytes encoder" where
  "ref_bytes_encode [b] =
     (if unat b < 128 then [b]
      else ref_header_encode \<lparr>list_flag = False, payload_length = 1\<rparr> @ [b])"
| "ref_bytes_encode xs =
     ref_header_encode \<lparr>list_flag = False, payload_length = length xs\<rparr> @ xs"

definition ref_bytes_decode :: "bytes decoder" where
  "ref_bytes_decode buf =
     and_then (ref_header_decode buf) (\<lambda>(h, rest).
       if list_flag h then Err UnexpectedList
       else Ok (take (payload_length h) rest, drop (payload_length h) rest))"

lemma ref_bytes_encode_eq:
  "ref_bytes_encode xs =
     (if length xs = 1 \<and> unat (hd xs) < 128 then xs
      else ref_header_encode \<lparr>list_flag = False, payload_length = length xs\<rparr> @ xs)"
  by (cases xs rule: ref_bytes_encode.cases) auto

lemma ref_bytes_decode_encode:
  assumes "length xs < 2 ^ 64"
  shows "ref_bytes_decode (ref_bytes_encode xs @ rest) = Ok (xs, rest)"
proof (cases "length xs = 1 \<and> unat (hd xs) < 128")
  case True
  then obtain b where "xs = [b]" "unat b < 128"
    by (cases xs) auto
  then show ?thesis by (simp add: ref_bytes_decode_def)
next
  case False
  moreover have "hd (xs @ rest) = hd xs" if "length xs = 1"
    using that by (cases xs) auto
  ultimately have "ref_header_decode (ref_header_encode
       \<lparr>list_flag = False, payload_length = length xs\<rparr> @ (xs @ rest))
     = Ok (\<lparr>list_flag = False, payload_length = length xs\<rparr>, xs @ rest)"
    using assms by (intro ref_header_decode_encode) auto
  moreover have "ref_bytes_encode xs
     = ref_header_encode \<lparr>list_flag = False, payload_length = length xs\<rparr> @ xs"
    by (subst ref_bytes_encode_eq) (simp only: False if_False)
  ultimately show ?thesis
    by (simp add: ref_bytes_decode_def del: ref_header_decode.simps)
qed

lemma ref_bytes_size: "length xs < 2 ^ 16 \<Longrightarrow> length (ref_bytes_encode xs) \<le> length xs + 3"
  using ref_header_size [of "length xs" False] by (simp add: ref_bytes_encode_eq)

lemma ref_bytes_size_short: "length xs < 56 \<Longrightarrow> length (ref_bytes_encode xs) \<le> length xs + 1"
  by (simp add: ref_bytes_encode_eq ref_header_encode_def)

lemma ref_bytes_size_fixed:
  "1 < length xs \<Longrightarrow> length xs < 56 \<Longrightarrow> length (ref_bytes_encode xs) = length xs + 1"
  by (simp add: ref_bytes_encode_eq ref_header_encode_def)

section \<open>Integers and fixed-size arrays\<close>

definition ref_uint_encode :: "'a::len word encoder" where
  "ref_uint_encode w = ref_bytes_encode (min_be (unat w))"

definition ref_uint_decode :: "nat \<Rightarrow> 'a::len word decoder" where
  "ref_uint_decode k buf =
     and_then (ref_bytes_decode buf) (\<lambda>(xs, rest).
       if xs \<noteq> [] \<and> hd xs = 0 then Err LeadingZero
       else if k < length xs then Err Overflow
       else Ok (word_of_nat (be_nat xs), rest))"

definition ref_fixed_encode :: "nat \<Rightarrow> 'a::len word encoder" where
  "ref_fixed_encode k w = ref_bytes_encode (word_bytes k w)"

definition ref_fixed_decode :: "nat \<Rightarrow> 'a::len word decoder" where
  "ref_fixed_decode k buf =
     and_then (ref_bytes_decode buf) (\<lambda>(xs, rest).
       if length xs \<noteq> k then Err UnexpectedLength
       else Ok (word_of_nat (be_nat xs), rest))"

lemma min_be_unat_length:
  fixes w :: "'a::len word"
  assumes "LENGTH('a) = 8 * k"
  shows "length (min_be (unat w)) \<le> k"
proof (rule length_min_be)
  have "(2::nat) ^ LENGTH('a) = 256 ^ k"
    using assms by (simp add: power_mult)
  then show "unat w < 256 ^ k"
    using unsigned_less [of w, where ?'a = nat] by simp
qed

lemma ref_uint_decode_encode:
  fixes w :: "'a::len word"
  assumes "LENGTH('a) = 8 * k" "k < 56"
  shows "ref_uint_decode k (ref_uint_encode w @ rest) = Ok (w, rest)"
proof -
  let ?xs = "min_be (unat w)"
  have "length ?xs \<le> k" by (rule min_be_unat_length [OF assms(1)])
  moreover from this assms(2) have "length ?xs < 2 ^ 64" by simp
  moreover have "\<not> (?xs \<noteq> [] \<and> hd ?xs = 0)"
    using hd_min_be [of "unat w"] by (cases "unat w = 0") auto
  ultimately show ?thesis
    by (simp add: ref_uint_decode_def ref_uint_encode_def ref_bytes_decode_encode be_nat_min_be)
qed

lemma ref_uint_size:
  fixes w :: "'a::len word"
  assumes "LENGTH('a) = 8 * k" "k < 56"
  shows "length (ref_uint_encode w) \<le> k + 1"
  using min_be_unat_length [OF assms(1), of w] ref_bytes_size_short [of "min_be (unat w)"] assms(2)
  by (simp add: ref_uint_encode_def)

lemma ref_fixed_decode_encode:
  fixes w :: "'a::len word"
  assumes "LENGTH('a) = 8 * k" "k < 56"
  shows "ref_fixed_decode k (ref_fixed_encode k w @ rest) = Ok (w, rest)"
  using assms
  by (simp add: ref_fixed_decode_def ref_fixed_encode_def ref_bytes_decode_encode word_of_word_bytes)

lemma ref_fixed_size: "1 < k \<Longrightarrow> k < 56 \<Longrightarrow> length (ref_fixed_encode k w) = k + 1"
  by (simp add: ref_fixed_encode_def ref_bytes_size_fixed)

section \<open>The decoders return\<close>

lemma ref_header_decode_returns: "ref_header_decode buf \<noteq> Panic"
  by (cases buf) (simp_all add: Let_def short_header_def long_header_def)

lemma ref_bytes_decode_returns: "ref_bytes_decode buf \<noteq> Panic"
  by (auto simp: ref_bytes_decode_def outcome_simps ref_header_decode_returns)

lemma ref_uint_decode_returns: "ref_uint_decode k buf \<noteq> Panic"
  by (auto simp: ref_uint_decode_def outcome_simps ref_bytes_decode_returns)

lemma ref_fixed_decode_returns: "ref_fixed_decode k buf \<noteq> Panic"
  by (auto simp: ref_fixed_decode_def outcome_simps ref_bytes_decode_returns)

lemmas ref_decoders_return =
  ref_header_decode_returns ref_bytes_decode_returns ref_uint_decode_returns ref_fixed_decode_returns

end
