(* ===== verification/Reference_Text.thy ===== *)
theory Reference_Text
  imports Third_Party
begin

text \<open>
  Executable instances of base64 (standard alphabet, padded), bech32 (original checksum)
  and compact JSON, with the proofs of the laws of the locale \<open>sign_text\<close>. Like
  \<open>Reference_Rlp\<close> they are no part of the program. JSON text is written without escapes,
  which is exact for the plain documents the laws are about.
\<close>

unbundle bit_operations_syntax

section \<open>base64\<close>

definition b64_alphabet :: string where
  "b64_alphabet =
     ''ABCDEFGHIJKLMNOPQRSTUVWXYZabcdefghijklmnopqrstuvwxyz0123456789+/''"

definition b64_char :: "nat \<Rightarrow> char" where
  "b64_char n = b64_alphabet ! n"

fun ref_base64 :: "bytes \<Rightarrow> string" where
  "ref_base64 [] = []"
| "ref_base64 [a] = [b64_char (unat a div 4), b64_char (unat a mod 4 * 16), CHR ''='', CHR ''='']"
| "ref_base64 [a, b] =
     [b64_char (unat a div 4), b64_char (unat a mod 4 * 16 + unat b div 16),
      b64_char (unat b mod 16 * 4), CHR ''='']"
| "ref_base64 (a # b # c # rest) =
     b64_char (unat a div 4) # b64_char (unat a mod 4 * 16 + unat b div 16)
     # b64_char (unat b mod 16 * 4 + unat c div 64) # b64_char (unat c mod 64) # ref_base64 rest"

lemma b64_facts: "length b64_alphabet = 64" "distinct b64_alphabet"
  "CHR ''='' \<notin> set b64_alphabet" "list_all plain_char b64_alphabet" "plain_char (CHR ''='')"
  by (simp_all add: b64_alphabet_def plain_char_def)

lemma b64_char_inj: "m < 64 \<Longrightarrow> n < 64 \<Longrightarrow> b64_char m = b64_char n \<longleftrightarrow> m = n"
  using b64_facts(1,2) by (simp add: b64_char_def nth_eq_iff_index_eq)

lemma b64_char_pad: "n < 64 \<Longrightarrow> b64_char n \<noteq> CHR ''=''"
  by (metis b64_facts(1,3) b64_char_def nth_mem)

lemma b64_char_plain: "n < 64 \<Longrightarrow> plain_char (b64_char n)"
  using b64_facts(1,4) by (auto simp: b64_char_def list_all_length)

lemma byte_div: "y < 256 \<Longrightarrow> y div 16 < (16::nat)" "y < 256 \<Longrightarrow> y div 64 < (4::nat)"
  by (simp_all add: less_mult_imp_div_less)

lemma sextets: "x < 256 \<Longrightarrow> x div 4 < (64::nat)" "x mod 4 * 16 < (64::nat)"
  "y < 256 \<Longrightarrow> x mod 4 * 16 + y div 16 < (64::nat)"
  "x mod 16 * 4 < (64::nat)" "y < 256 \<Longrightarrow> x mod 16 * 4 + y div 64 < (64::nat)" "x mod 64 < (64::nat)"
proof -
  have "x mod 4 < 4" "x mod 16 < 16" by simp_all
  then show "x mod 4 * 16 < (64::nat)" "x mod 16 * 4 < (64::nat)"
    "y < 256 \<Longrightarrow> x mod 4 * 16 + y div 16 < (64::nat)"
    "y < 256 \<Longrightarrow> x mod 16 * 4 + y div 64 < (64::nat)"
    using byte_div [of y] by linarith+
qed (simp_all add: less_mult_imp_div_less)

lemma div_mod_inj: "x div k = x' div k \<Longrightarrow> x mod k = x' mod k \<Longrightarrow> x = (x'::nat)"
  by (metis div_mult_mod_eq)

lemma digit_inj: "r < k \<Longrightarrow> r' < k \<Longrightarrow> q * k + r = q' * k + r' \<Longrightarrow> q = q' \<and> r = (r'::nat)"
  by (metis add.commute div_mult_self1 div_less mod_less mod_mult_self1 add_0_right
      less_nat_zero_code)

lemma sextets_2:
  fixes x y x' y' :: nat
  assumes "y < 256" "y' < 256" "x div 4 = x' div 4"
    "x mod 4 * 16 + y div 16 = x' mod 4 * 16 + y' div 16"
  shows "x = x' \<and> y div 16 = y' div 16"
  using assms byte_div digit_inj [of "y div 16" 16 "y' div 16" "x mod 4" "x' mod 4"]
  by (auto intro: div_mod_inj)

lemma sextets_3:
  fixes y z y' z' :: nat
  assumes "z < 256" "z' < 256" "y div 16 = y' div 16"
    "y mod 16 * 4 + z div 64 = y' mod 16 * 4 + z' div 64" "z mod 64 = z' mod 64"
  shows "y = y' \<and> z = z'"
  using assms byte_div digit_inj [of "z div 64" 4 "z' div 64" "y mod 16" "y' mod 16"]
  by (auto intro: div_mod_inj)

lemma byte_less: "unat (b::byte) < 256"
  using unsigned_less [of b, where ?'a = nat] by simp

lemma ref_base64_plain: "plain_text (ref_base64 xs)"
  by (induction xs rule: ref_base64.induct)
     (simp_all add: plain_text_def b64_char_plain b64_facts sextets byte_less)

lemma ref_base64_Nil: "ref_base64 xs = [] \<longleftrightarrow> xs = []"
  by (cases xs rule: ref_base64.cases) auto

lemmas b64_simps = b64_char_inj b64_char_pad b64_char_pad [THEN not_sym] sextets byte_less

lemma ref_base64_inj: "ref_base64 xs = ref_base64 ys \<Longrightarrow> xs = ys"
proof (induction xs arbitrary: ys rule: ref_base64.induct)
  case 1
  then show ?case by (metis ref_base64.simps(1) ref_base64_Nil)
next
  case (2 a)
  show ?case
  proof (cases ys rule: ref_base64.cases)
    case (2 a')
    with "2.prems" have "unat a div 4 = unat a' div 4" "unat a mod 4 * 16 = unat a' mod 4 * 16"
      by (simp_all add: b64_simps)
    then have "unat a = unat a'" by (auto intro: div_mod_inj)
    with 2 show ?thesis by (simp add: word_unat_eq_iff)
  qed (use "2.prems" in \<open>simp_all add: b64_simps\<close>)
next
  case (3 a b)
  show ?case
  proof (cases ys rule: ref_base64.cases)
    case (3 a' b')
    with "3.prems" have "unat a div 4 = unat a' div 4"
      "unat a mod 4 * 16 + unat b div 16 = unat a' mod 4 * 16 + unat b' div 16"
      and low: "unat b mod 16 * 4 = unat b' mod 16 * 4"
      by (simp_all add: b64_simps)
    then have "unat a = unat a' \<and> unat b div 16 = unat b' div 16"
      using byte_less by (intro sextets_2) auto
    moreover from this low have "unat b = unat b'" by (auto intro: div_mod_inj)
    ultimately show ?thesis using 3 by (simp add: word_unat_eq_iff)
  qed (use "3.prems" in \<open>simp_all add: b64_simps\<close>)
next
  case (4 a b c rest)
  show ?case
  proof (cases ys rule: ref_base64.cases)
    case (4 a' b' c' rest')
    with "4.prems" have first: "unat a div 4 = unat a' div 4"
      "unat a mod 4 * 16 + unat b div 16 = unat a' mod 4 * 16 + unat b' div 16"
      and last: "unat b mod 16 * 4 + unat c div 64 = unat b' mod 16 * 4 + unat c' div 64"
      "unat c mod 64 = unat c' mod 64" and rest: "ref_base64 rest = ref_base64 rest'"
      by (simp_all add: b64_simps)
    from first have ab: "unat a = unat a' \<and> unat b div 16 = unat b' div 16"
      using byte_less by (intro sextets_2) auto
    with last have "unat b = unat b' \<and> unat c = unat c'"
      using byte_less by (intro sextets_3) auto
    with ab rest "4.IH" 4 show ?thesis by (simp add: word_unat_eq_iff)
  qed (use "4.prems" in \<open>simp_all add: b64_simps\<close>)
qed

section \<open>bech32\<close>

definition byte_bits :: "byte \<Rightarrow> bool list" where
  "byte_bits b = map (bit b) [7, 6, 5, 4, 3, 2, 1, 0]"

fun quintets :: "bool list \<Rightarrow> 5 word list" where
  "quintets [] = []"
| "quintets (a # b # c # d # e # rest) =
     word_of_nat (16 * of_bool a + 8 * of_bool b + 4 * of_bool c + 2 * of_bool d + of_bool e)
     # quintets rest"
| "quintets [a, b, c, d] =
     [word_of_nat (16 * of_bool a + 8 * of_bool b + 4 * of_bool c + 2 * of_bool d)]"
| "quintets [a, b, c] = [word_of_nat (16 * of_bool a + 8 * of_bool b + 4 * of_bool c)]"
| "quintets [a, b] = [word_of_nat (16 * of_bool a + 8 * of_bool b)]"
| "quintets [a] = [word_of_nat (16 * of_bool a)]"

definition ref_to_base32 :: "bytes \<Rightarrow> 5 word list" where
  "ref_to_base32 bs = quintets (concat (map byte_bits bs))"

definition polymod_step :: "32 word \<Rightarrow> 5 word \<Rightarrow> 32 word" where
  "polymod_step chk v =
     (let top = drop_bit 25 chk;
          c = push_bit 5 (chk AND 0x1ffffff) XOR ucast v
      in (if bit top 0 then 0x3b6a57b2 else 0) XOR (if bit top 1 then 0x26508e6d else 0)
         XOR (if bit top 2 then 0x1ea119fa else 0) XOR (if bit top 3 then 0x3d4233dd else 0)
         XOR (if bit top 4 then 0x2a1462b3 else 0) XOR c)"

definition hrp_expand :: "string \<Rightarrow> 5 word list" where
  "hrp_expand s = map (\<lambda>c. word_of_nat (of_char c div 32)) s @ [0]
     @ map (\<lambda>c. word_of_nat (of_char c mod 32)) s"

definition bech32_checksum :: "string \<Rightarrow> 5 word list \<Rightarrow> 5 word list" where
  "bech32_checksum hrp data =
     (let p = foldl polymod_step 1 (hrp_expand hrp @ data @ [0, 0, 0, 0, 0, 0]) XOR 1
      in map (\<lambda>k. ucast (drop_bit k p)) [25, 20, 15, 10, 5, 0])"

definition bech32_charset :: string where
  "bech32_charset = ''qpzry9x8gf2tvdw0s3jn54khce6mua7l''"

definition bech32_char :: "5 word \<Rightarrow> char" where
  "bech32_char v = bech32_charset ! unat v"

definition lower_hrp :: "string \<Rightarrow> bool" where
  "lower_hrp s \<longleftrightarrow> s \<noteq> [] \<and> length s \<le> 83
     \<and> list_all (\<lambda>c. 97 \<le> (of_char c :: nat) \<and> (of_char c :: nat) \<le> 122) s"

definition ref_bech32_encode :: "string \<Rightarrow> 5 word list \<Rightarrow> string option" where
  "ref_bech32_encode hrp data =
     (if lower_hrp hrp
      then Some (hrp @ ''1'' @ map bech32_char (data @ bech32_checksum hrp data)) else None)"

lemma bech32_char_plain: "plain_char (bech32_char v)"
proof -
  have "list_all plain_char bech32_charset" "length bech32_charset = 32"
    by (simp_all add: bech32_charset_def plain_char_def)
  moreover have "unat v < 32"
    using unsigned_less [of v, where ?'a = nat] by simp
  ultimately show ?thesis by (simp add: bech32_char_def list_all_length)
qed

lemma ref_bech32_cosmos: "\<exists>s. ref_bech32_encode ''cosmos'' d = Some s \<and> plain_text s"
proof -
  have "lower_hrp ''cosmos''" by (simp add: lower_hrp_def)
  moreover have "plain_text ''cosmos1''" by (simp add: plain_text_def plain_char_def)
  then have "plain_text (''cosmos'' @ ''1'' @ map bech32_char xs)" for xs
    by (simp add: plain_text_def list_all_iff bech32_char_plain)
  ultimately show ?thesis by (simp add: ref_bech32_encode_def del: map_append)
qed

section \<open>Compact JSON\<close>

abbreviation quote_mark :: char where
  "quote_mark \<equiv> CHR 0x22"

fun json_text :: "json \<Rightarrow> string"
  and json_items :: "json list \<Rightarrow> string"
  and json_fields :: "(string \<times> json) list \<Rightarrow> string" where
  "json_text (JString s) = quote_mark # s @ [quote_mark]"
| "json_text (JArray []) = ''[]''"
| "json_text (JArray (x # xs)) = CHR ''['' # json_text x @ json_items xs"
| "json_text (JObject []) = ''{}''"
| "json_text (JObject ((k, v) # kvs)) =
     CHR ''{'' # quote_mark # k @ quote_mark # CHR '':'' # json_text v @ json_fields kvs"
| "json_items [] = '']''"
| "json_items (x # xs) = CHR '','' # json_text x @ json_items xs"
| "json_fields [] = ''}''"
| "json_fields ((k, v) # kvs) =
     CHR '','' # quote_mark # k @ quote_mark # CHR '':'' # json_text v @ json_fields kvs"

definition ref_json_to_vec :: "json \<Rightarrow> bytes option" where
  "ref_json_to_vec j = Some (text_bytes (json_text j))"

lemma quoted_inj:
  "plain_text s \<Longrightarrow> plain_text t \<Longrightarrow> s @ quote_mark # u = t @ quote_mark # v \<longleftrightarrow> s = t \<and> u = v"
proof (induction s arbitrary: t)
  case Nil
  then show ?case by (cases t) (auto simp: plain_text_def plain_char_def)
next
  case (Cons c s)
  then show ?case by (cases t) (auto simp: plain_text_def plain_char_def)
qed

lemma json_text_head: "json_text j = c # w \<Longrightarrow> c = quote_mark \<or> c = CHR ''['' \<or> c = CHR ''{''"
  by (cases j rule: json_text.cases) auto

lemma json_text_not_close: "json_text j @ u \<noteq> CHR '']'' # v"
  by (cases j rule: json_text.cases) auto

lemma json_unambiguous:
  "plain_json i \<Longrightarrow> plain_json j \<Longrightarrow> json_text i @ u = json_text j @ v \<Longrightarrow> i = j \<and> u = v"
  "list_all plain_json is \<Longrightarrow> list_all plain_json js \<Longrightarrow> json_items is @ u = json_items js @ v
     \<Longrightarrow> is = js \<and> u = v"
  "list_all (\<lambda>(k, w). plain_text k \<and> plain_json w) kvs \<Longrightarrow>
   list_all (\<lambda>(k, w). plain_text k \<and> plain_json w) lws \<Longrightarrow>
     json_fields kvs @ u = json_fields lws @ v \<Longrightarrow> kvs = lws \<and> u = v"
proof (induction i and "is" and kvs arbitrary: j u v and js u v and lws u v
    rule: json_text_json_items_json_fields.induct)
  case (1 s)
  then show ?case by (cases j rule: json_text.cases) (auto simp: quoted_inj)
next
  case 2
  then show ?case
    by (cases j rule: json_text.cases) (auto simp: json_text_not_close [THEN not_sym])
next
  case (3 x xs)
  from "3.prems" obtain y ys where j: "j = JArray (y # ys)"
    by (cases j rule: json_text.cases) (auto simp: json_text_not_close)
  with "3.prems" have "x = y \<and> json_items xs @ u = json_items ys @ v"
    by (intro "3.IH"(1)) auto
  with "3.IH"(2) [of ys u v] "3.prems" j show ?case by auto
next
  case 4
  then show ?case by (cases j rule: json_text.cases) auto
next
  case (5 k w kvs)
  from "5.prems" obtain k' w' lws where j: "j = JObject ((k', w') # lws)"
    by (cases j rule: json_text.cases) auto
  with "5.prems" have k: "k = k'"
    and "json_text w @ json_fields kvs @ u = json_text w' @ json_fields lws @ v"
    by (auto simp: quoted_inj)
  then have "w = w' \<and> json_fields kvs @ u = json_fields lws @ v"
    using "5.prems" j by (intro "5.IH"(1)) auto
  with k "5.IH"(2) [of lws u v] "5.prems" j show ?case by auto
next
  case 6
  then show ?case by (cases js) auto
next
  case (7 x xs)
  from "7.prems" obtain y ys where j: "js = y # ys"
    by (cases js) auto
  with "7.prems" have "x = y \<and> json_items xs @ u = json_items ys @ v"
    by (intro "7.IH"(1)) auto
  with "7.IH"(2) [of ys u v] "7.prems" j show ?case by auto
next
  case 8
  then show ?case by (cases lws) auto
next
  case (9 k w kvs)
  from "9.prems" obtain k' w' lws' where j: "lws = (k', w') # lws'"
    by (cases lws) auto
  with "9.prems" have k: "k = k'"
    and "json_text w @ json_fields kvs @ u = json_text w' @ json_fields lws' @ v"
    by (auto simp: quoted_inj)
  then have "w = w' \<and> json_fields kvs @ u = json_fields lws' @ v"
    using "9.prems" j by (intro "9.IH"(1)) auto
  with k "9.IH"(2) [of lws' u v] "9.prems" j show ?case by auto
qed

lemma ref_json_inj:
  assumes "plain_json i" "plain_json j"
    "ref_json_to_vec i = Some bs" "ref_json_to_vec j = Some bs"
  shows "i = j"
proof -
  from assms(3,4) have "text_bytes (json_text i) = text_bytes (json_text j)"
    by (simp add: ref_json_to_vec_def)
  then have "json_text i @ [] = json_text j @ []"
    by (simp add: text_bytes_inj)
  with assms(1,2) show ?thesis
    using json_unambiguous(1) by blast
qed

end
