(* ===== verification/Reference_Libs.thy ===== *)
theory Reference_Libs
  imports Reference_Rlp Reference_Text
begin

text \<open>
  The instance of the third-party interfaces over which the witnesses are evaluated: real
  RLP, base64, bech32 and JSON, and stand-ins for the cryptography (a hash keeps the last
  bytes of its input; a signature is valid when its last byte is the sum of the key and the
  message and everything before it is zero), of which the laws say nothing. The
  interpretation \<open>ref\<close> discharges the laws of the locale \<open>chain_libs\<close>.
\<close>

definition ref_sig_as_bytes :: "eth_signature \<Rightarrow> bytes" where
  "ref_sig_as_bytes sg =
     word_bytes 32 (sig_r sg) @ word_bytes 32 (sig_s sg) @ [if sig_v sg then 28 else 27]"

definition ref_effective_gas_price :: "u128 \<Rightarrow> u128 \<Rightarrow> u64 option \<Rightarrow> u128" where
  "ref_effective_gas_price max_fee tip base =
     (case base of None \<Rightarrow> max_fee
      | Some b \<Rightarrow> (if ucast b \<le> max_fee \<and> tip < max_fee - ucast b then tip + ucast b else max_fee))"

definition half_order :: nat where
  "half_order = 0x7fffffffffffffffffffffffffffffff5d576e7357a4501ddfe92f46681b20a0"

definition ref_libs :: "(bytes, bytes) prim_lib" where
  "ref_libs = \<lparr>
     header_encode = ref_header_encode, header_decode = ref_header_decode,
     header_length = (\<lambda>h. length (ref_header_encode h)),
     bytes_encode = ref_bytes_encode, bytes_decode = ref_bytes_decode,
     bytes_length = (\<lambda>xs. length (ref_bytes_encode xs)),
     u8_encode = ref_uint_encode, u8_decode = ref_uint_decode 1,
     u8_length = (\<lambda>v. length (ref_uint_encode v)),
     u64_encode = ref_uint_encode, u64_decode = ref_uint_decode 8,
     u128_encode = ref_uint_encode, u128_decode = ref_uint_decode 16,
     u256_encode = ref_uint_encode, u256_decode = ref_uint_decode 32,
     b256_encode = ref_fixed_encode 32, b256_decode = ref_fixed_decode 32,
     address_encode = ref_fixed_encode 20, address_decode = ref_fixed_decode 20,
     base64_standard = ref_base64, to_base32 = ref_to_base32,
     bech32_encode = ref_bech32_encode, json_to_vec = ref_json_to_vec,
     sha256_digest = (\<lambda>xs. word_of_nat (be_nat xs)),
     ripemd160_digest = (\<lambda>xs. word_of_nat (be_nat xs)),
     keccak256 = (\<lambda>xs. word_of_nat (be_nat xs)),
     sig_from_slice = (\<lambda>xs. if length xs = 64 then Some xs else None),
     sig_normalize_s = (\<lambda>xs. if half_order < be_nat (drop 32 xs) then Some (take 32 xs) else None),
     vk_from_sec1 = (\<lambda>xs. if length xs = 33 then Some xs else None),
     vk_verify = (\<lambda>k msg sg. sg = replicate 63 0 @ [sum_list k + sum_list msg]),
     u256_from_be_slice = (\<lambda>xs. word_of_nat (be_nat xs)),
     sig_as_bytes = ref_sig_as_bytes,
     calc_effective_gas_price = ref_effective_gas_price\<rparr>"

lemma ref_libs_sel [lib_simps]:
  "header_encode ref_libs = ref_header_encode"
  "header_decode ref_libs = ref_header_decode"
  "header_length ref_libs h = length (ref_header_encode h)"
  "bytes_encode ref_libs = ref_bytes_encode"
  "bytes_decode ref_libs = ref_bytes_decode"
  "bytes_length ref_libs xs = length (ref_bytes_encode xs)"
  "u8_encode ref_libs = ref_uint_encode"
  "u8_decode ref_libs = ref_uint_decode 1"
  "u8_length ref_libs v8 = length (ref_uint_encode v8)"
  "u64_encode ref_libs = ref_uint_encode"
  "u64_decode ref_libs = ref_uint_decode 8"
  "u128_encode ref_libs = ref_uint_encode"
  "u128_decode ref_libs = ref_uint_decode 16"
  "u256_encode ref_libs = ref_uint_encode"
  "u256_decode ref_libs = ref_uint_decode 32"
  "b256_encode ref_libs = ref_fixed_encode 32"
  "b256_decode ref_libs = ref_fixed_decode 32"
  "address_encode ref_libs = ref_fixed_encode 20"
  "address_decode ref_libs = ref_fixed_decode 20"
  "base64_standard ref_libs = ref_base64"
  "to_base32 ref_libs = ref_to_base32"
  "bech32_encode ref_libs = ref_bech32_encode"
  "json_to_vec ref_libs = ref_json_to_vec"
  "sha256_digest ref_libs xs = word_of_nat (be_nat xs)"
  "ripemd160_digest ref_libs xs = word_of_nat (be_nat xs)"
  "keccak256 ref_libs xs = word_of_nat (be_nat xs)"
  "sig_from_slice ref_libs xs = (if length xs = 64 then Some xs else None)"
  "sig_normalize_s ref_libs xs = (if half_order < be_nat (drop 32 xs) then Some (take 32 xs) else None)"
  "vk_from_sec1 ref_libs xs = (if length xs = 33 then Some xs else None)"
  "vk_verify ref_libs k msg sg = (sg = replicate 63 0 @ [sum_list k + sum_list msg])"
  "u256_from_be_slice ref_libs xs = word_of_nat (be_nat xs)"
  "sig_as_bytes ref_libs = ref_sig_as_bytes"
  "calc_effective_gas_price ref_libs = ref_effective_gas_price"
  by (simp_all add: ref_libs_def)

interpretation ref: chain_libs ref_libs
proof (unfold_locales, goal_cases)
  case (1 n rest)
  then show ?case by (simp add: lib_simps ref_header_decode_encode)
next
  case (3 n)
  then show ?case by (simp add: lib_simps ref_header_size)
next
  case (4 xs rest)
  then show ?case by (simp add: lib_simps ref_bytes_decode_encode)
next
  case (6 xs)
  then show ?case by (simp add: lib_simps ref_bytes_size)
next
  case (32 i j bs)
  then show ?case by (auto simp: lib_simps intro: ref_json_inj)
next
  case (33 xs ys v)
  then show ?case
    using word_bytes_of_word [of xs, where ?'a = 256] word_bytes_of_word [of ys, where ?'a = 256]
    by (simp add: lib_simps ref_sig_as_bytes_def)
qed (simp_all add: lib_simps ref_uint_decode_encode ref_uint_size [THEN order_trans]
      ref_fixed_decode_encode ref_fixed_size ref_base64_inj ref_base64_plain ref_bech32_cosmos
      ref_decoders_return
      ref_json_to_vec_def)

end
