(* ===== verification/Cosmos_Auth_Facts.thy ===== *)
theory Cosmos_Auth_Facts
  imports Cosmos_Auth Reference_Libs
begin

text \<open>
  The lemmas about \<open>Cosmos_Auth\<close>: what each check accepts, what the encoders produce and how
  long it is, and that payload and wire form are canonical, framed formats (the contract of
  \<open>Codec\<close>). The parts that rest on the third-party laws are proved inside the locales
  \<open>rlp_codec\<close> and \<open>chain_libs\<close>.
\<close>

lemmas size_limits = MAX_CALLDATA_def MAX_RAW_TX_def

section \<open>Limits\<close>

definition within_limits :: "operation \<Rightarrow> bool" where
  "within_limits op \<longleftrightarrow>
     length (op_input op) \<le> 32768
     \<and> 21000 \<le> unat (op_gas_limit op) \<and> unat (op_gas_limit op) \<le> 30000000
     \<and> Suc (unat (op_nonce op)) < 2 ^ 64
     \<and> unat (op_max_priority_fee_per_gas op) \<le> unat (op_max_fee_per_gas op)"

lemma nonce_max: "(n::u64) = 0xffffffffffffffff \<longleftrightarrow> \<not> Suc (unat n) < 2 ^ 64"
  using unsigned_less [of n, where ?'a = nat]
  by (auto simp: word_unat_eq_iff)

lemma validate_limits_Ok [simp]: "validate_limits op = Ok u \<longleftrightarrow> within_limits op"
  by (auto simp: validate_limits_def within_limits_def MAX_CALLDATA_def MAX_GAS_def nonce_max
      word_less_nat_alt simp del: One_nat_def)

lemma validate_limits_Err: "validate_limits op = Err e \<longleftrightarrow> \<not> within_limits op \<and> e = Limit"
  using validate_limits_Ok [of op "()"]
  by (auto simp: validate_limits_def split: if_splits)

lemma validate_limits_returns: "validate_limits op \<noteq> Panic"
  by (simp add: validate_limits_def)

section \<open>Canonical decoding\<close>

text \<open>What a decoder accepts it has re-encoded and compared, whatever the RLP library does.\<close>

lemma decode_payload_OkD:
  assumes "decode_payload L raw = Ok op"
  shows "payload L op = raw" "within_limits op" "length raw \<le> MAX_RAW_TX"
  using assms
  by (auto simp: decode_payload_def outcome_simps split: if_splits prod.splits)

lemma decode_wire_OkD:
  assumes "decode_wire L raw = Ok (op, key, sg)"
  shows "encode_wire L op key sg = raw" "within_limits op" "length key = 33" "length sg = 64"
    "length raw \<le> MAX_RAW_TX" "decode_payload L (payload L op) = Ok op"
  using assms
  by (auto simp: decode_wire_def outcome_simps dest: decode_payload_OkD split: if_splits prod.splits)

text \<open>The errors of the decoders.\<close>

lemma decode_payload_Err: "decode_payload L raw = Err e \<Longrightarrow> e \<in> {Limit, Encoding}"
  by (auto simp: decode_payload_def list_body_def decode_operation_def decode_field_def auth_error_from_rlp_def
      validate_limits_Err outcome_simps split: if_splits prod.splits)

lemma decode_wire_Err: "decode_wire L raw = Err e \<Longrightarrow> e \<in> {Limit, Encoding, PublicKey, Signature}"
  by (auto simp: decode_wire_def list_body_def decode_field_def auth_error_from_rlp_def outcome_simps
      dest: decode_payload_Err split: if_splits prod.splits)

section \<open>Encodings decode\<close>

context rlp_codec
begin

lemma list_body_rlp_list:
  "length body < 2 ^ 64 \<Longrightarrow> list_body R (rlp_list R body) = Ok body"
  by (simp add: list_body_def rlp_list_def header_roundtrip)

lemma decode_field_simps:
  "length xs < 2 ^ 64 \<Longrightarrow> decode_field (bytes_decode R) (bytes_encode R xs @ rest) = Ok (xs, rest)"
  "decode_field (u8_decode R) (u8_encode R v8 @ rest) = Ok (v8, rest)"
  "decode_field (u64_decode R) (u64_encode R v64 @ rest) = Ok (v64, rest)"
  "decode_field (u128_decode R) (u128_encode R v128 @ rest) = Ok (v128, rest)"
  "decode_field (u256_decode R) (u256_encode R v256 @ rest) = Ok (v256, rest)"
  "decode_field (b256_decode R) (b256_encode R h @ rest) = Ok (h, rest)"
  "decode_field (address_decode R) (address_encode R a @ rest) = Ok (a, rest)"
  by (simp_all add: decode_field_def bytes_roundtrip u8_roundtrip u64_roundtrip u128_roundtrip
      u256_roundtrip b256_roundtrip address_roundtrip)

lemma decode_field_returns:
  "decode_field (bytes_decode R) buf \<noteq> Panic"
  "decode_field (u8_decode R) buf \<noteq> Panic"
  "decode_field (u64_decode R) buf \<noteq> Panic"
  "decode_field (u128_decode R) buf \<noteq> Panic"
  "decode_field (u256_decode R) buf \<noteq> Panic"
  "decode_field (b256_decode R) buf \<noteq> Panic"
  "decode_field (address_decode R) buf \<noteq> Panic"
  by (simp_all add: decode_field_def outcome_simps decoders_return)

lemma payload_fields_size:
  assumes "length (op_input op) \<le> MAX_CALLDATA"
  shows "length (payload_fields R op) \<le> MAX_CALLDATA + 210"
proof -
  have "length (bytes_encode R PROTOCOL) \<le> 21"
    using bytes_size [of PROTOCOL] by (simp add: PROTOCOL_def text_bytes_def)
  moreover have "length (bytes_encode R (op_input op)) \<le> MAX_CALLDATA + 3"
    using assms bytes_size [of "op_input op"] by (simp add: MAX_CALLDATA_def)
  ultimately show ?thesis
    using u8_size [of 1] u64_size [of "op_chain_id op"] u64_size [of "op_nonce op"]
      u64_size [of "op_gas_limit op"] u128_size [of "op_max_fee_per_gas op"]
      u128_size [of "op_max_priority_fee_per_gas op"] u256_size [of "op_value op"]
    by (simp add: payload_fields_def b256_size address_size)
qed

lemma payload_size:
  assumes "length (op_input op) \<le> MAX_CALLDATA"
  shows "length (payload R op) \<le> MAX_CALLDATA + 213"
  using payload_fields_size [OF assms] header_size [of "length (payload_fields R op)"]
  by (simp add: payload_def rlp_list_def MAX_CALLDATA_def)

lemma wire_fields_size:
  assumes "length (op_input op) \<le> MAX_CALLDATA" "length key = 33" "length sg = 64"
  shows "length (wire_fields R op key sg) \<le> MAX_CALLDATA + 319"
  using payload_size [OF assms(1)] bytes_size [of "payload R op"] bytes_size [of key]
    bytes_size [of sg] assms(2,3)
  by (simp add: wire_fields_def MAX_CALLDATA_def)

lemma encode_wire_size:
  assumes "length (op_input op) \<le> MAX_CALLDATA" "length key = 33" "length sg = 64"
  shows "length (encode_wire R op key sg) \<le> MAX_CALLDATA + 323"
  using wire_fields_size [OF assms] header_size [of "length (wire_fields R op key sg)"]
  by (simp add: encode_wire_def rlp_list_def MAX_CALLDATA_def)

lemma decode_operation_encode:
  assumes "length (op_input op) < 2 ^ 64"
  shows "decode_operation R
     (u64_encode R (op_chain_id op) @ b256_encode R (op_genesis_hash op)
      @ address_encode R (op_sender op) @ u64_encode R (op_nonce op)
      @ address_encode R (op_to op) @ u256_encode R (op_value op) @ bytes_encode R (op_input op)
      @ u64_encode R (op_gas_limit op) @ u128_encode R (op_max_fee_per_gas op)
      @ u128_encode R (op_max_priority_fee_per_gas op) @ rest) = Ok (op, rest)"
  using assms by (simp add: decode_operation_def decode_field_simps)

lemma decode_payload_payload:
  assumes "within_limits op"
  shows "decode_payload R (payload R op) = Ok op"
proof -
  have input: "length (op_input op) \<le> MAX_CALLDATA"
    using assms by (simp add: within_limits_def MAX_CALLDATA_def)
  have raw: "length (payload R op) \<le> MAX_RAW_TX"
    using payload_size [OF input] by (simp add: MAX_RAW_TX_def)
  have body: "list_body R (payload R op) = Ok (payload_fields R op)"
    using payload_fields_size [OF input]
    by (simp add: payload_def list_body_rlp_list MAX_CALLDATA_def)
  have protocol: "length PROTOCOL < 2 ^ 64"
    by (simp add: PROTOCOL_def text_bytes_def)
  have ops: "length (op_input op) < 2 ^ 64"
    using input by (simp add: MAX_CALLDATA_def)
  have limits: "validate_limits op = Ok ()"
    using assms by simp
  show ?thesis
    using raw protocol decode_operation_encode [OF ops, of "[]"]
    by (simp add: decode_payload_def body payload_fields_def decode_field_simps limits
        del: validate_limits_Ok)
qed

lemma decode_wire_encode_wire:
  assumes "within_limits op" "length key = 33" "length sg = 64"
  shows "decode_wire R (encode_wire R op key sg) = Ok (op, key, sg)"
proof -
  have input: "length (op_input op) \<le> MAX_CALLDATA"
    using assms by (simp add: within_limits_def MAX_CALLDATA_def)
  have raw: "length (encode_wire R op key sg) \<le> MAX_RAW_TX"
    using encode_wire_size [OF input assms(2,3)] by (simp add: MAX_RAW_TX_def)
  have body: "list_body R (rlp_list R (wire_fields R op key sg)) = Ok (wire_fields R op key sg)"
    using wire_fields_size [OF input assms(2,3)]
    by (simp add: list_body_rlp_list MAX_CALLDATA_def)
  have small: "length (payload R op) < 2 ^ 64" "length key < 2 ^ 64" "length sg < 2 ^ 64"
    using payload_size [OF input] assms(2,3) by (simp_all add: MAX_CALLDATA_def)
  have decode_fields:
    "decode_field (bytes_decode R) (wire_fields R op key sg)
       = Ok (payload R op, bytes_encode R key @ bytes_encode R sg)"
    "decode_field (bytes_decode R) (bytes_encode R key @ bytes_encode R sg)
       = Ok (key, bytes_encode R sg)"
    "decode_field (bytes_decode R) (bytes_encode R sg) = Ok (sg, [])"
    using small decode_field_simps(1) [of sg "[]"]
    by (simp_all add: wire_fields_def decode_field_simps)
  have split: "slice_first (encode_wire R op key sg) = Some TX_TYPE"
    "slice_from (encode_wire R op key sg) (Suc 0) = Ok (rlp_list R (wire_fields R op key sg))"
    by (simp_all add: encode_wire_def)
  show ?thesis
    using raw assms decode_payload_payload [OF assms(1)]
    by (simp add: decode_wire_def split body decode_fields del: slice_first_Some)
qed

section \<open>Framing\<close>

lemma rlp_list_frame:
  assumes "length xs < 2 ^ 64" "length ys < 2 ^ 64" "rlp_list R xs @ r = rlp_list R ys @ s"
  shows "r = s"
proof -
  have "header_decode R (rlp_list R xs @ r) = Ok (list_header (length xs), xs @ r)"
    "header_decode R (rlp_list R ys @ s) = Ok (list_header (length ys), ys @ s)"
    using assms(1,2) by (simp_all add: rlp_list_def header_roundtrip)
  with assms(3) have "length ys = length xs" "ys @ s = xs @ r" by simp_all
  then show ?thesis by simp
qed

lemma payload_frame:
  assumes "within_limits op" "within_limits op'" "payload R op @ r = payload R op' @ s"
  shows "r = s"
proof -
  have "length (payload_fields R x) < 2 ^ 64" if "within_limits x" for x
    using that payload_fields_size [of x] by (simp add: within_limits_def MAX_CALLDATA_def)
  with assms show ?thesis
    unfolding payload_def by (blast intro: rlp_list_frame)
qed

lemma encode_wire_frame:
  assumes "within_limits op" "length key = 33" "length sg = 64"
    "within_limits op'" "length key' = 33" "length sg' = 64"
    "encode_wire R op key sg @ r = encode_wire R op' key' sg' @ s"
  shows "r = s"
proof -
  have "length (wire_fields R x k g) < 2 ^ 64"
    if "within_limits x" "length k = 33" "length g = 64" for x k g
    using that wire_fields_size [of x k g] by (simp add: within_limits_def MAX_CALLDATA_def)
  then have "length (wire_fields R op key sg) < 2 ^ 64" "length (wire_fields R op' key' sg') < 2 ^ 64"
    using assms by blast+
  moreover have "rlp_list R (wire_fields R op key sg) @ r = rlp_list R (wire_fields R op' key' sg') @ s"
    using assms(7) by (simp add: encode_wire_def)
  ultimately show ?thesis by (rule rlp_list_frame)
qed

end

text \<open>The two formats meet the contract of a framed codec.\<close>

definition valid_wire :: "operation \<times> bytes \<times> bytes \<Rightarrow> bool" where
  "valid_wire = (\<lambda>(op, key, sg). within_limits op \<and> length key = 33 \<and> length sg = 64)"

definition encode_wire_tuple :: "'m rlp_lib_scheme \<Rightarrow> operation \<times> bytes \<times> bytes \<Rightarrow> bytes" where
  "encode_wire_tuple L = (\<lambda>(op, key, sg). encode_wire L op key sg)"

sublocale rlp_codec \<subseteq> pay: framed_codec "payload R" "decode_payload R" within_limits
  by unfold_locales (auto intro: decode_payload_payload payload_frame dest: decode_payload_OkD)

sublocale rlp_codec \<subseteq> wire: framed_codec "encode_wire_tuple R" "decode_wire R" valid_wire
  by unfold_locales
     (auto simp: encode_wire_tuple_def valid_wire_def intro: decode_wire_encode_wire encode_wire_frame
       dest: decode_wire_OkD)

section \<open>Untrusted bytes never panic\<close>

context rlp_codec
begin

lemmas wire_codec_axioms = wire.framed_codec_axioms
lemmas payload_codec_axioms = pay.framed_codec_axioms

lemma list_body_returns: "list_body R raw \<noteq> Panic"
  by (auto simp: list_body_def outcome_simps decoders_return)

lemma decode_operation_returns: "decode_operation R buf \<noteq> Panic"
  by (auto simp: decode_operation_def outcome_simps decode_field_returns)

lemma decode_payload_returns: "decode_payload R raw \<noteq> Panic"
  by (auto simp: decode_payload_def outcome_simps list_body_returns decode_field_returns
      decode_operation_returns validate_limits_returns split: if_splits)

lemma decode_wire_returns: "decode_wire R raw \<noteq> Panic"
  by (auto simp: decode_wire_def outcome_simps list_body_returns decode_field_returns
      decode_payload_returns split: if_splits)

end

section \<open>The sign document\<close>

context sign_text
begin

lemma sign_bytes_Ok:
  "\<exists>signer bs. plain_text signer \<and> sign_bytes T op = Ok bs
     \<and> json_to_vec T (sign_document (base64_standard T (payload T op)) signer) = Some bs"
proof -
  obtain signer where "bech32_encode T ''cosmos'' (to_base32 T (word_bytes 20 (op_sender op))) = Some signer"
    "plain_text signer"
    using bech32_cosmos by blast
  moreover obtain bs where
    "json_to_vec T (sign_document (base64_standard T (payload T op)) signer) = Some bs"
    using json_total by blast
  ultimately show ?thesis
    by (auto simp: sign_bytes_def cosmos_address_def)
qed

lemma sign_bytes_OkD:
  assumes "sign_bytes T op = Ok bs"
  obtains signer where "plain_text signer"
    "json_to_vec T (sign_document (base64_standard T (payload T op)) signer) = Some bs"
  using assms bech32_cosmos [of "to_base32 T (word_bytes 20 (op_sender op))"]
  by (auto simp: sign_bytes_def cosmos_address_def outcome_simps)

lemma sign_bytes_returns: "sign_bytes T op \<noteq> Panic"
  using sign_bytes_Ok [of op] by (metis outcome.distinct(4) outcome.simps(5))

lemma sign_document_plain:
  "plain_text data \<Longrightarrow> plain_text signer \<Longrightarrow> plain_json (sign_document data signer)"
  by (simp add: sign_document_def plain_text_def plain_char_def)

lemma sign_bytes_payload:
  assumes "sign_bytes T op = Ok bs" "sign_bytes T op' = Ok bs"
  shows "payload T op = payload T op'"
proof -
  from assms(1) obtain s where s: "plain_text s"
    "json_to_vec T (sign_document (base64_standard T (payload T op)) s) = Some bs"
    by (rule sign_bytes_OkD)
  from assms(2) obtain t where t: "plain_text t"
    "json_to_vec T (sign_document (base64_standard T (payload T op')) t) = Some bs"
    by (rule sign_bytes_OkD)
  from s t have "sign_document (base64_standard T (payload T op)) s
    = sign_document (base64_standard T (payload T op')) t"
    using json_inj sign_document_plain base64_plain by blast
  then show ?thesis
    by (auto simp: sign_document_def intro: base64_inj)
qed

end

end
