(* ===== verification/Fixture.thy ===== *)
theory Fixture
  imports Cosmos_Auth_Facts
begin

text \<open>
  The signed transaction of \<open>fixtures/adr036-v1.json\<close>, produced independently of the Rust code
  with CosmJS. Over the reference libraries the model's encoders give its payload, its wire
  bytes and its sign document byte for byte.
\<close>

section \<open>The recorded values\<close>

definition fixture_op :: operation where
  "fixture_op = \<lparr>
     op_chain_id = 366036,
     op_genesis_hash = 0x1111111111111111111111111111111111111111111111111111111111111111,
     op_sender = 0x751e76e8199196d454941c45d1b3a323f1433bd6,
     op_nonce = 0, op_to = 0x2000, op_value = 123456789, op_input = [],
     op_gas_limit = 21000, op_max_fee_per_gas = 2000000000,
     op_max_priority_fee_per_gas = 100000000\<rparr>"

definition fixture_key :: bytes where
  "fixture_key =
     [2, 121, 190, 102, 126, 249, 220, 187, 172, 85, 160, 98, 149, 206, 135, 11, 7, 2, 155,
     252, 219, 45, 206, 40, 217, 89, 242, 129, 91, 22, 248, 23, 152]"

definition fixture_sig :: bytes where
  "fixture_sig =
     [182, 222, 10, 87, 18, 167, 226, 145, 202, 138, 69, 6, 86, 255, 125, 46, 0, 253, 156, 30,
     45, 69, 116, 131, 159, 76, 79, 151, 51, 154, 249, 118, 30, 153, 204, 224, 225, 212, 61,
     172, 38, 43, 32, 67, 246, 60, 136, 175, 53, 158, 124, 184, 121, 70, 70, 29, 15, 9, 199,
     190, 200, 123, 158, 35]"

definition fixture_payload :: bytes where
  "fixture_payload =
     [248, 119, 146, 114, 101, 116, 104, 45, 99, 111, 115, 109, 111, 115, 45, 97, 100, 114, 48,
     51, 54, 1, 131, 5, 149, 212, 160, 17, 17, 17, 17, 17, 17, 17, 17, 17, 17, 17, 17, 17, 17,
     17, 17, 17, 17, 17, 17, 17, 17, 17, 17, 17, 17, 17, 17, 17, 17, 17, 17, 148, 117, 30, 118,
     232, 25, 145, 150, 212, 84, 148, 28, 69, 209, 179, 163, 35, 241, 67, 59, 214, 128, 148, 0,
     0, 0, 0, 0, 0, 0, 0, 0, 0, 0, 0, 0, 0, 0, 0, 0, 0, 32, 0, 132, 7, 91, 205, 21, 128, 130,
     82, 8, 132, 119, 53, 148, 0, 132, 5, 245, 225, 0]"

definition fixture_raw :: bytes where
  "fixture_raw =
     [126, 248, 223, 184, 121, 248, 119, 146, 114, 101, 116, 104, 45, 99, 111, 115, 109, 111,
     115, 45, 97, 100, 114, 48, 51, 54, 1, 131, 5, 149, 212, 160, 17, 17, 17, 17, 17, 17, 17,
     17, 17, 17, 17, 17, 17, 17, 17, 17, 17, 17, 17, 17, 17, 17, 17, 17, 17, 17, 17, 17, 17,
     17, 17, 17, 148, 117, 30, 118, 232, 25, 145, 150, 212, 84, 148, 28, 69, 209, 179, 163, 35,
     241, 67, 59, 214, 128, 148, 0, 0, 0, 0, 0, 0, 0, 0, 0, 0, 0, 0, 0, 0, 0, 0, 0, 0, 32, 0,
     132, 7, 91, 205, 21, 128, 130, 82, 8, 132, 119, 53, 148, 0, 132, 5, 245, 225, 0, 161, 2,
     121, 190, 102, 126, 249, 220, 187, 172, 85, 160, 98, 149, 206, 135, 11, 7, 2, 155, 252,
     219, 45, 206, 40, 217, 89, 242, 129, 91, 22, 248, 23, 152, 184, 64, 182, 222, 10, 87, 18,
     167, 226, 145, 202, 138, 69, 6, 86, 255, 125, 46, 0, 253, 156, 30, 45, 69, 116, 131, 159,
     76, 79, 151, 51, 154, 249, 118, 30, 153, 204, 224, 225, 212, 61, 172, 38, 43, 32, 67, 246,
     60, 136, 175, 53, 158, 124, 184, 121, 70, 70, 29, 15, 9, 199, 190, 200, 123, 158, 35]"

definition fixture_signer :: string where
  "fixture_signer = ''cosmos1w508d6qejxtdg4y5r3zarvary0c5xw7k6ah60c''"

section \<open>The model computes them\<close>

lemma be_bytes_numeral:
  "be_bytes (numeral k) x = be_bytes (pred_numeral k) (x div 256) @ [word_of_nat x]"
  by (simp only: numeral_eq_Suc [of k] be_bytes.simps)

lemmas rlp_eval = lib_simps ref_uint_encode_def ref_fixed_encode_def word_bytes_def
  ref_header_encode_def be_bytes_numeral min_be.simps

lemma payload_fixture: "payload ref_libs fixture_op = fixture_payload"
  by (simp add: payload_def rlp_list_def payload_fields_def PROTOCOL_def text_bytes_def
      fixture_op_def fixture_payload_def rlp_eval)

lemma wire_fixture: "encode_wire ref_libs fixture_op fixture_key fixture_sig = fixture_raw"
  by (simp add: encode_wire_def wire_fields_def payload_fixture rlp_list_def TX_TYPE_def
      fixture_payload_def fixture_key_def fixture_sig_def fixture_raw_def rlp_eval)

lemma base64_fixture: "ref_base64 fixture_payload =
  ''+HeScmV0aC1jb3Ntb3MtYWRyMDM2AYMFldSgERERERERERERERERERERERERERERERERERERERERERGUdR526BmRltRUlBxF0bOjI/FDO9aAlAAAAAAAAAAAAAAAAAAAAAAAACAAhAdbzRWAglIIhHc1lACEBfXhAA==''"
  by (simp add: fixture_payload_def b64_char_def b64_alphabet_def)

lemma base32_fixture: "ref_to_base32 (word_bytes 20 (op_sender fixture_op)) =
  [14, 20, 15, 7, 13, 26, 0, 25, 18, 6, 11, 13, 8, 21, 4, 20, 3, 17, 2, 29, 3, 12, 29, 3, 4,
     15, 24, 20, 6, 14, 30, 22]"
  by (simp add: fixture_op_def word_bytes_def be_bytes_numeral ref_to_base32_def byte_bits_def
      bit_iff_odd)

lemma bech32_fixture: "cosmos_address ref_libs (op_sender fixture_op) = Ok fixture_signer"
  by (simp add: cosmos_address_def lib_simps base32_fixture ref_bech32_encode_def lower_hrp_def
      bech32_checksum_def hrp_expand_def polymod_step_def
      bech32_char_def bech32_charset_def fixture_signer_def)

definition fixture_sign_bytes :: bytes where
  "fixture_sign_bytes =
     [123, 34, 97, 99, 99, 111, 117, 110, 116, 95, 110, 117, 109, 98, 101, 114, 34, 58, 34, 48,
     34, 44, 34, 99, 104, 97, 105, 110, 95, 105, 100, 34, 58, 34, 34, 44, 34, 102, 101, 101,
     34, 58, 123, 34, 97, 109, 111, 117, 110, 116, 34, 58, 91, 93, 44, 34, 103, 97, 115, 34,
     58, 34, 48, 34, 125, 44, 34, 109, 101, 109, 111, 34, 58, 34, 34, 44, 34, 109, 115, 103,
     115, 34, 58, 91, 123, 34, 116, 121, 112, 101, 34, 58, 34, 115, 105, 103, 110, 47, 77, 115,
     103, 83, 105, 103, 110, 68, 97, 116, 97, 34, 44, 34, 118, 97, 108, 117, 101, 34, 58, 123,
     34, 100, 97, 116, 97, 34, 58, 34, 43, 72, 101, 83, 99, 109, 86, 48, 97, 67, 49, 106, 98,
     51, 78, 116, 98, 51, 77, 116, 89, 87, 82, 121, 77, 68, 77, 50, 65, 89, 77, 70, 108, 100,
     83, 103, 69, 82, 69, 82, 69, 82, 69, 82, 69, 82, 69, 82, 69, 82, 69, 82, 69, 82, 69, 82,
     69, 82, 69, 82, 69, 82, 69, 82, 69, 82, 69, 82, 69, 82, 69, 82, 69, 82, 69, 82, 69, 82,
     71, 85, 100, 82, 53, 50, 54, 66, 109, 82, 108, 116, 82, 85, 108, 66, 120, 70, 48, 98, 79,
     106, 73, 47, 70, 68, 79, 57, 97, 65, 108, 65, 65, 65, 65, 65, 65, 65, 65, 65, 65, 65, 65,
     65, 65, 65, 65, 65, 65, 65, 65, 65, 65, 65, 65, 67, 65, 65, 104, 65, 100, 98, 122, 82, 87,
     65, 103, 108, 73, 73, 104, 72, 99, 49, 108, 65, 67, 69, 66, 102, 88, 104, 65, 65, 61, 61,
     34, 44, 34, 115, 105, 103, 110, 101, 114, 34, 58, 34, 99, 111, 115, 109, 111, 115, 49,
     119, 53, 48, 56, 100, 54, 113, 101, 106, 120, 116, 100, 103, 52, 121, 53, 114, 51, 122,
     97, 114, 118, 97, 114, 121, 48, 99, 53, 120, 119, 55, 107, 54, 97, 104, 54, 48, 99, 34,
     125, 125, 93, 44, 34, 115, 101, 113, 117, 101, 110, 99, 101, 34, 58, 34, 48, 34, 125]"

lemma sign_bytes_fixture: "sign_bytes ref_libs fixture_op = Ok fixture_sign_bytes"
  by (simp add: sign_bytes_def bech32_fixture payload_fixture lib_simps base64_fixture
      ref_json_to_vec_def sign_document_def text_bytes_def fixture_signer_def fixture_sign_bytes_def)

section \<open>An operation the stand-in cryptography authorizes\<close>

text \<open>
  The fixture was signed for a test genesis. \<open>sample_op\<close> is the same transfer on the chain's own
  genesis, sent by the account that the reference hashes derive from \<open>fixture_key\<close>, and
  \<open>sample_sig\<close> is its reference signature.
\<close>

definition sample_op :: operation where
  "sample_op = fixture_op\<lparr>op_genesis_hash := GENESIS_HASH,
     op_sender := 0xce870b07029bfcdb2dce28d959f2815b16f81798\<rparr>"

definition sample_msg :: bytes where
  "sample_msg = (case (sign_bytes ref_libs sample_op :: (auth_error, bytes) outcome) of Ok bs \<Rightarrow> bs | _ \<Rightarrow> [])"

definition sample_sig :: bytes where
  "sample_sig = replicate 63 0 @ [sum_list fixture_key + sum_list sample_msg]"

end
