(* ===== verification/Authorization.thy ===== *)
theory Authorization
  imports Fixture
begin

text \<open>
  What the crate \<open>cosmos-auth\<close> promises. The first section states when an operation is
  authorized, without the order of the checks, and shows that \<open>verify\<close> decides it; the
  second gives the error of every rejected call; then come the properties of the crate.
\<close>

section \<open>Authorization as a specification\<close>

definition valid_key :: "('vk, 'sg, 'm) crypto_lib_scheme \<Rightarrow> bytes \<Rightarrow> bool" where
  "valid_key L key \<longleftrightarrow> length key = 33 \<and> hd key \<in> {2, 3} \<and> vk_from_sec1 L key \<noteq> None"

definition key_account :: "('vk, 'sg, 'm) crypto_lib_scheme \<Rightarrow> bytes \<Rightarrow> address" where
  "key_account L key = ripemd160_digest L (word_bytes 32 (sha256_digest L key))"

definition signed_by :: "('vk, 'sg, 'm) crypto_lib_scheme \<Rightarrow> operation \<Rightarrow> bytes \<Rightarrow> bytes \<Rightarrow> bool" where
  "signed_by L op key signature \<longleftrightarrow>
     (\<exists>vk sg msg. vk_from_sec1 L key = Some vk \<and> sig_from_slice L signature = Some sg
        \<and> sig_normalize_s L sg = None
        \<and> sign_bytes L op = (Ok msg :: (auth_error, bytes) outcome) \<and> vk_verify L vk msg sg)"

definition authorized ::
  "('vk, 'sg, 'm) crypto_lib_scheme \<Rightarrow> b256 \<Rightarrow> operation \<Rightarrow> bytes \<Rightarrow> bytes \<Rightarrow> bool" where
  "authorized L genesis op key signature \<longleftrightarrow>
     within_limits op \<and> op_chain_id op = CHAIN_ID \<and> op_genesis_hash op = genesis
     \<and> valid_key L key \<and> op_sender op = key_account L key \<and> signed_by L op key signature"

lemma derive_sender_Ok: "derive_sender L key = Ok a \<longleftrightarrow> valid_key L key \<and> a = key_account L key"
  by (cases key) (auto simp: derive_sender_def valid_key_def key_account_def outcome_simps)

lemma derive_sender_Err: "derive_sender L key = Err e \<longleftrightarrow> \<not> valid_key L key \<and> e = PublicKey"
  by (cases key) (auto simp: derive_sender_def valid_key_def outcome_simps)

lemma derive_sender_returns: "derive_sender L key \<noteq> Panic"
  by (simp add: derive_sender_def outcome_simps)

lemma verify_Ok_iff:
  "verify L op key signature genesis = Ok a \<longleftrightarrow>
     authorized L genesis op key signature \<and> a = op_sender op"
  by (auto simp: verify_def authorized_def signed_by_def derive_sender_Ok outcome_simps
      split: if_splits)

section \<open>The error of a rejected call\<close>

text \<open>The first check that fails, in the order of the code.\<close>

definition first_failure ::
  "('vk, 'sg, 'm) crypto_lib_scheme \<Rightarrow> b256 \<Rightarrow> operation \<Rightarrow> bytes \<Rightarrow> auth_error" where
  "first_failure L genesis op key =
     (if \<not> within_limits op then Limit
      else if op_chain_id op \<noteq> CHAIN_ID \<or> op_genesis_hash op \<noteq> genesis then Domain
      else if \<not> valid_key L key then PublicKey
      else if op_sender op \<noteq> key_account L key then Sender
      else Signature)"

lemma validate_limits_not_Ok: "\<not> within_limits op \<Longrightarrow> validate_limits op = Err Limit"
  by (simp add: validate_limits_Err)

lemma verify_rejects:
  assumes "sign_text L" "\<not> authorized L genesis op key signature"
  shows "verify L op key signature genesis = Err (first_failure L genesis op key)"
proof -
  have sender: "derive_sender L key = (if valid_key L key then Ok (key_account L key) else Err PublicKey)"
    by (simp add: derive_sender_Ok derive_sender_Err)
  have limits: "validate_limits op = (if within_limits op then Ok () else Err Limit)"
    by (simp add: validate_limits_not_Ok)
  obtain msg where msg: "sign_bytes L op = (Ok msg :: (auth_error, bytes) outcome)"
    using sign_text.sign_bytes_Ok [OF assms(1)] by blast
  show ?thesis
    using assms(2)
    by (auto simp: verify_def first_failure_def sender limits msg authorized_def signed_by_def
        valid_key_def ensure_def ok_or_def split: option.splits)
qed

lemma verify_returns:
  assumes "sign_text L"
  shows "verify L op key signature genesis \<noteq> Panic"
  by (metis assms outcome.distinct(3,5) verify_Ok_iff verify_rejects)

section \<open>The reference account\<close>

lemma fixture_limits [simp]: "within_limits fixture_op" "within_limits sample_op"
  by (simp_all add: within_limits_def fixture_op_def sample_op_def)

lemma fixture_lengths [simp]: "length fixture_key = 33" "length fixture_sig = 64" "length sample_sig = 64"
  by (simp_all add: fixture_key_def fixture_sig_def sample_sig_def)

lemma sample_authorized: "authorized ref_libs GENESIS_HASH sample_op fixture_key sample_sig"
proof -
  obtain msg where "sign_bytes ref_libs sample_op = (Ok msg :: (auth_error, bytes) outcome)"
    using ref.sign_bytes_Ok by blast
  then have "sign_bytes ref_libs sample_op = (Ok sample_msg :: (auth_error, bytes) outcome)"
    by (simp add: sample_msg_def)
  moreover have "be_nat (drop 32 sample_sig) \<le> half_order"
    using unsigned_less [of "sum_list fixture_key + sum_list sample_msg", where ?'a = nat]
    by (simp add: sample_sig_def half_order_def be_nat_append)
  ultimately have "signed_by ref_libs sample_op fixture_key sample_sig"
    by (simp add: signed_by_def lib_simps sample_sig_def [symmetric])
  moreover have "key_account ref_libs fixture_key = 0xce870b07029bfcdb2dce28d959f2815b16f81798"
    by (simp add: key_account_def lib_simps word_bytes_def fixture_key_def be_bytes_numeral)
  ultimately show ?thesis
    by (simp add: authorized_def valid_key_def lib_simps fixture_limits)
      (simp add: sample_op_def fixture_op_def CHAIN_ID_def fixture_key_def)
qed

section \<open>Properties of the crate\<close>

text \<open>C1. The verifier accepts exactly the authorized operations, and answers with their sender:
  \<open>verify\<close> is a decision procedure for the declarative specification \<open>authorized\<close> (limits, chain
  and genesis, a compressed key, the account of that key, a low-S signature over the sign
  document), whatever the third-party functions are.\<close>

theorem verify_decides_authorized:
  "verify L op key signature genesis = Ok a \<longleftrightarrow>
     authorized L genesis op key signature \<and> a = op_sender op"
  by (rule verify_Ok_iff)

text \<open>C20. A call that is not authorized returns the error of the first failing check, in the order
  limits, domain, public key, sender, signature, and the verifier never panics: the sign document
  can always be built.\<close>

theorem verify_error_precedence:
  assumes "sign_text L"
  shows "verify L op key signature genesis
     = (if authorized L genesis op key signature then Ok (op_sender op)
        else Err (first_failure L genesis op key))"
  using verify_Ok_iff [of L op key signature genesis "op_sender op"] verify_rejects [OF assms]
  by simp

theorem verify_error_precedence_witness:
  "verify ref_libs (sample_op\<lparr>op_genesis_hash := 0\<rparr>) fixture_key sample_sig GENESIS_HASH = Err Domain
   \<and> verify ref_libs sample_op fixture_key sample_sig GENESIS_HASH = Ok (op_sender sample_op)"
proof -
  have "within_limits (sample_op\<lparr>op_genesis_hash := 0\<rparr>)"
    using fixture_limits by (simp add: within_limits_def)
  then have "first_failure ref_libs GENESIS_HASH (sample_op\<lparr>op_genesis_hash := 0\<rparr>) fixture_key = Domain"
    and "\<not> authorized ref_libs GENESIS_HASH (sample_op\<lparr>op_genesis_hash := 0\<rparr>) fixture_key sample_sig"
    by (simp_all add: first_failure_def authorized_def GENESIS_HASH_def)
  then show ?thesis
    using verify_error_precedence [OF ref.sign_text_axioms] sample_authorized by simp
qed

text \<open>C24. Every field is bound by the signature: two operations within the limits that have the same
  sign document are the same operation, so a signature over the document of one says nothing
  about any other.\<close>

theorem sign_bytes_bind_operation:
  assumes "chain_libs L" "within_limits op" "within_limits op'"
    "sign_bytes L op = (Ok msg :: (auth_error, bytes) outcome)"
    "sign_bytes L op' = (Ok msg :: (auth_error, bytes) outcome)"
  shows "op = op'"
proof -
  have codec: "rlp_codec L" and signing: "sign_text L"
    using assms(1) by (simp_all add: chain_libs_def)
  have "payload L op = payload L op'"
    using sign_text.sign_bytes_payload [OF signing assms(4,5)] .
  then show ?thesis
    using rlp_codec.decode_payload_payload [OF codec] assms(2,3) by (metis outcome.inject(1))
qed

theorem sign_bytes_bind_operation_witness:
  "\<exists>msg. sign_bytes ref_libs fixture_op = (Ok msg :: (auth_error, bytes) outcome)
     \<and> sign_bytes ref_libs sample_op \<noteq> (Ok msg :: (auth_error, bytes) outcome)"
proof -
  have "fixture_op \<noteq> sample_op"
    by (simp add: sample_op_def fixture_op_def GENESIS_HASH_def)
  then show ?thesis
    using sign_bytes_bind_operation [OF ref.chain_libs_axioms fixture_limits] sign_bytes_fixture
    by blast
qed

text \<open>C22. The wire form round-trips: for every operation within the limits, every 33-byte key and
  every 64-byte signature, decoding the encoded transaction gives the three parts back. In
  particular the encoding of the largest calldata stays within \<open>MAX_RAW_TX\<close>.\<close>

theorem wire_roundtrip:
  assumes "rlp_codec L" "within_limits op" "length key = 33" "length signature = 64"
  shows "decode_wire L (encode_wire L op key signature) = Ok (op, key, signature)
    \<and> length (encode_wire L op key signature) \<le> MAX_RAW_TX"
  using rlp_codec.decode_wire_encode_wire [OF assms] decode_wire_OkD(5) by blast

theorem wire_roundtrip_witness: "decode_wire ref_libs fixture_raw = Ok (fixture_op, fixture_key, fixture_sig)"
  using wire_roundtrip [OF ref.rlp_codec_axioms fixture_limits(1) fixture_lengths(1,2)]
  by (simp add: wire_fixture)

text \<open>C21. Only canonical bytes are accepted: whatever the RLP library does, a transaction that decodes is
  byte for byte the encoding of what it decodes to, is at most \<open>MAX_RAW_TX\<close> bytes long, has type
  \<open>0x7e\<close>, a 33-byte key, a 64-byte signature and an operation within the limits. No two byte
  strings decode to the same transaction.\<close>

theorem wire_canonical:
  assumes "decode_wire L raw = Ok (op, key, signature)"
  shows "raw = encode_wire L op key signature \<and> length raw \<le> 33280 \<and> hd raw = 0x7e
    \<and> length key = 33 \<and> length signature = 64 \<and> within_limits op"
  using decode_wire_OkD [OF assms] by (auto simp: encode_wire_def TX_TYPE_def size_limits)

theorem wire_canonical_witness: "length fixture_raw \<le> 33280 \<and> hd fixture_raw = 0x7e"
proof -
  have "decode_wire ref_libs fixture_raw = Ok (fixture_op, fixture_key, fixture_sig)"
    using ref.decode_wire_encode_wire [of fixture_op fixture_key fixture_sig]
    by (simp add: wire_fixture)
  from wire_canonical [OF this] show ?thesis by simp
qed

text \<open>C29. The wire form is framed: a valid transaction cut short by any number of bytes, or followed by
  any further bytes, does not decode.\<close>

theorem wire_rejects_truncation_and_trailing:
  assumes "rlp_codec L" "within_limits op" "length key = 33" "length signature = 64"
  shows "(n < length (encode_wire L op key signature) \<longrightarrow>
            \<not> is_ok (decode_wire L (take n (encode_wire L op key signature))))
       \<and> (rest \<noteq> [] \<longrightarrow> \<not> is_ok (decode_wire L (encode_wire L op key signature @ rest)))"
proof -
  have valid: "valid_wire (op, key, signature)"
    using assms by (simp add: valid_wire_def)
  have enc: "encode_wire_tuple L (op, key, signature) = encode_wire L op key signature"
    by (simp add: encode_wire_tuple_def)
  have "framed_codec (encode_wire_tuple L) (decode_wire L) valid_wire"
    by (rule rlp_codec.wire_codec_axioms [OF assms(1)])
  from framed_codec.truncated_rejected [OF this valid] framed_codec.trailing_rejected [OF this valid]
  show ?thesis by (auto simp: enc)
qed

theorem wire_rejects_truncation_and_trailing_witness:
  "\<not> is_ok (decode_wire ref_libs (take 100 fixture_raw)) \<and> \<not> is_ok (decode_wire ref_libs (fixture_raw @ [0]))"
proof -
  have "100 < length fixture_raw" by (simp add: fixture_raw_def)
  then show ?thesis
    using wire_rejects_truncation_and_trailing
      [OF ref.rlp_codec_axioms fixture_limits(1) fixture_lengths(1,2), of 100 "[0]"]
    by (simp add: wire_fixture)
qed

text \<open>The limits as numbers: \<open>validate_limits\<close> accepts exactly the operations with at most 32768
  bytes of calldata, gas between 21000 and 30000000, a nonce that can still be incremented without
  wrapping in 64 bits, and a priority fee no larger than the fee cap.\<close>

lemma validate_limits_bounds:
  "validate_limits op = Ok () \<longleftrightarrow>
     length (op_input op) \<le> 32768
     \<and> unat (op_gas_limit op) \<in> {21000..30000000}
     \<and> unat (op_nonce op + 1) = unat (op_nonce op) + 1
     \<and> unat (op_max_priority_fee_per_gas op) \<le> unat (op_max_fee_per_gas op)"
proof -
  have "unat (op_nonce op + 1) = unat (op_nonce op) + 1 \<longleftrightarrow> Suc (unat (op_nonce op)) < 2 ^ 64"
    using unsigned_less [of "op_nonce op", where ?'a = nat]
    by (cases "Suc (unat (op_nonce op)) = 2 ^ 64") (auto simp: unat_word_ariths)
  then show ?thesis by (auto simp: within_limits_def)
qed

end
