(* ===== verification/Tx_Type.thy ===== *)
theory Tx_Type
  imports Authorization
begin

text \<open>
  \<open>src/primitives/tx_type.rs\<close>: the transaction type byte of the chain, one of the Ethereum
  types or \<open>0x7e\<close>. The argument \<open>V\<close> says which bytes \<open>alloy_consensus::TxType\<close> knows
  (\<open>TxType::try_from(v).is_ok()\<close>). The compact form stores a two-bit identifier outside the
  buffer and one byte in it when the identifier is 3.
\<close>

section \<open>The type\<close>

datatype eip2718_error = RlpError rlp_error | UnexpectedType byte

datatype cosmos_tx_type = CosmosTxType byte

definition COSMOS :: cosmos_tx_type where
  "COSMOS = CosmosTxType TX_TYPE"

definition default_tx_type :: cosmos_tx_type where
  "default_tx_type = CosmosTxType 0"

definition tx_type_try_from :: "(byte \<Rightarrow> bool) \<Rightarrow> byte \<Rightarrow> (eip2718_error, cosmos_tx_type) outcome" where
  "tx_type_try_from V value =
     (if value = TX_TYPE \<or> V value then Ok (CosmosTxType value) else Err (UnexpectedType value))"

text \<open>\<open>alloy_primitives::U8\<close> is an 8-bit integer, and \<open>to::<u8>\<close> and \<open>from\<close> keep its value.\<close>

definition tx_type_try_from_u8 ::
  "(byte \<Rightarrow> bool) \<Rightarrow> 8 word \<Rightarrow> (eip2718_error, cosmos_tx_type) outcome" where
  "tx_type_try_from_u8 V v = tx_type_try_from V v"

fun tx_type_into_u8 :: "cosmos_tx_type \<Rightarrow> 8 word" where
  "tx_type_into_u8 (CosmosTxType v) = v"

text \<open>\<open>From<alloy_consensus::TxType>\<close>, on the discriminant \<open>v as u8\<close>.\<close>

definition tx_type_from_eth :: "byte \<Rightarrow> cosmos_tx_type" where
  "tx_type_from_eth v = CosmosTxType v"

fun tx_type_ty :: "cosmos_tx_type \<Rightarrow> byte" where
  "tx_type_ty (CosmosTxType v) = v"

definition tx_type_is_type :: "(byte \<Rightarrow> bool) \<Rightarrow> byte \<Rightarrow> bool" where
  "tx_type_is_type V ty = is_ok (tx_type_try_from V ty)"

definition tx_type_size :: "cosmos_tx_type \<Rightarrow> nat" where
  "tx_type_size t = 1"

section \<open>RLP\<close>

definition tx_type_encode :: "'m rlp_lib_scheme \<Rightarrow> cosmos_tx_type \<Rightarrow> bytes" where
  "tx_type_encode L t = u8_encode L (tx_type_ty t)"

definition tx_type_length :: "'m rlp_lib_scheme \<Rightarrow> cosmos_tx_type \<Rightarrow> nat" where
  "tx_type_length L t = u8_length L (tx_type_ty t)"

text \<open>\<open>E\<close> is \<open>From<Eip2718Error> for alloy_rlp::Error\<close>.\<close>

definition tx_type_decode ::
  "'m rlp_lib_scheme \<Rightarrow> (byte \<Rightarrow> bool) \<Rightarrow> (eip2718_error \<Rightarrow> rlp_error) \<Rightarrow> cosmos_tx_type decoder" where
  "tx_type_decode L V E buf =
     and_then (u8_decode L buf) (\<lambda>(v, buf).
     and_then (map_err E (tx_type_try_from V v)) (\<lambda>t. Ok (t, buf)))"

section \<open>The compact form\<close>

text \<open>The identifier and the bytes put into the buffer.\<close>

definition tx_type_to_compact :: "cosmos_tx_type \<Rightarrow> nat \<times> bytes" where
  "tx_type_to_compact t =
     (if tx_type_ty t < 3 then (unat (tx_type_ty t), []) else (3, [tx_type_ty t]))"

text \<open>\<open>buf[0]\<close> of an empty buffer and each \<open>expect\<close> panic.\<close>

definition tx_type_from_compact ::
  "(byte \<Rightarrow> bool) \<Rightarrow> bytes \<Rightarrow> nat \<Rightarrow> ('e, cosmos_tx_type \<times> bytes) outcome" where
  "tx_type_from_compact V buf identifier =
     and_then
       (if identifier = 3
        then (case buf of [] \<Rightarrow> Panic | b # rest \<Rightarrow> Ok (b, rest))
        else if identifier < 256 then Ok (word_of_nat identifier, buf) else Panic)
       (\<lambda>(ty, rest). and_then (unwrap (tx_type_try_from V ty)) (\<lambda>t. Ok (t, rest)))"

section \<open>Facts\<close>

definition known_type :: "(byte \<Rightarrow> bool) \<Rightarrow> cosmos_tx_type \<Rightarrow> bool" where
  "known_type V t \<longleftrightarrow> tx_type_ty t = TX_TYPE \<or> V (tx_type_ty t)"

lemma known_COSMOS [simp]: "known_type V COSMOS" "tx_type_ty COSMOS = TX_TYPE"
  by (simp_all add: known_type_def COSMOS_def)

lemma tx_type_ty_eq [simp]: "CosmosTxType (tx_type_ty t) = t"
  by (cases t) simp

lemma tx_type_try_from_Ok [outcome_simps]:
  "tx_type_try_from V v = Ok t \<longleftrightarrow> known_type V t \<and> tx_type_ty t = v"
  by (cases t) (auto simp: tx_type_try_from_def known_type_def)

lemma tx_type_try_from_returns: "tx_type_try_from V v \<noteq> Panic"
  by (simp add: tx_type_try_from_def)

lemma known_try_from: "known_type V t \<Longrightarrow> tx_type_try_from V (tx_type_ty t) = Ok t"
  by (simp add: tx_type_try_from_Ok)

lemma tx_type_u8_roundtrip:
  "known_type V t \<Longrightarrow> tx_type_try_from_u8 V (tx_type_into_u8 t) = Ok t"
  by (cases t) (simp add: tx_type_try_from_u8_def tx_type_try_from_Ok)

section \<open>Properties\<close>

text \<open>The compact form of a transaction type round-trips: the identifier fits in its two bits, at
  most one byte is written, and reading them back, whatever follows in the buffer, gives the type
  without a panic and leaves the rest.\<close>

lemma tx_type_compact_roundtrip:
  assumes "known_type V t" "tx_type_to_compact t = (identifier, written)"
  shows "tx_type_from_compact V (written @ rest) identifier = Ok (t, rest)
    \<and> identifier < 4 \<and> length written \<le> 1"
proof (cases "tx_type_ty t < 3")
  case True
  then have small: "unat (tx_type_ty t) < 3"
    by (simp add: word_less_nat_alt)
  with True assms have "identifier = unat (tx_type_ty t)" "written = []"
    by (simp_all add: tx_type_to_compact_def)
  with small known_try_from [OF assms(1)] show ?thesis
    by (simp add: tx_type_from_compact_def)
next
  case False
  with assms have "identifier = 3" "written = [tx_type_ty t]"
    by (simp_all add: tx_type_to_compact_def)
  with known_try_from [OF assms(1)] show ?thesis
    by (simp add: tx_type_from_compact_def)
qed

text \<open>Only known types exist: every way of reading a transaction type (a byte, RLP, the compact
  form) yields one of the Ethereum types or \<open>0x7e\<close>, and the RLP form of every known type
  decodes to it.\<close>

lemma tx_type_always_known:
  "(tx_type_try_from V v = Ok t \<longrightarrow> known_type V t)
   \<and> (tx_type_decode L V E buf = Ok (t, rest) \<longrightarrow> known_type V t)
   \<and> (tx_type_from_compact V buf identifier = (Ok (t, rest) :: ('e, _) outcome) \<longrightarrow> known_type V t)
   \<and> (rlp_codec L \<longrightarrow> known_type V t \<longrightarrow> tx_type_decode L V E (tx_type_encode L t @ rest) = Ok (t, rest))"
  by (auto simp: tx_type_decode_def tx_type_from_compact_def tx_type_encode_def outcome_simps
      rlp_codec.u8_roundtrip known_try_from)

end
