(* ===== verification/Cosmos_Signed.thy ===== *)
theory Cosmos_Signed
  imports Tx_Type
begin

text \<open>
  \<open>src/primitives/cosmos.rs\<close>: the immutable container of an authorized transaction, its
  constructor, its verification, its JSON-RPC form and its view as a \<open>Transaction\<close>. The fields
  of the Rust struct are private, so every value comes from \<open>CosmosSigned::new\<close>: the
  invariant \<open>wf_signed\<close> says so.
\<close>

section \<open>The container\<close>

record cosmos_signed =
  cs_operation :: operation
  cs_public_key :: bytes
  cs_signature :: eth_signature
  cs_hash :: b256
  cs_raw :: bytes

definition cosmos_signed_new ::
  "('vk, 'sg, 'm) prim_lib_scheme \<Rightarrow> operation \<Rightarrow> bytes \<Rightarrow> bytes \<Rightarrow> (auth_error, cosmos_signed) outcome" where
  "cosmos_signed_new L operation public_key signature =
     and_then (validate_limits operation) (\<lambda>_.
     if length public_key \<noteq> 33 then Err PublicKey
     else if length signature \<noteq> 64 then Err Signature
     else let raw = encode_wire L operation public_key signature
          in and_then (decode_wire L raw) (\<lambda>(operation, _, sig).
             and_then (slice_to sig 32) (\<lambda>r.
             and_then (slice_from sig 32) (\<lambda>s.
             Ok \<lparr>cs_operation = operation,
                 cs_public_key = public_key,
                 cs_signature = \<lparr>sig_r = u256_from_be_slice L r,
                                 sig_s = u256_from_be_slice L s,
                                 sig_v = False\<rparr>,
                 cs_hash = transaction_hash L raw,
                 cs_raw = raw\<rparr>))))"

datatype recovery_error = RecoveryError

text \<open>\<open>&self.signature.as_bytes()[..64]\<close>\<close>

definition signature_bytes :: "('vk, 'sg, 'm) prim_lib_scheme \<Rightarrow> cosmos_signed \<Rightarrow> bytes" where
  "signature_bytes L tx = take 64 (sig_as_bytes L (cs_signature tx))"

definition cosmos_signed_verify ::
  "('vk, 'sg, 'm) prim_lib_scheme \<Rightarrow> cosmos_signed \<Rightarrow> (recovery_error, address) outcome" where
  "cosmos_signed_verify L tx =
     map_err (\<lambda>_. RecoveryError)
       (verify L (cs_operation tx) (cs_public_key tx) (signature_bytes L tx) GENESIS_HASH)"

definition cosmos_signed_ty :: "cosmos_signed \<Rightarrow> byte" where
  "cosmos_signed_ty tx = TX_TYPE"

text \<open>\<open>size_of_self\<close> is \<open>std::mem::size_of::<Self>()\<close>.\<close>

definition cosmos_signed_size :: "nat \<Rightarrow> cosmos_signed \<Rightarrow> nat" where
  "cosmos_signed_size size_of_self tx =
     size_of_self + length (op_input (cs_operation tx)) + length (cs_public_key tx) + length (cs_raw tx)"

section \<open>The JSON-RPC form\<close>

text \<open>The struct \<open>Rpc\<close> between the container and its JSON object.\<close>

record rpc_form =
  rpc_tx_type :: cosmos_tx_type
  rpc_operation :: operation
  rpc_public_key :: bytes
  rpc_cosmos_signature :: bytes
  rpc_hash :: b256

definition cosmos_signed_serialize :: "('vk, 'sg, 'm) prim_lib_scheme \<Rightarrow> cosmos_signed \<Rightarrow> rpc_form" where
  "cosmos_signed_serialize L tx =
     \<lparr>rpc_tx_type = COSMOS,
      rpc_operation = cs_operation tx,
      rpc_public_key = cs_public_key tx,
      rpc_cosmos_signature = signature_bytes L tx,
      rpc_hash = cs_hash tx\<rparr>"

definition cosmos_signed_deserialize ::
  "('vk, 'sg, 'm) prim_lib_scheme \<Rightarrow> rpc_form \<Rightarrow> (string, cosmos_signed) outcome" where
  "cosmos_signed_deserialize L rpc =
     and_then (map_err auth_error_message
       (cosmos_signed_new L (rpc_operation rpc) (rpc_public_key rpc) (rpc_cosmos_signature rpc))) (\<lambda>tx.
     if rpc_tx_type rpc \<noteq> COSMOS \<or> cs_hash tx \<noteq> rpc_hash rpc
     then Err ''Cosmos type or hash mismatch'' else Ok tx)"

section \<open>The trait \<open>Transaction\<close>\<close>

datatype tx_kind = Create | Call address

type_synonym access_list = "(address \<times> b256 list) list"

record signed_authorization =
  sa_chain_id :: u256
  sa_address :: address
  sa_nonce :: u64
  sa_y_parity :: byte
  sa_r :: u256
  sa_s :: u256

text \<open>The methods of \<open>alloy_consensus::Transaction\<close> for a type \<open>'x\<close>.\<close>

record 'x tx_ops =
  t_chain_id :: "'x \<Rightarrow> u64 option"
  t_nonce :: "'x \<Rightarrow> u64"
  t_gas_limit :: "'x \<Rightarrow> u64"
  t_gas_price :: "'x \<Rightarrow> u128 option"
  t_max_fee_per_gas :: "'x \<Rightarrow> u128"
  t_max_priority_fee_per_gas :: "'x \<Rightarrow> u128 option"
  t_max_fee_per_blob_gas :: "'x \<Rightarrow> u128 option"
  t_priority_fee_or_price :: "'x \<Rightarrow> u128"
  t_effective_gas_price :: "'x \<Rightarrow> u64 option \<Rightarrow> u128"
  t_is_dynamic_fee :: "'x \<Rightarrow> bool"
  t_kind :: "'x \<Rightarrow> tx_kind"
  t_is_create :: "'x \<Rightarrow> bool"
  t_value :: "'x \<Rightarrow> u256"
  t_input :: "'x \<Rightarrow> bytes"
  t_access_list :: "'x \<Rightarrow> access_list option"
  t_blob_versioned_hashes :: "'x \<Rightarrow> b256 list option"
  t_authorization_list :: "'x \<Rightarrow> signed_authorization list option"

definition cosmos_tx_ops :: "('vk, 'sg, 'm) prim_lib_scheme \<Rightarrow> cosmos_signed tx_ops" where
  "cosmos_tx_ops L = \<lparr>
     t_chain_id = (\<lambda>tx. Some (op_chain_id (cs_operation tx))),
     t_nonce = (\<lambda>tx. op_nonce (cs_operation tx)),
     t_gas_limit = (\<lambda>tx. op_gas_limit (cs_operation tx)),
     t_gas_price = (\<lambda>tx. None),
     t_max_fee_per_gas = (\<lambda>tx. op_max_fee_per_gas (cs_operation tx)),
     t_max_priority_fee_per_gas = (\<lambda>tx. Some (op_max_priority_fee_per_gas (cs_operation tx))),
     t_max_fee_per_blob_gas = (\<lambda>tx. None),
     t_priority_fee_or_price = (\<lambda>tx. op_max_priority_fee_per_gas (cs_operation tx)),
     t_effective_gas_price = (\<lambda>tx base_fee.
       calc_effective_gas_price L (op_max_fee_per_gas (cs_operation tx))
         (op_max_priority_fee_per_gas (cs_operation tx)) base_fee),
     t_is_dynamic_fee = (\<lambda>tx. True),
     t_kind = (\<lambda>tx. Call (op_to (cs_operation tx))),
     t_is_create = (\<lambda>tx. False),
     t_value = (\<lambda>tx. op_value (cs_operation tx)),
     t_input = (\<lambda>tx. op_input (cs_operation tx)),
     t_access_list = (\<lambda>tx. None),
     t_blob_versioned_hashes = (\<lambda>tx. None),
     t_authorization_list = (\<lambda>tx. None)\<rparr>"

section \<open>The invariant\<close>

definition wf_signed :: "('vk, 'sg, 'm) prim_lib_scheme \<Rightarrow> cosmos_signed \<Rightarrow> bool" where
  "wf_signed L tx \<longleftrightarrow>
     (\<exists>op sg. cosmos_signed_new L op (cs_public_key tx) sg = Ok tx)"

text \<open>What holds of every value of the type, whatever the libraries do.\<close>

lemma new_OkD:
  assumes "cosmos_signed_new L op key sg = Ok tx"
  shows "cs_public_key tx = key" "cs_raw tx = encode_wire L op key sg"
    "cs_hash tx = transaction_hash L (cs_raw tx)" "length key = 33" "length sg = 64"
    "within_limits op" "within_limits (cs_operation tx)" "length (cs_raw tx) \<le> MAX_RAW_TX"
  using assms
  by (auto simp: cosmos_signed_new_def Let_def outcome_simps dest: decode_wire_OkD split: if_splits)

lemma new_wf: "cosmos_signed_new L op key sg = Ok tx \<Longrightarrow> wf_signed L tx"
  unfolding wf_signed_def using new_OkD(1) by metis

text \<open>With the library laws the constructor is a total, explicit function of its arguments.\<close>

definition signed_value ::
  "('vk, 'sg, 'm) prim_lib_scheme \<Rightarrow> operation \<Rightarrow> bytes \<Rightarrow> bytes \<Rightarrow> cosmos_signed" where
  "signed_value L op key sg =
     \<lparr>cs_operation = op, cs_public_key = key,
      cs_signature = \<lparr>sig_r = u256_from_be_slice L (take 32 sg),
                      sig_s = u256_from_be_slice L (drop 32 sg), sig_v = False\<rparr>,
      cs_hash = transaction_hash L (encode_wire L op key sg),
      cs_raw = encode_wire L op key sg\<rparr>"

context chain_libs
begin

lemma new_eq:
  "within_limits op \<Longrightarrow> length key = 33 \<Longrightarrow> length sg = 64 \<Longrightarrow>
     cosmos_signed_new P op key sg = Ok (signed_value P op key sg)"
  using decode_wire_encode_wire [of op key sg] validate_limits_Ok [of op "()"]
  by (simp add: cosmos_signed_new_def signed_value_def Let_def del: validate_limits_Ok)

lemma new_Ok_iff:
  "cosmos_signed_new P op key sg = Ok tx \<longleftrightarrow>
     within_limits op \<and> length key = 33 \<and> length sg = 64 \<and> tx = signed_value P op key sg"
  using new_eq [of op key sg] new_OkD [of P op key sg] by auto

lemma new_returns: "cosmos_signed_new P op key sg \<noteq> Panic"
  by (auto simp: cosmos_signed_new_def Let_def outcome_simps validate_limits_returns
      decode_wire_returns dest: decode_wire_OkD)

lemma wf_signed_iff:
  "wf_signed P tx \<longleftrightarrow>
     (\<exists>op key sg. within_limits op \<and> length key = 33 \<and> length sg = 64 \<and> tx = signed_value P op key sg)"
  by (auto simp: wf_signed_def new_Ok_iff) (auto simp: signed_value_def)

lemma signature_bytes_signed_value:
  "length sg = 64 \<Longrightarrow> signature_bytes P (signed_value P op key sg) = sg"
  using as_bytes_from_be [of "take 32 sg" "drop 32 sg" False]
  by (simp add: signature_bytes_def signed_value_def)

lemma wf_signed_eqD:
  assumes "wf_signed P tx"
  shows "tx = signed_value P (cs_operation tx) (cs_public_key tx) (signature_bytes P tx)"
    "within_limits (cs_operation tx)" "length (cs_public_key tx) = 33"
    "length (signature_bytes P tx) = 64"
  using assms by (auto simp: wf_signed_iff signature_bytes_signed_value)
    (simp_all add: signed_value_def)

lemma wf_signed_new:
  assumes "wf_signed P tx"
  shows "cosmos_signed_new P (cs_operation tx) (cs_public_key tx) (signature_bytes P tx) = Ok tx"
  using wf_signed_eqD [OF assms] by (simp add: new_Ok_iff)

lemma wf_signed_raw:
  assumes "wf_signed P tx"
  shows "cs_raw tx = encode_wire P (cs_operation tx) (cs_public_key tx) (signature_bytes P tx)"
  using new_OkD(2) [OF wf_signed_new [OF assms]] .

lemma cosmos_signed_verify_Ok:
  "cosmos_signed_verify P tx = Ok a \<longleftrightarrow>
     authorized P GENESIS_HASH (cs_operation tx) (cs_public_key tx) (signature_bytes P tx)
     \<and> a = op_sender (cs_operation tx)"
  by (simp add: cosmos_signed_verify_def outcome_simps verify_Ok_iff)

end

section \<open>Properties\<close>

text \<open>The transaction that carries \<open>sample_op\<close>.\<close>

definition sample_tx :: cosmos_signed where
  "sample_tx = signed_value ref_libs sample_op fixture_key sample_sig"

lemma sample_tx_new: "cosmos_signed_new ref_libs sample_op fixture_key sample_sig = Ok sample_tx"
  by (simp add: sample_tx_def ref.new_eq)

lemma sample_tx_facts [simp]: "wf_signed ref_libs sample_tx" "cs_operation sample_tx = sample_op"
  "cs_public_key sample_tx = fixture_key" "signature_bytes ref_libs sample_tx = sample_sig"
  using new_wf [OF sample_tx_new]
  by (simp_all add: sample_tx_def ref.signature_bytes_signed_value) (simp_all add: signed_value_def)

text \<open>The constructor is total and says why it refuses: within the limits, with a 33-byte key and a
  64-byte signature it always succeeds, so re-decoding its own bytes never fails, and the container
  it builds carries the given operation, the encoded transaction and its hash.\<close>

lemma cosmos_signed_new_total:
  assumes "chain_libs L"
  shows "cosmos_signed_new L op key sg =
    (if \<not> within_limits op then Err Limit
     else if length key \<noteq> 33 then Err PublicKey
     else if length sg \<noteq> 64 then Err Signature
     else Ok \<lparr>cs_operation = op, cs_public_key = key,
              cs_signature = \<lparr>sig_r = u256_from_be_slice L (take 32 sg),
                              sig_s = u256_from_be_slice L (drop 32 sg), sig_v = False\<rparr>,
              cs_hash = transaction_hash L (encode_wire L op key sg),
              cs_raw = encode_wire L op key sg\<rparr>)"
  using chain_libs.new_eq [OF assms, of op key sg] validate_limits_not_Ok [of op]
    validate_limits_Ok [of op "()"]
  by (auto simp: cosmos_signed_new_def signed_value_def simp del: validate_limits_Ok)

text \<open>C3. The cached bytes cannot diverge from the fields: in every container the constructor returns, the
  raw bytes are the encoding of the operation, key and original signature, they decode to exactly
  those, the hash is their hash, and verification of the container is verification of those three
  under the chain's genesis.\<close>

theorem cosmos_signed_invariant:
  assumes "chain_libs L" "wf_signed L tx"
  shows "cs_raw tx = encode_wire L (cs_operation tx) (cs_public_key tx) (signature_bytes L tx)
    \<and> decode_wire L (cs_raw tx) = Ok (cs_operation tx, cs_public_key tx, signature_bytes L tx)
    \<and> cs_hash tx = keccak256 L (cs_raw tx)
    \<and> (cosmos_signed_verify L tx = Ok a \<longleftrightarrow>
         authorized L GENESIS_HASH (cs_operation tx) (cs_public_key tx) (signature_bytes L tx)
         \<and> a = op_sender (cs_operation tx))"
proof -
  note wf = chain_libs.wf_signed_eqD [OF assms]
  have raw: "cs_raw tx = encode_wire L (cs_operation tx) (cs_public_key tx) (signature_bytes L tx)"
    by (rule chain_libs.wf_signed_raw [OF assms])
  moreover have "cs_hash tx = keccak256 L (cs_raw tx)"
    using new_OkD(3) [OF chain_libs.wf_signed_new [OF assms]] by (simp add: transaction_hash_def)
  ultimately show ?thesis
    using rlp_codec.decode_wire_encode_wire [OF chain_libs.axioms(1) [OF assms(1)] wf(2-4)]
    by (simp add: chain_libs.cosmos_signed_verify_Ok [OF assms(1)])
qed

theorem cosmos_signed_invariant_witness:
  "cosmos_signed_verify ref_libs sample_tx = Ok (op_sender sample_op)
   \<and> decode_wire ref_libs (cs_raw sample_tx) = Ok (sample_op, fixture_key, sample_sig)"
  using cosmos_signed_invariant [OF ref.chain_libs_axioms sample_tx_facts(1), of "op_sender sample_op"]
    sample_authorized
  by auto

text \<open>C31. The JSON-RPC form round-trips and is checked: deserializing the serialized container gives it
  back, and every form that deserializes is the serialization of a well-formed container; a
  wrong hash or type is refused.\<close>

theorem serde_roundtrip:
  assumes "chain_libs L"
  shows "cosmos_signed_deserialize L form = Ok tx \<longleftrightarrow>
    wf_signed L tx \<and> form = cosmos_signed_serialize L tx"
proof -
  have there: "cosmos_signed_deserialize L (cosmos_signed_serialize L tx) = Ok tx" if "wf_signed L tx" for tx
    using chain_libs.wf_signed_new [OF assms that]
    by (simp add: cosmos_signed_deserialize_def cosmos_signed_serialize_def)
  have forth: "wf_signed L tx \<and> form = cosmos_signed_serialize L tx"
    if "cosmos_signed_deserialize L form = Ok tx"
  proof -
    from that have new: "cosmos_signed_new L (rpc_operation form) (rpc_public_key form)
        (rpc_cosmos_signature form) = Ok tx"
      and same: "rpc_tx_type form = COSMOS" "rpc_hash form = cs_hash tx"
      by (auto simp: cosmos_signed_deserialize_def outcome_simps split: if_splits)
    then have "tx = signed_value L (rpc_operation form) (rpc_public_key form) (rpc_cosmos_signature form)"
      and "length (rpc_cosmos_signature form) = 64"
      by (simp_all add: chain_libs.new_Ok_iff [OF assms])
    with same new_wf [OF new] show ?thesis
      by (simp add: cosmos_signed_serialize_def chain_libs.signature_bytes_signed_value [OF assms])
        (simp add: signed_value_def)
  qed
  show ?thesis
    using there forth by blast
qed

theorem serde_roundtrip_witness:
  "cosmos_signed_deserialize ref_libs (cosmos_signed_serialize ref_libs sample_tx) = Ok sample_tx
   \<and> cosmos_signed_deserialize ref_libs ((cosmos_signed_serialize ref_libs sample_tx)\<lparr>rpc_tx_type := CosmosTxType 2\<rparr>)
       \<noteq> Ok sample_tx"
proof -
  have "(cosmos_signed_serialize ref_libs sample_tx)\<lparr>rpc_tx_type := CosmosTxType 2\<rparr>
      \<noteq> cosmos_signed_serialize ref_libs sample_tx"
    by (simp add: cosmos_signed_serialize_def COSMOS_def TX_TYPE_def)
  then show ?thesis
    using serde_roundtrip [OF ref.chain_libs_axioms] sample_tx_facts(1) by blast
qed

end
