(* ===== verification/Envelope.thy ===== *)
theory Envelope
  imports Cosmos_Signed
begin

text \<open>
  \<open>src/primitives/envelope.rs\<close>: the chain's transaction is an Ethereum transaction of an
  upstream type \<open>'t\<close> or a Cosmos one. The upstream type is known by its trait methods only: a
  record \<open>T\<close> of functions, the dictionary of the bounds on \<open>T\<close>. Each \<open>impl\<close> for the envelope
  is the construction of its own dictionary from \<open>T\<close> and the Cosmos container.
\<close>

datatype 't envelope = Ethereum 't | Cosmos cosmos_signed

definition envelope_default :: "'t \<Rightarrow> 't envelope" where
  "envelope_default t_default = Ethereum t_default"

section \<open>Transaction\<close>

definition envelope_tx_ops ::
  "('vk, 'sg, 'm) prim_lib_scheme \<Rightarrow> ('t, 'z) tx_ops_scheme \<Rightarrow> 't envelope tx_ops" where
  "envelope_tx_ops L T = (let C = cosmos_tx_ops L in \<lparr>
     t_chain_id = case_envelope (t_chain_id T) (t_chain_id C),
     t_nonce = case_envelope (t_nonce T) (t_nonce C),
     t_gas_limit = case_envelope (t_gas_limit T) (t_gas_limit C),
     t_gas_price = case_envelope (t_gas_price T) (t_gas_price C),
     t_max_fee_per_gas = case_envelope (t_max_fee_per_gas T) (t_max_fee_per_gas C),
     t_max_priority_fee_per_gas =
       case_envelope (t_max_priority_fee_per_gas T) (t_max_priority_fee_per_gas C),
     t_max_fee_per_blob_gas = case_envelope (t_max_fee_per_blob_gas T) (t_max_fee_per_blob_gas C),
     t_priority_fee_or_price = case_envelope (t_priority_fee_or_price T) (t_priority_fee_or_price C),
     t_effective_gas_price = case_envelope (t_effective_gas_price T) (t_effective_gas_price C),
     t_is_dynamic_fee = case_envelope (t_is_dynamic_fee T) (t_is_dynamic_fee C),
     t_kind = case_envelope (t_kind T) (t_kind C),
     t_is_create = case_envelope (t_is_create T) (t_is_create C),
     t_value = case_envelope (t_value T) (t_value C),
     t_input = case_envelope (t_input T) (t_input C),
     t_access_list = case_envelope (t_access_list T) (t_access_list C),
     t_blob_versioned_hashes =
       case_envelope (t_blob_versioned_hashes T) (t_blob_versioned_hashes C),
     t_authorization_list = case_envelope (t_authorization_list T) (t_authorization_list C)\<rparr>)"

section \<open>The other traits of the bound type\<close>

text \<open>
  \<open>Typed2718\<close>, \<open>IsTyped2718\<close>, \<open>InMemorySize\<close>, \<open>TxHashRef\<close>, \<open>SignerRecoverable\<close>,
  \<open>Encodable2718\<close> and \<open>Decodable2718\<close>. The two \<open>with_buf\<close> recoveries may use and change the
  caller's scratch buffer, which is returned.
\<close>

record 'x tx_traits = "'x tx_ops" +
  t_ty :: "'x \<Rightarrow> byte"
  t_is_type :: "byte \<Rightarrow> bool"
  t_size :: "'x \<Rightarrow> nat"
  t_tx_hash :: "'x \<Rightarrow> b256"
  t_recover_signer :: "'x \<Rightarrow> (recovery_error, address) outcome"
  t_recover_signer_unchecked :: "'x \<Rightarrow> (recovery_error, address) outcome"
  t_recover_with_buf :: "'x \<Rightarrow> bytes \<Rightarrow> (recovery_error, address) outcome \<times> bytes"
  t_recover_unchecked_with_buf :: "'x \<Rightarrow> bytes \<Rightarrow> (recovery_error, address) outcome \<times> bytes"
  t_encode_2718_len :: "'x \<Rightarrow> nat"
  t_encode_2718 :: "'x \<Rightarrow> bytes"
  t_typed_decode :: "byte \<Rightarrow> bytes \<Rightarrow> (eip2718_error, 'x \<times> bytes) outcome"
  t_fallback_decode :: "bytes \<Rightarrow> (eip2718_error, 'x \<times> bytes) outcome"

section \<open>Types, sizes and hashes\<close>

definition envelope_ty :: "('t, 'z) tx_traits_scheme \<Rightarrow> 't envelope \<Rightarrow> byte" where
  "envelope_ty T e = (case e of Ethereum t \<Rightarrow> t_ty T t | Cosmos t \<Rightarrow> cosmos_signed_ty t)"

definition envelope_tx_type ::
  "('t, 'z) tx_traits_scheme \<Rightarrow> (byte \<Rightarrow> bool) \<Rightarrow> 't envelope \<Rightarrow> ('e, cosmos_tx_type) outcome" where
  "envelope_tx_type T V e = unwrap (tx_type_try_from V (envelope_ty T e))"

definition envelope_is_type :: "('t, 'z) tx_traits_scheme \<Rightarrow> byte \<Rightarrow> bool" where
  "envelope_is_type T ty \<longleftrightarrow> ty = TX_TYPE \<or> t_is_type T ty"

definition envelope_size :: "('t, 'z) tx_traits_scheme \<Rightarrow> nat \<Rightarrow> 't envelope \<Rightarrow> nat" where
  "envelope_size T size_of_signed e =
     (case e of Ethereum t \<Rightarrow> t_size T t | Cosmos t \<Rightarrow> cosmos_signed_size size_of_signed t)"

definition envelope_tx_hash :: "('t, 'z) tx_traits_scheme \<Rightarrow> 't envelope \<Rightarrow> b256" where
  "envelope_tx_hash T e = (case e of Ethereum t \<Rightarrow> t_tx_hash T t | Cosmos t \<Rightarrow> cs_hash t)"

section \<open>Sender recovery\<close>

definition envelope_recover_signer ::
  "('vk, 'sg, 'm) prim_lib_scheme \<Rightarrow> ('t, 'z) tx_traits_scheme \<Rightarrow> 't envelope
     \<Rightarrow> (recovery_error, address) outcome" where
  "envelope_recover_signer L T e =
     (case e of Ethereum t \<Rightarrow> t_recover_signer T t | Cosmos t \<Rightarrow> cosmos_signed_verify L t)"

definition envelope_recover_signer_unchecked ::
  "('vk, 'sg, 'm) prim_lib_scheme \<Rightarrow> ('t, 'z) tx_traits_scheme \<Rightarrow> 't envelope
     \<Rightarrow> (recovery_error, address) outcome" where
  "envelope_recover_signer_unchecked L T e =
     (case e of Ethereum t \<Rightarrow> t_recover_signer_unchecked T t | Cosmos t \<Rightarrow> cosmos_signed_verify L t)"

definition envelope_recover_with_buf ::
  "('vk, 'sg, 'm) prim_lib_scheme \<Rightarrow> ('t, 'z) tx_traits_scheme \<Rightarrow> 't envelope \<Rightarrow> bytes
     \<Rightarrow> (recovery_error, address) outcome \<times> bytes" where
  "envelope_recover_with_buf L T e buf =
     (case e of Ethereum t \<Rightarrow> t_recover_with_buf T t buf | Cosmos t \<Rightarrow> (cosmos_signed_verify L t, buf))"

definition envelope_recover_unchecked_with_buf ::
  "('vk, 'sg, 'm) prim_lib_scheme \<Rightarrow> ('t, 'z) tx_traits_scheme \<Rightarrow> 't envelope \<Rightarrow> bytes
     \<Rightarrow> (recovery_error, address) outcome \<times> bytes" where
  "envelope_recover_unchecked_with_buf L T e buf =
     (case e of Ethereum t \<Rightarrow> t_recover_unchecked_with_buf T t buf
      | Cosmos t \<Rightarrow> (cosmos_signed_verify L t, buf))"

section \<open>The EIP-2718 form\<close>

definition envelope_encode_2718_len :: "('t, 'z) tx_traits_scheme \<Rightarrow> 't envelope \<Rightarrow> nat" where
  "envelope_encode_2718_len T e =
     (case e of Ethereum t \<Rightarrow> t_encode_2718_len T t | Cosmos t \<Rightarrow> length (cs_raw t))"

definition envelope_encode_2718 :: "('t, 'z) tx_traits_scheme \<Rightarrow> 't envelope \<Rightarrow> bytes" where
  "envelope_encode_2718 T e = (case e of Ethereum t \<Rightarrow> t_encode_2718 T t | Cosmos t \<Rightarrow> cs_raw t)"

definition envelope_typed_decode ::
  "('vk, 'sg, 'm) prim_lib_scheme \<Rightarrow> ('t, 'z) tx_traits_scheme \<Rightarrow> byte \<Rightarrow> bytes
     \<Rightarrow> (eip2718_error, 't envelope \<times> bytes) outcome" where
  "envelope_typed_decode L T ty buf =
     (if ty \<noteq> TX_TYPE then map_ok (map_prod Ethereum id) (t_typed_decode T ty buf)
      else
        and_then (map_err RlpError (header_decode L buf)) (\<lambda>(h, _).
        let len = header_length L h + payload_length h
        in if \<not> list_flag h \<or> MAX_RAW_TX - 1 < len \<or> length buf < len
           then Err (RlpError (Custom ''invalid Cosmos transaction size''))
           else
             and_then (slice_to buf len) (\<lambda>body.
             let raw = ty # body
             in and_then (map_err (\<lambda>_. RlpError (Custom ''invalid Cosmos encoding'')) (decode_wire L raw))
                  (\<lambda>(op, key, sig).
                and_then (map_err (\<lambda>_. RlpError (Custom ''invalid Cosmos encoding''))
                    (cosmos_signed_new L op key sig)) (\<lambda>signed.
                and_then (slice_from buf len) (\<lambda>rest.
                  Ok (Cosmos signed, rest)))))))"

definition envelope_fallback_decode ::
  "('t, 'z) tx_traits_scheme \<Rightarrow> bytes \<Rightarrow> (eip2718_error, 't envelope \<times> bytes) outcome" where
  "envelope_fallback_decode T buf = map_ok (map_prod Ethereum id) (t_fallback_decode T buf)"

text \<open>The dictionary of the envelope: what upstream code generic over these traits is given.\<close>

definition envelope_traits ::
  "('vk, 'sg, 'm) prim_lib_scheme \<Rightarrow> ('t, 'z) tx_traits_scheme \<Rightarrow> nat \<Rightarrow> 't envelope tx_traits" where
  "envelope_traits L T size_of_signed =
     tx_ops.extend (envelope_tx_ops L T)
       \<lparr>t_ty = envelope_ty T, t_is_type = envelope_is_type T, t_size = envelope_size T size_of_signed,
        t_tx_hash = envelope_tx_hash T,
        t_recover_signer = envelope_recover_signer L T,
        t_recover_signer_unchecked = envelope_recover_signer_unchecked L T,
        t_recover_with_buf = envelope_recover_with_buf L T,
        t_recover_unchecked_with_buf = envelope_recover_unchecked_with_buf L T,
        t_encode_2718_len = envelope_encode_2718_len T, t_encode_2718 = envelope_encode_2718 T,
        t_typed_decode = envelope_typed_decode L T, t_fallback_decode = envelope_fallback_decode T\<rparr>"

section \<open>Pooled and consensus transactions\<close>

text \<open>
  \<open>From<PooledTransaction>\<close> and its partial inverse; \<open>into\<close> and \<open>try_into_pooled\<close> are upstream's
  conversions of the Ethereum variants, the latter returning the transaction it refuses.
\<close>

definition transaction_from_pooled :: "('p \<Rightarrow> 't) \<Rightarrow> 'p envelope \<Rightarrow> 't envelope" where
  "transaction_from_pooled into tx = (case tx of Ethereum t \<Rightarrow> Ethereum (into t) | Cosmos t \<Rightarrow> Cosmos t)"

definition pooled_try_from ::
  "('t \<Rightarrow> ('t, 'p) outcome) \<Rightarrow> 't envelope \<Rightarrow> ('t envelope, 'p envelope) outcome" where
  "pooled_try_from try_into_pooled tx =
     (case tx of
        Ethereum t \<Rightarrow> map_err Ethereum (map_ok Ethereum (try_into_pooled t))
      | Cosmos t \<Rightarrow> Ok (Cosmos t))"

section \<open>Facts\<close>

context chain_libs
begin

lemma typed_decode_cosmos_returns: "envelope_typed_decode P T TX_TYPE buf \<noteq> Panic"
  by (auto simp: envelope_typed_decode_def outcome_simps Let_def decoders_return decode_wire_returns new_returns
      split: if_splits)

lemma typed_decode_cosmos_Err:
  "envelope_typed_decode P T TX_TYPE buf = Err e \<Longrightarrow> \<exists>r. e = RlpError r"
  by (auto simp: envelope_typed_decode_def outcome_simps Let_def split: if_splits)

lemma typed_decode_OkD:
  assumes "envelope_typed_decode P T TX_TYPE buf = Ok (e, rest)"
  shows "\<exists>tx. e = Cosmos tx \<and> wf_signed P tx \<and> TX_TYPE # buf = cs_raw tx @ rest"
proof -
  from assms obtain len op key sg tx where
    "decode_wire P (TX_TYPE # take len buf) = Ok (op, key, sg)"
    and new: "cosmos_signed_new P op key sg = Ok tx" and e: "e = Cosmos tx" "rest = drop len buf"
    by (auto simp: envelope_typed_decode_def outcome_simps Let_def split: if_splits)
  then have "cs_raw tx = TX_TYPE # take len buf"
    using decode_wire_OkD(1) new_OkD(2) [OF new] by metis
  with e new_wf [OF new] show ?thesis
    by (metis append_Cons append_take_drop_id)
qed

lemma typed_decode_raw:
  assumes "wf_signed P tx"
  shows "\<exists>body. cs_raw tx = TX_TYPE # body
    \<and> envelope_typed_decode P T TX_TYPE (body @ rest) = Ok (Cosmos tx, rest)"
proof -
  let ?sg = "signature_bytes P tx"
  note wf = wf_signed_eqD [OF assms]
  let ?fields = "wire_fields P (cs_operation tx) (cs_public_key tx) ?sg"
  let ?body = "rlp_list P ?fields"
  have raw: "cs_raw tx = TX_TYPE # ?body"
    using wf_signed_raw [OF assms] by (simp add: encode_wire_def)
  have decodes: "decode_wire P (TX_TYPE # ?body) = Ok (cs_operation tx, cs_public_key tx, ?sg)"
    using decode_wire_encode_wire [OF wf(2-4)] by (simp add: encode_wire_def)
  have size: "length ?fields < 2 ^ 64" "length ?body \<le> MAX_RAW_TX - 1"
    using wire_fields_size [of "cs_operation tx" "cs_public_key tx" ?sg] wf(2-4)
      decode_wire_OkD(5) [OF decodes]
    by (simp_all add: within_limits_def MAX_CALLDATA_def)
  have "header_decode P (?body @ rest) = Ok (list_header (length ?fields), ?fields @ rest)"
    using size(1) header_roundtrip [of "length ?fields" "?fields @ rest"] by (simp add: rlp_list_def)
  moreover have "header_length P (list_header (length ?fields)) + length ?fields = length ?body"
    by (simp add: rlp_list_def header_length_eq)
  ultimately have "envelope_typed_decode P T TX_TYPE (?body @ rest) = Ok (Cosmos tx, rest)"
    using size(2) decodes wf_signed_new [OF assms]
    by (simp add: envelope_typed_decode_def Let_def)
  with raw show ?thesis by blast
qed

lemma typed_decode_returns:
  assumes "\<And>ty b. t_typed_decode T ty b \<noteq> Panic"
  shows "envelope_typed_decode P T ty buf \<noteq> Panic"
  using assms
  by (auto simp: envelope_typed_decode_def outcome_simps Let_def decoders_return decode_wire_returns
      new_returns split: if_splits)

end

section \<open>Properties\<close>

text \<open>
  A dictionary for the witnesses: an Ethereum transaction is a byte string that stands for
  itself, with type 2, sender 1 and every quantity zero.
\<close>

definition ref_eth :: "bytes tx_traits" where
  "ref_eth = \<lparr>
     t_chain_id = (\<lambda>_. Some 366036), t_nonce = (\<lambda>_. 0), t_gas_limit = (\<lambda>_. 21000),
     t_gas_price = (\<lambda>_. None), t_max_fee_per_gas = (\<lambda>_. 0), t_max_priority_fee_per_gas = (\<lambda>_. Some 0),
     t_max_fee_per_blob_gas = (\<lambda>_. None), t_priority_fee_or_price = (\<lambda>_. 0),
     t_effective_gas_price = (\<lambda>_ _. 0), t_is_dynamic_fee = (\<lambda>_. True), t_kind = (\<lambda>_. Create),
     t_is_create = (\<lambda>_. True), t_value = (\<lambda>_. 0), t_input = (\<lambda>t. t), t_access_list = (\<lambda>_. None),
     t_blob_versioned_hashes = (\<lambda>_. None), t_authorization_list = (\<lambda>_. None),
     t_ty = (\<lambda>_. 2), t_is_type = (\<lambda>v. v < 5), t_size = length,
     t_tx_hash = (\<lambda>t. word_of_nat (be_nat t)),
     t_recover_signer = (\<lambda>_. Ok 1), t_recover_signer_unchecked = (\<lambda>_. Ok 1),
     t_recover_with_buf = (\<lambda>t buf. (Ok 1, buf)), t_recover_unchecked_with_buf = (\<lambda>t buf. (Ok 1, buf)),
     t_encode_2718_len = (\<lambda>t. Suc (length t)), t_encode_2718 = (\<lambda>t. 2 # t),
     t_typed_decode = (\<lambda>ty b. if ty = 2 then Ok (b, []) else Err (UnexpectedType ty)),
     t_fallback_decode = (\<lambda>b. Err (UnexpectedType 0))\<rparr>"

lemma ref_eth_sel [lib_simps]:
  "t_chain_id ref_eth t = Some 366036" "t_ty ref_eth t = 2" "t_is_type ref_eth v \<longleftrightarrow> v < 5"
  "t_tx_hash ref_eth t = word_of_nat (be_nat t)" "t_recover_signer ref_eth t = Ok 1"
  "t_encode_2718_len ref_eth t = Suc (length t)" "t_encode_2718 ref_eth t = 2 # t"
  "t_typed_decode ref_eth ty b = (if ty = 2 then Ok (b, []) else Err (UnexpectedType ty))"
  by (simp_all add: ref_eth_def)

text \<open>C16. Decoding a block or network transaction of type \<open>0x7e\<close> is exact: it yields a Cosmos
  container and never an Ethereum one, the container is well formed, and the bytes consumed are
  precisely its raw encoding, so nothing in the consumed part is ignored and nothing after it is
  touched. Conversely every well-formed container is decoded from its encoding, whatever
  follows.\<close>

theorem typed_decode_exact:
  assumes "chain_libs L"
  shows "envelope_typed_decode L T TX_TYPE buf = Ok (e, rest) \<longleftrightarrow>
    (\<exists>tx. e = Cosmos tx \<and> wf_signed L tx \<and> TX_TYPE # buf = cs_raw tx @ rest)"
proof
  assume "envelope_typed_decode L T TX_TYPE buf = Ok (e, rest)"
  then show "\<exists>tx. e = Cosmos tx \<and> wf_signed L tx \<and> TX_TYPE # buf = cs_raw tx @ rest"
    by (rule chain_libs.typed_decode_OkD [OF assms])
next
  assume "\<exists>tx. e = Cosmos tx \<and> wf_signed L tx \<and> TX_TYPE # buf = cs_raw tx @ rest"
  then obtain tx where tx: "e = Cosmos tx" "wf_signed L tx" "TX_TYPE # buf = cs_raw tx @ rest"
    by blast
  from chain_libs.typed_decode_raw [OF assms tx(2)] obtain body where
    "cs_raw tx = TX_TYPE # body" "envelope_typed_decode L T TX_TYPE (body @ rest) = Ok (Cosmos tx, rest)"
    by blast
  with tx show "envelope_typed_decode L T TX_TYPE buf = Ok (e, rest)" by simp
qed

theorem typed_decode_exact_witness:
  "envelope_typed_decode ref_libs ref_eth TX_TYPE (tl (cs_raw sample_tx) @ [1, 2, 3])
     = Ok (Cosmos sample_tx, [1, 2, 3])"
proof -
  have "TX_TYPE # (tl (cs_raw sample_tx) @ [1, 2, 3]) = cs_raw sample_tx @ [1, 2, 3]"
    by (simp add: sample_tx_def signed_value_def encode_wire_def)
  with sample_tx_facts(1) show ?thesis
    by (subst typed_decode_exact [OF ref.chain_libs_axioms]) blast
qed

text \<open>C30. Untrusted bytes never panic the decoders or the check: whatever the bytes, no slice of the wire
  decoder, of the payload decoder and of the typed decoder is out of range, and no key or signature
  makes verification read one, given that the RLP library returns errors; each decodes or
  gives one of its own errors. Nothing at all is an encoding error, and anything longer than
  \<open>MAX_RAW_TX\<close> is refused as a limit before it is read.\<close>

theorem decoding_is_total:
  assumes "chain_libs L"
  shows "decode_wire L raw \<noteq> Panic \<and> decode_payload L raw \<noteq> Panic
    \<and> envelope_typed_decode L T TX_TYPE raw \<noteq> Panic \<and> verify L op key sg genesis \<noteq> Panic
    \<and> (\<forall>e. decode_wire L raw = Err e \<longrightarrow> e \<in> {Limit, Encoding, PublicKey, Signature})
    \<and> (\<forall>e. decode_payload L raw = Err e \<longrightarrow> e \<in> {Limit, Encoding})
    \<and> (\<forall>e. envelope_typed_decode L T TX_TYPE raw = Err e \<longrightarrow> (\<exists>r. e = RlpError r))
    \<and> decode_wire L [] = Err Encoding
    \<and> (MAX_RAW_TX < length raw \<longrightarrow> decode_wire L raw = Err Limit \<and> decode_payload L raw = Err Limit)"
proof -
  note rlp = chain_libs.axioms(1) [OF assms]
  have "decode_wire L [] = Err Encoding" by (simp add: decode_wire_def)
  moreover have "decode_wire L raw = Err Limit \<and> decode_payload L raw = Err Limit" if "MAX_RAW_TX < length raw"
    using that by (simp add: decode_wire_def decode_payload_def)
  ultimately show ?thesis
    using rlp_codec.decode_wire_returns [OF rlp] rlp_codec.decode_payload_returns [OF rlp]
      chain_libs.typed_decode_cosmos_returns [OF assms] verify_returns [OF chain_libs.axioms(2) [OF assms]]
      decode_wire_Err decode_payload_Err chain_libs.typed_decode_cosmos_Err [OF assms] by blast
qed

theorem decoding_is_total_witness:
  "decode_wire ref_libs (replicate 33281 0) = Err Limit \<and> decode_payload ref_libs [0xff] \<noteq> Panic
   \<and> envelope_typed_decode ref_libs ref_eth TX_TYPE [0xf8] \<noteq> Panic
   \<and> verify ref_libs sample_op [] [] GENESIS_HASH \<noteq> Panic"
proof (intro conjI)
  show "decode_wire ref_libs (replicate 33281 0) = Err Limit"
    using decoding_is_total [OF ref.chain_libs_axioms, of "replicate 33281 0" ref_eth sample_op "[]" "[]" GENESIS_HASH]
    by (simp add: size_limits)
qed (use decoding_is_total [OF ref.chain_libs_axioms, of _ ref_eth sample_op "[]" "[]" GENESIS_HASH] in blast)+

text \<open>The envelope decoder is total on untrusted bytes and separates the types: when the upstream
  decoder does not panic neither does it, and only type \<open>0x7e\<close> can produce a Cosmos
  transaction.\<close>

lemma typed_decode_total:
  assumes "chain_libs L" "\<And>ty b. t_typed_decode T ty b \<noteq> Panic"
  shows "envelope_typed_decode L T ty buf \<noteq> Panic
    \<and> (envelope_typed_decode L T ty buf = Ok (Cosmos tx, rest) \<longrightarrow> ty = TX_TYPE)
    \<and> (envelope_fallback_decode T buf \<noteq> Ok (Cosmos tx, rest))"
  using chain_libs.typed_decode_returns [OF assms(1), of T ty buf] assms(2)
  by (auto simp: envelope_typed_decode_def envelope_fallback_decode_def outcome_simps map_prod_def
      split: if_splits prod.splits)

text \<open>C25. There is no unchecked path to a Cosmos sender: all four recovery methods, the unchecked and
  buffered ones included, succeed exactly when the transaction is authorized under the chain's
  genesis and then give the sender named in the signed operation; the caller's scratch buffer is
  left alone.\<close>

theorem every_recovery_verifies:
  assumes "chain_libs L"
  shows "\<forall>r \<in> {envelope_recover_signer L T (Cosmos tx),
               envelope_recover_signer_unchecked L T (Cosmos tx),
               fst (envelope_recover_with_buf L T (Cosmos tx) buf),
               fst (envelope_recover_unchecked_with_buf L T (Cosmos tx) buf)}.
      r = (if authorized L GENESIS_HASH (cs_operation tx) (cs_public_key tx) (signature_bytes L tx)
           then Ok (op_sender (cs_operation tx)) else Err RecoveryError)
      \<and> snd (envelope_recover_with_buf L T (Cosmos tx) buf) = buf
      \<and> snd (envelope_recover_unchecked_with_buf L T (Cosmos tx) buf) = buf"
proof -
  have "cosmos_signed_verify L tx =
      (if authorized L GENESIS_HASH (cs_operation tx) (cs_public_key tx) (signature_bytes L tx)
       then Ok (op_sender (cs_operation tx)) else Err RecoveryError)"
    using verify_rejects [OF chain_libs.axioms(2) [OF assms]] chain_libs.cosmos_signed_verify_Ok [OF assms]
    by (simp add: cosmos_signed_verify_def)
  then show ?thesis
    by (simp add: envelope_recover_signer_def envelope_recover_signer_unchecked_def
        envelope_recover_with_buf_def envelope_recover_unchecked_with_buf_def)
qed

theorem every_recovery_verifies_witness:
  "envelope_recover_signer_unchecked ref_libs ref_eth (Cosmos sample_tx) = Ok (op_sender sample_op)
   \<and> envelope_recover_signer_unchecked ref_libs ref_eth (Cosmos (sample_tx\<lparr>cs_operation := fixture_op\<rparr>))
       = Err RecoveryError"
  using every_recovery_verifies [OF ref.chain_libs_axioms, of ref_eth sample_tx "[]"]
    every_recovery_verifies [OF ref.chain_libs_axioms, of ref_eth "sample_tx\<lparr>cs_operation := fixture_op\<rparr>" "[]"]
    sample_authorized
  by (simp add: authorized_def fixture_op_def GENESIS_HASH_def)

text \<open>The encoded length is the length of the encoding, for the whole envelope as soon as it is for the
  Ethereum variants, and a transaction's type is always one the chain knows, so \<open>tx_type\<close> does not
  panic.\<close>

lemma envelope_length_and_type:
  assumes "\<And>t. t_encode_2718_len T t = length (t_encode_2718 T t)" "\<And>t. V (t_ty T t)"
  shows "envelope_encode_2718_len T e = length (envelope_encode_2718 T e)
    \<and> envelope_tx_type T V e = (Ok (CosmosTxType (envelope_ty T e)) :: ('e, _) outcome)
    \<and> (case e of Cosmos tx \<Rightarrow> envelope_ty T e = 0x7e | Ethereum t \<Rightarrow> V (envelope_ty T e))"
  using assms
  by (cases e) (simp_all add: envelope_encode_2718_len_def envelope_encode_2718_def envelope_tx_type_def
      envelope_ty_def cosmos_signed_ty_def tx_type_try_from_def TX_TYPE_def)

text \<open>Pooling loses nothing: a consensus transaction obtained from a pooled one converts back to it
  whenever the upstream conversions do, a Cosmos transaction always converts both ways, and a
  refused conversion returns the transaction unchanged.\<close>

lemma pooled_conversion_roundtrip:
  assumes "\<And>p. try_into_pooled (into p) = Ok p" "\<And>t u. try_into_pooled t = Err u \<Longrightarrow> u = t"
  shows "pooled_try_from try_into_pooled (transaction_from_pooled into p) = Ok p
    \<and> pooled_try_from try_into_pooled (Cosmos c) = Ok (Cosmos c)
    \<and> (pooled_try_from try_into_pooled e = Err e' \<longrightarrow> e' = e)"
  using assms
  by (cases p; cases e) (auto simp: pooled_try_from_def transaction_from_pooled_def outcome_simps)

end
