(* ===== verification/Consensus.thy ===== *)
theory Consensus
  imports Envelope
begin

text \<open>
  \<open>src/consensus.rs\<close>: Cosmos authorization as a consensus rule in front of the upstream
  Ethereum rules. The record \<open>C\<close> is the wrapped \<open>EthBeaconConsensus\<close> with its chain
  specification; a header is the part of \<open>alloy_consensus::Header\<close> the chain's own code reads.
\<close>

section \<open>Blocks\<close>

record header =
  h_parent_hash :: b256
  h_parent_beacon_block_root :: "b256 option"
  h_extra_data :: bytes
  h_slot_number :: "u64 option"

record ('x, 'w) block =
  b_header :: header
  b_transactions :: "'x list"
  b_ommers :: "header list"
  b_withdrawals :: "'w list option"

text \<open>The variant of \<open>ConsensusError\<close> that the chain's code raises, and all others.\<close>

datatype 'e consensus_error = TransactionSignerRecoveryError | EthConsensusError 'e

record ('x, 'w, 'r, 'bl, 'e) eth_consensus =
  chain_genesis_hash :: b256
  eth_validate_header :: "header \<Rightarrow> ('e consensus_error, unit) outcome"
  eth_validate_header_against_parent :: "header \<Rightarrow> header \<Rightarrow> ('e consensus_error, unit) outcome"
  eth_validate_body_against_header :: "('x, 'w) block \<Rightarrow> header \<Rightarrow> ('e consensus_error, unit) outcome"
  eth_validate_pre_execution :: "('x, 'w) block \<Rightarrow> b256 option \<Rightarrow> ('e consensus_error, unit) outcome"
  eth_validate_post_execution :: "('x, 'w) block \<Rightarrow> 'r \<Rightarrow> 'bl option \<Rightarrow> b256 option
     \<Rightarrow> ('e consensus_error, unit) outcome"

text \<open>\<open>CosmosConsensus::new\<close>; \<open>eth_consensus_new\<close> is \<open>EthBeaconConsensus::new\<close>.\<close>

definition cosmos_consensus_new ::
  "('c \<Rightarrow> ('x, 'w, 'r, 'bl, 'e) eth_consensus) \<Rightarrow> 'c \<Rightarrow> ('x, 'w, 'r, 'bl, 'e) eth_consensus" where
  "cosmos_consensus_new eth_consensus_new chain = eth_consensus_new chain"

section \<open>Authorizations of a block\<close>

fun verify_transactions ::
  "('vk, 'sg, 'm) prim_lib_scheme \<Rightarrow> 't envelope list \<Rightarrow> ('e consensus_error, unit) outcome" where
  "verify_transactions L [] = Ok ()"
| "verify_transactions L (Cosmos tx # txs) =
     and_then (map_err (\<lambda>_. TransactionSignerRecoveryError) (cosmos_signed_verify L tx)) (\<lambda>_.
       verify_transactions L txs)"
| "verify_transactions L (Ethereum _ # txs) = verify_transactions L txs"

definition verify_authorizations ::
  "('vk, 'sg, 'm) prim_lib_scheme \<Rightarrow> ('t envelope, 'w, 'r, 'bl, 'e) eth_consensus \<Rightarrow> ('t envelope, 'w) block
     \<Rightarrow> ('e consensus_error, unit) outcome" where
  "verify_authorizations L C block =
     (if chain_genesis_hash C \<noteq> GENESIS_HASH then Err TransactionSignerRecoveryError
      else verify_transactions L (b_transactions block))"

section \<open>The consensus traits\<close>

definition validate_header ::
  "('t envelope, 'w, 'r, 'bl, 'e) eth_consensus \<Rightarrow> header \<Rightarrow> ('e consensus_error, unit) outcome" where
  "validate_header C header = eth_validate_header C header"

definition validate_header_against_parent ::
  "('t envelope, 'w, 'r, 'bl, 'e) eth_consensus \<Rightarrow> header \<Rightarrow> header \<Rightarrow> ('e consensus_error, unit) outcome" where
  "validate_header_against_parent C header parent = eth_validate_header_against_parent C header parent"

definition validate_body_against_header ::
  "('t envelope, 'w, 'r, 'bl, 'e) eth_consensus \<Rightarrow> ('t envelope, 'w) block \<Rightarrow> header
     \<Rightarrow> ('e consensus_error, unit) outcome" where
  "validate_body_against_header C body header = eth_validate_body_against_header C body header"

definition validate_block_pre_execution_with_tx_root ::
  "('vk, 'sg, 'm) prim_lib_scheme \<Rightarrow> ('t envelope, 'w, 'r, 'bl, 'e) eth_consensus \<Rightarrow> ('t envelope, 'w) block
     \<Rightarrow> b256 option \<Rightarrow> ('e consensus_error, unit) outcome" where
  "validate_block_pre_execution_with_tx_root L C block root =
     and_then (verify_authorizations L C block) (\<lambda>_. eth_validate_pre_execution C block root)"

definition validate_block_pre_execution ::
  "('vk, 'sg, 'm) prim_lib_scheme \<Rightarrow> ('t envelope, 'w, 'r, 'bl, 'e) eth_consensus \<Rightarrow> ('t envelope, 'w) block
     \<Rightarrow> ('e consensus_error, unit) outcome" where
  "validate_block_pre_execution L C block = validate_block_pre_execution_with_tx_root L C block None"

definition validate_block_post_execution ::
  "('t envelope, 'w, 'r, 'bl, 'e) eth_consensus \<Rightarrow> ('t envelope, 'w) block \<Rightarrow> 'r
     \<Rightarrow> 'bl option \<Rightarrow> b256 option \<Rightarrow> ('e consensus_error, unit) outcome" where
  "validate_block_post_execution C block result bloom bal =
     eth_validate_post_execution C block result bloom bal"

section \<open>Facts\<close>

definition tx_authorized :: "('vk, 'sg, 'm) prim_lib_scheme \<Rightarrow> cosmos_signed \<Rightarrow> bool" where
  "tx_authorized L tx \<longleftrightarrow>
     authorized L GENESIS_HASH (cs_operation tx) (cs_public_key tx) (signature_bytes L tx)"

context chain_libs
begin

lemma cosmos_signed_verify_eq:
  "cosmos_signed_verify P tx =
     (if tx_authorized P tx then Ok (op_sender (cs_operation tx)) else Err RecoveryError)"
  using verify_rejects [OF sign_text_axioms] cosmos_signed_verify_Ok
  by (simp add: cosmos_signed_verify_def tx_authorized_def)

lemma verify_transactions_eq:
  "verify_transactions P txs =
     (if \<forall>tx. Cosmos tx \<in> set txs \<longrightarrow> tx_authorized P tx then Ok ()
      else Err TransactionSignerRecoveryError)"
proof (induction txs)
  case (Cons e txs)
  then show ?case by (cases e) (auto simp: cosmos_signed_verify_eq)
qed simp

end

section \<open>Properties\<close>

text \<open>C2. Authorization is a consensus rule: a block passes pre-execution validation exactly when the
  chain has the pinned genesis, every Cosmos transaction in it is authorized, and the upstream
  Ethereum rules accept it. The outcome does not depend on pool admission, and supplying a
  transaction root does not skip the check.\<close>

theorem pre_execution_requires_authorization:
  assumes "chain_libs L"
  shows "validate_block_pre_execution_with_tx_root L C block root = Ok () \<longleftrightarrow>
    chain_genesis_hash C = GENESIS_HASH
    \<and> (\<forall>tx. Cosmos tx \<in> set (b_transactions block) \<longrightarrow>
         authorized L GENESIS_HASH (cs_operation tx) (cs_public_key tx) (signature_bytes L tx))
    \<and> eth_validate_pre_execution C block root = Ok ()"
  by (auto simp: validate_block_pre_execution_with_tx_root_def verify_authorizations_def
      chain_libs.verify_transactions_eq [OF assms] tx_authorized_def outcome_simps split: if_splits)

text \<open>A chain specification whose upstream rules accept everything, and a block for it.\<close>

definition lax_consensus :: "(bytes envelope, unit, unit, unit, unit) eth_consensus" where
  "lax_consensus = \<lparr>chain_genesis_hash = GENESIS_HASH, eth_validate_header = (\<lambda>_. Ok ()),
     eth_validate_header_against_parent = (\<lambda>_ _. Ok ()), eth_validate_body_against_header = (\<lambda>_ _. Ok ()),
     eth_validate_pre_execution = (\<lambda>_ _. Ok ()), eth_validate_post_execution = (\<lambda>_ _ _ _. Ok ())\<rparr>"

definition block_of :: "bytes envelope list \<Rightarrow> (bytes envelope, unit) block" where
  "block_of txs = \<lparr>b_header = \<lparr>h_parent_hash = GENESIS_HASH, h_parent_beacon_block_root = None,
       h_extra_data = [], h_slot_number = None\<rparr>,
     b_transactions = txs, b_ommers = [], b_withdrawals = Some []\<rparr>"

definition tampered_tx :: cosmos_signed where
  "tampered_tx = sample_tx\<lparr>cs_operation := fixture_op\<rparr>"

lemma tampered_not_authorized:
  "\<not> authorized ref_libs GENESIS_HASH (cs_operation tampered_tx) (cs_public_key tampered_tx) sg"
  by (simp add: tampered_tx_def authorized_def fixture_op_def GENESIS_HASH_def)

theorem pre_execution_requires_authorization_witness:
  "validate_block_pre_execution_with_tx_root ref_libs lax_consensus
      (block_of [Ethereum [1], Cosmos sample_tx]) None = Ok ()
   \<and> validate_block_pre_execution_with_tx_root ref_libs lax_consensus
      (block_of [Cosmos sample_tx, Cosmos tampered_tx]) (Some 0) \<noteq> Ok ()"
  using pre_execution_requires_authorization [OF ref.chain_libs_axioms, of lax_consensus]
    sample_authorized tampered_not_authorized
  by (auto simp: block_of_def lax_consensus_def)

text \<open>C28. An unauthorized transaction, or a chain with another genesis, is reported as
  \<open>TransactionSignerRecoveryError\<close> before any upstream rule is consulted: the result is the same
  for every upstream validator, and never a panic.\<close>

theorem unauthorized_block_error:
  assumes "chain_libs L"
    "chain_genesis_hash C \<noteq> GENESIS_HASH
     \<or> (Cosmos tx \<in> set (b_transactions block)
        \<and> \<not> authorized L GENESIS_HASH (cs_operation tx) (cs_public_key tx) (signature_bytes L tx))"
  shows "validate_block_pre_execution L C block = Err TransactionSignerRecoveryError
    \<and> validate_block_pre_execution_with_tx_root L (C\<lparr>eth_validate_pre_execution := v\<rparr>) block root
        = Err TransactionSignerRecoveryError"
  using assms(2)
  by (auto simp: validate_block_pre_execution_def validate_block_pre_execution_with_tx_root_def
      verify_authorizations_def chain_libs.verify_transactions_eq [OF assms(1)] tx_authorized_def)

theorem unauthorized_block_error_witness:
  "validate_block_pre_execution ref_libs lax_consensus (block_of [Cosmos sample_tx, Cosmos tampered_tx])
     = Err TransactionSignerRecoveryError"
  using unauthorized_block_error [OF ref.chain_libs_axioms, of lax_consensus tampered_tx
      "block_of [Cosmos sample_tx, Cosmos tampered_tx]"] tampered_not_authorized
  by (simp add: block_of_def)

end
