(* ===== verification/Evm_Adapter.thy ===== *)
theory Evm_Adapter
  imports Consensus
begin

text \<open>
  \<open>src/evm.rs\<close>: what the chain's own transactions look like to the upstream EVM. The record
  \<open>E\<close> holds the upstream conversions of the Ethereum variants, \<open>G\<close> the chain specification
  and the \<open>revm\<close> configuration. An \<open>ExecutionData\<close> is given by the values of its accessors.
\<close>

section \<open>Configuration\<close>

text \<open>
  \<open>CosmosEvmConfig\<close>. The constructors are upstream's; that of the executor factory is given the
  chain's receipt builder and \<open>EthEvmFactory::default()\<close>.
\<close>

record ('ec, 'fa, 'as) evm_config =
  ethereum :: 'ec
  factory :: 'fa
  assembler :: 'as

record ('c, 'rb, 'ec, 'fa, 'as) evm_constructors =
  eth_evm_config_new :: "'c \<Rightarrow> 'ec"
  executor_factory_new :: "'rb \<Rightarrow> 'c \<Rightarrow> 'fa"
  block_assembler_new :: "'c \<Rightarrow> 'as"
  eth_config_chain_spec :: "'ec \<Rightarrow> 'c"

definition evm_config_new ::
  "('c, 'rb, 'ec, 'fa, 'as) evm_constructors \<Rightarrow> 'rb \<Rightarrow> 'c \<Rightarrow> ('ec, 'fa, 'as) evm_config" where
  "evm_config_new M receipt_builder chain =
     \<lparr>ethereum = eth_evm_config_new M chain, factory = executor_factory_new M receipt_builder chain,
      assembler = block_assembler_new M chain\<rparr>"

definition evm_chain_spec ::
  "('c, 'rb, 'ec, 'fa, 'as) evm_constructors \<Rightarrow> ('ec, 'fa, 'as) evm_config \<Rightarrow> 'c" where
  "evm_chain_spec M config = eth_config_chain_spec M (ethereum config)"

definition block_executor_factory :: "('ec, 'fa, 'as) evm_config \<Rightarrow> 'fa" where
  "block_executor_factory config = factory config"

definition block_assembler :: "('ec, 'fa, 'as) evm_config \<Rightarrow> 'as" where
  "block_assembler config = assembler config"

section \<open>Transaction environments\<close>

record tx_env =
  te_tx_type :: byte
  te_caller :: address
  te_gas_limit :: u64
  te_gas_price :: u128
  te_kind :: tx_kind
  te_value :: u256
  te_data :: bytes
  te_nonce :: u64
  te_chain_id :: "u64 option"
  te_access_list :: access_list
  te_gas_priority_fee :: "u128 option"
  te_blob_hashes :: "b256 list"
  te_max_fee_per_blob_gas :: u128
  te_authorization_list :: "signed_authorization list"

text \<open>\<open>default_tx_env\<close> is \<open>TxEnv::default()\<close>.\<close>

record 't eth_evm =
  default_tx_env :: tx_env
  eth_from_recovered_tx :: "'t \<Rightarrow> address \<Rightarrow> tx_env"
  eth_from_encoded_tx :: "'t \<Rightarrow> address \<Rightarrow> bytes \<Rightarrow> tx_env"

definition from_recovered_tx ::
  "('t, 'z) eth_evm_scheme \<Rightarrow> 't envelope \<Rightarrow> address \<Rightarrow> ('e, tx_env) outcome" where
  "from_recovered_tx E tx caller =
     (case tx of
        Ethereum tx \<Rightarrow> Ok (eth_from_recovered_tx E tx caller)
      | Cosmos tx \<Rightarrow>
          let op = cs_operation tx
          in if caller \<noteq> op_sender op then Panic
             else Ok ((default_tx_env E)\<lparr>
               te_tx_type := 2,
               te_caller := caller,
               te_gas_limit := op_gas_limit op,
               te_gas_price := op_max_fee_per_gas op,
               te_kind := Call (op_to op),
               te_value := op_value op,
               te_data := op_input op,
               te_nonce := op_nonce op,
               te_chain_id := Some (op_chain_id op),
               te_gas_priority_fee := Some (op_max_priority_fee_per_gas op)\<rparr>))"

definition from_encoded_tx ::
  "('t, 'z) eth_evm_scheme \<Rightarrow> 't envelope \<Rightarrow> address \<Rightarrow> bytes \<Rightarrow> ('e, tx_env) outcome" where
  "from_encoded_tx E tx caller encoded =
     (case tx of
        Ethereum tx \<Rightarrow> Ok (eth_from_encoded_tx E tx caller encoded)
      | Cosmos _ \<Rightarrow> from_recovered_tx E tx caller)"

section \<open>Receipts\<close>

record 'l receipt =
  rc_tx_type :: cosmos_tx_type
  rc_success :: bool
  rc_cumulative_gas_used :: u64
  rc_logs :: "'l list"

text \<open>\<open>ReceiptBuilderCtx\<close>, the execution result given by its two accessors.\<close>

record 'l receipt_ctx =
  rx_tx_type :: cosmos_tx_type
  rx_is_success :: bool
  rx_into_logs :: "'l list"
  rx_cumulative_gas_used :: u64

definition build_receipt :: "'l receipt_ctx \<Rightarrow> 'l receipt" where
  "build_receipt ctx =
     \<lparr>rc_tx_type = rx_tx_type ctx, rc_success = rx_is_success ctx,
      rc_cumulative_gas_used = rx_cumulative_gas_used ctx, rc_logs = rx_into_logs ctx\<rparr>"

section \<open>Execution contexts\<close>

record 'w execution_ctx =
  ec_tx_count_hint :: "nat option"
  ec_parent_hash :: b256
  ec_parent_beacon_block_root :: "b256 option"
  ec_ommers :: "header list"
  ec_withdrawals :: "'w list option"
  ec_extra_data :: bytes
  ec_slot_number :: "u64 option"

definition context_for_block :: "('x, 'w) block \<Rightarrow> 'w execution_ctx" where
  "context_for_block block =
     \<lparr>ec_tx_count_hint = Some (length (b_transactions block)),
      ec_parent_hash = h_parent_hash (b_header block),
      ec_parent_beacon_block_root = h_parent_beacon_block_root (b_header block),
      ec_ommers = b_ommers block,
      ec_withdrawals = b_withdrawals block,
      ec_extra_data = h_extra_data (b_header block),
      ec_slot_number = h_slot_number (b_header block)\<rparr>"

text \<open>
  \<open>ExecutionData\<close>: the accessors \<open>timestamp()\<close>, \<open>block_number()\<close> and so on of the payload,
  \<open>as_v4().map(|v4| v4.slot_number)\<close>, and the sidecar's \<open>parent_beacon_block_root()\<close>.
\<close>

record 'w execution_data =
  ed_timestamp :: u64
  ed_block_number :: u64
  ed_parent_hash :: b256
  ed_fee_recipient :: address
  ed_prev_randao :: b256
  ed_gas_limit :: u64
  ed_saturated_base_fee_per_gas :: u64
  ed_excess_blob_gas :: "u64 option"
  ed_extra_data :: bytes
  ed_slot_number :: "u64 option"
  ed_transactions :: "bytes list"
  ed_withdrawals :: "'w list option"
  ed_parent_beacon_block_root :: "b256 option"

definition context_for_payload :: "('w, 'z) execution_data_scheme \<Rightarrow> 'w execution_ctx" where
  "context_for_payload data =
     \<lparr>ec_tx_count_hint = Some (length (ed_transactions data)),
      ec_parent_hash = ed_parent_hash data,
      ec_parent_beacon_block_root = ed_parent_beacon_block_root data,
      ec_ommers = [],
      ec_withdrawals = ed_withdrawals data,
      ec_extra_data = ed_extra_data data,
      ec_slot_number = ed_slot_number data\<rparr>"

text \<open>The methods of \<open>ConfigureEvm\<close> that hand over to the wrapped \<open>EthEvmConfig\<close>.\<close>

record ('h, 'n, 'v, 'w) eth_evm_config =
  eth_evm_env :: "'h \<Rightarrow> 'v"
  eth_next_evm_env :: "'h \<Rightarrow> 'n \<Rightarrow> 'v"
  eth_context_for_next_block :: "'h \<Rightarrow> 'n \<Rightarrow> 'w execution_ctx"

definition evm_env :: "('h, 'n, 'v, 'w) eth_evm_config \<Rightarrow> 'h \<Rightarrow> 'v" where
  "evm_env C header = eth_evm_env C header"

definition next_evm_env :: "('h, 'n, 'v, 'w) eth_evm_config \<Rightarrow> 'h \<Rightarrow> 'n \<Rightarrow> 'v" where
  "next_evm_env C parent attrs = eth_next_evm_env C parent attrs"

definition context_for_next_block :: "('h, 'n, 'v, 'w) eth_evm_config \<Rightarrow> 'h \<Rightarrow> 'n \<Rightarrow> 'w execution_ctx" where
  "context_for_next_block C parent attributes = eth_context_for_next_block C parent attributes"

section \<open>The environment of an engine payload\<close>

text \<open>\<open>BlobParams\<close> with its method \<open>calc_blob_fee\<close>.\<close>

record blob_params =
  max_blob_count :: u64
  max_blobs_per_tx :: u64
  calc_blob_fee :: "u64 \<Rightarrow> u128"

record 'g cfg_env =
  cfg_chain_id :: u64
  cfg_spec :: byte
  cfg_max_blobs_per_tx :: "u64 option"
  cfg_tx_gas_limit_cap :: "u64 option"
  cfg_other :: 'g

text \<open>
  \<open>cfg_new\<close> is \<open>CfgEnv::new()\<close> and \<open>cfg_with_spec\<close> is \<open>with_spec_and_mainnet_gas_params\<close>; a
  \<open>SpecId\<close> is its discriminant.
\<close>

record 'g chain_spec =
  cs_chain_id :: u64
  cs_blob_params_at_timestamp :: "u64 \<Rightarrow> blob_params option"
  cs_spec_by_timestamp_and_block_number :: "u64 \<Rightarrow> u64 \<Rightarrow> byte"
  cs_is_osaka_active_at_timestamp :: "u64 \<Rightarrow> bool"
  spec_MERGE :: byte
  max_tx_gas_limit_osaka :: u64
  cfg_new :: "'g cfg_env"
  cfg_with_spec :: "'g cfg_env \<Rightarrow> byte \<Rightarrow> 'g cfg_env"

record block_env =
  be_number :: u256
  be_beneficiary :: address
  be_timestamp :: u256
  be_difficulty :: u256
  be_prevrandao :: "b256 option"
  be_gas_limit :: u64
  be_basefee :: u64
  be_blob_excess_gas_and_price :: "(u64 \<times> u128) option"
  be_slot_num :: u64

definition unwrap_or :: "'a option \<Rightarrow> 'a \<Rightarrow> 'a" where
  "unwrap_or v d = (case v of None \<Rightarrow> d | Some x \<Rightarrow> x)"

definition zip_option :: "'a option \<Rightarrow> 'b option \<Rightarrow> ('a \<times> 'b) option" where
  "zip_option x y = (case x of None \<Rightarrow> None | Some a \<Rightarrow> map_option (Pair a) y)"

definition evm_env_for_payload ::
  "('g, 'y) chain_spec_scheme \<Rightarrow> ('w, 'z) execution_data_scheme \<Rightarrow> 'g cfg_env \<times> block_env" where
  "evm_env_for_payload G data =
     (let timestamp = ed_timestamp data;
          block_number = ed_block_number data;
          blob_params = cs_blob_params_at_timestamp G timestamp;
          spec = cs_spec_by_timestamp_and_block_number G timestamp block_number;
          cfg = cfg_with_spec G ((cfg_new G)\<lparr>cfg_chain_id := cs_chain_id G\<rparr>) spec;
          cfg = (case blob_params of
                   None \<Rightarrow> cfg
                 | Some p \<Rightarrow> cfg\<lparr>cfg_max_blobs_per_tx := Some (max_blobs_per_tx p)\<rparr>);
          cfg = (if cs_is_osaka_active_at_timestamp G timestamp
                 then cfg\<lparr>cfg_tx_gas_limit_cap := Some (max_tx_gas_limit_osaka G)\<rparr> else cfg);
          blob = map_option (\<lambda>(excess, p). (excess, calc_blob_fee p excess))
                   (zip_option (ed_excess_blob_gas data) blob_params)
      in (cfg,
          \<lparr>be_number = ucast block_number,
           be_beneficiary = ed_fee_recipient data,
           be_timestamp = ucast timestamp,
           be_difficulty = (if spec_MERGE G \<le> spec then 0 else ed_prev_randao data),
           be_prevrandao = (if spec_MERGE G \<le> spec then Some (ed_prev_randao data) else None),
           be_gas_limit = ed_gas_limit data,
           be_basefee = ed_saturated_base_fee_per_gas data,
           be_blob_excess_gas_and_price = blob,
           be_slot_num = unwrap_or (ed_slot_number data) 0\<rparr>))"

section \<open>The transactions of an engine payload\<close>

text \<open>
  Two methods that the upstream traits provide for every transaction type: \<open>decode_2718_exact\<close>
  reads one transaction and nothing else, by \<open>typed_decode\<close> when the first byte is a type and
  by \<open>fallback_decode\<close> otherwise; \<open>try_recover\<close> is \<open>recover_signer\<close>.
\<close>

record 'x upstream_tx =
  decode_2718_exact :: "'x tx_traits \<Rightarrow> bytes \<Rightarrow> (eip2718_error, 'x) outcome"
  try_recover :: "'x tx_traits \<Rightarrow> 'x \<Rightarrow> (recovery_error, address) outcome"

locale upstream_methods =
  fixes U :: "('x, 'm) upstream_tx_scheme" and X :: "'x tx_traits"
  assumes exact_typed:
      "\<And>ty body t. ty < 0x80 \<Longrightarrow>
         decode_2718_exact U X (ty # body) = Ok t \<longleftrightarrow> t_typed_decode X ty body = Ok (t, [])"
    and exact_fallback:
      "\<And>raw t. raw = [] \<or> 0x80 \<le> hd raw \<Longrightarrow>
         decode_2718_exact U X raw = Ok t \<longleftrightarrow> t_fallback_decode X raw = Ok (t, [])"
    and exact_returns:
      "\<And>raw. (\<And>ty b. t_typed_decode X ty b \<noteq> Panic) \<Longrightarrow> (\<And>b. t_fallback_decode X b \<noteq> Panic) \<Longrightarrow>
         decode_2718_exact U X raw \<noteq> Panic"
    and try_recover_eq: "\<And>t. try_recover U X t = t_recover_signer X t"

datatype any_error = DecodeError eip2718_error | SignerError recovery_error

definition convert ::
  "('x, 'm) upstream_tx_scheme \<Rightarrow> 'x tx_traits \<Rightarrow> bytes \<Rightarrow> (any_error, 'x \<times> address) outcome" where
  "convert U X raw =
     and_then (map_err DecodeError (decode_2718_exact U X raw)) (\<lambda>tx.
     and_then (map_err SignerError (try_recover U X tx)) (\<lambda>signer. Ok (tx, signer)))"

definition tx_iterator_for_payload ::
  "('x, 'm) upstream_tx_scheme \<Rightarrow> 'x tx_traits \<Rightarrow> ('w, 'z) execution_data_scheme
     \<Rightarrow> (any_error, 'x \<times> address) outcome list" where
  "tx_iterator_for_payload U X data = map (convert U X) (ed_transactions data)"


section \<open>Facts\<close>

lemma envelope_traits_sel [simp]:
  "t_typed_decode (envelope_traits L T n) = envelope_typed_decode L T"
  "t_fallback_decode (envelope_traits L T n) = envelope_fallback_decode T"
  "t_recover_signer (envelope_traits L T n) = envelope_recover_signer L T"
  "t_tx_hash (envelope_traits L T n) = envelope_tx_hash T"
  "t_ty (envelope_traits L T n) = envelope_ty T"
  "t_encode_2718_len (envelope_traits L T n) = envelope_encode_2718_len T"
  by (simp_all add: envelope_traits_def tx_ops.defs)

lemma TX_TYPE_typed: "TX_TYPE < 0x80"
  by (simp add: TX_TYPE_def)

lemma typed_decode_cosmos_type: "envelope_typed_decode L T ty body = Ok (Cosmos tx, rest) \<Longrightarrow> ty = TX_TYPE"
  by (auto simp: envelope_typed_decode_def outcome_simps map_prod_def split: if_splits prod.splits)

lemma fallback_decode_not_cosmos: "envelope_fallback_decode T buf \<noteq> Ok (Cosmos tx, rest)"
  by (auto simp: envelope_fallback_decode_def outcome_simps map_prod_def split: prod.splits)

context chain_libs
begin

lemma typed_decode_all_iff:
  "envelope_typed_decode P T TX_TYPE body = Ok (Cosmos tx, []) \<longleftrightarrow>
     wf_signed P tx \<and> cs_raw tx = TX_TYPE # body"
proof
  assume "envelope_typed_decode P T TX_TYPE body = Ok (Cosmos tx, [])"
  from typed_decode_OkD [OF this] show "wf_signed P tx \<and> cs_raw tx = TX_TYPE # body" by auto
next
  assume "wf_signed P tx \<and> cs_raw tx = TX_TYPE # body"
  with typed_decode_raw [of tx T "[]"] show "envelope_typed_decode P T TX_TYPE body = Ok (Cosmos tx, [])"
    by auto
qed

lemma decode_exact_cosmos_iff:
  assumes "upstream_methods U (envelope_traits P T n)"
  shows "decode_2718_exact U (envelope_traits P T n) raw = Ok (Cosmos tx) \<longleftrightarrow>
    wf_signed P tx \<and> raw = cs_raw tx"
proof (cases "raw = [] \<or> 0x80 \<le> hd raw")
  case True
  then have "\<nexists>body. raw = TX_TYPE # body"
    using TX_TYPE_typed by auto
  with True show ?thesis
    using typed_decode_raw [of tx T "[]"]
    by (auto simp: upstream_methods.exact_fallback [OF assms] fallback_decode_not_cosmos)
next
  case False
  then obtain ty body where raw: "raw = ty # body" "ty < 0x80"
    by (cases raw) auto
  show ?thesis
  proof (cases "ty = TX_TYPE")
    case True
    with raw show ?thesis
      by (auto simp: upstream_methods.exact_typed [OF assms] typed_decode_all_iff)
  next
    case False
    with raw show ?thesis
      using typed_decode_raw [of tx T "[]"]
      by (auto simp: upstream_methods.exact_typed [OF assms] dest: typed_decode_cosmos_type)
  qed
qed

lemma convert_cosmos_iff:
  assumes "upstream_methods U (envelope_traits P T n)"
  shows "convert U (envelope_traits P T n) raw = Ok (Cosmos tx, a) \<longleftrightarrow>
    wf_signed P tx \<and> raw = cs_raw tx \<and> tx_authorized P tx \<and> a = op_sender (cs_operation tx)"
  by (auto simp: convert_def outcome_simps decode_exact_cosmos_iff [OF assms]
      upstream_methods.try_recover_eq [OF assms] envelope_recover_signer_def cosmos_signed_verify_eq)

lemma convert_returns:
  assumes "upstream_methods U (envelope_traits P T n)" "\<And>ty b. t_typed_decode T ty b \<noteq> Panic"
    "\<And>b. t_fallback_decode T b \<noteq> Panic" "\<And>t. t_recover_signer T t \<noteq> Panic"
  shows "convert U (envelope_traits P T n) raw \<noteq> Panic"
proof -
  have "decode_2718_exact U (envelope_traits P T n) raw \<noteq> Panic"
    by (rule upstream_methods.exact_returns [OF assms(1)])
      (use assms(2,3) in \<open>auto simp: typed_decode_returns envelope_fallback_decode_def outcome_simps\<close>)
  moreover have "try_recover U (envelope_traits P T n) e \<noteq> Panic" for e
    by (cases e) (use assms(4) in \<open>auto simp: upstream_methods.try_recover_eq [OF assms(1)]
        envelope_recover_signer_def cosmos_signed_verify_eq\<close>)
  ultimately show ?thesis by (auto simp: convert_def outcome_simps)
qed

end

section \<open>The reference instance\<close>

definition ref_decode_2718_exact :: "'x tx_traits \<Rightarrow> bytes \<Rightarrow> (eip2718_error, 'x) outcome" where
  "ref_decode_2718_exact X raw =
     and_then (if raw = [] \<or> 0x80 \<le> hd raw then t_fallback_decode X raw
               else t_typed_decode X (hd raw) (tl raw)) (\<lambda>(t, rest).
       if rest = [] then Ok t else Err (RlpError UnexpectedLength))"

definition ref_upstream :: "'x upstream_tx" where
  "ref_upstream = \<lparr>decode_2718_exact = ref_decode_2718_exact, try_recover = t_recover_signer\<rparr>"

text \<open>The reference methods on the chain's own transaction type.\<close>

interpretation env_tx: upstream_methods ref_upstream "envelope_traits ref_libs ref_eth n"
  by unfold_locales
    (auto simp: ref_upstream_def ref_decode_2718_exact_def outcome_simps split: if_splits)

definition ref_evm :: "bytes eth_evm" where
  "ref_evm = (let d = \<lambda>a. \<lparr>te_tx_type = 0, te_caller = a, te_gas_limit = 30000000, te_gas_price = 0,
       te_kind = Call 0, te_value = 0, te_data = [], te_nonce = 0, te_chain_id = Some 1,
       te_access_list = [], te_gas_priority_fee = None, te_blob_hashes = [],
       te_max_fee_per_blob_gas = 0, te_authorization_list = []\<rparr>
     in \<lparr>default_tx_env = d 0, eth_from_recovered_tx = (\<lambda>_. d), eth_from_encoded_tx = (\<lambda>_ a _. d a)\<rparr>)"

section \<open>Properties\<close>

text \<open>C10. Blocks that arrive through the engine API are checked transaction by transaction: converting the
  raw bytes of a payload yields a Cosmos transaction exactly when they are, to the last byte, the
  encoding of a well-formed container that is authorized under the chain's genesis, and the signer
  is the sender it names; there is no other way for a Cosmos transaction to enter the executor from
  a payload.\<close>

theorem payload_transactions_are_authorized:
  assumes "chain_libs L" "upstream_methods U (envelope_traits L T n)"
  shows "Ok (Cosmos tx, a) \<in> set (tx_iterator_for_payload U (envelope_traits L T n) data) \<longleftrightarrow>
    wf_signed L tx \<and> cs_raw tx \<in> set (ed_transactions data)
    \<and> authorized L GENESIS_HASH (cs_operation tx) (cs_public_key tx) (signature_bytes L tx)
    \<and> a = op_sender (cs_operation tx)"
  by (auto simp: tx_iterator_for_payload_def image_iff eq_commute [of "Ok _"]
      chain_libs.convert_cosmos_iff [OF assms] tx_authorized_def)

definition sample_data :: "unit execution_data" where
  "sample_data = \<lparr>ed_timestamp = 12, ed_block_number = 1, ed_parent_hash = GENESIS_HASH,
     ed_fee_recipient = 0, ed_prev_randao = 5, ed_gas_limit = 30000000,
     ed_saturated_base_fee_per_gas = 7, ed_excess_blob_gas = Some 0, ed_extra_data = [],
     ed_slot_number = None, ed_transactions = [cs_raw sample_tx], ed_withdrawals = Some [],
     ed_parent_beacon_block_root = Some 3\<rparr>"

theorem payload_transactions_are_authorized_witness:
  "Ok (Cosmos sample_tx, op_sender sample_op)
     \<in> set (tx_iterator_for_payload ref_upstream (envelope_traits ref_libs ref_eth 0) sample_data)"
  by (subst payload_transactions_are_authorized [OF ref.chain_libs_axioms env_tx.upstream_methods_axioms])
    (simp add: sample_data_def sample_authorized)

text \<open>C34. The EVM executes what was signed: for a transaction whose signer came out of any of the recoveries
  the conversion into a transaction environment never panics, the environment is a dynamic-fee call
  that carries exactly the fields the pool and RPC see through the \<open>Transaction\<close> view (gas, fees,
  recipient, value, data, nonce, chain), and everything else in it is the default; with any other
  caller the conversion panics rather than execute.\<close>

theorem recovered_tx_env:
  "(cosmos_signed_verify L tx = Ok a \<longrightarrow> from_recovered_tx E (Cosmos tx) a \<noteq> (Panic :: ('e, _) outcome))
   \<and> (a \<noteq> op_sender (cs_operation tx) \<longrightarrow> from_recovered_tx E (Cosmos tx) a = (Panic :: ('e, _) outcome))
   \<and> (from_recovered_tx E (Cosmos tx) a = (Ok env :: ('e, _) outcome) \<longrightarrow>
        (let X = envelope_tx_ops L T; e = Cosmos tx in
         env = (default_tx_env E)\<lparr>te_tx_type := 2, te_caller := op_sender (cs_operation tx),
           te_gas_limit := t_gas_limit X e, te_gas_price := t_max_fee_per_gas X e,
           te_kind := t_kind X e, te_value := t_value X e, te_data := t_input X e,
           te_nonce := t_nonce X e, te_chain_id := t_chain_id X e,
           te_gas_priority_fee := t_max_priority_fee_per_gas X e\<rparr>))
   \<and> from_encoded_tx E (Cosmos tx) a encoded = (from_recovered_tx E (Cosmos tx) a :: ('e, _) outcome)"
  by (auto simp: from_recovered_tx_def from_encoded_tx_def Let_def cosmos_signed_verify_def outcome_simps
      verify_Ok_iff envelope_tx_ops_def cosmos_tx_ops_def)

theorem recovered_tx_env_witness:
  "from_recovered_tx ref_evm (Cosmos sample_tx) (op_sender sample_op) \<noteq> (Panic :: (unit, _) outcome)
   \<and> from_recovered_tx ref_evm (Cosmos sample_tx) (op_sender sample_op + 1) = (Panic :: (unit, _) outcome)"
  using recovered_tx_env [of ref_libs sample_tx "op_sender sample_op" ref_evm, where T = ref_eth and 'e = unit]
    recovered_tx_env [of ref_libs sample_tx "op_sender sample_op + 1" ref_evm, where T = ref_eth and 'e = unit]
    sample_authorized
  by (auto simp: cosmos_signed_verify_def outcome_simps verify_Ok_iff)

text \<open>When an engine payload describes a block: the fields a context is made of agree, and the
  block has no ommers, as every block since the merge.\<close>

definition describes :: "('w, 'z) execution_data_scheme \<Rightarrow> ('x, 'w) block \<Rightarrow> bool" where
  "describes data block \<longleftrightarrow>
     length (ed_transactions data) = length (b_transactions block)
     \<and> ed_parent_hash data = h_parent_hash (b_header block)
     \<and> ed_parent_beacon_block_root data = h_parent_beacon_block_root (b_header block)
     \<and> ed_extra_data data = h_extra_data (b_header block)
     \<and> ed_slot_number data = h_slot_number (b_header block)
     \<and> ed_withdrawals data = b_withdrawals block \<and> b_ommers block = []"

text \<open>A block executes in the same context whether it is imported as a block or as the engine
  payload that describes it, and no other payload gives that context for a block without ommers.\<close>

lemma payload_context_is_block_context:
  assumes "b_ommers block = []"
  shows "context_for_payload data = context_for_block block \<longleftrightarrow> describes data block"
  using assms by (auto simp: context_for_payload_def context_for_block_def describes_def)

text \<open>The environment of a payload keeps the rules of its fork: the chain id is the specification's,
  from the merge on the difficulty is zero and the randomness is the payload's, before it the
  randomness is the difficulty; the gas cap of a transaction is Osaka's exactly from Osaka on; the
  blob fee is present exactly when the fork has blobs and the payload an excess.\<close>

lemma payload_environment:
  fixes G :: "('g, 'y) chain_spec_scheme" and data :: "('w, 'z) execution_data_scheme"
  assumes "\<And>cfg spec. cfg_chain_id (cfg_with_spec G cfg spec) = cfg_chain_id cfg"
    and "\<And>cfg spec. cfg_tx_gas_limit_cap (cfg_with_spec G cfg spec) = None"
    and "evm_env_for_payload G data = (cfg, blk)"
  shows "cfg_chain_id cfg = cs_chain_id G
    \<and> cfg_tx_gas_limit_cap cfg = (if cs_is_osaka_active_at_timestamp G (ed_timestamp data)
         then Some (max_tx_gas_limit_osaka G) else None)
    \<and> (if spec_MERGE G \<le> cs_spec_by_timestamp_and_block_number G (ed_timestamp data) (ed_block_number data)
       then be_difficulty blk = 0 \<and> be_prevrandao blk = Some (ed_prev_randao data)
       else be_difficulty blk = ed_prev_randao data \<and> be_prevrandao blk = None)
    \<and> (be_blob_excess_gas_and_price blk = None \<longleftrightarrow>
         ed_excess_blob_gas data = None \<or> cs_blob_params_at_timestamp G (ed_timestamp data) = None)
    \<and> unat (be_number blk) = unat (ed_block_number data)
    \<and> unat (be_timestamp blk) = unat (ed_timestamp data)"
proof -
  have widen: "unat (ucast v :: u256) = unat v" for v :: u64
    using unsigned_less [of v, where ?'a = nat]
    by (simp add: unsigned_ucast_eq take_bit_nat_eq_self order_less_trans)
  show ?thesis
    using assms
    by (auto simp: evm_env_for_payload_def Let_def zip_option_def widen split: option.splits)
qed

definition sample_chain :: "unit chain_spec" where
  "sample_chain = \<lparr>cs_chain_id = CHAIN_ID, cs_blob_params_at_timestamp = (\<lambda>_. None),
     cs_spec_by_timestamp_and_block_number = (\<lambda>_ _. 20), cs_is_osaka_active_at_timestamp = (\<lambda>t. 10 < t),
     spec_MERGE = 15, max_tx_gas_limit_osaka = 16777216,
     cfg_new = \<lparr>cfg_chain_id = 1, cfg_spec = 0, cfg_max_blobs_per_tx = None,
       cfg_tx_gas_limit_cap = None, cfg_other = ()\<rparr>,
     cfg_with_spec = (\<lambda>cfg spec. cfg\<lparr>cfg_spec := spec, cfg_tx_gas_limit_cap := None\<rparr>)\<rparr>"

end
