(* ===== verification/Pool_Tx.thy ===== *)
theory Pool_Tx
  imports Evm_Adapter
begin

text \<open>
  \<open>src/pool.rs\<close>: the transaction the upstream pool keeps. \<open>CosmosPoolTransaction\<close> wraps the
  upstream \<open>EthPooledTransaction\<close>, which computes the reserved cost; the record \<open>Q\<close> holds the
  upstream functions and the locale \<open>pool_package\<close> what the sources rely on.
\<close>

section \<open>Pool transactions\<close>

record 'x recovered =
  rec_tx :: 'x
  rec_signer :: address

datatype 's blob_sidecar = NoSidecar | MissingSidecar | PresentSidecar 's

record ('x, 's) pool_tx =
  pt_transaction :: "'x recovered"
  pt_cost :: u256
  pt_encoded_length :: nat
  pt_blob_sidecar :: "'s blob_sidecar"

datatype 'e blob_error = NotBlobTransaction byte | OtherBlobError 'e

text \<open>
  \<open>pool_new\<close> is \<open>EthPooledTransaction::new\<close>, \<open>pool_ops\<close> its \<open>Transaction\<close> implementation,
  \<open>pool_size\<close> its \<open>InMemorySize\<close> and \<open>pool_ty\<close> its \<open>Typed2718\<close>, each for a transaction type given
  by its dictionary; \<open>eth_from_pooled\<close>, \<open>eth_into_pooled_eip4844\<close> and \<open>eth_as_eip4844_validate\<close> are
  the functions of the Ethereum envelope, the last \<open>as_eip4844().map(|tx| tx.tx().validate_blob(..))\<close>;
  \<open>ty_is_eip4844\<close> is \<open>Typed2718::is_eip4844\<close> on the type byte.
\<close>

record ('t, 'p, 's, 'k, 'e) pool_lib =
  pool_new :: "'t envelope tx_traits \<Rightarrow> 't envelope recovered \<Rightarrow> nat \<Rightarrow> ('t envelope, 's) pool_tx"
  pool_ops :: "'t envelope tx_traits \<Rightarrow> ('t envelope, 's) pool_tx tx_ops"
  pool_ty :: "'t envelope tx_traits \<Rightarrow> ('t envelope, 's) pool_tx \<Rightarrow> byte"
  pool_size :: "'t envelope tx_traits \<Rightarrow> ('t envelope, 's) pool_tx \<Rightarrow> nat"
  eth_from_pooled :: "'p recovered \<Rightarrow> ('t, 's) pool_tx"
  eth_into_pooled_eip4844 :: "'t \<Rightarrow> 's \<Rightarrow> 'p option"
  eth_as_eip4844_validate :: "'t \<Rightarrow> 's \<Rightarrow> 'k \<Rightarrow> ('e blob_error, unit) outcome option"
  ty_is_eip4844 :: "byte \<Rightarrow> bool"

section \<open>PoolTransaction\<close>

definition consensus_ref :: "('x, 's) pool_tx \<Rightarrow> 'x recovered" where
  "consensus_ref p = pt_transaction p"

definition into_consensus :: "('x, 's) pool_tx \<Rightarrow> 'x recovered" where
  "into_consensus p = pt_transaction p"

text \<open>\<open>X\<close> is the dictionary of the chain's transactions, \<open>PT\<close> that of the pooled Ethereum ones.\<close>

definition from_pooled ::
  "('t, 'p, 's, 'k, 'e) pool_lib \<Rightarrow> 't envelope tx_traits \<Rightarrow> ('p, 'z) tx_traits_scheme
     \<Rightarrow> 'p envelope recovered \<Rightarrow> ('t envelope, 's) pool_tx" where
  "from_pooled Q X PT tx =
     (let len = envelope_encode_2718_len PT (rec_tx tx);
          signer = rec_signer tx
      in case rec_tx tx of
           Ethereum tx \<Rightarrow>
             (let eth = eth_from_pooled Q \<lparr>rec_tx = tx, rec_signer = signer\<rparr>;
                  result = pool_new Q X
                    \<lparr>rec_tx = Ethereum (rec_tx (pt_transaction eth)),
                     rec_signer = rec_signer (pt_transaction eth)\<rparr> len
              in result\<lparr>pt_blob_sidecar := pt_blob_sidecar eth\<rparr>)
         | Cosmos tx \<Rightarrow> pool_new Q X \<lparr>rec_tx = Cosmos tx, rec_signer = signer\<rparr> len)"

definition pool_tx_hash :: "('x, 'z) tx_traits_scheme \<Rightarrow> ('x, 's) pool_tx \<Rightarrow> b256" where
  "pool_tx_hash X p = t_tx_hash X (rec_tx (pt_transaction p))"

definition pool_tx_sender :: "('x, 's) pool_tx \<Rightarrow> address" where
  "pool_tx_sender p = rec_signer (pt_transaction p)"

definition pool_tx_cost :: "('x, 's) pool_tx \<Rightarrow> u256" where
  "pool_tx_cost p = pt_cost p"

definition pool_tx_encoded_length :: "('x, 's) pool_tx \<Rightarrow> nat" where
  "pool_tx_encoded_length p = pt_encoded_length p"

definition pool_tx_ty ::
  "('t, 'p, 's, 'k, 'e) pool_lib \<Rightarrow> 't envelope tx_traits \<Rightarrow> ('t envelope, 's) pool_tx \<Rightarrow> byte" where
  "pool_tx_ty Q X p = pool_ty Q X p"

definition pool_tx_size ::
  "('t, 'p, 's, 'k, 'e) pool_lib \<Rightarrow> 't envelope tx_traits \<Rightarrow> ('t envelope, 's) pool_tx \<Rightarrow> nat" where
  "pool_tx_size Q X p = pool_size Q X p"

section \<open>EthPoolTransaction\<close>

text \<open>\<open>take_blob(&mut self)\<close> returns the sidecar and the updated transaction.\<close>

definition take_blob ::
  "('t, 'p, 's, 'k, 'e) pool_lib \<Rightarrow> 't envelope tx_traits \<Rightarrow> ('t envelope, 's) pool_tx
     \<Rightarrow> 's blob_sidecar \<times> ('t envelope, 's) pool_tx" where
  "take_blob Q X p =
     (if ty_is_eip4844 Q (pool_tx_ty Q X p)
      then (pt_blob_sidecar p, p\<lparr>pt_blob_sidecar := MissingSidecar\<rparr>)
      else (NoSidecar, p))"

definition try_into_pooled_eip4844 ::
  "('t, 'p, 's, 'k, 'e) pool_lib \<Rightarrow> ('t envelope, 's) pool_tx \<Rightarrow> 's \<Rightarrow> 'p envelope recovered option" where
  "try_into_pooled_eip4844 Q p sidecar =
     (case rec_tx (pt_transaction p) of
        Cosmos _ \<Rightarrow> None
      | Ethereum tx \<Rightarrow>
          map_option (\<lambda>t. \<lparr>rec_tx = Ethereum t, rec_signer = rec_signer (pt_transaction p)\<rparr>)
            (eth_into_pooled_eip4844 Q tx sidecar))"

definition try_from_eip4844 ::
  "('t, 'p, 's, 'k, 'e) pool_lib \<Rightarrow> 't envelope tx_traits \<Rightarrow> ('p, 'z) tx_traits_scheme
     \<Rightarrow> 't envelope recovered \<Rightarrow> 's \<Rightarrow> ('t envelope, 's) pool_tx option" where
  "try_from_eip4844 Q X PT tx sidecar =
     (case rec_tx tx of
        Cosmos _ \<Rightarrow> None
      | Ethereum t \<Rightarrow>
          map_option (\<lambda>t. from_pooled Q X PT \<lparr>rec_tx = Ethereum t, rec_signer = rec_signer tx\<rparr>)
            (eth_into_pooled_eip4844 Q t sidecar))"

definition validate_blob ::
  "('t, 'p, 's, 'k, 'e) pool_lib \<Rightarrow> 't envelope tx_traits \<Rightarrow> ('t envelope, 's) pool_tx \<Rightarrow> 's \<Rightarrow> 'k
     \<Rightarrow> ('e blob_error, unit) outcome" where
  "validate_blob Q X p sidecar settings =
     (case rec_tx (pt_transaction p) of
        Cosmos _ \<Rightarrow> Err (NotBlobTransaction (pool_tx_ty Q X p))
      | Ethereum tx \<Rightarrow>
          (case eth_as_eip4844_validate Q tx sidecar settings of
             Some r \<Rightarrow> r
           | None \<Rightarrow> Err (NotBlobTransaction (pool_tx_ty Q X p))))"

text \<open>\<open>impl Transaction\<close>: every method is the wrapped transaction's.\<close>

definition pool_tx_ops ::
  "('t, 'p, 's, 'k, 'e) pool_lib \<Rightarrow> 't envelope tx_traits \<Rightarrow> ('t envelope, 's) pool_tx tx_ops" where
  "pool_tx_ops Q X = (let I = pool_ops Q X in \<lparr>
     t_chain_id = t_chain_id I,
     t_nonce = t_nonce I,
     t_gas_limit = t_gas_limit I,
     t_gas_price = t_gas_price I,
     t_max_fee_per_gas = t_max_fee_per_gas I,
     t_max_priority_fee_per_gas = t_max_priority_fee_per_gas I,
     t_max_fee_per_blob_gas = t_max_fee_per_blob_gas I,
     t_priority_fee_or_price = t_priority_fee_or_price I,
     t_effective_gas_price = t_effective_gas_price I,
     t_is_dynamic_fee = t_is_dynamic_fee I,
     t_kind = t_kind I,
     t_is_create = t_is_create I,
     t_value = t_value I,
     t_input = t_input I,
     t_access_list = t_access_list I,
     t_blob_versioned_hashes = t_blob_versioned_hashes I,
     t_authorization_list = t_authorization_list I\<rparr>)"

section \<open>What the sources rely on\<close>

text \<open>The view of a wrapped value through the dictionary of what it wraps.\<close>

definition comap_ops :: "('y \<Rightarrow> 'x) \<Rightarrow> ('x, 'z) tx_ops_scheme \<Rightarrow> 'y tx_ops" where
  "comap_ops f X = \<lparr>
     t_chain_id = t_chain_id X \<circ> f, t_nonce = t_nonce X \<circ> f, t_gas_limit = t_gas_limit X \<circ> f,
     t_gas_price = t_gas_price X \<circ> f, t_max_fee_per_gas = t_max_fee_per_gas X \<circ> f,
     t_max_priority_fee_per_gas = t_max_priority_fee_per_gas X \<circ> f,
     t_max_fee_per_blob_gas = t_max_fee_per_blob_gas X \<circ> f,
     t_priority_fee_or_price = t_priority_fee_or_price X \<circ> f,
     t_effective_gas_price = t_effective_gas_price X \<circ> f, t_is_dynamic_fee = t_is_dynamic_fee X \<circ> f,
     t_kind = t_kind X \<circ> f, t_is_create = t_is_create X \<circ> f, t_value = t_value X \<circ> f,
     t_input = t_input X \<circ> f, t_access_list = t_access_list X \<circ> f,
     t_blob_versioned_hashes = t_blob_versioned_hashes X \<circ> f,
     t_authorization_list = t_authorization_list X \<circ> f\<rparr>"

definition wrapped :: "('x, 's) pool_tx \<Rightarrow> 'x" where
  "wrapped p = rec_tx (pt_transaction p)"

definition sat_u256 :: "nat \<Rightarrow> u256" where
  "sat_u256 n = word_of_nat (min n (2 ^ 256 - 1))"

text \<open>
  \<open>EthPooledTransaction::new\<close> stores what it is given, marks no sidecar and reserves, with
  saturation, the fee cap times the gas limit plus the value, when the transaction carries no
  blobs; its other methods are the transaction's.
\<close>

locale pool_package =
  fixes Q :: "('t, 'p, 's, 'k, 'e) pool_lib" and X :: "'t envelope tx_traits" and into :: "'p \<Rightarrow> 't"
  assumes new_stores: "\<And>r n. pt_transaction (pool_new Q X r n) = r"
      "\<And>r n. pt_encoded_length (pool_new Q X r n) = n"
    and new_without_blobs:
      "\<And>r n. t_max_fee_per_blob_gas X (rec_tx r) = None \<Longrightarrow>
         t_blob_versioned_hashes X (rec_tx r) = None \<Longrightarrow>
         pt_blob_sidecar (pool_new Q X r n) = NoSidecar
         \<and> pt_cost (pool_new Q X r n) =
             sat_u256 (unat (t_max_fee_per_gas X (rec_tx r)) * unat (t_gas_limit X (rec_tx r))
               + unat (t_value X (rec_tx r)))"
    and ops_eq: "pool_ops Q X = comap_ops wrapped X"
    and ty_eq: "\<And>p. pool_ty Q X p = t_ty X (wrapped p)"
    and size_eq: "\<And>p. pool_size Q X p = t_size X (wrapped p)"
    and eth_from_pooled_eq:
      "\<And>t a. pt_transaction (eth_from_pooled Q \<lparr>rec_tx = t, rec_signer = a\<rparr>) = \<lparr>rec_tx = into t, rec_signer = a\<rparr>"
    and is_eip4844_iff: "\<And>v. ty_is_eip4844 Q v \<longleftrightarrow> v = 3"
begin

lemma pool_tx_ops_eq: "pool_tx_ops Q X = comap_ops wrapped X"
  by (simp add: pool_tx_ops_def Let_def ops_eq)

lemma from_pooled_transaction:
  "pt_transaction (from_pooled Q X PT r) =
     \<lparr>rec_tx = transaction_from_pooled into (rec_tx r), rec_signer = rec_signer r\<rparr>"
  by (cases "rec_tx r") (simp_all add: from_pooled_def Let_def new_stores eth_from_pooled_eq transaction_from_pooled_def)

lemma from_pooled_length:
  "pt_encoded_length (from_pooled Q X PT r) = envelope_encode_2718_len PT (rec_tx r)"
  by (cases "rec_tx r") (simp_all add: from_pooled_def Let_def new_stores)

lemma wrapped_from_pooled: "wrapped (from_pooled Q X PT r) = transaction_from_pooled into (rec_tx r)"
  by (simp add: wrapped_def from_pooled_transaction)

end

section \<open>The reference instance\<close>

definition ref_pool_new :: "'x tx_traits \<Rightarrow> 'x recovered \<Rightarrow> nat \<Rightarrow> ('x, 's) pool_tx" where
  "ref_pool_new X r n = \<lparr>pt_transaction = r,
     pt_cost = sat_u256 (unat (t_max_fee_per_gas X (rec_tx r)) * unat (t_gas_limit X (rec_tx r))
       + unat (t_value X (rec_tx r))),
     pt_encoded_length = n,
     pt_blob_sidecar = (if t_blob_versioned_hashes X (rec_tx r) = None then NoSidecar else MissingSidecar)\<rparr>"

definition ref_pool :: "(bytes, bytes, bytes, unit, unit) pool_lib" where
  "ref_pool = \<lparr>
     pool_new = ref_pool_new, pool_ops = comap_ops wrapped,
     pool_ty = (\<lambda>X p. t_ty X (wrapped p)), pool_size = (\<lambda>X p. t_size X (wrapped p)),
     eth_from_pooled = (\<lambda>r. \<lparr>pt_transaction = r, pt_cost = 0, pt_encoded_length = 0, pt_blob_sidecar = NoSidecar\<rparr>),
     eth_into_pooled_eip4844 = (\<lambda>t sc. Some t), eth_as_eip4844_validate = (\<lambda>_ _ _. None),
     ty_is_eip4844 = (\<lambda>v. v = 3)\<rparr>"

interpretation ref_pool: pool_package ref_pool "envelope_traits ref_libs ref_eth n" id
  by unfold_locales (simp_all add: ref_pool_def ref_pool_new_def)

section \<open>Facts\<close>

lemma extend_ops_sel [simp]:
  "t_chain_id (envelope_traits L T n) = t_chain_id (envelope_tx_ops L T)"
  "t_nonce (envelope_traits L T n) = t_nonce (envelope_tx_ops L T)"
  "t_gas_limit (envelope_traits L T n) = t_gas_limit (envelope_tx_ops L T)"
  "t_max_fee_per_gas (envelope_traits L T n) = t_max_fee_per_gas (envelope_tx_ops L T)"
  "t_max_priority_fee_per_gas (envelope_traits L T n) = t_max_priority_fee_per_gas (envelope_tx_ops L T)"
  "t_max_fee_per_blob_gas (envelope_traits L T n) = t_max_fee_per_blob_gas (envelope_tx_ops L T)"
  "t_kind (envelope_traits L T n) = t_kind (envelope_tx_ops L T)"
  "t_value (envelope_traits L T n) = t_value (envelope_tx_ops L T)"
  "t_input (envelope_traits L T n) = t_input (envelope_tx_ops L T)"
  "t_blob_versioned_hashes (envelope_traits L T n) = t_blob_versioned_hashes (envelope_tx_ops L T)"
  by (simp_all add: envelope_traits_def tx_ops.defs envelope_tx_ops_def Let_def)

lemma cosmos_view [simp]:
  "t_chain_id (envelope_tx_ops L T) (Cosmos tx) = Some (op_chain_id (cs_operation tx))"
  "t_nonce (envelope_tx_ops L T) (Cosmos tx) = op_nonce (cs_operation tx)"
  "t_gas_limit (envelope_tx_ops L T) (Cosmos tx) = op_gas_limit (cs_operation tx)"
  "t_max_fee_per_gas (envelope_tx_ops L T) (Cosmos tx) = op_max_fee_per_gas (cs_operation tx)"
  "t_max_priority_fee_per_gas (envelope_tx_ops L T) (Cosmos tx) = Some (op_max_priority_fee_per_gas (cs_operation tx))"
  "t_max_fee_per_blob_gas (envelope_tx_ops L T) (Cosmos tx) = None"
  "t_kind (envelope_tx_ops L T) (Cosmos tx) = Call (op_to (cs_operation tx))"
  "t_value (envelope_tx_ops L T) (Cosmos tx) = op_value (cs_operation tx)"
  "t_input (envelope_tx_ops L T) (Cosmos tx) = op_input (cs_operation tx)"
  "t_blob_versioned_hashes (envelope_tx_ops L T) (Cosmos tx) = None"
  by (simp_all add: envelope_tx_ops_def cosmos_tx_ops_def Let_def)

text \<open>The pool transaction of an admitted Cosmos transaction.\<close>

definition pooled_cosmos ::
  "('t, 'p, 's, 'k, 'e) pool_lib \<Rightarrow> 't envelope tx_traits \<Rightarrow> ('p, 'z) tx_traits_scheme
     \<Rightarrow> cosmos_signed \<Rightarrow> address \<Rightarrow> ('t envelope, 's) pool_tx" where
  "pooled_cosmos Q X PT tx a = from_pooled Q X PT \<lparr>rec_tx = Cosmos tx, rec_signer = a\<rparr>"

lemma pooled_cosmos_simps:
  assumes "pool_package Q (envelope_traits L T n) into"
  shows "pt_transaction (pooled_cosmos Q (envelope_traits L T n) PT tx a) = \<lparr>rec_tx = Cosmos tx, rec_signer = a\<rparr>"
    "pt_encoded_length (pooled_cosmos Q (envelope_traits L T n) PT tx a) = length (cs_raw tx)"
    "pt_blob_sidecar (pooled_cosmos Q (envelope_traits L T n) PT tx a) = NoSidecar"
    "pt_cost (pooled_cosmos Q (envelope_traits L T n) PT tx a) =
       sat_u256 (unat (op_max_fee_per_gas (cs_operation tx)) * unat (op_gas_limit (cs_operation tx))
         + unat (op_value (cs_operation tx)))"
    "pool_tx_ty Q (envelope_traits L T n) (pooled_cosmos Q (envelope_traits L T n) PT tx a) = TX_TYPE"
  using pool_package.new_without_blobs [OF assms, of "\<lparr>rec_tx = Cosmos tx, rec_signer = a\<rparr>" "length (cs_raw tx)"]
  by (simp_all add: pooled_cosmos_def from_pooled_def Let_def pool_package.new_stores [OF assms]
      envelope_encode_2718_len_def pool_tx_ty_def pool_package.ty_eq [OF assms] wrapped_def
      envelope_ty_def cosmos_signed_ty_def)

lemma unat_sat_u256: "unat (sat_u256 n) = min n (2 ^ 256 - 1)"
  by (simp add: sat_u256_def unat_of_nat)

section \<open>Properties\<close>

text \<open>A Cosmos transaction is never a blob transaction to the pool, whatever the pool asks: admitted as it
  was received, it keeps its transaction, sender, hash and exact encoded length, has no sidecar, \<open>take_blob\<close>
  gives none and changes nothing, no sidecar can be attached to it in either direction, and blob
  validation refuses it naming its type.\<close>

lemma cosmos_pool_transaction:
  fixes PT :: "('p, 'z) tx_traits_scheme" and tx :: cosmos_signed and a :: address
  assumes "pool_package Q (envelope_traits L T n) into"
  defines "X \<equiv> envelope_traits L T n" and "p \<equiv> from_pooled Q (envelope_traits L T n) PT \<lparr>rec_tx = Cosmos tx, rec_signer = a\<rparr>"
  shows "into_consensus p = \<lparr>rec_tx = Cosmos tx, rec_signer = a\<rparr>
    \<and> pool_tx_hash X p = cs_hash tx \<and> pool_tx_sender p = a
    \<and> pool_tx_encoded_length p = length (cs_raw tx)
    \<and> take_blob Q X p = (NoSidecar, p)
    \<and> pt_blob_sidecar p = NoSidecar
    \<and> try_into_pooled_eip4844 Q p sidecar = None
    \<and> try_from_eip4844 Q X PT (into_consensus p) sidecar = None
    \<and> validate_blob Q X p sidecar settings = Err (NotBlobTransaction 0x7e)"
proof -
  note facts = pooled_cosmos_simps [OF assms(1), of PT tx a, unfolded pooled_cosmos_def, folded p_def X_def]
  show ?thesis
    using facts
    by (simp add: TX_TYPE_def into_consensus_def pool_tx_hash_def pool_tx_sender_def pool_tx_encoded_length_def
        take_blob_def pool_package.is_eip4844_iff [OF assms(1)] try_into_pooled_eip4844_def
        try_from_eip4844_def validate_blob_def X_def envelope_tx_hash_def)
qed

text \<open>C33. The pool and the EVM see the same transaction, and the pool reserves enough: the environment the EVM
  executes carries the gas limit, fees, recipient, value, data, nonce and chain that the pool's
  view reports, the reserved cost is the fee cap times the gas limit plus the value, saturated, and
  unless it saturates it covers the value and any gas up to the limit at any price up to the cap.
  Within the protocol limits the gas part alone never saturates.\<close>

theorem pool_cost_covers_execution:
  fixes PT :: "('p, 'z) tx_traits_scheme" and tx :: cosmos_signed
  assumes "pool_package Q (envelope_traits L T n) into" "within_limits (cs_operation tx)"
  defines "p \<equiv> from_pooled Q (envelope_traits L T n) PT \<lparr>rec_tx = Cosmos tx, rec_signer = op_sender (cs_operation tx)\<rparr>"
    and "V \<equiv> pool_tx_ops Q (envelope_traits L T n)"
  shows "\<exists>env. from_recovered_tx E (rec_tx (into_consensus p)) (pool_tx_sender p) = (Ok env :: ('err, _) outcome)
    \<and> te_gas_limit env = t_gas_limit V p \<and> te_gas_price env = t_max_fee_per_gas V p
    \<and> te_gas_priority_fee env = t_max_priority_fee_per_gas V p \<and> te_kind env = t_kind V p
    \<and> te_value env = t_value V p \<and> te_data env = t_input V p \<and> te_nonce env = t_nonce V p
    \<and> te_chain_id env = t_chain_id V p
    \<and> unat (pool_tx_cost p) =
        min (unat (te_gas_price env) * unat (te_gas_limit env) + unat (te_value env)) (2 ^ 256 - 1)
    \<and> unat (te_gas_price env) * unat (te_gas_limit env) < 2 ^ 153
    \<and> (\<forall>gas price. gas \<le> unat (te_gas_limit env) \<longrightarrow> price \<le> unat (te_gas_price env) \<longrightarrow>
         unat (pool_tx_cost p) < 2 ^ 256 - 1 \<longrightarrow> price * gas + unat (te_value env) \<le> unat (pool_tx_cost p))"
proof -
  let ?op = "cs_operation tx"
  note facts = pooled_cosmos_simps [OF assms(1), of PT tx "op_sender ?op", unfolded pooled_cosmos_def, folded p_def]
  have V: "V = comap_ops wrapped (envelope_traits L T n)"
    by (simp add: V_def pool_package.pool_tx_ops_eq [OF assms(1)])
  have w: "wrapped p = Cosmos tx" by (simp add: wrapped_def facts)
  obtain env where env: "from_recovered_tx E (Cosmos tx) (op_sender ?op) = (Ok env :: ('err, _) outcome)"
    and flds: "te_gas_limit env = op_gas_limit ?op" "te_gas_price env = op_max_fee_per_gas ?op"
      "te_gas_priority_fee env = Some (op_max_priority_fee_per_gas ?op)" "te_kind env = Call (op_to ?op)"
      "te_value env = op_value ?op" "te_data env = op_input ?op" "te_nonce env = op_nonce ?op"
      "te_chain_id env = Some (op_chain_id ?op)"
    by (auto simp: from_recovered_tx_def Let_def)
  have "unat (op_gas_limit ?op) < 2 ^ 25"
    using assms(2) by (simp add: within_limits_def MAX_GAS_def word_le_nat_alt)
  moreover have "unat (op_max_fee_per_gas ?op) < 2 ^ 128"
    using unsigned_less [of "op_max_fee_per_gas ?op", where ?'a = nat] by simp
  ultimately have gas: "unat (op_max_fee_per_gas ?op) * unat (op_gas_limit ?op) < 2 ^ 153"
    using mult_strict_mono [of "unat (op_max_fee_per_gas ?op)" "2 ^ 128" "unat (op_gas_limit ?op)" "2 ^ 25"]
    by simp
  have cost: "unat (pool_tx_cost p) =
      min (unat (op_max_fee_per_gas ?op) * unat (op_gas_limit ?op) + unat (op_value ?op)) (2 ^ 256 - 1)"
    by (simp add: pool_tx_cost_def facts unat_sat_u256)
  have "price * gas + unat (op_value ?op) \<le> unat (pool_tx_cost p)"
    if "gas \<le> unat (op_gas_limit ?op)" "price \<le> unat (op_max_fee_per_gas ?op)"
      "unat (pool_tx_cost p) < 2 ^ 256 - 1" for gas price
    using mult_le_mono [OF that(2,1)] that(3) unfolding cost by linarith
  with env flds gas cost show ?thesis
    by (intro exI [of _ env])
      (simp add: into_consensus_def pool_tx_sender_def facts V comap_ops_def w)
qed

theorem pool_cost_covers_execution_witness:
  "\<exists>env. from_recovered_tx ref_evm (Cosmos sample_tx) (op_sender sample_op) = (Ok env :: (unit, _) outcome)
     \<and> unat (te_gas_price env) * unat (te_gas_limit env) < 2 ^ 153"
proof -
  let ?p = "from_pooled ref_pool (envelope_traits ref_libs ref_eth 0) ref_eth
       \<lparr>rec_tx = Cosmos sample_tx, rec_signer = op_sender (cs_operation sample_tx)\<rparr>"
  have "rec_tx (into_consensus ?p) = Cosmos sample_tx" "pool_tx_sender ?p = op_sender sample_op"
    by (simp_all add: into_consensus_def pool_tx_sender_def transaction_from_pooled_def
        ref_pool.from_pooled_transaction)
  moreover have "within_limits (cs_operation sample_tx)" by simp
  note pool_cost_covers_execution [OF ref_pool.pool_package_axioms this,
      where n = 0 and PT = ref_eth and E = ref_evm and 'err = unit]
  ultimately show ?thesis by auto
qed

text \<open>Gossip and the pool lose nothing: pooling a transaction keeps its signer and its consensus form;
  for a Cosmos transaction the pooled form is recovered by the conversion back, and what is broadcast
  is the byte string that was received, with the length the pool accounts for.\<close>

lemma pooling_preserves_transaction:
  assumes "pool_package Q (envelope_traits L T n) into" "\<And>p. try_into_pooled (into p) = Ok p"
  shows "rec_signer (into_consensus (from_pooled Q (envelope_traits L T n) PT r)) = rec_signer r
    \<and> pooled_try_from try_into_pooled (rec_tx (into_consensus (from_pooled Q (envelope_traits L T n) PT r)))
        = Ok (rec_tx r)
    \<and> pool_tx_encoded_length (from_pooled Q (envelope_traits L T n) PT r) = envelope_encode_2718_len PT (rec_tx r)
    \<and> (rec_tx r = Cosmos tx \<longrightarrow>
         envelope_encode_2718 T (rec_tx (into_consensus (from_pooled Q (envelope_traits L T n) PT r))) = cs_raw tx
         \<and> pool_tx_encoded_length (from_pooled Q (envelope_traits L T n) PT r) = length (cs_raw tx))"
  using assms(2)
  by (cases "rec_tx r")
    (auto simp: into_consensus_def pool_package.from_pooled_transaction [OF assms(1)]
      pool_tx_encoded_length_def pool_package.from_pooled_length [OF assms(1)]
      transaction_from_pooled_def pooled_try_from_def envelope_encode_2718_def envelope_encode_2718_len_def)

end
