(* ===== verification/Rpc_Types.thy ===== *)
theory Rpc_Types
  imports Pool_Tx
begin

text \<open>
  \<open>src/rpc.rs\<close>: receipts as JSON-RPC returns them, and the two requests that build transactions
  from fields. A \<open>usize\<close> is 64 bits wide; \<open>bloom\<close> is \<open>TxReceipt::bloom\<close>, and \<open>W\<close> holds the
  upstream builders for Ethereum requests.
\<close>

section \<open>Receipts\<close>

record transaction_meta =
  tm_tx_hash :: b256
  tm_index :: u64
  tm_block_hash :: b256
  tm_block_number :: u64
  tm_timestamp :: u64

record 'l rpc_log =
  rl_inner :: 'l
  rl_block_hash :: "b256 option"
  rl_block_number :: "u64 option"
  rl_block_timestamp :: "u64 option"
  rl_transaction_hash :: "b256 option"
  rl_transaction_index :: "u64 option"
  rl_log_index :: "u64 option"
  rl_removed :: bool

record ('l, 'b) receipt_with_bloom =
  rwb_receipt :: "'l rpc_log receipt"
  rwb_logs_bloom :: 'b

definition rpc_log_of :: "transaction_meta \<Rightarrow> u64 \<Rightarrow> 'l \<Rightarrow> 'l rpc_log" where
  "rpc_log_of meta index log =
     \<lparr>rl_inner = log, rl_block_hash = Some (tm_block_hash meta),
      rl_block_number = Some (tm_block_number meta), rl_block_timestamp = Some (tm_timestamp meta),
      rl_transaction_hash = Some (tm_tx_hash meta), rl_transaction_index = Some (tm_index meta),
      rl_log_index = Some index, rl_removed = False\<rparr>"

text \<open>The closure of \<open>map_logs\<close>, called on the logs in order, with its captured counter.\<close>

primrec map_logs :: "transaction_meta \<Rightarrow> u64 \<Rightarrow> 'l list \<Rightarrow> 'l rpc_log list" where
  "map_logs meta next_log [] = []"
| "map_logs meta next_log (log # logs) = rpc_log_of meta next_log log # map_logs meta (next_log + 1) logs"

definition receipt_converter ::
  "('l receipt \<Rightarrow> 'b) \<Rightarrow> 'l receipt \<Rightarrow> u64 \<Rightarrow> transaction_meta \<Rightarrow> ('l, 'b) receipt_with_bloom" where
  "receipt_converter bloom rc first_log meta =
     \<lparr>rwb_receipt = \<lparr>rc_tx_type = rc_tx_type rc, rc_success = rc_success rc,
        rc_cumulative_gas_used = rc_cumulative_gas_used rc,
        rc_logs = map_logs meta first_log (rc_logs rc)\<rparr>,
      rwb_logs_bloom = bloom rc\<rparr>"

section \<open>Requests\<close>

text \<open>The part of \<open>TransactionRequest\<close> that the code reads.\<close>

record transaction_request =
  rq_transaction_type :: "byte option"

datatype 'e sign_error = InvalidTransactionRequest | OtherSignError 'e

record ('q, 'k, 't, 'e) eth_requests =
  eth_try_build_and_sign :: "'q transaction_request_scheme \<Rightarrow> 'k \<Rightarrow> ('e sign_error, 't) outcome"
  eth_build_typed_simulate ::
    "'q transaction_request_scheme \<Rightarrow> ('q transaction_request_scheme \<times> string, 't) outcome"

definition try_build_and_sign ::
  "('q, 'k, 't, 'e) eth_requests \<Rightarrow> 'q transaction_request_scheme \<Rightarrow> 'k
     \<Rightarrow> ('e sign_error, 't envelope) outcome" where
  "try_build_and_sign W rq signer =
     (if rq_transaction_type rq = Some TX_TYPE then Err InvalidTransactionRequest
      else map_ok Ethereum (eth_try_build_and_sign W rq signer))"

text \<open>A \<open>ValueError\<close> is the request it refuses and a message.\<close>

definition try_into_sim_tx ::
  "('q, 'k, 't, 'e) eth_requests \<Rightarrow> 'q transaction_request_scheme
     \<Rightarrow> ('q transaction_request_scheme \<times> string, 't envelope) outcome" where
  "try_into_sim_tx W rq =
     (if rq_transaction_type rq = Some TX_TYPE
      then Err (rq, ''Cosmos authorization requires a signed raw transaction'')
      else map_ok Ethereum (eth_build_typed_simulate W rq))"

section \<open>Facts\<close>

lemma length_map_logs [simp]: "length (map_logs meta i logs) = length logs"
  by (induction logs arbitrary: i) simp_all

lemma map_logs_append:
  "map_logs meta i (xs @ ys) = map_logs meta i xs @ map_logs meta (i + word_of_nat (length xs)) ys"
  by (induction xs arbitrary: i) (simp_all add: algebra_simps)

lemma map_logs_nth:
  "k < length logs \<Longrightarrow> map_logs meta i logs ! k = rpc_log_of meta (i + word_of_nat k) (logs ! k)"
proof (induction logs arbitrary: i k)
  case (Cons l logs)
  then show ?case by (cases k) (simp_all add: algebra_simps)
qed simp

lemma map_logs_eq:
  "map_logs meta i logs =
     map (\<lambda>k. rpc_log_of meta (i + word_of_nat k) (logs ! k)) [0..<length logs]"
  by (rule nth_equalityI) (simp_all add: map_logs_nth)

lemma distinct_offsets:
  assumes "n \<le> 2 ^ 64"
  shows "distinct (map (\<lambda>k. i + word_of_nat k :: u64) [0..<n])"
proof -
  have "a = b" if "a < n" "b < n" "(word_of_nat a :: u64) = word_of_nat b" for a b
  proof -
    have "unat (word_of_nat a :: u64) = unat (word_of_nat b :: u64)" using that(3) by simp
    with that(1,2) assms show "a = b" by (simp add: unat_of_nat)
  qed
  then show ?thesis by (auto simp: distinct_map inj_on_def)
qed

section \<open>Properties\<close>

text \<open>C40. Log indices of a receipt are consecutive from the first index, in the order of the logs, and the
  rest of the receipt is unchanged: the logs themselves, type, status and gas; every log names its
  block and transaction. Below \<open>2^64\<close> logs no index occurs twice.\<close>

theorem receipt_log_indices:
  assumes "length (rc_logs rc) \<le> 2 ^ 64"
  shows "let rpc = rwb_receipt (receipt_converter bloom rc first meta) in
    map rl_inner (rc_logs rpc) = rc_logs rc
    \<and> map rl_log_index (rc_logs rpc) = map (\<lambda>k. Some (first + word_of_nat k)) [0..<length (rc_logs rc)]
    \<and> distinct (map rl_log_index (rc_logs rpc))
    \<and> (\<forall>l \<in> set (rc_logs rpc). rl_transaction_hash l = Some (tm_tx_hash meta)
         \<and> rl_block_hash l = Some (tm_block_hash meta) \<and> \<not> rl_removed l)
    \<and> rc_tx_type rpc = rc_tx_type rc \<and> rc_success rpc = rc_success rc
    \<and> rc_cumulative_gas_used rpc = rc_cumulative_gas_used rc"
proof -
  have inner: "map (\<lambda>k. rc_logs rc ! k) [0..<length (rc_logs rc)] = rc_logs rc"
    by (rule map_nth)
  have "distinct (map Some (map (\<lambda>k. first + word_of_nat k) [0..<length (rc_logs rc)]))"
    using distinct_offsets [OF assms] by (subst distinct_map) simp
  with inner show ?thesis
    by (simp add: receipt_converter_def map_logs_eq rpc_log_of_def comp_def Let_def)
qed

definition sample_receipt :: "nat receipt" where
  "sample_receipt = \<lparr>rc_tx_type = COSMOS, rc_success = True, rc_cumulative_gas_used = 21000, rc_logs = [10, 20]\<rparr>"

definition sample_meta :: transaction_meta where
  "sample_meta = \<lparr>tm_tx_hash = 1, tm_index = 0, tm_block_hash = 2, tm_block_number = 3, tm_timestamp = 4\<rparr>"

theorem receipt_log_indices_witness:
  "map rl_log_index (rc_logs (rwb_receipt (receipt_converter (\<lambda>_. ()) sample_receipt 5 sample_meta))) = [Some 5, Some 6]"
  using receipt_log_indices [of sample_receipt "\<lambda>_. ()" 5 sample_meta]
  by (simp add: sample_receipt_def Let_def upt_rec)

text \<open>Splitting the logs of a block over its receipts does not matter: converting two receipts in
  a row, the second from where the first ended, numbers the logs as one receipt with all of them.\<close>

lemma receipts_number_consecutively:
  assumes "rc_logs rc = rc_logs rc1 @ rc_logs rc2"
  shows "map rl_log_index (rc_logs (rwb_receipt (receipt_converter bloom rc1 first meta1)))
      @ map rl_log_index (rc_logs (rwb_receipt
          (receipt_converter bloom rc2 (first + word_of_nat (length (rc_logs rc1))) meta2)))
    = map rl_log_index (rc_logs (rwb_receipt (receipt_converter bloom rc first meta)))"
proof -
  have same: "map rl_log_index (map_logs m i logs) = map rl_log_index (map_logs m' i logs)"
    for m m' i and logs :: "'a list"
    by (simp add: map_logs_eq rpc_log_of_def)
  have "map rl_log_index (rc_logs (rwb_receipt (receipt_converter bloom rc first meta)))
      = map rl_log_index (map_logs meta first (rc_logs rc1))
        @ map rl_log_index (map_logs meta (first + word_of_nat (length (rc_logs rc1))) (rc_logs rc2))"
    by (simp add: receipt_converter_def assms map_logs_append)
  also have "\<dots> = map rl_log_index (map_logs meta1 first (rc_logs rc1))
        @ map rl_log_index (map_logs meta2 (first + word_of_nat (length (rc_logs rc1))) (rc_logs rc2))"
    by (rule arg_cong2 [where f = append]; rule same)
  finally show ?thesis by (simp add: receipt_converter_def)
qed

text \<open>No RPC request assembles a Cosmos transaction from fields: a request of type \<open>0x7e\<close> is refused by
  signing and by simulation, with the request handed back, before any upstream code runs, and
  whatever a request of another type yields is an Ethereum transaction.\<close>

lemma requests_never_build_cosmos:
  "try_build_and_sign W rq signer \<noteq> Ok (Cosmos tx) \<and> try_into_sim_tx W rq \<noteq> Ok (Cosmos tx)
   \<and> (rq_transaction_type rq = Some 0x7e \<longrightarrow>
        try_build_and_sign W rq signer = Err InvalidTransactionRequest
        \<and> (\<exists>msg. try_into_sim_tx W rq = Err (rq, msg)))"
  by (auto simp: try_build_and_sign_def try_into_sim_tx_def outcome_simps TX_TYPE_def)

end
