(* ===== verification/Send_Raw.thy ===== *)
theory Send_Raw
  imports Rpc_Types
begin

text \<open>
  \<open>src/main.rs\<close>: the method \<open>cosmos_sendRawTransaction\<close>. A request takes one of eight permits of
  a semaphore without waiting, is checked, and keeps the permit while the transaction is handed to
  the upstream pool; the permit returns when the answer is sent or the call is dropped. The
  checks are the function \<open>check_request\<close>, the concurrent requests a step relation. A
  \<open>String\<close> is the list of its UTF-8 bytes, as characters; \<open>N\<close> holds the upstream functions.
\<close>

section \<open>Errors\<close>

record error_object =
  eo_code :: int
  eo_message :: string
  eo_data :: "unit option"

definition rpc_error :: "string \<Rightarrow> error_object" where
  "rpc_error message = \<lparr>eo_code = -32000, eo_message = message, eo_data = None\<rparr>"

section \<open>The checks of a request\<close>

text \<open>
  \<open>params_one\<close> is \<open>params.one::<String>()\<close>, \<open>bytes_from_str\<close> the \<open>FromStr\<close> of \<open>Bytes\<close>,
  \<open>send_error_text\<close> the \<open>to_string\<close> of the error of \<open>send_raw_transaction\<close>.
\<close>

record ('q, 'e) rpc_lib =
  params_one :: "'q \<Rightarrow> (error_object, string) outcome"
  bytes_from_str :: "string \<Rightarrow> bytes option"
  send_error_text :: "'e \<Rightarrow> string"

definition check_request ::
  "'m rlp_lib_scheme \<Rightarrow> ('q, 'e) rpc_lib \<Rightarrow> nat \<Rightarrow> 'q \<Rightarrow> (error_object, bytes) outcome" where
  "check_request L N pool_total params =
     and_then (params_one N params) (\<lambda>raw.
     if 2 + 2 * MAX_RAW_TX < length raw \<or> take 4 raw \<noteq> ''0x7e''
     then Err (rpc_error ''invalid Cosmos transaction type or size'')
     else if 3072 \<le> pool_total then Err (rpc_error ''transaction pool is full'')
     else
       and_then (ok_or (bytes_from_str N raw) (rpc_error ''invalid transaction hex'')) (\<lambda>raw.
       and_then (map_err (\<lambda>e. rpc_error (auth_error_message e)) (decode_wire L raw)) (\<lambda>_.
         Ok raw)))"

definition send_response :: "('q, 'e) rpc_lib \<Rightarrow> ('e, b256) outcome \<Rightarrow> (error_object, b256) outcome" where
  "send_response N result = map_err (\<lambda>e. rpc_error (send_error_text N e)) result"

section \<open>The server\<close>

record server =
  sv_permits :: nat
  sv_in_flight :: "bytes list"

definition initial_server :: server where
  "initial_server = \<lparr>sv_permits = 8, sv_in_flight = []\<rparr>"

text \<open>
  A request up to the point where it waits for the pool: \<open>try_acquire_owned\<close>, then the checks;
  on every early return the permit is dropped.
\<close>

definition handle_request ::
  "'m rlp_lib_scheme \<Rightarrow> ('q, 'e) rpc_lib \<Rightarrow> nat \<Rightarrow> 'q \<Rightarrow> server \<Rightarrow> (error_object, bytes) outcome \<times> server" where
  "handle_request L N pool_total params sv =
     (if sv_permits sv = 0 then (Err (rpc_error ''authorization capacity reached''), sv)
      else
        let sv' = sv\<lparr>sv_permits := sv_permits sv - 1\<rparr>; r = check_request L N pool_total params
        in case r of
             Ok raw \<Rightarrow> (r, sv'\<lparr>sv_in_flight := raw # sv_in_flight sv'\<rparr>)
           | _ \<Rightarrow> (r, sv'\<lparr>sv_permits := sv_permits sv' + 1\<rparr>))"

text \<open>The end of a call that waits for the pool: answered, or dropped with its connection.\<close>

definition release :: "bytes \<Rightarrow> server \<Rightarrow> server" where
  "release raw sv =
     sv\<lparr>sv_permits := sv_permits sv + 1, sv_in_flight := remove1 raw (sv_in_flight sv)\<rparr>"

datatype ('q, 'e) rpc_event =
    Request nat 'q "(error_object, bytes) outcome"
  | Answered bytes "('e, b256) outcome" "(error_object, b256) outcome"
  | Dropped bytes

inductive rpc_step ::
  "'m rlp_lib_scheme \<Rightarrow> ('q, 'e) rpc_lib \<Rightarrow> server \<Rightarrow> ('q, 'e) rpc_event \<Rightarrow> server \<Rightarrow> bool"
  for L N where
  request: "handle_request L N pool_total q sv = (r, sv') \<Longrightarrow> rpc_step L N sv (Request pool_total q r) sv'"
| answer: "raw \<in> set (sv_in_flight sv) \<Longrightarrow>
    rpc_step L N sv (Answered raw result (send_response N result)) (release raw sv)"
| drop_call: "raw \<in> set (sv_in_flight sv) \<Longrightarrow> rpc_step L N sv (Dropped raw) (release raw sv)"

inductive rpc_run ::
  "'m rlp_lib_scheme \<Rightarrow> ('q, 'e) rpc_lib \<Rightarrow> ('q, 'e) rpc_event list \<Rightarrow> server \<Rightarrow> bool"
  for L N where
  start: "rpc_run L N [] initial_server"
| more: "rpc_run L N es sv \<Longrightarrow> rpc_step L N sv e sv' \<Longrightarrow> rpc_run L N (es @ [e]) sv'"

inductive_cases rpc_stepE: "rpc_step L N sv e sv'"
inductive_simps rpc_step_request: "rpc_step L N sv (Request pool_total q r) sv'"
inductive_simps rpc_step_answer: "rpc_step L N sv (Answered raw result r) sv'"

section \<open>Starting the node\<close>

definition ensure_genesis :: "b256 \<Rightarrow> (string, unit) outcome" where
  "ensure_genesis genesis_hash =
     ensure (genesis_hash = GENESIS_HASH)
       ''use the experiment's genesis.json; other chains are unsupported''"

section \<open>Hexadecimal text\<close>

text \<open>
  The text of a byte string: two digits for each byte, after \<open>0x\<close>. The parser of \<open>Bytes\<close> reads
  it, and a text with that prefix has two digits for each byte it stands for.
\<close>

definition hex_digit_char :: "nat \<Rightarrow> char" where
  "hex_digit_char d = ''0123456789abcdef'' ! d"

definition hex_text :: "bytes \<Rightarrow> string" where
  "hex_text bs = concat (map (\<lambda>b. [hex_digit_char (unat b div 16), hex_digit_char (unat b mod 16)]) bs)"

locale hex_bytes =
  fixes N :: "('q, 'e) rpc_lib"
  assumes parse_hex_text: "\<And>bs. bytes_from_str N (''0x'' @ hex_text bs) = Some bs"
    and parse_length: "\<And>h bs. bytes_from_str N (''0x'' @ h) = Some bs \<Longrightarrow> length h = 2 * length bs"
begin

lemma guard_redundant:
  assumes "take 4 s = ''0x7e''" "bytes_from_str N s = Some raw" "length raw \<le> MAX_RAW_TX"
  shows "length s \<le> 2 + 2 * MAX_RAW_TX"
proof -
  have "take 2 s = ''0x''"
    using arg_cong [OF assms(1), of "take 2"] by simp
  then have "s = ''0x'' @ drop 2 s"
    using append_take_drop_id [of 2 s] by metis
  with parse_length [of "drop 2 s" raw] assms(2,3) show ?thesis by simp
qed

end

lemma length_hex_text [simp]: "length (hex_text bs) = 2 * length bs"
  by (induction bs) (simp_all add: hex_text_def)

lemma hex_text_Cons:
  "hex_text (b # bs) = hex_digit_char (unat b div 16) # hex_digit_char (unat b mod 16) # hex_text bs"
  by (simp add: hex_text_def)

lemma hex_text_zeros: "hex_text (replicate n 0 @ bs) = replicate (2 * n) CHR ''0'' @ hex_text bs"
  by (induction n) (simp_all add: hex_text_Cons hex_digit_char_def)

section \<open>The reference instance\<close>

fun hex_value :: "char \<Rightarrow> nat option" where
  "hex_value c = (let v = (of_char c :: nat) in
     if 48 \<le> v \<and> v \<le> 57 then Some (v - 48)
     else if 97 \<le> v \<and> v \<le> 102 then Some (v - 87)
     else if 65 \<le> v \<and> v \<le> 70 then Some (v - 55) else None)"

fun hex_pairs :: "string \<Rightarrow> bytes option" where
  "hex_pairs [] = Some []"
| "hex_pairs [c] = None"
| "hex_pairs (c # d # cs) =
     (case (hex_value c, hex_value d, hex_pairs cs) of
        (Some x, Some y, Some bs) \<Rightarrow> Some (word_of_nat (16 * x + y) # bs)
      | _ \<Rightarrow> None)"

definition ref_bytes_from_str :: "string \<Rightarrow> bytes option" where
  "ref_bytes_from_str s = hex_pairs (if take 2 s = ''0x'' then drop 2 s else s)"

definition ref_rpc :: "(string, string) rpc_lib" where
  "ref_rpc = \<lparr>params_one = Ok, bytes_from_str = ref_bytes_from_str, send_error_text = id\<rparr>"

lemma hex_value_digit: "d < 16 \<Longrightarrow> hex_value (hex_digit_char d) = Some d"
proof -
  have "\<forall>d \<in> set [0..<16]. hex_value (hex_digit_char d) = Some d"
    by (simp add: upt_rec hex_digit_char_def)
  then show "d < 16 \<Longrightarrow> hex_value (hex_digit_char d) = Some d" by simp
qed

lemma hex_pairs_hex_text: "hex_pairs (hex_text bs) = Some bs"
proof (induction bs)
  case (Cons b bs)
  have "unat b < 256" using unsigned_less [of b, where ?'a = nat] by simp
  then have "hex_value (hex_digit_char (unat b div 16)) = Some (unat b div 16)"
    "hex_value (hex_digit_char (unat b mod 16)) = Some (unat b mod 16)"
    by (simp_all add: hex_value_digit del: hex_value.simps)
  with Cons show ?case by (simp add: hex_text_Cons del: hex_value.simps)
qed (simp add: hex_text_def)

lemma hex_pairs_length: "hex_pairs cs = Some bs \<Longrightarrow> length cs = 2 * length bs"
  by (induction cs arbitrary: bs rule: hex_pairs.induct)
    (auto simp del: hex_value.simps split: option.splits)

interpretation ref_rpc: hex_bytes ref_rpc
  by unfold_locales (auto simp: ref_rpc_def ref_bytes_from_str_def hex_pairs_hex_text dest: hex_pairs_length)

section \<open>Facts\<close>

lemma decodable_length: "is_ok (decode_wire L raw) \<Longrightarrow> length raw \<le> MAX_RAW_TX"
  using decode_wire_OkD(5) [of L raw] by (auto simp: is_ok_iff)

context rlp_codec
begin

lemma decode_wire_is_ok:
  "is_ok (decode_wire R raw) \<longleftrightarrow>
     (\<exists>op key sg. within_limits op \<and> length key = 33 \<and> length sg = 64 \<and> raw = encode_wire R op key sg)"
proof
  assume "is_ok (decode_wire R raw)"
  then obtain op key sg where "decode_wire R raw = Ok (op, key, sg)"
    by (auto simp: is_ok_iff)
  from decode_wire_OkD(1-4) [OF this]
  show "\<exists>op key sg. within_limits op \<and> length key = 33 \<and> length sg = 64 \<and> raw = encode_wire R op key sg"
    by metis
qed (auto simp: decode_wire_encode_wire)

end

lemma check_request_Ok:
  "check_request L N pool_total q = Ok raw \<longleftrightarrow>
     pool_total < 3072 \<and> (\<exists>s. params_one N q = Ok s \<and> length s \<le> 2 + 2 * MAX_RAW_TX \<and> take 4 s = ''0x7e''
       \<and> bytes_from_str N s = Some raw \<and> is_ok (decode_wire L raw))"
proof (cases "params_one N q")
  case (Ok s)
  show ?thesis
  proof (cases "bytes_from_str N s")
    case None
    with Ok show ?thesis by (simp add: check_request_def)
  next
    case (Some bs)
    with Ok show ?thesis
      by (cases "decode_wire L bs") (auto simp: check_request_def)
  qed
qed (simp_all add: check_request_def)

lemma check_request_decodes: "check_request L N pool_total q = Ok raw \<Longrightarrow> is_ok (decode_wire L raw)"
  unfolding check_request_Ok by blast

lemma check_request_Err:
  "check_request L N pool_total q = Err e \<Longrightarrow> params_one N q = Err e \<or> eo_code e = -32000"
  by (auto simp: check_request_def outcome_simps rpc_error_def split: if_splits)

lemma check_request_returns:
  assumes "rlp_codec L" "params_one N q \<noteq> Panic"
  shows "check_request L N pool_total q \<noteq> Panic"
  using assms(2) rlp_codec.decode_wire_returns [OF assms(1)]
  by (auto simp: check_request_def outcome_simps split: if_splits)

text \<open>The hex text of the wire form of a valid operation passes.\<close>

lemma check_wire_text:
  assumes "rlp_codec L" "hex_bytes N" "within_limits op" "length key = 33" "length sg = 64"
    and "params_one N q = Ok (''0x'' @ hex_text (encode_wire L op key sg))" "pool_total < 3072"
  shows "check_request L N pool_total q = Ok (encode_wire L op key sg)"
proof -
  have "hex_text (encode_wire L op key sg) = ''7e'' @ hex_text (tl (encode_wire L op key sg))"
    by (simp add: encode_wire_def hex_text_Cons TX_TYPE_def hex_digit_char_def)
  then have "take 4 (''0x'' @ hex_text (encode_wire L op key sg)) = ''0x7e''"
    by simp
  moreover have decode: "decode_wire L (encode_wire L op key sg) = Ok (op, key, sg)"
    by (rule rlp_codec.decode_wire_encode_wire [OF assms(1,3-5)])
  ultimately show ?thesis
    using assms(6,7) hex_bytes.parse_hex_text [OF assms(2)] decode_wire_OkD(5) [OF decode]
    by (auto simp: check_request_Ok)
qed

text \<open>The invariant of the server: no permit is lost or invented, and what waits for the pool decodes.\<close>

definition server_ok :: "'m rlp_lib_scheme \<Rightarrow> server \<Rightarrow> bool" where
  "server_ok L sv \<longleftrightarrow> sv_permits sv + length (sv_in_flight sv) = 8
     \<and> (\<forall>raw \<in> set (sv_in_flight sv). is_ok (decode_wire L raw))"

lemma handle_request_cases:
  "handle_request L N pool_total q sv =
     (if sv_permits sv = 0 then (Err (rpc_error ''authorization capacity reached''), sv)
      else (check_request L N pool_total q,
        case check_request L N pool_total q of
          Ok raw \<Rightarrow> \<lparr>sv_permits = sv_permits sv - 1, sv_in_flight = raw # sv_in_flight sv\<rparr>
        | _ \<Rightarrow> sv))"
  by (cases "check_request L N pool_total q"; cases sv) (auto simp: handle_request_def Let_def)

lemma handle_request_server:
  "snd (handle_request L N pool_total q sv) =
     (case fst (handle_request L N pool_total q sv) of
        Ok raw \<Rightarrow> \<lparr>sv_permits = sv_permits sv - 1, sv_in_flight = raw # sv_in_flight sv\<rparr>
      | _ \<Rightarrow> sv)"
  by (simp add: handle_request_cases)

lemma release_ok: "server_ok L sv \<Longrightarrow> raw \<in> set (sv_in_flight sv) \<Longrightarrow> server_ok L (release raw sv)"
proof -
  assume ok: "server_ok L sv" and "raw \<in> set (sv_in_flight sv)"
  from this(2) obtain xs ys where "sv_in_flight sv = xs @ raw # ys" "raw \<notin> set xs"
    by (blast dest: split_list_first)
  with ok show "server_ok L (release raw sv)"
    by (simp add: server_ok_def release_def remove1_append)
qed

lemma rpc_step_ok: "rpc_step L N sv e sv' \<Longrightarrow> server_ok L sv \<Longrightarrow> server_ok L sv'"
proof (induction rule: rpc_step.induct)
  case (request pool_total q sv r sv')
  show ?case
  proof (cases "sv_permits sv = 0")
    case True
    with request show ?thesis by (simp add: handle_request_cases)
  next
    case False
    then show ?thesis
      using request
      by (cases "check_request L N pool_total q")
        (auto simp: handle_request_cases server_ok_def intro: check_request_decodes [OF sym])
  qed
qed (simp_all add: release_ok)

lemma rpc_run_ok: "rpc_run L N es sv \<Longrightarrow> server_ok L sv"
proof (induction rule: rpc_run.induct)
  case start
  then show ?case by (simp add: initial_server_def server_ok_def)
qed (rule rpc_step_ok)

lemma rpc_run_drain:
  "rpc_run L N es sv \<Longrightarrow>
     rpc_run L N (es @ map Dropped (sv_in_flight sv))
       \<lparr>sv_permits = sv_permits sv + length (sv_in_flight sv), sv_in_flight = []\<rparr>"
proof (induction "sv_in_flight sv" arbitrary: es sv)
  case Nil
  then show ?case by (cases sv) simp
next
  case (Cons raw rest)
  have "rpc_step L N sv (Dropped raw) (release raw sv)"
    by (rule drop_call) (simp flip: Cons.hyps(2))
  with Cons.prems have "rpc_run L N (es @ [Dropped raw]) (release raw sv)"
    by (rule more)
  from Cons.hyps(1) [OF _ this] show ?case
    by (simp add: release_def flip: Cons.hyps(2))
qed

section \<open>Properties\<close>

text \<open>C35. What reaches the pool through \<open>cosmos_sendRawTransaction\<close>: a request is forwarded exactly when the
  pool is below its bound and the parameter is the \<open>0x7e\<close> hex text of the canonical wire form of an
  operation within the limits; the textual size guard refuses nothing that the byte-level limit
  would accept.\<close>

theorem request_forwarded_iff:
  assumes "rlp_codec L" "hex_bytes N"
  shows "check_request L N pool_total q = Ok raw \<longleftrightarrow>
    pool_total < 3072
    \<and> (\<exists>s. params_one N q = Ok s \<and> take 4 s = ''0x7e'' \<and> bytes_from_str N s = Some raw)
    \<and> (\<exists>op key sg. within_limits op \<and> length key = 33 \<and> length sg = 64 \<and> raw = encode_wire L op key sg)"
proof -
  have decodes: "is_ok (decode_wire L raw) \<longleftrightarrow>
      (\<exists>op key sg. within_limits op \<and> length key = 33 \<and> length sg = 64 \<and> raw = encode_wire L op key sg)"
    by (rule rlp_codec.decode_wire_is_ok [OF assms(1)])
  have "length s \<le> 2 + 2 * MAX_RAW_TX"
    if "take 4 s = ''0x7e''" "bytes_from_str N s = Some raw" "is_ok (decode_wire L raw)" for s
    by (rule hex_bytes.guard_redundant [OF assms(2) that(1,2) decodable_length [OF that(3)]])
  then show ?thesis
    unfolding check_request_Ok decodes [symmetric] by blast
qed

theorem request_forwarded_iff_witness:
  "check_request ref_libs ref_rpc 3072 (''0x'' @ hex_text fixture_raw) \<noteq> Ok fixture_raw
   \<and> check_request ref_libs ref_rpc 5 (''0x'' @ hex_text fixture_raw) = Ok fixture_raw"
proof -
  have "take 4 (''0x'' @ hex_text fixture_raw) = ''0x7e''"
    by (simp add: fixture_raw_def hex_text_Cons hex_digit_char_def)
  moreover have "bytes_from_str ref_rpc (''0x'' @ hex_text fixture_raw) = Some fixture_raw"
    by (rule ref_rpc.parse_hex_text)
  moreover have "fixture_raw = encode_wire ref_libs fixture_op fixture_key fixture_sig"
    by (simp add: wire_fixture)
  ultimately have "check_request ref_libs ref_rpc n (''0x'' @ hex_text fixture_raw) = Ok fixture_raw \<longleftrightarrow> n < 3072" for n
    using fixture_limits(1) fixture_lengths(1,2)
    by (subst request_forwarded_iff [OF ref.rlp_codec_axioms ref_rpc.hex_bytes_axioms])
      (simp only: ref_rpc_def rpc_lib.simps outcome.inject, blast)
  then show ?thesis by simp
qed

text \<open>A client that sends the hex text of the wire form of a valid operation is never refused by the checks
  while the pool has room: no guard of the handler is stricter than the protocol, and the request
  never panics whatever it contains; its errors are the parameter parser's or have code \<open>-32000\<close>.\<close>

lemma wire_text_is_accepted:
  assumes "rlp_codec L" "hex_bytes N" "\<And>q. params_one N q \<noteq> Panic"
    and "params_one N q = Ok (''0x'' @ hex_text (encode_wire L op key sg))"
    and "within_limits op" "length key = 33" "length sg = 64" "pool_total < 3072"
  shows "check_request L N pool_total q = Ok (encode_wire L op key sg)
    \<and> check_request L N pool_total' q' \<noteq> Panic
    \<and> (check_request L N pool_total' q' = Err e \<longrightarrow> params_one N q' = Err e \<or> eo_code e = -32000)"
proof -
  have "check_request L N pool_total q = Ok (encode_wire L op key sg)"
    by (rule check_wire_text [OF assms(1,2,5-7,4,8)])
  then show ?thesis
    using check_request_returns [OF assms(1,3)] check_request_Err [of L N pool_total' q' e] by blast
qed

text \<open>Permits are neither lost nor invented: in every run of requests, answers and dropped calls, the
  free permits and the calls in flight add up to eight, everything in flight is a transaction that
  decodes, a request that is refused leaves the server as it was, and with eight calls in flight the
  next request gets the capacity error without its parameters being read.\<close>

lemma permits_invariant:
  assumes "rpc_run L N es sv"
  shows "sv_permits sv + length (sv_in_flight sv) = 8
    \<and> (\<forall>raw \<in> set (sv_in_flight sv). is_ok (decode_wire L raw))
    \<and> ((\<nexists>raw. fst (handle_request L N pool_total q sv) = Ok raw) \<longrightarrow>
         snd (handle_request L N pool_total q sv) = sv)
    \<and> (length (sv_in_flight sv) = 8 \<longrightarrow>
         handle_request L N pool_total q sv = (Err (rpc_error ''authorization capacity reached''), sv))"
proof -
  have ok: "server_ok L sv" using assms by (rule rpc_run_ok)
  have "snd (handle_request L N pool_total q sv) = sv"
    if "\<nexists>raw. fst (handle_request L N pool_total q sv) = Ok raw"
    using that by (subst handle_request_server) (auto split: outcome.splits)
  with ok show ?thesis
    by (auto simp: server_ok_def handle_request_cases)
qed

text \<open>C36. No schedule exhausts the server for good: from every state that a run reaches, once the calls in
  flight end, even all of them dropped by their clients, the eight permits are free again.\<close>

theorem permits_recover:
  assumes "rpc_run L N es sv"
  shows "rpc_run L N (es @ map Dropped (sv_in_flight sv)) initial_server"
proof -
  have "sv_permits sv + length (sv_in_flight sv) = 8"
    using rpc_run_ok [OF assms] by (simp add: server_ok_def)
  with rpc_run_drain [OF assms] show ?thesis by (simp add: initial_server_def)
qed

theorem permits_recover_witness:
  "\<exists>es. rpc_run ref_libs ref_rpc (es @ [Dropped fixture_raw]) initial_server \<and> length es = 1"
proof -
  let ?q = "''0x'' @ hex_text fixture_raw"
  have "take 4 ?q = ''0x7e''"
    by (simp add: fixture_raw_def hex_text_Cons hex_digit_char_def)
  moreover have "bytes_from_str ref_rpc ?q = Some fixture_raw"
    by (rule ref_rpc.parse_hex_text)
  moreover have decode: "decode_wire ref_libs fixture_raw = Ok (fixture_op, fixture_key, fixture_sig)"
    using ref.decode_wire_encode_wire [OF fixture_limits(1) fixture_lengths(1,2)] by (simp add: wire_fixture)
  ultimately have "check_request ref_libs ref_rpc 0 ?q = Ok fixture_raw"
    using decode_wire_OkD(5) [OF decode] by (auto simp: check_request_Ok ref_rpc_def)
  then have "handle_request ref_libs ref_rpc 0 ?q initial_server
      = (Ok fixture_raw, \<lparr>sv_permits = 7, sv_in_flight = [fixture_raw]\<rparr>)"
    by (simp add: handle_request_cases initial_server_def)
  from rpc_run.more [OF rpc_run.start rpc_step.request [OF this]]
  have "rpc_run ref_libs ref_rpc [Request 0 ?q (Ok fixture_raw)]
      \<lparr>sv_permits = 7, sv_in_flight = [fixture_raw]\<rparr>" by simp
  from permits_recover [OF this] show ?thesis
    by (intro exI [of _ "[Request 0 ?q (Ok fixture_raw)]"]) simp
qed

section \<open>The abstract server\<close>

text \<open>
  What a client may rely on: a counter of the calls that wait for the pool, bounded by eight. A call
  enters below the bound, is turned away at it, is refused by the checks at any time below it, and
  leaves when it ends.
\<close>

datatype gate_event = Enter | TurnAway | Refuse | Leave

inductive gate_step :: "nat \<Rightarrow> gate_event \<Rightarrow> nat \<Rightarrow> bool" where
  enter: "n < 8 \<Longrightarrow> gate_step n Enter (Suc n)"
| turn_away: "n = 8 \<Longrightarrow> gate_step n TurnAway n"
| refuse: "n < 8 \<Longrightarrow> gate_step n Refuse n"
| leave: "gate_step (Suc n) Leave n"

inductive gate_run :: "gate_event list \<Rightarrow> nat \<Rightarrow> bool" where
  gate_start: "gate_run [] 0"
| gate_more: "gate_run gs n \<Longrightarrow> gate_step n g n' \<Longrightarrow> gate_run (gs @ [g]) n'"

inductive_simps gate_step_simps: "gate_step n Enter n'" "gate_step n TurnAway n'" "gate_step n Refuse n'"
  "gate_step n Leave n'"

text \<open>The event as the counter sees it.\<close>

fun gate_of :: "('q, 'e) rpc_event \<Rightarrow> gate_event" where
  "gate_of (Request _ _ (Ok _)) = Enter"
| "gate_of (Request _ _ (Err e)) =
     (if e = rpc_error ''authorization capacity reached'' then TurnAway else Refuse)"
| "gate_of (Request _ _ Panic) = Refuse"
| "gate_of (Answered _ _ _) = Leave"
| "gate_of (Dropped _) = Leave"

lemma check_request_not_capacity:
  assumes "\<And>q. params_one N q \<noteq> Err (rpc_error ''authorization capacity reached'')"
  shows "check_request L N pool_total q \<noteq> Err (rpc_error ''authorization capacity reached'')"
proof -
  have "''authorization capacity reached'' \<noteq> auth_error_message e" for e
    by (cases e) simp_all
  then show ?thesis
    using assms [of q] by (auto simp: check_request_def outcome_simps rpc_error_def split: if_splits)
qed

lemma release_length:
  "raw \<in> set (sv_in_flight sv) \<Longrightarrow>
     length (sv_in_flight sv) = Suc (length (sv_in_flight (release raw sv)))"
  by (auto simp: release_def remove1_append dest!: split_list_first)

lemma rpc_step_gate:
  assumes "\<And>q. params_one N q \<noteq> Err (rpc_error ''authorization capacity reached'')"
    and "rpc_step L N sv e sv'" "server_ok L sv"
  shows "gate_step (length (sv_in_flight sv)) (gate_of e) (length (sv_in_flight sv'))"
  using assms(2,3)
proof (induction rule: rpc_step.induct)
  case (request pool_total q sv r sv')
  show ?case
  proof (cases "sv_permits sv = 0")
    case True
    with request show ?thesis
      by (auto simp: handle_request_cases server_ok_def gate_step_simps)
  next
    case False
    then have "length (sv_in_flight sv) < 8" using request(2) by (simp add: server_ok_def)
    moreover have "check_request L N pool_total q = r"
      "sv' = (case r of Ok raw \<Rightarrow> \<lparr>sv_permits = sv_permits sv - 1, sv_in_flight = raw # sv_in_flight sv\<rparr> | _ \<Rightarrow> sv)"
      using False request(1) by (auto simp: handle_request_cases)
    ultimately show ?thesis
      using check_request_not_capacity [OF assms(1), of L pool_total q]
      by (cases r) (auto simp: gate_step_simps)
  qed
qed (simp_all add: release_length gate_step_simps)

text \<open>C14. The server implements the bounded counter: every run of requests, answers and dropped calls is,
  event by event, a run of the abstract gate that ends with as many calls as are in flight, so that a
  call is turned away exactly when eight others wait.\<close>

theorem server_refines_gate:
  assumes "\<And>q. params_one N q \<noteq> Err (rpc_error ''authorization capacity reached'')"
    and "rpc_run L N es sv"
  shows "gate_run (map gate_of es) (length (sv_in_flight sv))"
  using assms(2)
proof (induction rule: rpc_run.induct)
  case start
  then show ?case by (simp add: initial_server_def gate_start)
next
  case (more es sv e sv')
  from gate_more [OF more.IH rpc_step_gate [OF assms(1) more.hyps(2) rpc_run_ok [OF more.hyps(1)]]]
  show ?case by simp
qed

theorem server_refines_gate_witness:
  "gate_run [Refuse] 0"
proof -
  have no_capacity: "params_one ref_rpc q \<noteq> Err (rpc_error ''authorization capacity reached'')" for q
    by (simp add: ref_rpc_def)
  have check: "check_request ref_libs ref_rpc 0 ''0x7f'' = Err (rpc_error ''invalid Cosmos transaction type or size'')"
    by (simp add: check_request_def ref_rpc_def)
  then have "handle_request ref_libs ref_rpc 0 ''0x7f'' initial_server
      = (Err (rpc_error ''invalid Cosmos transaction type or size''), initial_server)"
    by (simp add: handle_request_cases initial_server_def)
  from server_refines_gate [OF no_capacity rpc_run.more [OF rpc_run.start rpc_step.request [OF this]]]
  show ?thesis by (simp add: initial_server_def rpc_error_def)
qed

end
