(* ===== verification/Built_Payload.thy ===== *)
theory Built_Payload
  imports Rpc_Types
begin

text \<open>
  \<open>src/payload/built.rs\<close> and the engine types of \<open>src/payload/engine.rs\<close>: a built payload and
  its conversions into the envelopes of the engine API. The record \<open>F\<close> holds the upstream
  constructors of execution payloads and blob bundles; a block is opaque except for its hash, its
  beacon root and its blob hashes.
\<close>

section \<open>Built payloads\<close>

datatype 's blob_sidecars = EmptySidecars | Eip4844 "'s list" | Eip7594 "'s list"

record ('blk, 's, 'q) built_payload =
  bp_block :: 'blk
  bp_fees :: u256
  bp_sidecars :: "'s blob_sidecars"
  bp_requests :: "'q option"
  bp_block_access_list :: "bytes option"

definition built_payload_new ::
  "'blk \<Rightarrow> u256 \<Rightarrow> 'q option \<Rightarrow> bytes option \<Rightarrow> ('blk, 's, 'q) built_payload" where
  "built_payload_new blk fees requests bal =
     \<lparr>bp_block = blk, bp_fees = fees, bp_sidecars = EmptySidecars, bp_requests = requests,
      bp_block_access_list = bal\<rparr>"

text \<open>The accessors, among them those of the trait \<open>BuiltPayload\<close>; \<open>sealed_block\<close> forgets the senders.\<close>

definition built_block :: "('blk \<Rightarrow> 'sealed) \<Rightarrow> ('blk, 's, 'q) built_payload \<Rightarrow> 'sealed" where
  "built_block sealed_block p = sealed_block (bp_block p)"

definition built_recovered_block :: "('blk, 's, 'q) built_payload \<Rightarrow> 'blk" where
  "built_recovered_block p = bp_block p"

definition built_fees :: "('blk, 's, 'q) built_payload \<Rightarrow> u256" where
  "built_fees p = bp_fees p"

definition built_sidecars :: "('blk, 's, 'q) built_payload \<Rightarrow> 's blob_sidecars" where
  "built_sidecars p = bp_sidecars p"

definition built_access_list :: "('blk, 's, 'q) built_payload \<Rightarrow> bytes option" where
  "built_access_list p = bp_block_access_list p"

definition built_requests :: "('blk, 's, 'q) built_payload \<Rightarrow> 'q option" where
  "built_requests p = bp_requests p"

definition with_sidecars ::
  "('blk, 's, 'q) built_payload \<Rightarrow> 's blob_sidecars \<Rightarrow> ('blk, 's, 'q) built_payload" where
  "with_sidecars p sidecars = p\<lparr>bp_sidecars := sidecars\<rparr>"

datatype conversion_error = UnexpectedEip4844Sidecars | UnexpectedEip7594Sidecars | MissingBlockAccessList

text \<open>
  The payload constructors take the hash and the block; the last also the access list.
  \<open>requests_default\<close> is \<open>Requests::default()\<close>.
\<close>

record ('blk, 's, 'q, 'p1, 'p2, 'p3, 'p4, 'b1, 'b2, 'pl, 'sd) payload_lib =
  blk_hash :: "'blk \<Rightarrow> b256"
  blk_parent_beacon_block_root :: "'blk \<Rightarrow> b256 option"
  blk_blob_versioned_hashes :: "'blk \<Rightarrow> b256 list"
  payload_v1 :: "b256 \<Rightarrow> 'blk \<Rightarrow> 'p1"
  payload_v2 :: "b256 \<Rightarrow> 'blk \<Rightarrow> 'p2"
  payload_v3 :: "b256 \<Rightarrow> 'blk \<Rightarrow> 'p3"
  payload_v4 :: "b256 \<Rightarrow> 'blk \<Rightarrow> bytes \<Rightarrow> 'p4"
  bundle_v1_empty :: 'b1
  bundle_v1_from :: "'s list \<Rightarrow> 'b1"
  bundle_v2_empty :: 'b2
  bundle_v2_from :: "'s list \<Rightarrow> 'b2"
  requests_default :: 'q
  payload_with_extras :: "b256 \<Rightarrow> 'blk \<Rightarrow> bytes option \<Rightarrow> 'pl \<times> 'sd"
  sidecar_v4 :: "b256 \<Rightarrow> b256 list \<Rightarrow> 'q \<Rightarrow> 'sd"

section \<open>Engine envelopes\<close>

record 'p2 envelope_v2 =
  v2_block_value :: u256
  v2_execution_payload :: 'p2

record ('p3, 'b1) envelope_v3 =
  v3_execution_payload :: 'p3
  v3_block_value :: u256
  v3_blobs_bundle :: 'b1
  v3_should_override_builder :: bool

record ('p3, 'b1, 'q) envelope_v4 =
  v4_envelope_inner :: "('p3, 'b1) envelope_v3"
  v4_execution_requests :: 'q

text \<open>Versions 5 and 6 differ in the execution payload only.\<close>

record ('p, 'b2, 'q) envelope_v56 =
  v5_execution_payload :: 'p
  v5_block_value :: u256
  v5_blobs_bundle :: 'b2
  v5_should_override_builder :: bool
  v5_execution_requests :: 'q

type_synonym ('blk, 's, 'q, 'p1, 'p2, 'p3, 'p4, 'b1, 'b2, 'pl, 'sd) plib =
  "('blk, 's, 'q, 'p1, 'p2, 'p3, 'p4, 'b1, 'b2, 'pl, 'sd) payload_lib"

definition into_v1 ::
  "('blk, 's, 'q, 'p1, 'p2, 'p3, 'p4, 'b1, 'b2, 'pl, 'sd) plib \<Rightarrow> ('blk, 's, 'q) built_payload \<Rightarrow> 'p1" where
  "into_v1 F p = payload_v1 F (blk_hash F (bp_block p)) (bp_block p)"

definition into_v2 ::
  "('blk, 's, 'q, 'p1, 'p2, 'p3, 'p4, 'b1, 'b2, 'pl, 'sd) plib \<Rightarrow> ('blk, 's, 'q) built_payload
     \<Rightarrow> 'p2 envelope_v2" where
  "into_v2 F p =
     \<lparr>v2_block_value = bp_fees p,
      v2_execution_payload = payload_v2 F (blk_hash F (bp_block p)) (bp_block p)\<rparr>"

definition try_into_v3 ::
  "('blk, 's, 'q, 'p1, 'p2, 'p3, 'p4, 'b1, 'b2, 'pl, 'sd) plib \<Rightarrow> ('blk, 's, 'q) built_payload
     \<Rightarrow> (conversion_error, ('p3, 'b1) envelope_v3) outcome" where
  "try_into_v3 F p =
     and_then
       (case bp_sidecars p of
          EmptySidecars \<Rightarrow> Ok (bundle_v1_empty F)
        | Eip4844 sidecars \<Rightarrow> Ok (bundle_v1_from F sidecars)
        | Eip7594 _ \<Rightarrow> Err UnexpectedEip7594Sidecars)
       (\<lambda>bundle.
         Ok \<lparr>v3_execution_payload = payload_v3 F (blk_hash F (bp_block p)) (bp_block p),
             v3_block_value = bp_fees p, v3_blobs_bundle = bundle,
             v3_should_override_builder = False\<rparr>)"

text \<open>\<open>requests.take().unwrap_or_default()\<close> leaves \<open>None\<close> in the payload that is converted on.\<close>

definition try_into_v4 ::
  "('blk, 's, 'q, 'p1, 'p2, 'p3, 'p4, 'b1, 'b2, 'pl, 'sd) plib \<Rightarrow> ('blk, 's, 'q) built_payload
     \<Rightarrow> (conversion_error, ('p3, 'b1, 'q) envelope_v4) outcome" where
  "try_into_v4 F p =
     (let execution_requests = unwrap_or (bp_requests p) (requests_default F);
          p = p\<lparr>bp_requests := None\<rparr>
      in and_then (try_into_v3 F p) (\<lambda>inner.
           Ok \<lparr>v4_envelope_inner = inner, v4_execution_requests = execution_requests\<rparr>))"

definition bundle_v2 ::
  "('blk, 's, 'q, 'p1, 'p2, 'p3, 'p4, 'b1, 'b2, 'pl, 'sd) plib \<Rightarrow> 's blob_sidecars
     \<Rightarrow> (conversion_error, 'b2) outcome" where
  "bundle_v2 F sidecars =
     (case sidecars of
        EmptySidecars \<Rightarrow> Ok (bundle_v2_empty F)
      | Eip7594 sidecars \<Rightarrow> Ok (bundle_v2_from F sidecars)
      | Eip4844 _ \<Rightarrow> Err UnexpectedEip4844Sidecars)"

definition try_into_v5 ::
  "('blk, 's, 'q, 'p1, 'p2, 'p3, 'p4, 'b1, 'b2, 'pl, 'sd) plib \<Rightarrow> ('blk, 's, 'q) built_payload
     \<Rightarrow> (conversion_error, ('p3, 'b2, 'q) envelope_v56) outcome" where
  "try_into_v5 F p =
     and_then (bundle_v2 F (bp_sidecars p)) (\<lambda>bundle.
       Ok \<lparr>v5_execution_payload = payload_v3 F (blk_hash F (bp_block p)) (bp_block p),
           v5_block_value = bp_fees p, v5_blobs_bundle = bundle,
           v5_should_override_builder = False,
           v5_execution_requests = unwrap_or (bp_requests p) (requests_default F)\<rparr>)"

definition try_into_v6 ::
  "('blk, 's, 'q, 'p1, 'p2, 'p3, 'p4, 'b1, 'b2, 'pl, 'sd) plib \<Rightarrow> ('blk, 's, 'q) built_payload
     \<Rightarrow> (conversion_error, ('p4, 'b2, 'q) envelope_v56) outcome" where
  "try_into_v6 F p =
     and_then (ok_or (bp_block_access_list p) MissingBlockAccessList) (\<lambda>bal.
     and_then (bundle_v2 F (bp_sidecars p)) (\<lambda>bundle.
       Ok \<lparr>v5_execution_payload = payload_v4 F (blk_hash F (bp_block p)) (bp_block p) bal,
           v5_block_value = bp_fees p, v5_blobs_bundle = bundle,
           v5_should_override_builder = False,
           v5_execution_requests = unwrap_or (bp_requests p) (requests_default F)\<rparr>))"

definition into_execution_data ::
  "('blk, 's, 'q, 'p1, 'p2, 'p3, 'p4, 'b1, 'b2, 'pl, 'sd) plib \<Rightarrow> ('blk, 's, 'q) built_payload
     \<Rightarrow> 'pl \<times> 'sd" where
  "into_execution_data F p =
     (let block = bp_block p;
          (payload, sidecar) = payload_with_extras F (blk_hash F block) block (bp_block_access_list p);
          sidecar = (case bp_requests p of
              None \<Rightarrow> sidecar
            | Some requests \<Rightarrow>
                (case blk_parent_beacon_block_root F block of
                   None \<Rightarrow> sidecar
                 | Some root \<Rightarrow> sidecar_v4 F root (blk_blob_versioned_hashes F block) requests))
      in (payload, sidecar))"

text \<open>The conversions of the engine API, by \<open>TryFrom\<close> and \<open>From\<close>.\<close>

definition envelope_v3_try_from ::
  "('blk, 's, 'q, 'p1, 'p2, 'p3, 'p4, 'b1, 'b2, 'pl, 'sd) plib \<Rightarrow> ('blk, 's, 'q) built_payload
     \<Rightarrow> (conversion_error, ('p3, 'b1) envelope_v3) outcome" where
  "envelope_v3_try_from F value = try_into_v3 F value"

definition envelope_v4_try_from ::
  "('blk, 's, 'q, 'p1, 'p2, 'p3, 'p4, 'b1, 'b2, 'pl, 'sd) plib \<Rightarrow> ('blk, 's, 'q) built_payload
     \<Rightarrow> (conversion_error, ('p3, 'b1, 'q) envelope_v4) outcome" where
  "envelope_v4_try_from F value = try_into_v4 F value"

definition envelope_v5_try_from ::
  "('blk, 's, 'q, 'p1, 'p2, 'p3, 'p4, 'b1, 'b2, 'pl, 'sd) plib \<Rightarrow> ('blk, 's, 'q) built_payload
     \<Rightarrow> (conversion_error, ('p3, 'b2, 'q) envelope_v56) outcome" where
  "envelope_v5_try_from F value = try_into_v5 F value"

definition envelope_v6_try_from ::
  "('blk, 's, 'q, 'p1, 'p2, 'p3, 'p4, 'b1, 'b2, 'pl, 'sd) plib \<Rightarrow> ('blk, 's, 'q) built_payload
     \<Rightarrow> (conversion_error, ('p4, 'b2, 'q) envelope_v56) outcome" where
  "envelope_v6_try_from F value = try_into_v6 F value"

definition execution_data_from ::
  "('blk, 's, 'q, 'p1, 'p2, 'p3, 'p4, 'b1, 'b2, 'pl, 'sd) plib \<Rightarrow> ('blk, 's, 'q) built_payload
     \<Rightarrow> 'pl \<times> 'sd" where
  "execution_data_from F value = into_execution_data F value"

text \<open>\<open>From<CosmosBuiltPayload> for BigBlockData\<close> is unreachable.\<close>

definition into_big_block_data :: "('blk, 's, 'q) built_payload \<Rightarrow> ('e, 'bb) outcome" where
  "into_big_block_data p = Panic"

text \<open>\<open>CosmosEngineTypes::block_to_payload\<close>.\<close>

definition block_to_payload ::
  "('blk, 's, 'q, 'p1, 'p2, 'p3, 'p4, 'b1, 'b2, 'pl, 'sd) plib \<Rightarrow> 'blk \<Rightarrow> bytes option \<Rightarrow> 'pl \<times> 'sd" where
  "block_to_payload F block bal = payload_with_extras F (blk_hash F block) block bal"

section \<open>Properties\<close>

text \<open>When the sidecars of a payload suit the forks before Osaka and from Osaka on.\<close>

fun pre_osaka_sidecars :: "'s blob_sidecars \<Rightarrow> bool" where
  "pre_osaka_sidecars (Eip7594 _) = False"
| "pre_osaka_sidecars _ = True"

fun osaka_sidecars :: "'s blob_sidecars \<Rightarrow> bool" where
  "osaka_sidecars (Eip4844 _) = False"
| "osaka_sidecars _ = True"

text \<open>The sidecars of either kind.\<close>

fun sidecar_list :: "'s blob_sidecars \<Rightarrow> 's list" where
  "sidecar_list EmptySidecars = []"
| "sidecar_list (Eip4844 s) = s"
| "sidecar_list (Eip7594 s) = s"

lemma envelopes_ok:
  "is_ok (try_into_v3 F p) \<longleftrightarrow> pre_osaka_sidecars (bp_sidecars p)"
  "is_ok (try_into_v4 F p) \<longleftrightarrow> pre_osaka_sidecars (bp_sidecars p)"
  "is_ok (try_into_v5 F p) \<longleftrightarrow> osaka_sidecars (bp_sidecars p)"
  "is_ok (try_into_v6 F p) \<longleftrightarrow> osaka_sidecars (bp_sidecars p) \<and> bp_block_access_list p \<noteq> None"
  by (cases "bp_sidecars p"; cases "bp_block_access_list p";
      simp add: try_into_v3_def try_into_v4_def try_into_v5_def try_into_v6_def bundle_v2_def Let_def)+

text \<open>C39. A built payload converts to the envelopes of its fork and says what is wrong otherwise. Versions 3
  and 4 fail exactly for Osaka's sidecars, naming these, version 5 exactly for sidecars from before
  Osaka, naming those, and version 6 first for a missing block access list and then as version 5; no
  conversion panics or fails otherwise. An envelope has the payload's block, value and all of its
  sidecars, is not marked to override the builder, and from version 4 on has its requests, the
  default ones when there are none; version 4 wraps version 3, and version 6 is version 5 but for the
  execution payload, which has the access list.\<close>

theorem envelope_conversions:
  "(\<forall>e. try_into_v3 F p = Err e \<longleftrightarrow> e = UnexpectedEip7594Sidecars \<and> \<not> pre_osaka_sidecars (bp_sidecars p))
   \<and> (\<forall>e. try_into_v4 F p = Err e \<longleftrightarrow> e = UnexpectedEip7594Sidecars \<and> \<not> pre_osaka_sidecars (bp_sidecars p))
   \<and> (\<forall>e. try_into_v5 F p = Err e \<longleftrightarrow> e = UnexpectedEip4844Sidecars \<and> \<not> osaka_sidecars (bp_sidecars p))
   \<and> (\<forall>e. try_into_v6 F p = Err e \<longleftrightarrow>
        (if bp_block_access_list p = None then e = MissingBlockAccessList
         else e = UnexpectedEip4844Sidecars \<and> \<not> osaka_sidecars (bp_sidecars p)))
   \<and> try_into_v3 F p \<noteq> Panic \<and> try_into_v4 F p \<noteq> Panic \<and> try_into_v5 F p \<noteq> Panic \<and> try_into_v6 F p \<noteq> Panic
   \<and> (\<forall>e. try_into_v3 F p = Ok e \<longrightarrow>
        v3_execution_payload e = payload_v3 F (blk_hash F (bp_block p)) (bp_block p)
        \<and> v3_block_value e = bp_fees p \<and> \<not> v3_should_override_builder e
        \<and> v3_blobs_bundle e = (if bp_sidecars p = EmptySidecars then bundle_v1_empty F
                               else bundle_v1_from F (sidecar_list (bp_sidecars p))))
   \<and> (\<forall>e. try_into_v4 F p = Ok e \<longrightarrow> try_into_v3 F p = Ok (v4_envelope_inner e)
        \<and> v4_execution_requests e = unwrap_or (bp_requests p) (requests_default F))
   \<and> (\<forall>e. try_into_v5 F p = Ok e \<longrightarrow>
        v5_execution_payload e = payload_v3 F (blk_hash F (bp_block p)) (bp_block p)
        \<and> v5_block_value e = bp_fees p \<and> \<not> v5_should_override_builder e
        \<and> v5_execution_requests e = unwrap_or (bp_requests p) (requests_default F)
        \<and> v5_blobs_bundle e = (if bp_sidecars p = EmptySidecars then bundle_v2_empty F
                               else bundle_v2_from F (sidecar_list (bp_sidecars p))))
   \<and> (\<forall>bal. bp_block_access_list p = Some bal \<longrightarrow> try_into_v6 F p =
        map_ok (\<lambda>e. \<lparr>v5_execution_payload = payload_v4 F (blk_hash F (bp_block p)) (bp_block p) bal,
          v5_block_value = v5_block_value e, v5_blobs_bundle = v5_blobs_bundle e,
          v5_should_override_builder = v5_should_override_builder e,
          v5_execution_requests = v5_execution_requests e\<rparr>) (try_into_v5 F p))"
  by (cases "bp_sidecars p"; cases "bp_block_access_list p")
    (auto simp: try_into_v3_def try_into_v4_def try_into_v5_def try_into_v6_def bundle_v2_def Let_def)

definition ref_payload_lib ::
  "(nat, nat, nat, nat, nat, nat, nat, nat list, nat list, nat \<times> bytes option, nat option) payload_lib" where
  "ref_payload_lib = \<lparr>blk_hash = word_of_nat, blk_parent_beacon_block_root = (\<lambda>b. Some (word_of_nat b)),
     blk_blob_versioned_hashes = (\<lambda>_. []), payload_v1 = (\<lambda>_ b. b), payload_v2 = (\<lambda>_ b. b),
     payload_v3 = (\<lambda>_ b. b), payload_v4 = (\<lambda>_ b _. b), bundle_v1_empty = [], bundle_v1_from = (\<lambda>s. s),
     bundle_v2_empty = [], bundle_v2_from = (\<lambda>s. s), requests_default = 0,
     payload_with_extras = (\<lambda>_ b bal. ((b, bal), None)), sidecar_v4 = (\<lambda>_ _ q. Some q)\<rparr>"

theorem envelope_conversions_witness:
  "try_into_v6 ref_payload_lib (built_payload_new 3 7 None None) = Err MissingBlockAccessList
   \<and> (\<exists>e. try_into_v5 ref_payload_lib (with_sidecars (built_payload_new 3 7 (Some 9) None) (Eip7594 [4, 5])) = Ok e
        \<and> v5_blobs_bundle e = [4, 5] \<and> v5_execution_requests e = 9)"
proof (rule conjI)
  show "try_into_v6 ref_payload_lib (built_payload_new 3 7 None None) = Err MissingBlockAccessList"
    using envelope_conversions [of ref_payload_lib "built_payload_new 3 7 None None"]
    by (simp add: built_payload_new_def)
next
  let ?p = "with_sidecars (built_payload_new 3 7 (Some 9) None) (Eip7594 [4, 5]) :: (nat, nat, nat) built_payload"
  have "is_ok (try_into_v5 ref_payload_lib ?p)"
    by (simp add: envelopes_ok with_sidecars_def)
  then obtain e where e: "try_into_v5 ref_payload_lib ?p = Ok e" by (auto simp: is_ok_iff)
  with envelope_conversions [of ref_payload_lib ?p] show
    "\<exists>e. try_into_v5 ref_payload_lib ?p = Ok e \<and> v5_blobs_bundle e = [4, 5] \<and> v5_execution_requests e = 9"
    by (intro exI [of _ e]) (auto simp: with_sidecars_def built_payload_new_def unwrap_or_def ref_payload_lib_def)
qed

text \<open>The engine sees one form of a block: the execution data of a built payload is that of its block
  with its access list; only the sidecar of a payload with requests and a beacon root differs, and
  carries exactly these requests, the root and the block's blob hashes.\<close>

lemma execution_data_of_payload:
  "fst (into_execution_data F p) = fst (block_to_payload F (bp_block p) (bp_block_access_list p))
   \<and> snd (into_execution_data F p) =
       (case (bp_requests p, blk_parent_beacon_block_root F (bp_block p)) of
          (Some requests, Some root) \<Rightarrow> sidecar_v4 F root (blk_blob_versioned_hashes F (bp_block p)) requests
        | _ \<Rightarrow> snd (block_to_payload F (bp_block p) (bp_block_access_list p)))
   \<and> (into_execution_data F p = block_to_payload F (bp_block p) (bp_block_access_list p)
        \<or> bp_requests p \<noteq> None)"
  by (auto simp: into_execution_data_def block_to_payload_def Let_def
      split: option.splits prod.splits)

end
