(* ===== verification/Payload_Builder.thy ===== *)
theory Payload_Builder
  imports Built_Payload
begin

text \<open>
  \<open>src/payload/builder.rs\<close>: the selection of pool transactions for a block. One iteration of the
  \<open>while\<close> loop is \<open>build_step\<close>, the loop is \<open>build_loop\<close> with fuel (the iterator may be fed while it
  is read), and \<open>default_ethereum_payload\<close> is everything around it. The record \<open>B\<close> holds the
  iterator of the pool, the pool's blob store, the upstream views of a transaction and the upstream
  block builder. Quantities of type \<open>u64\<close> and \<open>U256\<close> wrap around, as release builds do; the lengths
  are \<open>usize\<close> counts of bytes in memory and are natural numbers. Logging is left out.
\<close>

section \<open>Interfaces\<close>

datatype eip4844_error =
    TooManyEip4844Blobs u64 u64 | MissingEip4844BlobSidecar
  | UnexpectedEip4844SidecarAfterOsaka | UnexpectedEip7594SidecarBeforeOsaka

datatype pool_tx_error =
    ExceedsGasLimit u64 u64 | OversizedData nat nat | Eip4844Error eip4844_error | TxTypeNotSupported

text \<open>
  \<open>BlockExecutionError\<close>: an invalid transaction with \<open>is_nonce_too_low()\<close>, one that needs more
  gas than the block has left, and the rest.
\<close>

datatype 'e exec_error =
    InvalidTx bool | TransactionGasLimitMoreThanAvailableBlockGas u64 u64 | OtherExecError 'e

datatype 'e payload_error =
    OtherError 'e | InternalError 'e | EvmError "'e exec_error" | MissingPayload | BlockTooLarge nat nat

record gas_output =
  go_tx_gas_used :: u64
  go_state_gas_used :: u64
  go_block_regular_gas_used :: u64

record ('i, 'px, 'x, 'b, 's, 'e) build_lib =
  best_next :: "'i \<Rightarrow> ('px \<times> 'i) option"
  best_mark_invalid :: "'i \<Rightarrow> 'px \<Rightarrow> pool_tx_error \<Rightarrow> 'i"
  best_skip_blobs :: "'i \<Rightarrow> 'i"
  px_gas_limit :: "'px \<Rightarrow> u64"
  px_to_consensus :: "'px \<Rightarrow> 'x"
  x_length :: "'x \<Rightarrow> nat"
  x_blob_count :: "'x \<Rightarrow> u64 option"
  x_hash :: "'x \<Rightarrow> b256"
  x_effective_tip :: "'x \<Rightarrow> u64 \<Rightarrow> u128 option"
  get_blob :: "b256 \<Rightarrow> ('e, 's option) outcome"
  s_is_eip7594 :: "'s \<Rightarrow> bool"
  s_is_eip4844 :: "'s \<Rightarrow> bool"
  push_sidecar :: "'s blob_sidecars \<Rightarrow> 's \<Rightarrow> 's blob_sidecars"
  execute :: "'b \<Rightarrow> 'x \<Rightarrow> ('e exec_error, gas_output) outcome \<times> 'b"

text \<open>What the loop reads and does not change.\<close>

record build_config =
  bc_is_amsterdam :: bool
  bc_is_osaka :: bool
  bc_block_gas_limit :: u64
  bc_tx_gas_limit_cap :: u64
  bc_base_fee :: u64
  bc_max_blob_count :: u64
  bc_withdrawals_rlp_length :: nat
  bc_max_rlp_block_size :: nat

text \<open>The loop's variables; \<open>bs_polls\<close> counts the calls of \<open>is_cancelled\<close>, whose answers may differ.\<close>

record ('i, 'b, 's) build_state =
  bs_best :: 'i
  bs_builder :: 'b
  bs_polls :: nat
  bs_cumulative_gas :: u64
  bs_regular_gas :: u64
  bs_state_gas :: u64
  bs_fees :: u256
  bs_sidecars :: "'s blob_sidecars"
  bs_blob_count :: u64
  bs_rlp_length :: nat

datatype 'st control = Continue 'st | Break 'st | ReturnCancelled

section \<open>One iteration\<close>

definition saturating_sub :: "u64 \<Rightarrow> u64 \<Rightarrow> u64" where
  "saturating_sub a b = (if b \<le> a then a - b else 0)"

definition exceeds_gas_limit ::
  "build_config \<Rightarrow> ('i, 'b, 's) build_state \<Rightarrow> u64 \<Rightarrow> (u64 \<times> u64) option" where
  "exceeds_gas_limit c st gas_limit =
     (if bc_is_amsterdam c then
        let regular_available_gas = saturating_sub (bc_block_gas_limit c) (bs_regular_gas st);
            state_available_gas = saturating_sub (bc_block_gas_limit c) (bs_state_gas st);
            regular_tx_gas_limit = min gas_limit (bc_tx_gas_limit_cap c)
        in if regular_available_gas < regular_tx_gas_limit
           then Some (regular_tx_gas_limit, regular_available_gas)
           else if state_available_gas < gas_limit then Some (gas_limit, state_available_gas)
           else None
      else
        let block_available_gas = saturating_sub (bc_block_gas_limit c) (bs_cumulative_gas st)
        in if block_available_gas < gas_limit then Some (gas_limit, block_available_gas) else None)"

definition skip_invalid ::
  "('i, 'px, 'x, 'b, 's, 'e, 'z) build_lib_scheme \<Rightarrow> 'px \<Rightarrow> pool_tx_error \<Rightarrow> ('i, 'b, 's) build_state
     \<Rightarrow> ('e payload_error, ('i, 'b, 's) build_state control) outcome" where
  "skip_invalid B pool_tx e st =
     Ok (Continue (st\<lparr>bs_best := best_mark_invalid B (bs_best st) pool_tx e\<rparr>))"

text \<open>The block labelled \<open>'sidecar\<close>, its own error on the left.\<close>

definition blob_sidecar_result ::
  "build_config \<Rightarrow> ('i, 'px, 'x, 'b, 's, 'e, 'z) build_lib_scheme \<Rightarrow> 'x
     \<Rightarrow> ('e payload_error, eip4844_error + 's) outcome" where
  "blob_sidecar_result c B tx =
     and_then (map_err OtherError (get_blob B (x_hash B tx))) (\<lambda>found.
       Ok (case found of
             None \<Rightarrow> Inl MissingEip4844BlobSidecar
           | Some sidecar \<Rightarrow>
               if bc_is_osaka c then
                 if s_is_eip7594 B sidecar then Inr sidecar else Inl UnexpectedEip4844SidecarAfterOsaka
               else if s_is_eip4844 B sidecar then Inr sidecar
               else Inl UnexpectedEip7594SidecarBeforeOsaka))"

definition account_blobs ::
  "build_config \<Rightarrow> ('i, 'px, 'x, 'b, 's, 'e, 'z) build_lib_scheme \<Rightarrow> u64 option \<Rightarrow> ('i, 'b, 's) build_state
     \<Rightarrow> ('i, 'b, 's) build_state" where
  "account_blobs c B tx_blob_count st =
     (case tx_blob_count of
        None \<Rightarrow> st
      | Some blob_count \<Rightarrow>
          let st = st\<lparr>bs_blob_count := bs_blob_count st + blob_count\<rparr>
          in if bs_blob_count st = bc_max_blob_count c
             then st\<lparr>bs_best := best_skip_blobs B (bs_best st)\<rparr> else st)"

definition include_tx ::
  "build_config \<Rightarrow> ('i, 'px, 'x, 'b, 's, 'e, 'z) build_lib_scheme \<Rightarrow> 'px \<Rightarrow> 'x \<Rightarrow> 's option
     \<Rightarrow> ('i, 'b, 's) build_state \<Rightarrow> ('e payload_error, ('i, 'b, 's) build_state control) outcome" where
  "include_tx c B pool_tx tx blob_tx_sidecar st =
     (let miner_fee = x_effective_tip B tx (bc_base_fee c);
          (executed, builder) = execute B (bs_builder st) tx;
          st = st\<lparr>bs_builder := builder\<rparr>
      in case executed of
           Panic \<Rightarrow> Panic
         | Err (InvalidTx nonce_too_low) \<Rightarrow>
             if nonce_too_low then Ok (Continue st) else skip_invalid B pool_tx TxTypeNotSupported st
         | Err (TransactionGasLimitMoreThanAvailableBlockGas limit available) \<Rightarrow>
             skip_invalid B pool_tx (ExceedsGasLimit limit available) st
         | Err err \<Rightarrow> Err (EvmError err)
         | Ok gas \<Rightarrow>
             let st = account_blobs c B (x_blob_count B tx) st;
                 st = st\<lparr>bs_rlp_length := bs_rlp_length st + x_length B tx\<rparr>
             in and_then (expect miner_fee) (\<lambda>fee.
                  let st = st\<lparr>bs_fees := bs_fees st + ucast fee * ucast (go_tx_gas_used gas),
                              bs_cumulative_gas := bs_cumulative_gas st + go_tx_gas_used gas,
                              bs_regular_gas := bs_regular_gas st + go_block_regular_gas_used gas,
                              bs_state_gas := bs_state_gas st + go_state_gas_used gas\<rparr>
                  in Ok (Continue (case blob_tx_sidecar of
                       None \<Rightarrow> st
                     | Some sidecar \<Rightarrow> st\<lparr>bs_sidecars := push_sidecar B (bs_sidecars st) sidecar\<rparr>))))"

definition build_step ::
  "build_config \<Rightarrow> ('i, 'px, 'x, 'b, 's, 'e, 'z) build_lib_scheme \<Rightarrow> (nat \<Rightarrow> bool) \<Rightarrow> ('i, 'b, 's) build_state
     \<Rightarrow> ('e payload_error, ('i, 'b, 's) build_state control) outcome" where
  "build_step c B is_cancelled st =
     (case best_next B (bs_best st) of
        None \<Rightarrow> Ok (Break st)
      | Some (pool_tx, best) \<Rightarrow>
          let st = st\<lparr>bs_best := best\<rparr>
          in case exceeds_gas_limit c st (px_gas_limit B pool_tx) of
               Some (limit, available) \<Rightarrow> skip_invalid B pool_tx (ExceedsGasLimit limit available) st
             | None \<Rightarrow>
                 if is_cancelled (bs_polls st) then Ok ReturnCancelled
                 else
                   let st = st\<lparr>bs_polls := Suc (bs_polls st)\<rparr>;
                       tx = px_to_consensus B pool_tx;
                       estimated = bs_rlp_length st + x_length B tx + bc_withdrawals_rlp_length c + 1024
                   in if bc_is_osaka c \<and> bc_max_rlp_block_size c < estimated
                      then skip_invalid B pool_tx (OversizedData estimated (bc_max_rlp_block_size c)) st
                      else
                        (case x_blob_count B tx of
                           None \<Rightarrow> include_tx c B pool_tx tx None st
                         | Some tx_blob_count \<Rightarrow>
                             if bc_max_blob_count c < bs_blob_count st + tx_blob_count
                             then skip_invalid B pool_tx
                               (Eip4844Error (TooManyEip4844Blobs (bs_blob_count st + tx_blob_count)
                                 (bc_max_blob_count c))) st
                             else
                               and_then (blob_sidecar_result c B tx) (\<lambda>r.
                                 case r of
                                   Inl e \<Rightarrow> skip_invalid B pool_tx (Eip4844Error e) st
                                 | Inr sidecar \<Rightarrow> include_tx c B pool_tx tx (Some sidecar) st)))"

section \<open>The loop\<close>

text \<open>\<open>None\<close> is fuel that ran out; the inner option is \<open>None\<close> for a cancelled job.\<close>

fun build_loop ::
  "build_config \<Rightarrow> ('i, 'px, 'x, 'b, 's, 'e, 'z) build_lib_scheme \<Rightarrow> (nat \<Rightarrow> bool) \<Rightarrow> nat \<Rightarrow> ('i, 'b, 's) build_state
     \<Rightarrow> ('e payload_error, ('i, 'b, 's) build_state option) outcome option" where
  "build_loop c B is_cancelled 0 st = None"
| "build_loop c B is_cancelled (Suc n) st =
     (case build_step c B is_cancelled st of
        Ok (Continue st') \<Rightarrow> build_loop c B is_cancelled n st'
      | Ok (Break st') \<Rightarrow> Some (Ok (Some st'))
      | Ok ReturnCancelled \<Rightarrow> Some (Ok None)
      | Err e \<Rightarrow> Some (Err e)
      | Panic \<Rightarrow> Some Panic)"

section \<open>What an iteration does\<close>

text \<open>The variables that account for the block are unchanged.\<close>

definition same_accounts :: "('i, 'b, 's) build_state \<Rightarrow> ('i, 'b, 's) build_state \<Rightarrow> bool" where
  "same_accounts st st' \<longleftrightarrow>
     bs_cumulative_gas st' = bs_cumulative_gas st \<and> bs_regular_gas st' = bs_regular_gas st
     \<and> bs_state_gas st' = bs_state_gas st \<and> bs_fees st' = bs_fees st
     \<and> bs_sidecars st' = bs_sidecars st \<and> bs_blob_count st' = bs_blob_count st
     \<and> bs_rlp_length st' = bs_rlp_length st"

text \<open>A transaction was executed and accounted for.\<close>

definition accounted ::
  "build_config \<Rightarrow> ('i, 'px, 'x, 'b, 's, 'e, 'z) build_lib_scheme \<Rightarrow> 'x \<Rightarrow> gas_output \<Rightarrow> 's option
     \<Rightarrow> ('i, 'b, 's) build_state \<Rightarrow> ('i, 'b, 's) build_state \<Rightarrow> bool" where
  "accounted c B tx gas sidecar st st' \<longleftrightarrow>
     bs_cumulative_gas st' = bs_cumulative_gas st + go_tx_gas_used gas
     \<and> bs_regular_gas st' = bs_regular_gas st + go_block_regular_gas_used gas
     \<and> bs_state_gas st' = bs_state_gas st + go_state_gas_used gas
     \<and> (\<exists>fee. x_effective_tip B tx (bc_base_fee c) = Some fee
          \<and> bs_fees st' = bs_fees st + ucast fee * ucast (go_tx_gas_used gas))
     \<and> bs_sidecars st' = (case sidecar of None \<Rightarrow> bs_sidecars st | Some s \<Rightarrow> push_sidecar B (bs_sidecars st) s)
     \<and> bs_blob_count st' = bs_blob_count st + unwrap_or (x_blob_count B tx) 0
     \<and> bs_rlp_length st' = bs_rlp_length st + x_length B tx"

text \<open>The guards a transaction passed before it was executed.\<close>

definition admitted ::
  "build_config \<Rightarrow> ('i, 'px, 'x, 'b, 's, 'e, 'z) build_lib_scheme \<Rightarrow> 'px \<Rightarrow> 's option \<Rightarrow> ('i, 'b, 's) build_state \<Rightarrow> bool" where
  "admitted c B pool_tx sidecar st \<longleftrightarrow>
     (let tx = px_to_consensus B pool_tx in
      exceeds_gas_limit c st (px_gas_limit B pool_tx) = None
      \<and> (bc_is_osaka c \<longrightarrow>
           bs_rlp_length st + x_length B tx + bc_withdrawals_rlp_length c + 1024 \<le> bc_max_rlp_block_size c)
      \<and> (case x_blob_count B tx of
           None \<Rightarrow> sidecar = None
         | Some n \<Rightarrow> bs_blob_count st + n \<le> bc_max_blob_count c
             \<and> (\<exists>s. sidecar = Some s \<and> (if bc_is_osaka c then s_is_eip7594 B s else s_is_eip4844 B s))))"

lemma skip_invalid_Ok [simp]:
  "skip_invalid B pool_tx e st = Ok ctl \<longleftrightarrow>
     ctl = Continue (st\<lparr>bs_best := best_mark_invalid B (bs_best st) pool_tx e\<rparr>)"
  "skip_invalid B pool_tx e st \<noteq> Err e'" "skip_invalid B pool_tx e st \<noteq> Panic"
  by (auto simp: skip_invalid_def)

lemma account_blobs_simps [simp]:
  "bs_cumulative_gas (account_blobs c B n st) = bs_cumulative_gas st"
  "bs_regular_gas (account_blobs c B n st) = bs_regular_gas st"
  "bs_state_gas (account_blobs c B n st) = bs_state_gas st"
  "bs_fees (account_blobs c B n st) = bs_fees st"
  "bs_sidecars (account_blobs c B n st) = bs_sidecars st"
  "bs_blob_count (account_blobs c B n st) = bs_blob_count st + unwrap_or n 0"
  "bs_rlp_length (account_blobs c B n st) = bs_rlp_length st"
  "bs_builder (account_blobs c B n st) = bs_builder st"
  by (auto simp: account_blobs_def unwrap_or_def Let_def split: option.splits)

text \<open>Every result of executing one transaction.\<close>

lemma include_tx_Ok:
  assumes "include_tx c B pool_tx tx sidecar st = Ok ctl"
  shows "\<exists>st'. ctl = Continue st' \<and>
    ((\<exists>e. execute B (bs_builder st) tx = (Err e, bs_builder st') \<and> same_accounts st st')
     \<or> (\<exists>gas. execute B (bs_builder st) tx = (Ok gas, bs_builder st') \<and> accounted c B tx gas sidecar st st'))"
proof (cases "execute B (bs_builder st) tx")
  case (Pair r b)
  show ?thesis
  proof (cases r)
    case (Ok gas)
    with assms Pair obtain fee where "x_effective_tip B tx (bc_base_fee c) = Some fee"
      by (cases "x_effective_tip B tx (bc_base_fee c)") (auto simp: include_tx_def Let_def)
    with assms Pair Ok show ?thesis
      by (cases sidecar) (auto simp: include_tx_def Let_def accounted_def)
  next
    case (Err e)
    with assms Pair show ?thesis
      by (cases e) (auto simp: include_tx_def Let_def same_accounts_def split: if_splits)
  next
    case Panic
    with assms Pair show ?thesis by (simp add: include_tx_def Let_def)
  qed
qed

lemma blob_sidecar_result_Inr:
  assumes "blob_sidecar_result c B tx = Ok (Inr s)"
  shows "if bc_is_osaka c then s_is_eip7594 B s else s_is_eip4844 B s"
  using assms
  by (auto simp: blob_sidecar_result_def outcome_simps split: option.splits if_splits)

text \<open>Every result of an iteration that does not fail.\<close>

lemma build_step_Ok:
  assumes "build_step c B is_cancelled st = Ok ctl"
  shows "(ctl = Break st \<and> best_next B (bs_best st) = None) \<or> ctl = ReturnCancelled
    \<or> (\<exists>st'. ctl = Continue st' \<and>
         ((same_accounts st st' \<and> (bs_builder st' = bs_builder st
            \<or> (\<exists>tx e. execute B (bs_builder st) tx = (Err e, bs_builder st'))))
          \<or> (\<exists>pool_tx gas sidecar.
               execute B (bs_builder st) (px_to_consensus B pool_tx) = (Ok gas, bs_builder st')
               \<and> admitted c B pool_tx sidecar st
               \<and> accounted c B (px_to_consensus B pool_tx) gas sidecar st st')))"
proof (cases "best_next B (bs_best st)")
  case None
  with assms show ?thesis by (simp add: build_step_def)
next
  case (Some nx)
  then obtain pool_tx best where nxt: "best_next B (bs_best st) = Some (pool_tx, best)"
    by (cases nx) auto
  let ?tx = "px_to_consensus B pool_tx"
  let ?st = "st\<lparr>bs_best := best, bs_polls := Suc (bs_polls st)\<rparr>"
  have gas: "exceeds_gas_limit c (st\<lparr>bs_best := best\<rparr>) g = exceeds_gas_limit c st g" for g
    by (simp add: exceeds_gas_limit_def)
  have skipped: "same_accounts st (st\<lparr>bs_best := i\<rparr>)" "same_accounts st (st\<lparr>bs_best := i, bs_polls := n\<rparr>)"
    "same_accounts st (st\<lparr>bs_polls := n, bs_best := i\<rparr>)" for i n
    by (simp_all add: same_accounts_def)
  show ?thesis
  proof (cases "exceeds_gas_limit c st (px_gas_limit B pool_tx) = None \<and> \<not> is_cancelled (bs_polls st)
      \<and> \<not> (bc_is_osaka c \<and> bc_max_rlp_block_size c <
            bs_rlp_length st + x_length B ?tx + bc_withdrawals_rlp_length c + 1024)")
    case False
    with assms nxt gas skipped show ?thesis
      by (auto simp: build_step_def Let_def split: option.splits if_splits)
  next
    case True
    have included: ?thesis
      if inc: "include_tx c B pool_tx ?tx sidecar ?st = Ok ctl" and adm: "admitted c B pool_tx sidecar st"
      for sidecar
    proof -
      obtain st' where ctl: "ctl = Continue st'" and inv:
        "(\<exists>e. execute B (bs_builder st) ?tx = (Err e, bs_builder st') \<and> same_accounts ?st st')
         \<or> (\<exists>gas. execute B (bs_builder st) ?tx = (Ok gas, bs_builder st') \<and> accounted c B ?tx gas sidecar ?st st')"
        using include_tx_Ok [OF inc] by auto
      have "same_accounts ?st st' = same_accounts st st'"
        "accounted c B ?tx gas sidecar ?st st' = accounted c B ?tx gas sidecar st st'" for gas
        by (auto simp: same_accounts_def accounted_def split: option.splits)
      with ctl inv adm show ?thesis by blast
    qed
    show ?thesis
    proof (cases "x_blob_count B ?tx")
      case None
      with True assms nxt gas have "include_tx c B pool_tx ?tx None ?st = Ok ctl"
        by (simp add: build_step_def Let_def split: if_splits)
      moreover have "admitted c B pool_tx None st"
        using True None by (auto simp: admitted_def Let_def)
      ultimately show ?thesis by (rule included)
    next
      case blobs: (Some n)
      show ?thesis
      proof (cases "bc_max_blob_count c < bs_blob_count st + n")
        case True
        with \<open>exceeds_gas_limit c st (px_gas_limit B pool_tx) = None \<and> _\<close> assms nxt gas blobs skipped
        show ?thesis by (auto simp: build_step_def Let_def split: if_splits)
      next
        case False
        with True assms nxt gas blobs obtain r where r: "blob_sidecar_result c B ?tx = Ok r"
          and rest: "(case r of Inl e \<Rightarrow> skip_invalid B pool_tx (Eip4844Error e) ?st
            | Inr sidecar \<Rightarrow> include_tx c B pool_tx ?tx (Some sidecar) ?st) = Ok ctl"
          by (auto simp: build_step_def Let_def outcome_simps split: if_splits)
        show ?thesis
        proof (cases r)
          case (Inl e)
          with rest skipped show ?thesis by auto
        next
          case (Inr s)
          have "admitted c B pool_tx (Some s) st"
            using True False blobs blob_sidecar_result_Inr [OF r [unfolded Inr]]
            by (auto simp: admitted_def Let_def)
          moreover from rest Inr have "include_tx c B pool_tx ?tx (Some s) ?st = Ok ctl" by simp
          ultimately show ?thesis by (intro included)
        qed
      qed
    qed
  qed
qed

section \<open>The accounts of a block\<close>

text \<open>
  The specification of the loop's variables over the list of executed transactions with their gas:
  plain sums, without wrap-around, except for the fees, which are a \<open>U256\<close>.
\<close>

definition total_over :: "('y \<Rightarrow> nat) \<Rightarrow> 'y list \<Rightarrow> nat" where
  "total_over f ys = sum_list (map f ys)"

lemma total_over_simps [simp]:
  "total_over f [] = 0" "total_over f (ys @ zs) = total_over f ys + total_over f zs"
  "total_over f (y # ys) = f y + total_over f ys"
  by (simp_all add: total_over_def)

definition fee_of :: "build_config \<Rightarrow> ('i, 'px, 'x, 'b, 's, 'e, 'z) build_lib_scheme \<Rightarrow> 'x \<times> gas_output \<Rightarrow> u256" where
  "fee_of c B = (\<lambda>(tx, gas).
     ucast (unwrap_or (x_effective_tip B tx (bc_base_fee c)) 0) * ucast (go_tx_gas_used gas))"

definition blobs_of :: "('i, 'px, 'x, 'b, 's, 'e, 'z) build_lib_scheme \<Rightarrow> 'x \<times> gas_output \<Rightarrow> nat" where
  "blobs_of B = (\<lambda>(tx, gas). unat (unwrap_or (x_blob_count B tx) 0))"

definition blob_txs :: "('i, 'px, 'x, 'b, 's, 'e, 'z) build_lib_scheme \<Rightarrow> ('x \<times> gas_output) list \<Rightarrow> nat" where
  "blob_txs B lg = length (filter (\<lambda>(tx, gas). x_blob_count B tx \<noteq> None) lg)"

definition gas_accounts :: "build_config \<Rightarrow> ('x \<times> gas_output) list \<Rightarrow> ('i, 'b, 's) build_state \<Rightarrow> bool" where
  "gas_accounts c lg st \<longleftrightarrow>
     bs_cumulative_gas st = word_of_nat (total_over (unat \<circ> go_tx_gas_used \<circ> snd) lg)
     \<and> (\<not> bc_is_amsterdam c \<longrightarrow>
          total_over (unat \<circ> go_tx_gas_used \<circ> snd) lg \<le> unat (bc_block_gas_limit c))
     \<and> (bc_is_amsterdam c \<longrightarrow>
          bs_regular_gas st = word_of_nat (total_over (unat \<circ> go_block_regular_gas_used \<circ> snd) lg)
          \<and> bs_state_gas st = word_of_nat (total_over (unat \<circ> go_state_gas_used \<circ> snd) lg)
          \<and> total_over (unat \<circ> go_block_regular_gas_used \<circ> snd) lg \<le> unat (bc_block_gas_limit c)
          \<and> total_over (unat \<circ> go_state_gas_used \<circ> snd) lg \<le> unat (bc_block_gas_limit c))"

definition size_accounts ::
  "build_config \<Rightarrow> ('i, 'px, 'x, 'b, 's, 'e, 'z) build_lib_scheme \<Rightarrow> ('x \<times> gas_output) list
     \<Rightarrow> ('i, 'b, 's) build_state \<Rightarrow> bool" where
  "size_accounts c B lg st \<longleftrightarrow>
     bs_rlp_length st = total_over (x_length B \<circ> fst) lg
     \<and> (bc_is_osaka c \<longrightarrow> lg \<noteq> [] \<longrightarrow>
          total_over (x_length B \<circ> fst) lg + bc_withdrawals_rlp_length c + 1024 \<le> bc_max_rlp_block_size c)"

definition blob_accounts ::
  "build_config \<Rightarrow> ('i, 'px, 'x, 'b, 's, 'e, 'z) build_lib_scheme \<Rightarrow> ('x \<times> gas_output) list
     \<Rightarrow> ('i, 'b, 's) build_state \<Rightarrow> bool" where
  "blob_accounts c B lg st \<longleftrightarrow>
     unat (bs_blob_count st) = total_over (blobs_of B) lg
     \<and> total_over (blobs_of B) lg \<le> unat (bc_max_blob_count c)
     \<and> (if bc_is_osaka c then osaka_sidecars (bs_sidecars st) else pre_osaka_sidecars (bs_sidecars st))
     \<and> length (sidecar_list (bs_sidecars st)) = blob_txs B lg"

definition build_inv ::
  "build_config \<Rightarrow> ('i, 'px, 'x, 'b, 's, 'e, 'z) build_lib_scheme \<Rightarrow> ('x \<times> gas_output) list
     \<Rightarrow> ('i, 'b, 's) build_state \<Rightarrow> bool" where
  "build_inv c B lg st \<longleftrightarrow>
     gas_accounts c lg st \<and> size_accounts c B lg st \<and> blob_accounts c B lg st
     \<and> bs_fees st = sum_list (map (fee_of c B) lg)"

lemma same_accounts_inv: "same_accounts st st' \<Longrightarrow> build_inv c B lg st \<Longrightarrow> build_inv c B lg st'"
  by (simp add: same_accounts_def build_inv_def gas_accounts_def size_accounts_def blob_accounts_def)

text \<open>A share of what is left, added to what was used, stays within the limit.\<close>

lemma within_available:
  fixes limit used :: u64
  assumes "used = word_of_nat sm" "sm \<le> unat limit" "share \<le> saturating_sub limit used" "part \<le> share"
  shows "sm + unat part \<le> unat limit"
proof -
  have used: "unat used = sm"
    using assms(1,2) unsigned_less [of limit, where ?'a = nat] by (simp add: unat_of_nat)
  then have "used \<le> limit" using assms(2) by (simp add: word_le_nat_alt)
  then have "unat (saturating_sub limit used) = unat limit - sm"
    using used by (simp add: saturating_sub_def unat_sub)
  with assms(2-4) show ?thesis by (simp add: word_le_nat_alt)
qed

text \<open>
  What the loop relies on: the log of the block builder grows by the executed transaction, gas
  used stays within the transaction's limit (in Amsterdam the regular part also within the cap),
  the pool reports the limit of the transaction, blob counts are small, and sidecars of one kind
  are collected in order.
\<close>

locale block_building =
  fixes c :: build_config
    and B :: "('i, 'px, 'x, 'b, 's, 'e, 'z) build_lib_scheme"
    and gas_of :: "'x \<Rightarrow> u64"
    and executed :: "'b \<Rightarrow> ('x \<times> gas_output) list"
  assumes pool_gas: "\<And>p. px_gas_limit B p = gas_of (px_to_consensus B p)"
    and execute_Ok: "\<And>b x gas b'. execute B b x = (Ok gas, b') \<Longrightarrow> executed b' = executed b @ [(x, gas)]"
    and execute_Err: "\<And>b x e b'. execute B b x = (Err e, b') \<Longrightarrow> executed b' = executed b"
    and gas_used: "\<And>b x gas b'. execute B b x = (Ok gas, b') \<Longrightarrow> go_tx_gas_used gas \<le> gas_of x"
    and gas_parts: "\<And>b x gas b'. execute B b x = (Ok gas, b') \<Longrightarrow> bc_is_amsterdam c \<Longrightarrow>
        go_block_regular_gas_used gas \<le> min (gas_of x) (bc_tx_gas_limit_cap c)
        \<and> go_state_gas_used gas \<le> gas_of x"
    and blob_bounds: "\<And>x n. x_blob_count B x = Some n \<Longrightarrow> unat n < 2 ^ 32"
        "unat (bc_max_blob_count c) < 2 ^ 32"
    and push_eip7594: "\<And>s l. s_is_eip7594 B s \<Longrightarrow>
        push_sidecar B EmptySidecars s = Eip7594 [s] \<and> push_sidecar B (Eip7594 l) s = Eip7594 (l @ [s])"
    and push_eip4844: "\<And>s l. s_is_eip4844 B s \<Longrightarrow>
        push_sidecar B EmptySidecars s = Eip4844 [s] \<and> push_sidecar B (Eip4844 l) s = Eip4844 (l @ [s])"
begin

lemma gas_step:
  assumes "gas_accounts c lg st" "execute B b (px_to_consensus B pool_tx) = (Ok gas, b')"
    "admitted c B pool_tx sidecar st" "accounted c B (px_to_consensus B pool_tx) gas sidecar st st'"
  shows "gas_accounts c (lg @ [(px_to_consensus B pool_tx, gas)]) st'"
proof (cases "bc_is_amsterdam c")
  case False
  then have "gas_of (px_to_consensus B pool_tx) \<le> saturating_sub (bc_block_gas_limit c) (bs_cumulative_gas st)"
    using assms(3) by (auto simp: admitted_def Let_def exceeds_gas_limit_def pool_gas split: if_splits)
  with within_available [OF _ _ this gas_used [OF assms(2)]] False assms(1,4) show ?thesis
    by (simp add: gas_accounts_def accounted_def)
next
  case True
  then have avail: "min (gas_of (px_to_consensus B pool_tx)) (bc_tx_gas_limit_cap c)
      \<le> saturating_sub (bc_block_gas_limit c) (bs_regular_gas st)"
    "gas_of (px_to_consensus B pool_tx) \<le> saturating_sub (bc_block_gas_limit c) (bs_state_gas st)"
    using assms(3)
    by (simp_all add: admitted_def Let_def exceeds_gas_limit_def pool_gas not_less min_le_iff_disj split: if_splits)
  note parts = gas_parts [OF assms(2) True]
  show ?thesis
    using True assms(1,4) within_available [OF _ _ avail(1) parts [THEN conjunct1]]
      within_available [OF _ _ avail(2) parts [THEN conjunct2]]
    by (simp add: gas_accounts_def accounted_def)
qed

lemma size_step:
  assumes "size_accounts c B lg st" "admitted c B pool_tx sidecar st"
    "accounted c B (px_to_consensus B pool_tx) gas sidecar st st'"
  shows "size_accounts c B (lg @ [(px_to_consensus B pool_tx, gas)]) st'"
  using assms by (simp add: size_accounts_def admitted_def accounted_def Let_def)

lemma blob_step:
  assumes "blob_accounts c B lg st" "admitted c B pool_tx sidecar st"
    "accounted c B (px_to_consensus B pool_tx) gas sidecar st st'"
  shows "blob_accounts c B (lg @ [(px_to_consensus B pool_tx, gas)]) st'"
proof (cases "x_blob_count B (px_to_consensus B pool_tx)")
  case None
  with assms show ?thesis
    by (auto simp: blob_accounts_def admitted_def accounted_def Let_def blobs_of_def blob_txs_def
        unwrap_or_def)
next
  case (Some n)
  from assms(2) Some obtain s where s: "sidecar = Some s"
    "if bc_is_osaka c then s_is_eip7594 B s else s_is_eip4844 B s"
    and max: "bs_blob_count st + n \<le> bc_max_blob_count c"
    by (auto simp: admitted_def Let_def)
  have small: "unat (bs_blob_count st) < 2 ^ 32" "unat n < 2 ^ 32"
    using assms(1) blob_bounds(1) [OF Some] blob_bounds(2) by (simp_all add: blob_accounts_def)
  then have count: "unat (bs_blob_count st + n) = unat (bs_blob_count st) + unat n"
    by (simp add: unat_word_ariths)
  have push: "length (sidecar_list (push_sidecar B (bs_sidecars st) s)) = Suc (length (sidecar_list (bs_sidecars st)))
    \<and> (if bc_is_osaka c then osaka_sidecars (push_sidecar B (bs_sidecars st) s)
       else pre_osaka_sidecars (push_sidecar B (bs_sidecars st) s))"
    using assms(1) s(2) push_eip7594 push_eip4844
    by (cases "bs_sidecars st") (auto simp: blob_accounts_def split: if_splits)
  show ?thesis
    using assms(1,3) push max Some s(1) count
    by (simp add: blob_accounts_def accounted_def unwrap_or_def blobs_of_def blob_txs_def word_le_nat_alt)
qed

text \<open>One iteration keeps the invariant, with the log it extends or leaves.\<close>

lemma build_step_inv:
  assumes "build_step c B is_cancelled st = Ok (Continue st')"
    and "executed (bs_builder st) = base @ lg" "build_inv c B lg st"
  shows "\<exists>lg'. executed (bs_builder st') = base @ lg' \<and> build_inv c B lg' st'"
proof -
  from build_step_Ok [OF assms(1)] consider
    (same) "same_accounts st st'" "bs_builder st' = bs_builder st"
  | (failed) tx e where "same_accounts st st'" "execute B (bs_builder st) tx = (Err e, bs_builder st')"
  | (included) pool_tx gas sidecar where
      "execute B (bs_builder st) (px_to_consensus B pool_tx) = (Ok gas, bs_builder st')"
      "admitted c B pool_tx sidecar st" "accounted c B (px_to_consensus B pool_tx) gas sidecar st st'"
    by auto
  then show ?thesis
  proof cases
    case same
    with assms(2,3) same_accounts_inv show ?thesis by metis
  next
    case failed
    with assms(2,3) same_accounts_inv execute_Err show ?thesis by metis
  next
    case included
    let ?lg = "lg @ [(px_to_consensus B pool_tx, gas)]"
    have "bs_fees st' = sum_list (map (fee_of c B) ?lg)"
      using assms(3) included(3) by (auto simp: build_inv_def accounted_def fee_of_def unwrap_or_def)
    then have "build_inv c B ?lg st'"
      using assms(3) included gas_step [OF _ included] size_step [OF _ included(2,3)]
        blob_step [OF _ included(2,3)]
      by (simp add: build_inv_def)
    with execute_Ok [OF included(1)] assms(2) show ?thesis by auto
  qed
qed

lemma build_loop_inv:
  assumes "build_loop c B is_cancelled n st = Some (Ok (Some st'))"
    and "executed (bs_builder st) = base @ lg" "build_inv c B lg st"
  shows "\<exists>lg'. executed (bs_builder st') = base @ lg' \<and> build_inv c B lg' st'"
  using assms
proof (induction n arbitrary: st lg)
  case (Suc n)
  show ?case
  proof (cases "build_step c B is_cancelled st")
    case (Ok ctl)
    show ?thesis
    proof (cases ctl)
      case (Continue st1)
      with Ok Suc.prems build_step_inv [OF _ Suc.prems(2,3)] Suc.IH show ?thesis by fastforce
    next
      case (Break st1)
      with Ok Suc.prems build_step_Ok [OF Ok] show ?thesis by auto
    qed (use Ok Suc.prems in simp)
  qed (use Suc.prems in simp_all)
qed simp

end

section \<open>What an iteration reads\<close>

text \<open>
  Where the iterator stands after an iteration that read an item: there, past the blob transactions,
  or with the item marked as invalid. Only that item is executed.
\<close>

definition iterator_after :: "('i, 'px, 'x, 'b, 's, 'e, 'z) build_lib_scheme \<Rightarrow> 'px \<Rightarrow> 'i \<Rightarrow> 'i \<Rightarrow> bool" where
  "iterator_after B pool_tx i i' \<longleftrightarrow>
     i' = i \<or> i' = best_skip_blobs B i \<or> (\<exists>e. i' = best_mark_invalid B i pool_tx e)"

lemma include_tx_iterator:
  assumes "include_tx c B pool_tx tx sidecar st = Ok (Continue st')"
  shows "iterator_after B pool_tx (bs_best st) (bs_best st')
    \<and> (\<exists>r. execute B (bs_builder st) tx = (r, bs_builder st') \<and> r \<noteq> Panic)"
proof (cases "execute B (bs_builder st) tx")
  case (Pair r b)
  let ?st = "st\<lparr>bs_builder := b\<rparr>"
  show ?thesis
  proof (cases r)
    case (Ok gas)
    with assms Pair have "bs_best st' = bs_best (account_blobs c B (x_blob_count B tx) ?st)" "bs_builder st' = b"
      by (cases "x_effective_tip B tx (bc_base_fee c)"; cases sidecar; auto simp: include_tx_def Let_def)+
    with Pair Ok show ?thesis
      by (auto simp: account_blobs_def iterator_after_def Let_def split: option.splits)
  next
    case (Err e)
    with assms Pair show ?thesis
      by (cases e) (auto simp: include_tx_def iterator_after_def Let_def split: if_splits)
  next
    case Panic
    with assms Pair show ?thesis by (simp add: include_tx_def Let_def)
  qed
qed

lemma build_step_iterator:
  assumes "build_step c B is_cancelled st = Ok (Continue st')"
  obtains pool_tx i where "best_next B (bs_best st) = Some (pool_tx, i)" "iterator_after B pool_tx i (bs_best st')"
    "bs_builder st' = bs_builder st
     \<or> (\<exists>r. execute B (bs_builder st) (px_to_consensus B pool_tx) = (r, bs_builder st') \<and> r \<noteq> Panic)"
proof (cases "best_next B (bs_best st)")
  case None
  with assms show ?thesis by (simp add: build_step_def)
next
  case (Some nx)
  then obtain pool_tx best where nxt: "best_next B (bs_best st) = Some (pool_tx, best)"
    by (cases nx) auto
  define fine where "fine \<longleftrightarrow> iterator_after B pool_tx best (bs_best st') \<and>
    (bs_builder st' = bs_builder st
     \<or> (\<exists>r. execute B (bs_builder st) (px_to_consensus B pool_tx) = (r, bs_builder st') \<and> r \<noteq> Panic))"
  have included: fine
    if "include_tx c B pool_tx (px_to_consensus B pool_tx) sidecar (st\<lparr>bs_best := best, bs_polls := n\<rparr>)
      = Ok (Continue st')" for sidecar n
    using include_tx_iterator [OF that] by (auto simp: fine_def)
  have either: fine
    if "(case r of Inl e \<Rightarrow> skip_invalid B pool_tx (Eip4844Error e) (st\<lparr>bs_best := best, bs_polls := n\<rparr>)
      | Inr sc \<Rightarrow> include_tx c B pool_tx (px_to_consensus B pool_tx) (Some sc) (st\<lparr>bs_best := best, bs_polls := n\<rparr>))
      = Ok (Continue st')" for r n
    using that included by (cases r) (auto simp: fine_def iterator_after_def)
  have fine
    using assms nxt
    by (auto simp: build_step_def Let_def outcome_simps split: option.splits if_splits
        dest: included either) (auto simp: fine_def iterator_after_def)
  with nxt show ?thesis by (auto simp: fine_def intro: that)
qed

section \<open>The loop ends\<close>

text \<open>
  An iterator that a measure bounds: every item read lowers it, and neither \<open>mark_invalid\<close> nor
  \<open>skip_blobs\<close> raises it. Then more fuel than the measure is enough.
\<close>

locale bounded_iterator =
  fixes B :: "('i, 'px, 'x, 'b, 's, 'e, 'z) build_lib_scheme" and left :: "'i \<Rightarrow> nat"
  assumes next_less: "\<And>i p i'. best_next B i = Some (p, i') \<Longrightarrow> left i' < left i"
    and mark_le: "\<And>i p e. left (best_mark_invalid B i p e) \<le> left i"
    and skip_le: "\<And>i. left (best_skip_blobs B i) \<le> left i"
begin

lemma build_step_left:
  assumes "build_step c B is_cancelled st = Ok (Continue st')"
  shows "left (bs_best st') < left (bs_best st)"
  using assms
proof (rule build_step_iterator)
  fix pool_tx i
  assume read: "best_next B (bs_best st) = Some (pool_tx, i)" "iterator_after B pool_tx i (bs_best st')"
  have "left (bs_best st') \<le> left i"
    using read(2) skip_le mark_le by (auto simp: iterator_after_def)
  with next_less [OF read(1)] show ?thesis by simp
qed

lemma build_loop_returns:
  "left (bs_best st) < n \<Longrightarrow> build_loop c B is_cancelled n st \<noteq> None"
proof (induction n arbitrary: st)
  case (Suc n)
  show ?case
  proof (cases "build_step c B is_cancelled st")
    case (Ok ctl)
    with Suc build_step_left [of c is_cancelled st] show ?thesis
      by (cases ctl) (auto simp: less_Suc_eq_le dest: order_less_le_trans)
  qed simp_all
qed simp

end

text \<open>More fuel does not change the answer.\<close>

lemma build_loop_mono:
  "build_loop c B is_cancelled n st = Some r \<Longrightarrow> n \<le> m \<Longrightarrow> build_loop c B is_cancelled m st = Some r"
proof (induction n arbitrary: st m)
  case (Suc n)
  then obtain k where "m = Suc k" "n \<le> k" by (cases m) auto
  with Suc show ?case by (auto split: outcome.splits control.splits)
qed simp

section \<open>Why the loop ends\<close>

text \<open>The states that iterations lead to, and the answer as what the iteration from the last of them does.\<close>

inductive iterates ::
  "build_config \<Rightarrow> ('i, 'px, 'x, 'b, 's, 'e, 'z) build_lib_scheme \<Rightarrow> (nat \<Rightarrow> bool) \<Rightarrow> ('i, 'b, 's) build_state
     \<Rightarrow> ('i, 'b, 's) build_state \<Rightarrow> bool" for c B is_cancelled where
  iter_none: "iterates c B is_cancelled st st"
| iter_more: "build_step c B is_cancelled st = Ok (Continue st') \<Longrightarrow> iterates c B is_cancelled st' st''
    \<Longrightarrow> iterates c B is_cancelled st st''"

lemma build_loop_last:
  "build_loop c B is_cancelled n st = Some r \<Longrightarrow> \<exists>st''. iterates c B is_cancelled st st''
     \<and> (case build_step c B is_cancelled st'' of
          Ok (Continue st') \<Rightarrow> False
        | Ok (Break st') \<Rightarrow> r = Ok (Some st')
        | Ok ReturnCancelled \<Rightarrow> r = Ok None
        | Err e \<Rightarrow> r = Err e
        | Panic \<Rightarrow> r = Panic)"
proof (induction n arbitrary: st)
  case (Suc n)
  show ?case
  proof (cases "\<exists>st'. build_step c B is_cancelled st = Ok (Continue st')")
    case True
    then obtain st' where st': "build_step c B is_cancelled st = Ok (Continue st')" by blast
    with Suc show ?thesis by (fastforce intro: iter_more)
  next
    case False
    with Suc.prems show ?thesis
      by (intro exI [of _ st]) (auto simp: iter_none split: outcome.splits control.splits)
  qed
qed simp

text \<open>
  The three kinds of an end besides the last candidate: the executor or the blob store fails with an
  error of its own, or the executor, the blob store or the expectation on the fee panics. An invalid
  transaction is none of them.
\<close>

definition aborts_with ::
  "('i, 'px, 'x, 'b, 's, 'e, 'z) build_lib_scheme \<Rightarrow> 'b \<Rightarrow> 'x \<Rightarrow> 'e payload_error \<Rightarrow> bool" where
  "aborts_with B builder tx e \<longleftrightarrow>
     (\<exists>err. fst (execute B builder tx) = Err (OtherExecError err) \<and> e = EvmError (OtherExecError err))
     \<or> (\<exists>err. get_blob B (x_hash B tx) = Err err \<and> e = OtherError err)"

definition panics ::
  "build_config \<Rightarrow> ('i, 'px, 'x, 'b, 's, 'e, 'z) build_lib_scheme \<Rightarrow> 'b \<Rightarrow> 'x \<Rightarrow> bool" where
  "panics c B builder tx \<longleftrightarrow>
     fst (execute B builder tx) = Panic \<or> get_blob B (x_hash B tx) = Panic
     \<or> (is_ok (fst (execute B builder tx)) \<and> x_effective_tip B tx (bc_base_fee c) = None)"

lemma include_tx_fails:
  "include_tx c B p tx sidecar st = Err e \<Longrightarrow> aborts_with B (bs_builder st) tx e"
  "include_tx c B p tx sidecar st = Panic \<Longrightarrow> panics c B (bs_builder st) tx"
  by (auto simp: include_tx_def aborts_with_def panics_def expect_def outcome_simps Let_def
      split: prod.splits outcome.splits exec_error.splits option.splits if_splits)

lemma include_tx_continues: "include_tx c B p tx sidecar st \<noteq> Ok ReturnCancelled"
  "include_tx c B p tx sidecar st \<noteq> Ok (Break st')"
  using include_tx_Ok [of c B p tx sidecar st] by auto

lemma blob_sidecar_result_cases:
  "(\<exists>r. blob_sidecar_result c B tx = Ok r)
   \<or> (\<exists>err. get_blob B (x_hash B tx) = Err err \<and> blob_sidecar_result c B tx = Err (OtherError err))
   \<or> (get_blob B (x_hash B tx) = Panic \<and> blob_sidecar_result c B tx = Panic)"
  by (cases "get_blob B (x_hash B tx)") (simp_all add: blob_sidecar_result_def)

lemma build_step_cases:
  obtains (ended) "best_next B (bs_best st) = None" "build_step c B is_cancelled st = Ok (Break st)"
  | (continued) st' where "build_step c B is_cancelled st = Ok (Continue st')"
  | (cancelled) "is_cancelled (bs_polls st)" "build_step c B is_cancelled st = Ok ReturnCancelled"
  | (blob) p i where "best_next B (bs_best st) = Some (p, i)"
      "(\<exists>err. get_blob B (x_hash B (px_to_consensus B p)) = Err err
          \<and> build_step c B is_cancelled st = Err (OtherError err))
       \<or> get_blob B (x_hash B (px_to_consensus B p)) = Panic \<and> build_step c B is_cancelled st = Panic"
  | (included) p i sidecar st1 where "best_next B (bs_best st) = Some (p, i)" "bs_builder st1 = bs_builder st"
      "build_step c B is_cancelled st = include_tx c B p (px_to_consensus B p) sidecar st1"
proof (cases "best_next B (bs_best st)")
  case None
  then show ?thesis by (intro ended) (simp_all add: build_step_def)
next
  case (Some nx)
  then obtain p i where nxt: "best_next B (bs_best st) = Some (p, i)" by (cases nx) auto
  let ?tx = "px_to_consensus B p" and ?st = "st\<lparr>bs_best := i, bs_polls := Suc (bs_polls st)\<rparr>"
  let ?estimated = "bs_rlp_length st + x_length B ?tx + bc_withdrawals_rlp_length c + 1024"
  show ?thesis
  proof (cases "exceeds_gas_limit c (st\<lparr>bs_best := i\<rparr>) (px_gas_limit B p)")
    case (Some lim)
    with nxt show ?thesis by (cases lim) (simp add: continued build_step_def skip_invalid_def)
  next
    case gas: None
    show ?thesis
    proof (cases "is_cancelled (bs_polls st) \<or> bc_is_osaka c \<and> bc_max_rlp_block_size c < ?estimated")
      case True
      with nxt gas show ?thesis
        by (cases "is_cancelled (bs_polls st)")
          (simp_all add: cancelled continued build_step_def Let_def skip_invalid_def)
    next
      case fine: False
      have step: "build_step c B is_cancelled st =
          (case x_blob_count B ?tx of
             None \<Rightarrow> include_tx c B p ?tx None ?st
           | Some n \<Rightarrow>
               if bc_max_blob_count c < bs_blob_count st + n
               then skip_invalid B p (Eip4844Error (TooManyEip4844Blobs (bs_blob_count st + n) (bc_max_blob_count c))) ?st
               else and_then (blob_sidecar_result c B ?tx) (\<lambda>r. case r of
                   Inl e \<Rightarrow> skip_invalid B p (Eip4844Error e) ?st
                 | Inr sidecar \<Rightarrow> include_tx c B p ?tx (Some sidecar) ?st))"
        using nxt gas fine by (auto simp: build_step_def Let_def split: option.splits)
      show ?thesis
      proof (cases "x_blob_count B ?tx")
        case None
        with step nxt show ?thesis by (intro included [of p i ?st None]) simp_all
      next
        case (Some n)
        show ?thesis
        proof (cases "bc_max_blob_count c < bs_blob_count st + n")
          case True
          with step Some show ?thesis by (simp add: continued skip_invalid_def)
        next
          case False
          from blob_sidecar_result_cases [of c B ?tx] show ?thesis
          proof (elim disjE exE)
            fix r
            assume r: "blob_sidecar_result c B ?tx = Ok r"
            show ?thesis
            proof (cases r)
              case (Inl e)
              with step Some False r show ?thesis by (simp add: continued skip_invalid_def)
            next
              case (Inr sidecar)
              with step Some False r nxt show ?thesis by (intro included [of p i ?st "Some sidecar"]) simp_all
            qed
          qed (use step Some False nxt in \<open>auto intro: blob\<close>)
        qed
      qed
    qed
  qed
qed

text \<open>The last iteration, by the answer it gives.\<close>

lemma build_step_ends:
  "build_step c B is_cancelled st = Ok (Break st') \<Longrightarrow> st' = st \<and> best_next B (bs_best st) = None"
  "build_step c B is_cancelled st = Ok ReturnCancelled \<Longrightarrow> is_cancelled (bs_polls st)"
  "build_step c B is_cancelled st = Err e \<Longrightarrow> \<exists>p i. best_next B (bs_best st) = Some (p, i)
     \<and> aborts_with B (bs_builder st) (px_to_consensus B p) e"
  "build_step c B is_cancelled st = Panic \<Longrightarrow> \<exists>p i. best_next B (bs_best st) = Some (p, i)
     \<and> panics c B (bs_builder st) (px_to_consensus B p)"
  by (cases rule: build_step_cases [where st = st and c = c and B = B and is_cancelled = is_cancelled];
      force simp: include_tx_continues aborts_with_def panics_def dest: include_tx_fails)+

end
