(* ===== verification/Payload_Job.thy ===== *)
theory Payload_Job
  imports Payload_Builder
begin

text \<open>
  The payload job of \<open>src/payload/builder.rs\<close> around the selection loop: reading the fork rules and
  the block environment, the pre-execution changes, the comparison with the best payload so far,
  the three ways to a state root and the sealing of the block. State providers, caches and the trie
  are upstream's and appear as the functions of the record \<open>B\<close>; the caches that only speed reads up
  are left out. Then come the properties of the builder.
\<close>

section \<open>Inputs\<close>

record 'w payload_attributes =
  pa_timestamp :: u64
  pa_suggested_fee_recipient :: address
  pa_prev_randao :: b256
  pa_parent_beacon_block_root :: "b256 option"
  pa_withdrawals :: "'w list option"
  pa_slot_number :: "u64 option"
  pa_target_gas_limit :: "u64 option"

record parent_header =
  ph_hash :: b256
  ph_gas_limit :: u64
  ph_state_root :: b256

record builder_config =
  gas_limit_with_target :: "u64 \<Rightarrow> u64 option \<Rightarrow> u64"
  extra_data :: bytes
  skip_state_root :: bool
  max_blobs_per_block :: "u64 option"
  await_payload_on_missing :: bool

record 'w next_block_attributes =
  nb_timestamp :: u64
  nb_suggested_fee_recipient :: address
  nb_prev_randao :: b256
  nb_gas_limit :: u64
  nb_parent_beacon_block_root :: "b256 option"
  nb_withdrawals :: "'w list option"
  nb_extra_data :: bytes
  nb_slot_number :: "u64 option"

record 'g builder_spec = "'g chain_spec" +
  bs_is_amsterdam_active_at_timestamp :: "u64 \<Rightarrow> bool"
  bs_is_prague_active_at_timestamp :: "u64 \<Rightarrow> bool"

text \<open>The state-root job: its hook and, when asked, the root and the trie updates.\<close>

record ('hk, 'tr, 'e) state_root_task =
  task_hook :: 'hk
  task_state_root :: "('e, b256 \<times> 'tr) outcome"

text \<open>\<open>BlockBuilderOutcome\<close>, as far as it is used.\<close>

record ('blk, 'q, 'bal) finished_block =
  fb_block :: 'blk
  fb_requests :: 'q
  fb_block_access_list :: "'bal option"

text \<open>
  \<open>pe_from\<close> is the conversion of \<open>?\<close>, \<open>blk_rlp_length\<close> is \<open>rlp_length\<close>, \<open>trie_default\<close> the
  empty trie updates; the functions on a builder are those of \<open>evm_mut()\<close> and of the builder itself.
\<close>

record ('i, 'px, 'x, 'b, 's, 'e, 'sp, 'w, 'hk, 'tr, 'blk, 'q, 'bal) job_lib =
  "('i, 'px, 'x, 'b, 's, 'e) build_lib" +
  state_by_block_hash :: "b256 \<Rightarrow> ('e, 'sp) outcome"
  builder_for_next_block :: "'sp \<Rightarrow> bool \<Rightarrow> parent_header \<Rightarrow> 'w next_block_attributes \<Rightarrow> ('e, 'b) outcome"
  bb_gas_limit :: "'b \<Rightarrow> u64"
  bb_tx_gas_limit_cap :: "'b \<Rightarrow> u64"
  bb_basefee :: "'b \<Rightarrow> u64"
  bb_blob_gasprice :: "'b \<Rightarrow> u128 option"
  bb_set_state_hook :: "'hk option \<Rightarrow> 'b \<Rightarrow> 'b"
  bb_apply_pre_execution_changes :: "'b \<Rightarrow> ('e, unit) outcome \<times> 'b"
  bb_finish :: "'b \<Rightarrow> 'sp \<Rightarrow> (b256 \<times> 'tr) option \<Rightarrow> ('e, ('blk, 'q, 'bal) finished_block) outcome"
  trie_default :: 'tr
  pe_from :: "'e \<Rightarrow> 'e payload_error"
  is_better_payload :: "('blk, 's, 'q) built_payload option \<Rightarrow> u256 \<Rightarrow> bool"
  blk_rlp_length :: "'blk \<Rightarrow> nat"
  encode_bal :: "'bal \<Rightarrow> bytes"
  withdrawals_length :: "'w list \<Rightarrow> nat"
  max_rlp_block_size :: nat

type_synonym ('i, 'px, 'x, 'b, 's, 'e, 'sp, 'w, 'hk, 'tr, 'blk, 'q, 'bal) jlib =
  "('i, 'px, 'x, 'b, 's, 'e, 'sp, 'w, 'hk, 'tr, 'blk, 'q, 'bal) job_lib"

section \<open>Before the loop\<close>

definition max_blob_count_of :: "u64 option \<Rightarrow> u64 \<Rightarrow> u64" where
  "max_blob_count_of user_limit protocol_max =
     (case user_limit of None \<Rightarrow> protocol_max | Some l \<Rightarrow> max (min l protocol_max) 1)"

definition build_config_of ::
  "('i, 'px, 'x, 'b, 's, 'e, 'sp, 'w, 'hk, 'tr, 'blk, 'q, 'bal) jlib \<Rightarrow> ('g, 'y) builder_spec_scheme
     \<Rightarrow> builder_config \<Rightarrow> 'w payload_attributes \<Rightarrow> 'b \<Rightarrow> build_config" where
  "build_config_of B G conf attributes builder =
     \<lparr>bc_is_amsterdam = bs_is_amsterdam_active_at_timestamp G (pa_timestamp attributes),
      bc_is_osaka = cs_is_osaka_active_at_timestamp G (pa_timestamp attributes),
      bc_block_gas_limit = bb_gas_limit B builder,
      bc_tx_gas_limit_cap = bb_tx_gas_limit_cap B builder,
      bc_base_fee = bb_basefee B builder,
      bc_max_blob_count = max_blob_count_of (max_blobs_per_block conf)
        (case cs_blob_params_at_timestamp G (pa_timestamp attributes) of
           None \<Rightarrow> 0 | Some p \<Rightarrow> max_blob_count p),
      bc_withdrawals_rlp_length =
        (case pa_withdrawals attributes of None \<Rightarrow> 0 | Some w \<Rightarrow> withdrawals_length B w),
      bc_max_rlp_block_size = max_rlp_block_size B\<rparr>"

definition initial_build :: "'i \<Rightarrow> 'b \<Rightarrow> ('i, 'b, 's) build_state" where
  "initial_build best builder =
     \<lparr>bs_best = best, bs_builder = builder, bs_polls = 0, bs_cumulative_gas = 0, bs_regular_gas = 0,
      bs_state_gas = 0, bs_fees = 0, bs_sidecars = EmptySidecars, bs_blob_count = 0, bs_rlp_length = 0\<rparr>"

definition next_block_attributes_of ::
  "builder_config \<Rightarrow> parent_header \<Rightarrow> 'w payload_attributes \<Rightarrow> 'w next_block_attributes" where
  "next_block_attributes_of conf parent attributes =
     \<lparr>nb_timestamp = pa_timestamp attributes,
      nb_suggested_fee_recipient = pa_suggested_fee_recipient attributes,
      nb_prev_randao = pa_prev_randao attributes,
      nb_gas_limit = gas_limit_with_target conf (ph_gas_limit parent) (pa_target_gas_limit attributes),
      nb_parent_beacon_block_root = pa_parent_beacon_block_root attributes,
      nb_withdrawals = pa_withdrawals attributes,
      nb_extra_data = extra_data conf,
      nb_slot_number = pa_slot_number attributes\<rparr>"

text \<open>
  Up to the loop: the state provider, the loop's constants and its initial state. \<open>best_txs\<close> gets
  the base fee and the blob fee, which is cut to 64 bits.
\<close>

definition prepare_build ::
  "('i, 'px, 'x, 'b, 's, 'e, 'sp, 'w, 'hk, 'tr, 'blk, 'q, 'bal) jlib \<Rightarrow> ('g, 'y) builder_spec_scheme
     \<Rightarrow> builder_config \<Rightarrow> parent_header \<Rightarrow> 'w payload_attributes
     \<Rightarrow> ('hk, 'tr, 'e) state_root_task option \<Rightarrow> (u64 \<Rightarrow> u64 option \<Rightarrow> 'i)
     \<Rightarrow> ('e payload_error, 'sp \<times> build_config \<times> ('i, 'b, 's) build_state) outcome" where
  "prepare_build B G conf parent attributes task best_txs =
     and_then (map_err (pe_from B) (state_by_block_hash B (ph_hash parent))) (\<lambda>state_provider.
     and_then (map_err OtherError
       (builder_for_next_block B state_provider
         (bs_is_amsterdam_active_at_timestamp G (pa_timestamp attributes)) parent
         (next_block_attributes_of conf parent attributes))) (\<lambda>builder.
     let c = build_config_of B G conf attributes builder;
         best = best_txs (bb_basefee B builder) (map_option ucast (bb_blob_gasprice B builder));
         builder = (case task of None \<Rightarrow> builder | Some t \<Rightarrow> bb_set_state_hook B (Some (task_hook t)) builder);
         (applied, builder) = bb_apply_pre_execution_changes B builder
     in and_then (map_err InternalError applied) (\<lambda>_.
          Ok (state_provider, c, initial_build best builder))))"

section \<open>After the loop\<close>

datatype 'p build_outcome = Better 'p | Aborted u256 | Cancelled

definition finish_block ::
  "('i, 'px, 'x, 'b, 's, 'e, 'sp, 'w, 'hk, 'tr, 'blk, 'q, 'bal) jlib \<Rightarrow> builder_config \<Rightarrow> parent_header
     \<Rightarrow> ('hk, 'tr, 'e) state_root_task option \<Rightarrow> 'sp \<Rightarrow> 'b
     \<Rightarrow> ('e payload_error, ('blk, 'q, 'bal) finished_block) outcome" where
  "finish_block B conf parent task state_provider builder =
     map_err (pe_from B)
       (if skip_state_root conf
        then bb_finish B builder state_provider (Some (ph_state_root parent, trie_default B))
        else
          (case task of
             None \<Rightarrow> bb_finish B builder state_provider None
           | Some t \<Rightarrow>
               let builder = bb_set_state_hook B None builder
               in (case task_state_root t of
                     Ok (root, updates) \<Rightarrow> bb_finish B builder state_provider (Some (root, updates))
                   | Err _ \<Rightarrow> bb_finish B builder state_provider None
                   | Panic \<Rightarrow> Panic)))"

definition seal_payload ::
  "('i, 'px, 'x, 'b, 's, 'e, 'sp, 'w, 'hk, 'tr, 'blk, 'q, 'bal) jlib \<Rightarrow> ('g, 'y) builder_spec_scheme
     \<Rightarrow> builder_config \<Rightarrow> parent_header \<Rightarrow> 'w payload_attributes
     \<Rightarrow> ('hk, 'tr, 'e) state_root_task option \<Rightarrow> ('blk, 's, 'q) built_payload option \<Rightarrow> 'sp \<Rightarrow> build_config
     \<Rightarrow> ('i, 'b, 's) build_state \<Rightarrow> ('e payload_error, ('blk, 's, 'q) built_payload build_outcome) outcome" where
  "seal_payload B G conf parent attributes task best_payload state_provider c st =
     (if \<not> is_better_payload B best_payload (bs_fees st) then Ok (Aborted (bs_fees st))
      else
        and_then (finish_block B conf parent task state_provider (bs_builder st)) (\<lambda>finished.
        let requests = (if bs_is_prague_active_at_timestamp G (pa_timestamp attributes)
                        then Some (fb_requests finished) else None);
            block = fb_block finished
        in if bc_is_osaka c \<and> max_rlp_block_size B < blk_rlp_length B block
           then Err (BlockTooLarge (blk_rlp_length B block) (max_rlp_block_size B))
           else
             Ok (Better (with_sidecars
               (built_payload_new block (bs_fees st) requests
                 (map_option (encode_bal B) (fb_block_access_list finished)))
               (bs_sidecars st)))))"

section \<open>The job\<close>

text \<open>\<open>None\<close> is a loop that has not ended within the fuel.\<close>

definition default_ethereum_payload ::
  "('i, 'px, 'x, 'b, 's, 'e, 'sp, 'w, 'hk, 'tr, 'blk, 'q, 'bal) jlib \<Rightarrow> ('g, 'y) builder_spec_scheme
     \<Rightarrow> builder_config \<Rightarrow> parent_header \<Rightarrow> 'w payload_attributes
     \<Rightarrow> ('hk, 'tr, 'e) state_root_task option \<Rightarrow> ('blk, 's, 'q) built_payload option
     \<Rightarrow> (nat \<Rightarrow> bool) \<Rightarrow> (u64 \<Rightarrow> u64 option \<Rightarrow> 'i) \<Rightarrow> nat
     \<Rightarrow> ('e payload_error, ('blk, 's, 'q) built_payload build_outcome) outcome option" where
  "default_ethereum_payload B G conf parent attributes task best_payload is_cancelled best_txs fuel =
     (case prepare_build B G conf parent attributes task best_txs of
        Err e \<Rightarrow> Some (Err e)
      | Panic \<Rightarrow> Some Panic
      | Ok (state_provider, c, st) \<Rightarrow>
          map_option (\<lambda>r. and_then r (\<lambda>ended.
            case ended of
              None \<Rightarrow> Ok Cancelled
            | Some st \<Rightarrow> seal_payload B G conf parent attributes task best_payload state_provider c st))
          (build_loop c B is_cancelled fuel st))"

text \<open>\<open>try_build\<close>: the candidates are the pool's best transactions for the fees of the block.\<close>

definition try_build ::
  "('i, 'px, 'x, 'b, 's, 'e, 'sp, 'w, 'hk, 'tr, 'blk, 'q, 'bal) jlib \<Rightarrow> ('g, 'y) builder_spec_scheme
     \<Rightarrow> builder_config \<Rightarrow> (u64 \<Rightarrow> u64 option \<Rightarrow> 'i) \<Rightarrow> parent_header \<Rightarrow> 'w payload_attributes
     \<Rightarrow> ('hk, 'tr, 'e) state_root_task option \<Rightarrow> ('blk, 's, 'q) built_payload option
     \<Rightarrow> (nat \<Rightarrow> bool) \<Rightarrow> nat
     \<Rightarrow> ('e payload_error, ('blk, 's, 'q) built_payload build_outcome) outcome option" where
  "try_build B G conf best_transactions parent attributes task best_payload is_cancelled fuel =
     default_ethereum_payload B G conf parent attributes task best_payload is_cancelled best_transactions fuel"

definition into_payload :: "'p build_outcome \<Rightarrow> 'p option" where
  "into_payload r = (case r of Better p \<Rightarrow> Some p | _ \<Rightarrow> None)"

text \<open>\<open>build_empty_payload\<close>: never cancelled, nothing to compare with, \<open>no_txs\<close> is \<open>std::iter::empty()\<close>.\<close>

definition build_empty_payload ::
  "('i, 'px, 'x, 'b, 's, 'e, 'sp, 'w, 'hk, 'tr, 'blk, 'q, 'bal) jlib \<Rightarrow> ('g, 'y) builder_spec_scheme
     \<Rightarrow> builder_config \<Rightarrow> parent_header \<Rightarrow> 'w payload_attributes \<Rightarrow> 'i \<Rightarrow> nat
     \<Rightarrow> ('e payload_error, ('blk, 's, 'q) built_payload) outcome option" where
  "build_empty_payload B G conf parent attributes no_txs fuel =
     map_option (\<lambda>r. and_then r (\<lambda>built. ok_or (into_payload built) MissingPayload))
       (default_ethereum_payload B G conf parent attributes None None (\<lambda>_. False) (\<lambda>_ _. no_txs) fuel)"

datatype missing_payload_behaviour = AwaitInProgress | RaceEmptyPayload

definition on_missing_payload :: "builder_config \<Rightarrow> missing_payload_behaviour" where
  "on_missing_payload conf = (if await_payload_on_missing conf then AwaitInProgress else RaceEmptyPayload)"

section \<open>Facts\<close>

lemma initial_build_inv: "build_inv c B [] (initial_build best builder)"
  by (simp add: build_inv_def gas_accounts_def size_accounts_def blob_accounts_def initial_build_def blob_txs_def)



section \<open>The reference instance\<close>

text \<open>
  A builder over the chain's own pool transactions: the iterator is a list, a transaction is executed
  when its environment can be built, uses its gas limit up to 21000, and the block is the log.
\<close>

type_synonym ref_tx = "bytes envelope recovered"

definition ref_execute ::
  "(ref_tx \<times> gas_output) list \<Rightarrow> ref_tx \<Rightarrow> (unit exec_error, gas_output) outcome \<times> (ref_tx \<times> gas_output) list" where
  "ref_execute b x =
     (case from_recovered_tx ref_evm (rec_tx x) (rec_signer x) of
        Ok env \<Rightarrow>
          let gas = min (t_gas_limit (envelope_traits ref_libs ref_eth 0) (rec_tx x)) 21000;
              out = \<lparr>go_tx_gas_used = gas, go_state_gas_used = 0, go_block_regular_gas_used = 0\<rparr>
          in (Ok out, b @ [(x, out)])
      | Err e \<Rightarrow> (Err (OtherExecError e), b)
      | Panic \<Rightarrow> (Panic, b))"

definition ref_push :: "'s blob_sidecars \<Rightarrow> 's \<Rightarrow> 's blob_sidecars" where
  "ref_push l s = (case l of EmptySidecars \<Rightarrow> Eip7594 [s] | Eip7594 l \<Rightarrow> Eip7594 (l @ [s]) | Eip4844 l \<Rightarrow> Eip4844 l)"

type_synonym ref_pool_tx = "(bytes envelope, bytes) pool_tx"

definition ref_build ::
  "(ref_pool_tx list, ref_pool_tx, ref_tx, (ref_tx \<times> gas_output) list, bytes, unit, unit, unit, unit, unit,
    (ref_tx \<times> gas_output) list, nat, unit) job_lib" where
  "ref_build = \<lparr>
     best_next = (\<lambda>i. case i of [] \<Rightarrow> None | p # ps \<Rightarrow> Some (p, ps)),
     best_mark_invalid = (\<lambda>i _ _. i), best_skip_blobs = (\<lambda>i. i),
     px_gas_limit = t_gas_limit (pool_tx_ops ref_pool (envelope_traits ref_libs ref_eth 0)),
     px_to_consensus = into_consensus,
     x_length = (\<lambda>x. length (envelope_encode_2718 ref_eth (rec_tx x))), x_blob_count = (\<lambda>_. None),
     x_hash = (\<lambda>x. t_tx_hash (envelope_traits ref_libs ref_eth 0) (rec_tx x)),
     x_effective_tip = (\<lambda>_ _. Some 2), get_blob = (\<lambda>_. Ok None),
     s_is_eip7594 = (\<lambda>_. True), s_is_eip4844 = (\<lambda>_. False), push_sidecar = ref_push,
     execute = ref_execute,
     state_by_block_hash = (\<lambda>_. Ok ()), builder_for_next_block = (\<lambda>_ _ _ _. Ok []),
     bb_gas_limit = (\<lambda>_. 30000000), bb_tx_gas_limit_cap = (\<lambda>_. 16777216), bb_basefee = (\<lambda>_. 7),
     bb_blob_gasprice = (\<lambda>_. None), bb_set_state_hook = (\<lambda>_ b. b),
     bb_apply_pre_execution_changes = (\<lambda>b. (Ok (), b)),
     bb_finish = (\<lambda>b _ _. Ok \<lparr>fb_block = b, fb_requests = 0, fb_block_access_list = None\<rparr>),
     trie_default = (), pe_from = InternalError, is_better_payload = (\<lambda>best fees. best = None),
     blk_rlp_length = (\<lambda>b. 600), encode_bal = (\<lambda>_. []), withdrawals_length = (\<lambda>_. 1),
     max_rlp_block_size = 8388608\<rparr>"

definition ref_build_config :: build_config where
  "ref_build_config = \<lparr>bc_is_amsterdam = False, bc_is_osaka = True, bc_block_gas_limit = 30000000,
     bc_tx_gas_limit_cap = 16777216, bc_base_fee = 7, bc_max_blob_count = 0, bc_withdrawals_rlp_length = 1,
     bc_max_rlp_block_size = 8388608\<rparr>"

interpretation ref_build: block_building ref_build_config ref_build
  "\<lambda>x. t_gas_limit (envelope_traits ref_libs ref_eth 0) (rec_tx x)" "\<lambda>b. b"
  by unfold_locales
    (auto simp: ref_build_def ref_build_config_def ref_push_def ref_execute_def ref_pool.pool_tx_ops_eq
      comap_ops_def wrapped_def into_consensus_def Let_def split: outcome.splits)

interpretation ref_list: bounded_iterator ref_build length
  by unfold_locales (auto simp: ref_build_def split: list.splits)


text \<open>The pool transaction of the sample, as the pool keeps it.\<close>

definition sample_pool_tx :: ref_pool_tx where
  "sample_pool_tx = pooled_cosmos ref_pool (envelope_traits ref_libs ref_eth 0) ref_eth sample_tx (op_sender sample_op)"

section \<open>Properties\<close>

text \<open>C11. A finished selection is within every limit of the block: with the log of executed transactions,
  before Amsterdam the gas used sums to the builder's counter and to at most the block gas limit, from
  Amsterdam on both parts of the gas do; from Osaka on the encoded size with its allowance is within
  the maximum unless the block is empty; the blobs are within the maximum and there is one sidecar of
  the right kind for each blob transaction; and the fees are the sum of the tips for the gas used.
  No counter wraps around.\<close>

theorem built_block_within_limits:
  assumes "block_building c B gas_of executed"
    and "build_loop c B is_cancelled fuel (initial_build best builder) = Some (Ok (Some st))"
  shows "\<exists>lg. executed (bs_builder st) = executed builder @ lg
    \<and> (\<not> bc_is_amsterdam c \<longrightarrow>
         (\<Sum>(tx, gas)\<leftarrow>lg. unat (go_tx_gas_used gas)) = unat (bs_cumulative_gas st)
         \<and> unat (bs_cumulative_gas st) \<le> unat (bc_block_gas_limit c))
    \<and> (bc_is_amsterdam c \<longrightarrow>
         (\<Sum>(tx, gas)\<leftarrow>lg. unat (go_block_regular_gas_used gas)) \<le> unat (bc_block_gas_limit c)
         \<and> (\<Sum>(tx, gas)\<leftarrow>lg. unat (go_state_gas_used gas)) \<le> unat (bc_block_gas_limit c))
    \<and> (bc_is_osaka c \<longrightarrow> lg \<noteq> [] \<longrightarrow>
         (\<Sum>(tx, gas)\<leftarrow>lg. x_length B tx) + bc_withdrawals_rlp_length c + 1024 \<le> bc_max_rlp_block_size c)
    \<and> (\<Sum>(tx, gas)\<leftarrow>lg. unat (unwrap_or (x_blob_count B tx) 0)) = unat (bs_blob_count st)
    \<and> bs_blob_count st \<le> bc_max_blob_count c
    \<and> length (sidecar_list (bs_sidecars st)) = length (filter (\<lambda>(tx, gas). x_blob_count B tx \<noteq> None) lg)
    \<and> bs_fees st = (\<Sum>(tx, gas)\<leftarrow>lg. ucast (unwrap_or (x_effective_tip B tx (bc_base_fee c)) 0)
                       * ucast (go_tx_gas_used gas))"
proof -
  have start: "executed (bs_builder (initial_build best builder)) = executed builder @ []"
    by (simp add: initial_build_def)
  obtain lg where "executed (bs_builder st) = executed builder @ lg" and inv: "build_inv c B lg st"
    using block_building.build_loop_inv [OF assms start initial_build_inv] by blast
  moreover have "total_over (unat \<circ> go_tx_gas_used \<circ> snd) lg = unat (bs_cumulative_gas st)"
    if "\<not> bc_is_amsterdam c"
    using inv that unsigned_less [of "bc_block_gas_limit c", where ?'a = nat]
    by (simp add: build_inv_def gas_accounts_def unat_of_nat)
  ultimately show ?thesis
    by (intro exI [of _ lg])
      (auto simp: build_inv_def gas_accounts_def size_accounts_def blob_accounts_def total_over_def
        blobs_of_def blob_txs_def fee_of_def comp_def split_def word_le_nat_alt)
qed

lemma ref_build_sel [lib_simps]:
  "best_next ref_build [] = None" "best_next ref_build (p # ps) = Some (p, ps)"
  "px_gas_limit ref_build p = t_gas_limit (envelope_tx_ops ref_libs ref_eth) (rec_tx (pt_transaction p))"
  "px_to_consensus ref_build p = pt_transaction p"
  "x_length ref_build x = length (envelope_encode_2718 ref_eth (rec_tx x))"
  "x_blob_count ref_build x = None" "x_effective_tip ref_build x base = Some 2"
  "execute ref_build = ref_execute"
  by (simp_all add: ref_build_def ref_pool.pool_tx_ops_eq comap_ops_def wrapped_def into_consensus_def)

lemma sample_pool_tx_simps:
  "pt_transaction sample_pool_tx = \<lparr>rec_tx = Cosmos sample_tx, rec_signer = op_sender sample_op\<rparr>"
  "op_gas_limit sample_op = 21000" "length (cs_raw sample_tx) \<le> 33280"
  using new_OkD(8) [OF sample_tx_new] pooled_cosmos_simps(1) [OF ref_pool.pool_package_axioms [of 0]]
  by (simp_all add: sample_pool_tx_def MAX_RAW_TX_def MAX_CALLDATA_def sample_op_def fixture_op_def)

lemma sample_execute:
  "ref_execute b \<lparr>rec_tx = Cosmos sample_tx, rec_signer = op_sender sample_op\<rparr> =
     (let out = \<lparr>go_tx_gas_used = 21000, go_state_gas_used = 0, go_block_regular_gas_used = 0\<rparr>
      in (Ok out, b @ [(\<lparr>rec_tx = Cosmos sample_tx, rec_signer = op_sender sample_op\<rparr>, out)]))"
  by (simp add: ref_execute_def from_recovered_tx_def Let_def sample_pool_tx_simps)

lemma sample_build_loop:
  "\<exists>st. build_loop ref_build_config ref_build (\<lambda>_. False) 2 (initial_build [sample_pool_tx] []) = Some (Ok (Some st))
     \<and> bs_cumulative_gas st = 21000"
proof -
  let ?st0 = "initial_build [sample_pool_tx] [] :: (ref_pool_tx list, (ref_tx \<times> gas_output) list, bytes) build_state"
  have free: "exceeds_gas_limit ref_build_config (?st0\<lparr>bs_best := []\<rparr>) 21000 = None"
    by (simp add: exceeds_gas_limit_def ref_build_config_def initial_build_def saturating_sub_def)
  have "\<exists>st. build_step ref_build_config ref_build (\<lambda>_. False) ?st0 = Ok (Continue st)
      \<and> bs_cumulative_gas st = 21000 \<and> bs_best st = []"
    using sample_pool_tx_simps(3) free
    by (simp add: build_step_def initial_build_def lib_simps sample_pool_tx_simps(1,2) Let_def ref_build_config_def
        envelope_encode_2718_def include_tx_def sample_execute account_blobs_def)
  then obtain st where "build_step ref_build_config ref_build (\<lambda>_. False) ?st0 = Ok (Continue st)"
    "bs_cumulative_gas st = 21000" "bs_best st = []" by blast
  then show ?thesis
    by (simp add: numeral_2_eq_2 build_step_def [of _ _ _ st] lib_simps)
qed

theorem built_block_within_limits_witness:
  "\<exists>st lg. build_loop ref_build_config ref_build (\<lambda>_. False) 2 (initial_build [sample_pool_tx] []) = Some (Ok (Some st))
     \<and> (\<Sum>(tx, gas)\<leftarrow>lg. unat (go_tx_gas_used gas)) = 21000 \<and> bs_builder st = lg"
proof -
  obtain st where st: "build_loop ref_build_config ref_build (\<lambda>_. False) 2 (initial_build [sample_pool_tx] []) = Some (Ok (Some st))"
    "bs_cumulative_gas st = 21000"
    using sample_build_loop by blast
  from built_block_within_limits [OF ref_build.block_building_axioms st(1)] st show ?thesis
    by (auto simp: ref_build_config_def)
qed

text \<open>C37. The selection ends, and for a reason of its own: whenever every item read brings the pool's
  iterator closer to its end, fuel beyond the measure yields an answer, which is the same for any more
  fuel, and it is decided by the last iteration. A built block means that the iterator has no more; a
  cancelled one that the poll of the last candidate said so; an error is the executor's for that
  candidate, and not one of an invalid transaction, or the blob store's; and a panic is one of these
  two or the expectation on the fee of a candidate that executed and does not pay the base fee.\<close>

theorem selection_returns:
  assumes "bounded_iterator B left" "left (bs_best st) < fuel"
  shows "\<exists>r st'. build_loop c B is_cancelled fuel st = Some r
    \<and> (\<forall>more. build_loop c B is_cancelled (fuel + more) st = Some r)
    \<and> iterates c B is_cancelled st st'
    \<and> (case r of
         Ok (Some built) \<Rightarrow> built = st' \<and> best_next B (bs_best st') = None
       | Ok None \<Rightarrow> is_cancelled (bs_polls st')
       | Err e \<Rightarrow> (\<exists>p i. best_next B (bs_best st') = Some (p, i)
           \<and> aborts_with B (bs_builder st') (px_to_consensus B p) e)
       | Panic \<Rightarrow> (\<exists>p i. best_next B (bs_best st') = Some (p, i)
           \<and> panics c B (bs_builder st') (px_to_consensus B p)))"
proof -
  obtain r where r: "build_loop c B is_cancelled fuel st = Some r"
    using bounded_iterator.build_loop_returns [OF assms] by blast
  from build_loop_last [OF r] obtain st' where st': "iterates c B is_cancelled st st'"
    and last: "case build_step c B is_cancelled st' of
        Ok (Continue st') \<Rightarrow> False
      | Ok (Break st') \<Rightarrow> r = Ok (Some st')
      | Ok ReturnCancelled \<Rightarrow> r = Ok None
      | Err e \<Rightarrow> r = Err e
      | Panic \<Rightarrow> r = Panic"
    by blast
  moreover have "build_loop c B is_cancelled (fuel + more) st = Some r" for more
    by (rule build_loop_mono [OF r]) simp
  ultimately show ?thesis
    using r build_step_ends [of c B is_cancelled st']
    by (intro exI [of _ r] exI [of _ st']) (auto split: outcome.splits control.splits)
qed

text \<open>For the witness an executor that breaks down at the first transaction.\<close>

definition failing_build ::
  "(ref_pool_tx list, ref_pool_tx, ref_tx, (ref_tx \<times> gas_output) list, bytes, unit, unit, unit, unit, unit,
    (ref_tx \<times> gas_output) list, nat, unit) job_lib" where
  "failing_build = ref_build\<lparr>execute := \<lambda>b x. (Err (OtherExecError ()), b)\<rparr>"

interpretation failing: bounded_iterator failing_build length
  by unfold_locales (auto simp: failing_build_def ref_build_def split: list.splits)

theorem selection_returns_witness:
  "(\<exists>st. \<forall>more. build_loop ref_build_config ref_build (\<lambda>_. False) (2 + more) (initial_build [sample_pool_tx] []) = Some (Ok (Some st))
      \<and> bs_cumulative_gas st = 21000 \<and> bs_best st = [])
   \<and> (\<exists>r. build_loop ref_build_config failing_build (\<lambda>_. False) 3 (initial_build [sample_pool_tx, sample_pool_tx] []) = Some r
      \<and> r \<noteq> Ok None \<and> r \<noteq> Panic)"
proof (rule conjI)
  obtain st where st: "build_loop ref_build_config ref_build (\<lambda>_. False) 2 (initial_build [sample_pool_tx] []) = Some (Ok (Some st))"
    "bs_cumulative_gas st = 21000"
    using sample_build_loop by blast
  have "length (bs_best (initial_build [sample_pool_tx] [] :: (ref_pool_tx list, (ref_tx \<times> gas_output) list, bytes) build_state)) < 2"
    by (simp add: initial_build_def)
  from selection_returns [OF ref_list.bounded_iterator_axioms this, of ref_build_config "\<lambda>_. False"] st
  have "\<forall>more. build_loop ref_build_config ref_build (\<lambda>_. False) (2 + more) (initial_build [sample_pool_tx] []) = Some (Ok (Some st))"
    "best_next ref_build (bs_best st) = None"
    by (auto simp del: build_loop.simps)
  moreover from this(2) have "bs_best st = []"
    by (cases "bs_best st") (simp_all add: lib_simps)
  ultimately show "\<exists>st. \<forall>more. build_loop ref_build_config ref_build (\<lambda>_. False) (2 + more) (initial_build [sample_pool_tx] []) = Some (Ok (Some st))
      \<and> bs_cumulative_gas st = 21000 \<and> bs_best st = []"
    using st(2) by blast
next
  have "length (bs_best (initial_build [sample_pool_tx, sample_pool_tx] []
      :: (ref_pool_tx list, (ref_tx \<times> gas_output) list, bytes) build_state)) < 3"
    by (simp add: initial_build_def)
  from selection_returns [OF failing.bounded_iterator_axioms this, of ref_build_config "\<lambda>_. False"]
  obtain r st' where r: "build_loop ref_build_config failing_build (\<lambda>_. False) 3 (initial_build [sample_pool_tx, sample_pool_tx] []) = Some r"
    and reason: "case r of
        Ok (Some built) \<Rightarrow> built = st' \<and> best_next failing_build (bs_best st') = None
      | Ok None \<Rightarrow> False
      | Err e \<Rightarrow> (\<exists>p i. best_next failing_build (bs_best st') = Some (p, i)
          \<and> aborts_with failing_build (bs_builder st') (px_to_consensus failing_build p) e)
      | Panic \<Rightarrow> (\<exists>p i. best_next failing_build (bs_best st') = Some (p, i)
          \<and> panics ref_build_config failing_build (bs_builder st') (px_to_consensus failing_build p))"
    by blast
  have "\<not> panics ref_build_config failing_build b x" for b x
    by (simp add: panics_def failing_build_def ref_build_def)
  with reason have "r \<noteq> Ok None \<and> r \<noteq> Panic" by auto
  with r show "\<exists>r. build_loop ref_build_config failing_build (\<lambda>_. False) 3 (initial_build [sample_pool_tx, sample_pool_tx] []) = Some r
      \<and> r \<noteq> Ok None \<and> r \<noteq> Panic" by blast
qed








text \<open>An empty payload can always be built: without pool transactions and without a payload to beat, one
  step of fuel is enough, the answer is never \<open>MissingPayload\<close> of the builder's own making, and the
  payload has no fees and no blobs.\<close>

lemma empty_payload_builds:
  assumes "best_next B no_txs = None" "\<And>fees. is_better_payload B None fees" "\<And>e. pe_from B e \<noteq> MissingPayload"
  shows "\<exists>r. build_empty_payload B G conf parent attributes no_txs (Suc fuel) = Some r
    \<and> r \<noteq> Err MissingPayload
    \<and> (\<forall>p. r = Ok p \<longrightarrow> bp_fees p = 0 \<and> bp_sidecars p = EmptySidecars)"
proof (cases "prepare_build B G conf parent attributes None (\<lambda>_ _. no_txs)")
  case (Ok prep)
  obtain sp c builder where prep: "prep = (sp, c, initial_build no_txs builder)"
    using Ok by (auto simp: prepare_build_def outcome_simps Let_def case_prod_beta)
  have loop: "build_loop c B (\<lambda>_. False) (Suc fuel) (initial_build no_txs builder)
      = Some (Ok (Some (initial_build no_txs builder)))"
    by (simp add: build_step_def initial_build_def assms(1))
  let ?r = "and_then (seal_payload B G conf parent attributes None None sp c (initial_build no_txs builder))
      (\<lambda>built. ok_or (into_payload built) MissingPayload)"
  have "build_empty_payload B G conf parent attributes no_txs (Suc fuel) = Some ?r"
    using Ok prep loop by (simp add: build_empty_payload_def default_ethereum_payload_def)
  moreover have "?r \<noteq> Err MissingPayload \<and> (\<forall>p. ?r = Ok p \<longrightarrow> bp_fees p = 0 \<and> bp_sidecars p = EmptySidecars)"
    using assms(2) assms(3) [THEN not_sym]
    by (auto simp: seal_payload_def finish_block_def outcome_simps Let_def into_payload_def initial_build_def
        with_sidecars_def built_payload_new_def split: if_splits)
  ultimately show ?thesis by blast
next
  case (Err e)
  then have "e \<noteq> MissingPayload"
    using assms(3) [THEN not_sym] by (auto simp: prepare_build_def outcome_simps Let_def case_prod_beta)
  with Err show ?thesis by (simp add: build_empty_payload_def default_ethereum_payload_def)
next
  case Panic
  then show ?thesis by (simp add: build_empty_payload_def default_ethereum_payload_def)
qed

end
