(* ===== verification/Engine.thy ===== *)
theory Engine
  imports Built_Payload
begin

text \<open>
  \<open>src/payload/engine.rs\<close>: the validator of engine-API messages. The record \<open>V\<close> holds the
  upstream checks for a chain specification; a message is an execution payload or payload
  attributes.
\<close>

datatype ('p, 'a) payload_or_attributes = ExecutionPayload 'p | PayloadAttributes 'a

record ('d, 'a, 'q, 'v, 'x, 'w, 'e, 'f) engine_lib =
  ensure_well_formed_payload :: "'d \<Rightarrow> ('f, ('x, 'w) block) outcome"
  into_new_payload_error :: "'f \<Rightarrow> 'e"
  execution_requests :: "('d, 'a) payload_or_attributes \<Rightarrow> 'q option"
  validate_execution_requests :: "'q \<Rightarrow> ('e, unit) outcome"
  eth_validate_version_specific_fields :: "'v \<Rightarrow> ('d, 'a) payload_or_attributes \<Rightarrow> ('e, unit) outcome"

text \<open>\<open>new\<close> and \<open>chain_spec\<close>, over \<open>EthereumExecutionPayloadValidator\<close>.\<close>

record 'i engine_validator =
  ev_inner :: 'i

definition engine_validator_new :: "('c \<Rightarrow> 'i) \<Rightarrow> 'c \<Rightarrow> 'i engine_validator" where
  "engine_validator_new eth_validator_new chain_spec = \<lparr>ev_inner = eth_validator_new chain_spec\<rparr>"

definition engine_chain_spec :: "('i \<Rightarrow> 'c) \<Rightarrow> 'i engine_validator \<Rightarrow> 'c" where
  "engine_chain_spec inner_chain_spec v = inner_chain_spec (ev_inner v)"

definition convert_payload_to_block ::
  "('d, 'a, 'q, 'v, 'x, 'w, 'e, 'f) engine_lib \<Rightarrow> 'd \<Rightarrow> ('e, ('x, 'w) block) outcome" where
  "convert_payload_to_block V data =
     map_err (into_new_payload_error V) (ensure_well_formed_payload V data)"

text \<open>\<open>option.map(f).transpose()?\<close> runs the check when there is something to check.\<close>

definition validate_version_specific_fields ::
  "('d, 'a, 'q, 'v, 'x, 'w, 'e, 'f) engine_lib \<Rightarrow> 'v \<Rightarrow> ('d, 'a) payload_or_attributes
     \<Rightarrow> ('e, unit) outcome" where
  "validate_version_specific_fields V version msg =
     and_then
       (case execution_requests V msg of
          None \<Rightarrow> Ok None
        | Some requests \<Rightarrow> map_ok Some (validate_execution_requests V requests))
       (\<lambda>_. eth_validate_version_specific_fields V version msg)"

definition ensure_well_formed_attributes ::
  "('d, 'a, 'q, 'v, 'x, 'w, 'e, 'f) engine_lib \<Rightarrow> 'v \<Rightarrow> 'a \<Rightarrow> ('e, unit) outcome" where
  "ensure_well_formed_attributes V version attributes =
     eth_validate_version_specific_fields V version (PayloadAttributes attributes)"

text \<open>The engine validator adds the check of execution requests to the upstream rules and nothing
  else: a message is accepted exactly when its requests, if it has any, and the upstream rules are
  fine, a bad request list is reported first, and attributes, which carry no requests, are judged the
  same way by both entry points.\<close>

lemma engine_message_rules:
  "(validate_version_specific_fields V version msg = Ok () \<longleftrightarrow>
      (\<forall>q. execution_requests V msg = Some q \<longrightarrow> validate_execution_requests V q = Ok ())
      \<and> eth_validate_version_specific_fields V version msg = Ok ())
   \<and> (\<forall>q e. execution_requests V msg = Some q \<longrightarrow> validate_execution_requests V q = Err e \<longrightarrow>
        validate_version_specific_fields V version msg = Err e)
   \<and> (execution_requests V (PayloadAttributes a) = None \<longrightarrow>
        validate_version_specific_fields V version (PayloadAttributes a)
          = ensure_well_formed_attributes V version a)"
  by (auto simp: validate_version_specific_fields_def ensure_well_formed_attributes_def outcome_simps
      split: option.splits)

end
