(* ===== verification/Storage.thy ===== *)
theory Storage
  imports Envelope
begin

text \<open>
  \<open>src/primitives/storage.rs\<close>: the database form of a transaction. The upstream codec stores
  the type and the signature apart and calls \<open>to_tx_compact\<close> and \<open>from_tx_compact\<close> for the
  rest; corrupt records panic, as every \<open>expect\<close> and \<open>assert!\<close> of the source does. The record \<open>S\<close>
  holds the upstream codec of the Ethereum variants.
\<close>

record ('t, 'y) compact_ops =
  eth_to_tx_compact :: "'t \<Rightarrow> bytes"
  eth_from_tx_compact :: "bytes \<Rightarrow> 'y \<Rightarrow> eth_signature \<Rightarrow> 't \<times> bytes"
  eth_type_of :: "byte \<Rightarrow> 'y option"
  eth_tx_signature :: "'t \<Rightarrow> eth_signature"

definition to_tx_compact ::
  "'m rlp_lib_scheme \<Rightarrow> ('t, 'y) compact_ops \<Rightarrow> 't envelope \<Rightarrow> bytes" where
  "to_tx_compact L S e =
     (case e of
        Ethereum tx \<Rightarrow> eth_to_tx_compact S tx
      | Cosmos tx \<Rightarrow>
          let payload = payload L (cs_operation tx)
          in header_encode L (list_header (bytes_length L payload + bytes_length L (cs_public_key tx)))
             @ bytes_encode L payload @ bytes_encode L (cs_public_key tx))"

definition from_tx_compact ::
  "('vk, 'sg, 'm) prim_lib_scheme \<Rightarrow> ('t, 'y) compact_ops \<Rightarrow> bytes \<Rightarrow> cosmos_tx_type \<Rightarrow> eth_signature
     \<Rightarrow> ('e, 't envelope \<times> bytes) outcome" where
  "from_tx_compact L S buf ty signature =
     (if ty \<noteq> COSMOS then
        and_then (expect (eth_type_of S (tx_type_ty ty))) (\<lambda>y.
          let (tx, rest) = eth_from_tx_compact S buf y signature in Ok (Ethereum tx, rest))
      else if sig_v signature then Panic
      else
        and_then (unwrap (header_decode L buf)) (\<lambda>(header, buf).
        if \<not> (list_flag header \<and> payload_length header \<le> MAX_RAW_TX
              \<and> payload_length header \<le> length buf) then Panic
        else
        and_then (split_at buf (payload_length header)) (\<lambda>(fields, rest).
        and_then (unwrap (bytes_decode L fields)) (\<lambda>(payload, fields).
        and_then (unwrap (bytes_decode L fields)) (\<lambda>(key, fields).
        if fields \<noteq> [] then Panic else
        and_then (unwrap (decode_payload L payload)) (\<lambda>op.
        and_then (unwrap (cosmos_signed_new L op key (take 64 (sig_as_bytes L signature)))) (\<lambda>tx.
          Ok (Cosmos tx, rest))))))))"

definition envelope_signature :: "('t, 'y) compact_ops \<Rightarrow> 't envelope \<Rightarrow> eth_signature" where
  "envelope_signature S e = (case e of Ethereum tx \<Rightarrow> eth_tx_signature S tx | Cosmos tx \<Rightarrow> cs_signature tx)"

text \<open>\<open>TransactionEnvelope::tx_type\<close>.\<close>

definition stored_tx_type ::
  "('t, 'z) tx_traits_scheme \<Rightarrow> (byte \<Rightarrow> bool) \<Rightarrow> 't envelope \<Rightarrow> (unit, cosmos_tx_type) outcome" where
  "stored_tx_type T V e = envelope_tx_type T V e"

section \<open>The database record\<close>

text \<open>
  \<open>CompactEnvelope\<close> is implemented upstream for every type with the methods above; it is given
  their dictionary. \<open>to_compact\<close> appends the returned bytes and counts them.
\<close>

record 'x compact_impl =
  ci_to_tx_compact :: "'x \<Rightarrow> bytes"
  ci_from_tx_compact :: "bytes \<Rightarrow> cosmos_tx_type \<Rightarrow> eth_signature \<Rightarrow> (unit, 'x \<times> bytes) outcome"
  ci_signature :: "'x \<Rightarrow> eth_signature"
  ci_tx_type :: "'x \<Rightarrow> (unit, cosmos_tx_type) outcome"
  ci_type_to_compact :: "cosmos_tx_type \<Rightarrow> nat \<times> bytes"
  ci_type_from_compact :: "bytes \<Rightarrow> nat \<Rightarrow> (unit, cosmos_tx_type \<times> bytes) outcome"

record 'x compact_envelope =
  ce_to_compact :: "'x compact_impl \<Rightarrow> 'x \<Rightarrow> (unit, bytes \<times> nat) outcome"
  ce_from_compact :: "'x compact_impl \<Rightarrow> bytes \<Rightarrow> nat \<Rightarrow> (unit, 'x \<times> bytes) outcome"

definition envelope_compact_impl ::
  "('vk, 'sg, 'm) prim_lib_scheme \<Rightarrow> ('t, 'z) tx_traits_scheme \<Rightarrow> (byte \<Rightarrow> bool) \<Rightarrow> ('t, 'y) compact_ops
     \<Rightarrow> 't envelope compact_impl" where
  "envelope_compact_impl L T V S =
     \<lparr>ci_to_tx_compact = to_tx_compact L S, ci_from_tx_compact = from_tx_compact L S,
      ci_signature = envelope_signature S, ci_tx_type = stored_tx_type T V,
      ci_type_to_compact = tx_type_to_compact, ci_type_from_compact = tx_type_from_compact V\<rparr>"

definition to_compact ::
  "'x compact_envelope \<Rightarrow> 'x compact_impl \<Rightarrow> 'x \<Rightarrow> (unit, bytes \<times> nat) outcome" where
  "to_compact K I tx = ce_to_compact K I tx"

definition from_compact ::
  "'x compact_envelope \<Rightarrow> 'x compact_impl \<Rightarrow> bytes \<Rightarrow> nat \<Rightarrow> (unit, 'x \<times> bytes) outcome" where
  "from_compact K I buf len = ce_from_compact K I buf len"

definition compress_to_buf ::
  "'x compact_envelope \<Rightarrow> 'x compact_impl \<Rightarrow> 'x \<Rightarrow> bytes \<Rightarrow> (unit, bytes) outcome" where
  "compress_to_buf K I tx buf = and_then (to_compact K I tx) (\<lambda>(written, _). Ok (buf @ written))"

text \<open>\<open>decompress\<close> has an error type but returns \<open>Ok\<close> or panics.\<close>

definition decompress ::
  "'x compact_envelope \<Rightarrow> 'x compact_impl \<Rightarrow> bytes \<Rightarrow> (unit, 'x) outcome" where
  "decompress K I value = map_ok fst (from_compact K I value (length value))"

text \<open>
  What upstream promises: a record is read back when its type, whose identifier has two bits of
  the flags, and its content are. The rest is not promised, as it depends on the compression.
\<close>

locale compact_records =
  fixes K :: "'x compact_envelope"
  assumes record_roundtrip:
      "\<And>I x ty. ci_tx_type I x = Ok ty \<Longrightarrow> fst (ci_type_to_compact I ty) < 4 \<Longrightarrow>
         (\<And>rest. ci_type_from_compact I (snd (ci_type_to_compact I ty) @ rest) (fst (ci_type_to_compact I ty))
            = Ok (ty, rest)) \<Longrightarrow>
         (\<And>rest. ci_from_tx_compact I (ci_to_tx_compact I x @ rest) ty (ci_signature I x) = Ok (x, rest)) \<Longrightarrow>
         \<exists>written n rest. ce_to_compact K I x = Ok (written, n)
           \<and> ce_from_compact K I written (length written) = Ok (x, rest)"
begin

lemma compress_decompress:
  assumes "ci_tx_type I x = Ok ty" "fst (ci_type_to_compact I ty) < 4"
    and "\<And>rest. ci_type_from_compact I (snd (ci_type_to_compact I ty) @ rest) (fst (ci_type_to_compact I ty))
           = Ok (ty, rest)"
    and "\<And>rest. ci_from_tx_compact I (ci_to_tx_compact I x @ rest) ty (ci_signature I x) = Ok (x, rest)"
  shows "and_then (compress_to_buf K I x []) (decompress K I) = Ok x"
  using record_roundtrip [OF assms]
  by (auto simp: compress_to_buf_def decompress_def to_compact_def from_compact_def)

end

section \<open>Facts\<close>

text \<open>
  The content of a \<open>0x7e\<close> record: within the size limit, a list of exactly two strings, and the bytes
  after it.
\<close>

definition stored_content :: "'m rlp_lib_scheme \<Rightarrow> bytes \<Rightarrow> bytes \<Rightarrow> bytes \<Rightarrow> bytes \<Rightarrow> bool" where
  "stored_content L buf pay key rest \<longleftrightarrow>
     (\<exists>h body f. header_decode L buf = Ok (h, body) \<and> list_flag h
        \<and> payload_length h \<le> MAX_RAW_TX \<and> payload_length h \<le> length body
        \<and> rest = drop (payload_length h) body
        \<and> bytes_decode L (take (payload_length h) body) = Ok (pay, f) \<and> bytes_decode L f = Ok (key, []))"

lemma from_tx_compact_not_Err: "from_tx_compact L S buf ty sg \<noteq> Err e"
  by (auto simp: from_tx_compact_def outcome_simps case_prod_beta Let_def)

lemma from_tx_compact_other:
  "ty \<noteq> COSMOS \<Longrightarrow> from_tx_compact L S buf ty sg \<noteq> Ok (Cosmos tx, rest)"
  by (auto simp: from_tx_compact_def outcome_simps case_prod_beta Let_def)

context chain_libs
begin

lemma wf_signed_parity:
  assumes "wf_signed P tx"
  shows "\<not> sig_v (cs_signature tx)"
  using assms by (auto simp: wf_signed_iff signed_value_def)

lemma from_tx_compact_cosmos:
  assumes "wf_signed P tx"
  shows "from_tx_compact P S (to_tx_compact P S (Cosmos tx) @ rest) COSMOS (cs_signature tx)
     = Ok (Cosmos tx, rest)"
proof -
  let ?pay = "payload P (cs_operation tx)" and ?key = "cs_public_key tx"
  define body where "body = bytes_encode P ?pay @ bytes_encode P ?key"
  note wf = wf_signed_eqD [OF assms]
  have pay: "length ?pay \<le> MAX_CALLDATA + 213"
    using wf(2) by (intro payload_size) (simp add: within_limits_def MAX_CALLDATA_def)
  have small: "length ?pay < 2 ^ 64" "length ?key < 2 ^ 64"
    using pay wf(3) by (simp_all add: MAX_CALLDATA_def)
  have size: "length body \<le> MAX_RAW_TX"
    using pay bytes_size [of ?pay] bytes_size [of ?key] wf(3)
    by (simp add: body_def MAX_CALLDATA_def MAX_RAW_TX_def)
  then have header: "header_decode P (header_encode P (list_header (length body)) @ (body @ rest))
      = Ok (list_header (length body), body @ rest)"
    by (intro header_roundtrip) (simp_all add: size_limits)
  have first: "bytes_decode P body = Ok (?pay, bytes_encode P ?key)"
    using small by (simp add: body_def bytes_roundtrip)
  have second: "bytes_decode P (bytes_encode P ?key) = Ok (?key, [])"
    using bytes_roundtrip [of ?key "[]"] small by simp
  have new: "cosmos_signed_new P (cs_operation tx) ?key (take 64 (sig_as_bytes P (cs_signature tx))) = Ok tx"
    using wf_signed_new [OF assms] by (simp add: signature_bytes_def)
  have compact: "to_tx_compact P S (Cosmos tx) @ rest
      = header_encode P (list_header (length body)) @ (body @ rest)"
    by (simp add: to_tx_compact_def body_def Let_def bytes_length_eq)
  show ?thesis
    unfolding compact
    using size decode_payload_payload [OF wf(2)] wf_signed_parity [OF assms]
    by (simp add: from_tx_compact_def header first second new Let_def)
qed

lemma from_tx_compact_Ok:
  "from_tx_compact P S buf COSMOS sg = (Ok (e, rest) :: ('e, _) outcome) \<longleftrightarrow>
     \<not> sig_v sg \<and> (\<exists>tx. e = Cosmos tx \<and> wf_signed P tx
       \<and> signature_bytes P tx = take 64 (sig_as_bytes P sg)
       \<and> stored_content P buf (payload P (cs_operation tx)) (cs_public_key tx) rest)"
    (is "?read = _ \<longleftrightarrow> ?valid")
proof
  assume "?read = Ok (e, rest)"
  then obtain h body pay f key op tx where read: "header_decode P buf = Ok (h, body)" "list_flag h"
      "payload_length h \<le> MAX_RAW_TX" "payload_length h \<le> length body" "rest = drop (payload_length h) body"
      "bytes_decode P (take (payload_length h) body) = Ok (pay, f)" "bytes_decode P f = Ok (key, [])"
    and op: "decode_payload P pay = Ok op"
    and new: "cosmos_signed_new P op key (take 64 (sig_as_bytes P sg)) = Ok tx"
    and e: "e = Cosmos tx" "\<not> sig_v sg"
    by (auto simp: from_tx_compact_def outcome_simps split: if_splits)
  from new have tx: "tx = signed_value P op key (take 64 (sig_as_bytes P sg))"
    "length (take 64 (sig_as_bytes P sg)) = 64" by (simp_all add: new_Ok_iff)
  have "stored_content P buf (payload P (cs_operation tx)) (cs_public_key tx) rest"
    using read decode_payload_OkD(1) [OF op] tx(1) by (auto simp: stored_content_def signed_value_def)
  with e tx new_wf [OF new] show ?valid by (auto simp: signature_bytes_signed_value)
next
  assume ?valid
  then obtain tx where tx: "e = Cosmos tx" "wf_signed P tx" "\<not> sig_v sg"
      "signature_bytes P tx = take 64 (sig_as_bytes P sg)"
      "stored_content P buf (payload P (cs_operation tx)) (cs_public_key tx) rest"
    by blast
  from wf_signed_new [OF tx(2)] tx(4)
  have "cosmos_signed_new P (cs_operation tx) (cs_public_key tx) (take 64 (sig_as_bytes P sg)) = Ok tx" by simp
  with tx(1,3,5) decode_payload_payload [OF wf_signed_eqD(2) [OF tx(2)]] show "?read = Ok (e, rest)"
    by (auto simp: stored_content_def from_tx_compact_def)
qed

lemma from_tx_compact_OkD:
  assumes "from_tx_compact P S buf COSMOS sg = (Ok (e, rest) :: ('e, _) outcome)"
  shows "\<exists>tx. e = Cosmos tx \<and> wf_signed P tx \<and> \<not> sig_v sg
    \<and> signature_bytes P tx = take 64 (sig_as_bytes P sg)"
  using assms by (auto simp: from_tx_compact_Ok)

lemma cosmos_compress_decompress:
  fixes K :: "'t envelope compact_envelope"
  assumes "compact_records K" "wf_signed P tx"
  shows "and_then (compress_to_buf K (envelope_compact_impl P T V S) (Cosmos tx) [])
      (decompress K (envelope_compact_impl P T V S)) = Ok (Cosmos tx)"
proof (rule compact_records.compress_decompress [OF assms(1)])
  show "ci_tx_type (envelope_compact_impl P T V S) (Cosmos tx) = Ok COSMOS"
    by (simp add: envelope_compact_impl_def stored_tx_type_def envelope_tx_type_def envelope_ty_def
        cosmos_signed_ty_def tx_type_try_from_def COSMOS_def)
next
  fix rest
  show "ci_from_tx_compact (envelope_compact_impl P T V S)
      (ci_to_tx_compact (envelope_compact_impl P T V S) (Cosmos tx) @ rest) COSMOS
      (ci_signature (envelope_compact_impl P T V S) (Cosmos tx)) = Ok (Cosmos tx, rest)"
    using from_tx_compact_cosmos [OF assms(2)] by (simp add: envelope_compact_impl_def envelope_signature_def)
qed (simp_all add: envelope_compact_impl_def tx_type_to_compact_def tx_type_from_compact_def
      TX_TYPE_def tx_type_try_from_def COSMOS_def)

end

section \<open>A reference instance\<close>

text \<open>Records without compression: the identifier, the signature, the type byte and the content.\<close>

definition ref_sig_of_bytes :: "bytes \<Rightarrow> eth_signature" where
  "ref_sig_of_bytes b = \<lparr>sig_r = word_of_nat (be_nat (take 32 b)),
     sig_s = word_of_nat (be_nat (take 32 (drop 32 b))), sig_v = (hd (drop 64 b) = 28)\<rparr>"

definition ref_records :: "'x compact_envelope" where
  "ref_records = \<lparr>
     ce_to_compact = (\<lambda>I x. and_then (ci_tx_type I x) (\<lambda>ty.
       let (identifier, written) = ci_type_to_compact I ty;
           all = word_of_nat identifier # ref_sig_as_bytes (ci_signature I x) @ written @ ci_to_tx_compact I x
       in Ok (all, length all))),
     ce_from_compact = (\<lambda>I buf n.
       case buf of [] \<Rightarrow> Panic | b # buf \<Rightarrow>
         and_then (ci_type_from_compact I (drop 65 buf) (unat b)) (\<lambda>(ty, rest).
           ci_from_tx_compact I rest ty (ref_sig_of_bytes (take 65 buf))))\<rparr>"

lemma ref_sig_of_bytes: "ref_sig_of_bytes (ref_sig_as_bytes sg) = sg"
  by (simp add: ref_sig_of_bytes_def ref_sig_as_bytes_def word_of_word_bytes)

lemma length_ref_sig_as_bytes [simp]: "length (ref_sig_as_bytes sg) = 65"
  by (simp add: ref_sig_as_bytes_def)

interpretation ref_store: compact_records "ref_records :: 'x compact_envelope"
proof (unfold_locales, goal_cases)
  case (1 I x ty)
  obtain i written where compact: "ci_type_to_compact I ty = (i, written)"
    by fastforce
  with 1(2) have "unat (word_of_nat i :: byte) = i"
    by (simp add: unat_of_nat)
  with 1(1,3) compact show ?case
    using 1(4) [of "[]"] by (simp add: ref_records_def Let_def ref_sig_of_bytes)
qed

section \<open>Properties\<close>

definition ref_compact :: "(bytes, unit) compact_ops" where
  "ref_compact = \<lparr>eth_to_tx_compact = (\<lambda>t. t), eth_from_tx_compact = (\<lambda>buf y sg. (buf, [])),
     eth_type_of = (\<lambda>v. if v < 5 then Some () else None),
     eth_tx_signature = (\<lambda>t. \<lparr>sig_r = 0, sig_s = 0, sig_v = False\<rparr>)\<rparr>"

text \<open>C26. Reading a stored Cosmos transaction back gives the transaction that was stored: the database
  form, with the type and the signature the codec keeps apart, round-trips for every well-formed
  container whatever follows in the buffer, without a panic, so its raw bytes, its hash and the
  sender it recovers to are unchanged; and a database record written by \<open>Compress\<close> is read back by
  \<open>Decompress\<close>.\<close>

theorem storage_roundtrip:
  assumes "chain_libs L" "compact_records K" "wf_signed L tx"
  shows "from_tx_compact L S (to_tx_compact L S (Cosmos tx) @ rest) COSMOS (envelope_signature S (Cosmos tx))
    = (Ok (Cosmos tx, rest) :: ('e, _) outcome)
    \<and> and_then (compress_to_buf K (envelope_compact_impl L T V S) (Cosmos tx) [])
        (decompress K (envelope_compact_impl L T V S)) = Ok (Cosmos tx)"
proof (rule conjI)
  show "from_tx_compact L S (to_tx_compact L S (Cosmos tx) @ rest) COSMOS (envelope_signature S (Cosmos tx))
      = (Ok (Cosmos tx, rest) :: ('e, _) outcome)"
    using chain_libs.from_tx_compact_cosmos [OF assms(1,3)] by (simp add: envelope_signature_def)
qed (rule chain_libs.cosmos_compress_decompress [OF assms])

theorem storage_roundtrip_witness:
  "from_tx_compact ref_libs ref_compact (to_tx_compact ref_libs ref_compact (Cosmos sample_tx) @ [9])
     COSMOS (cs_signature sample_tx) = (Ok (Cosmos sample_tx, [9]) :: (unit, _) outcome)
   \<and> and_then (compress_to_buf ref_records
         (envelope_compact_impl ref_libs ref_eth (\<lambda>v. v < 5) ref_compact) (Cosmos sample_tx) [])
       (decompress ref_records (envelope_compact_impl ref_libs ref_eth (\<lambda>v. v < 5) ref_compact))
     = Ok (Cosmos sample_tx)"
  using storage_roundtrip [OF ref.chain_libs_axioms ref_store.compact_records_axioms sample_tx_facts(1),
      of ref_compact "[9]"]
  by (simp add: envelope_signature_def)

text \<open>C27. The database yields intact transactions or panics. A record of type \<open>0x7e\<close> is read exactly when its
  parity bit is not set and its content is, within the size limit, a list of just the canonical payload and the key
  of a well-formed container with the stored signature, which is then what is returned, with the
  bytes after the content; every other record panics, one with the parity bit set whatever else it
  holds. There is no error to be returned, and a record of another type is never read as a Cosmos
  transaction.\<close>

theorem storage_corruption_panics:
  assumes "chain_libs L"
  shows "(\<forall>e rest. from_tx_compact L S buf COSMOS sg = (Ok (e, rest) :: ('e, 't envelope \<times> bytes) outcome) \<longleftrightarrow>
        \<not> sig_v sg \<and> (\<exists>tx. e = Cosmos tx \<and> wf_signed L tx
          \<and> signature_bytes L tx = take 64 (sig_as_bytes L sg)
          \<and> stored_content L buf (payload L (cs_operation tx)) (cs_public_key tx) rest))
    \<and> (from_tx_compact L S buf COSMOS sg = (Panic :: ('e, 't envelope \<times> bytes) outcome) \<longleftrightarrow>
        sig_v sg \<or> (\<forall>tx rest. \<not> (wf_signed L tx \<and> signature_bytes L tx = take 64 (sig_as_bytes L sg)
          \<and> stored_content L buf (payload L (cs_operation tx)) (cs_public_key tx) rest)))
    \<and> from_tx_compact L S buf ty sg \<noteq> (Err err :: ('e, 't envelope \<times> bytes) outcome)
    \<and> (ty \<noteq> COSMOS \<longrightarrow> from_tx_compact L S buf ty sg \<noteq> (Ok (Cosmos tx, rest) :: ('e, 't envelope \<times> bytes) outcome))"
proof -
  let ?read = "from_tx_compact L S buf COSMOS sg :: ('e, 't envelope \<times> bytes) outcome"
  have ok: "?read = Ok (e, rest) \<longleftrightarrow> \<not> sig_v sg \<and> (\<exists>tx. e = Cosmos tx \<and> wf_signed L tx
      \<and> signature_bytes L tx = take 64 (sig_as_bytes L sg)
      \<and> stored_content L buf (payload L (cs_operation tx)) (cs_public_key tx) rest)" for e rest
    by (rule chain_libs.from_tx_compact_Ok [OF assms])
  have "?read = Panic \<longleftrightarrow> (\<nexists>e rest. ?read = Ok (e, rest))"
    by (cases ?read) (simp_all add: from_tx_compact_not_Err)
  then have panic: "?read = Panic \<longleftrightarrow> sig_v sg \<or> (\<forall>tx rest. \<not> (wf_signed L tx
      \<and> signature_bytes L tx = take 64 (sig_as_bytes L sg)
      \<and> stored_content L buf (payload L (cs_operation tx)) (cs_public_key tx) rest))"
    unfolding ok by blast
  show ?thesis
    by (intro conjI allI impI ok panic from_tx_compact_not_Err from_tx_compact_other)
qed

theorem storage_corruption_panics_witness:
  "from_tx_compact ref_libs ref_compact (to_tx_compact ref_libs ref_compact (Cosmos sample_tx)) COSMOS
     (cs_signature sample_tx\<lparr>sig_v := True\<rparr>) = (Panic :: (unit, _) outcome)
   \<and> stored_content ref_libs (to_tx_compact ref_libs ref_compact (Cosmos sample_tx) @ [9])
       (payload ref_libs sample_op) (cs_public_key sample_tx) [9]"
proof (rule conjI)
  show "from_tx_compact ref_libs ref_compact (to_tx_compact ref_libs ref_compact (Cosmos sample_tx)) COSMOS
     (cs_signature sample_tx\<lparr>sig_v := True\<rparr>) = (Panic :: (unit, _) outcome)"
    using storage_corruption_panics [OF ref.chain_libs_axioms, where 'e = unit and S = ref_compact
        and sg = "cs_signature sample_tx\<lparr>sig_v := True\<rparr>" and ty = COSMOS
        and buf = "to_tx_compact ref_libs ref_compact (Cosmos sample_tx)"] by simp
next
  have "from_tx_compact ref_libs ref_compact (to_tx_compact ref_libs ref_compact (Cosmos sample_tx) @ [9]) COSMOS
      (cs_signature sample_tx) = (Ok (Cosmos sample_tx, [9]) :: (unit, _) outcome)"
    by (rule ref.from_tx_compact_cosmos [OF sample_tx_facts(1)])
  with storage_corruption_panics [OF ref.chain_libs_axioms, of ref_compact _ "cs_signature sample_tx", where 'e = unit]
  show "stored_content ref_libs (to_tx_compact ref_libs ref_compact (Cosmos sample_tx) @ [9])
       (payload ref_libs sample_op) (cs_public_key sample_tx) [9]"
    using sample_tx_facts by auto
qed

end
