(* ===== verification/Node.thy ===== *)
theory Node
  imports Send_Raw Payload_Job Engine Storage
begin

text \<open>
  \<open>src/node.rs\<close>: the components a node is made of, as far as the source configures them. A setter
  chain on an upstream builder is the record of the settings it makes; the record \<open>K\<close> holds the
  fallible upstream constructors. The associated types have no run-time content. The last part is the function \<open>main\<close> of
  \<open>src/main.rs\<close>.
\<close>

section \<open>Configuration\<close>

record 'lc node_config =
  nc_jit_enabled :: bool
  nc_disable_blobs_support :: bool
  nc_blobpool_max_count :: nat
  nc_blob_cache_size :: "nat option"
  nc_max_tx_input_bytes :: nat
  nc_local_transactions_config :: 'lc
  nc_rpc_tx_fee_cap :: u128
  nc_max_tx_gas_limit :: "u64 option"
  nc_minimum_priority_fee :: "u128 option"
  nc_additional_validation_tasks :: nat

section \<open>Executor and payload builder\<close>

definition build_evm ::
  "('c, 'l receipt_ctx \<Rightarrow> 'l receipt, 'ec, 'fa, 'as) evm_constructors \<Rightarrow> 'lc node_config \<Rightarrow> 'c
     \<Rightarrow> (string, ('ec, 'fa, 'as) evm_config) outcome" where
  "build_evm M conf chain_spec =
     and_then (ensure (\<not> nc_jit_enabled conf) ''JIT is not configured for this experiment'') (\<lambda>_.
       Ok (evm_config_new M build_receipt chain_spec))"

definition build_consensus ::
  "('c \<Rightarrow> ('x, 'w, 'r, 'bl, 'e) eth_consensus) \<Rightarrow> 'c
     \<Rightarrow> (string, ('x, 'w, 'r, 'bl, 'e) eth_consensus) outcome" where
  "build_consensus eth_consensus_new chain_spec = Ok (cosmos_consensus_new eth_consensus_new chain_spec)"

text \<open>\<open>EthereumBuilderConfig::new()\<close> with the extra data of the node; \<open>defaults\<close> is \<open>new()\<close>.\<close>

definition payload_builder_config :: "builder_config \<Rightarrow> bytes \<Rightarrow> builder_config" where
  "payload_builder_config defaults node_extra_data = defaults\<lparr>extra_data := node_extra_data\<rparr>"

text \<open>\<open>CosmosPayloadBuilder\<close> of \<open>payload/builder.rs\<close> and the builder that makes it.\<close>

record ('client, 'pool, 'evm) payload_builder =
  pb_client :: 'client
  pb_pool :: 'pool
  pb_evm_config :: 'evm
  pb_builder_config :: builder_config

definition payload_builder_new ::
  "'client \<Rightarrow> 'pool \<Rightarrow> 'evm \<Rightarrow> builder_config \<Rightarrow> ('client, 'pool, 'evm) payload_builder" where
  "payload_builder_new client pool evm_config config =
     \<lparr>pb_client = client, pb_pool = pool, pb_evm_config = evm_config, pb_builder_config = config\<rparr>"

definition build_payload_builder ::
  "builder_config \<Rightarrow> 'client \<Rightarrow> bytes \<Rightarrow> 'pool \<Rightarrow> 'evm
     \<Rightarrow> (string, ('client, 'pool, 'evm) payload_builder) outcome" where
  "build_payload_builder defaults provider node_extra_data pool evm =
     Ok (payload_builder_new provider pool evm (payload_builder_config defaults node_extra_data))"

section \<open>RPC and engine\<close>

text \<open>
  The receipt converter of the RPC is the upstream one with the chain's \<open>receipt_converter\<close> in it.
\<close>

record ('c, 'cv, 'rc, 'k, 'ab, 'api) eth_api_lib =
  eth_receipt_converter_new :: "'c \<Rightarrow> 'rc"
  with_builder :: "'rc \<Rightarrow> 'cv \<Rightarrow> 'rc"
  rpc_converter_new :: "'rc \<Rightarrow> 'k"
  map_converter :: "('k \<Rightarrow> 'k) \<Rightarrow> 'ab \<Rightarrow> 'ab"
  build_api :: "'ab \<Rightarrow> 'api"

definition build_eth_api ::
  "('c, 'l receipt \<Rightarrow> u64 \<Rightarrow> transaction_meta \<Rightarrow> ('l, 'b) receipt_with_bloom, 'rc, 'k, 'ab, 'api) eth_api_lib
     \<Rightarrow> ('l receipt \<Rightarrow> 'b) \<Rightarrow> 'c \<Rightarrow> 'ab \<Rightarrow> (string, 'api) outcome" where
  "build_eth_api A bloom chain eth_api_builder =
     (let converter = rpc_converter_new A (with_builder A (eth_receipt_converter_new A chain)
                        (receipt_converter bloom))
      in Ok (build_api A (map_converter A (\<lambda>_. converter) eth_api_builder)))"

definition build_validator :: "('c \<Rightarrow> 'i) \<Rightarrow> 'c \<Rightarrow> (string, 'i engine_validator) outcome" where
  "build_validator eth_validator_new chain = Ok (engine_validator_new eth_validator_new chain)"

text \<open>\<open>attributes_new\<close> is \<open>LocalPayloadAttributesBuilder::new\<close>.\<close>

definition local_payload_attributes_builder :: "('c \<Rightarrow> 'ab) \<Rightarrow> 'c \<Rightarrow> 'ab" where
  "local_payload_attributes_builder attributes_new chain = attributes_new chain"

section \<open>The pool\<close>

record ('lc, 'k) validator_settings =
  vs_custom_tx_types :: "byte list"
  vs_eip4844 :: bool
  vs_kzg_settings :: 'k
  vs_max_tx_input_bytes :: nat
  vs_local_transactions_config :: 'lc
  vs_tx_fee_cap :: u128
  vs_max_tx_gas_limit :: "u64 option"
  vs_minimum_priority_fee :: "u128 option"
  vs_additional_tasks :: nat

record ('lc, 'k, 'bs, 'v, 'pool) node_lib =
  create_blob_store :: "nat option \<Rightarrow> (string, 'bs) outcome"
  kzg_settings :: "(string, 'k) outcome"
  build_with_tasks :: "('lc, 'k) validator_settings \<Rightarrow> 'bs \<Rightarrow> 'v"
  build_and_spawn_maintenance_task :: "'v \<Rightarrow> 'bs \<Rightarrow> (string, 'pool) outcome"

definition validator_settings_of :: "'lc node_config \<Rightarrow> 'k \<Rightarrow> ('lc, 'k) validator_settings" where
  "validator_settings_of conf kzg =
     (let blobs_disabled = nc_disable_blobs_support conf \<or> nc_blobpool_max_count conf = 0
      in \<lparr>vs_custom_tx_types = [TX_TYPE],
          vs_eip4844 = (\<not> blobs_disabled),
          vs_kzg_settings = kzg,
          vs_max_tx_input_bytes = nc_max_tx_input_bytes conf,
          vs_local_transactions_config = nc_local_transactions_config conf,
          vs_tx_fee_cap = nc_rpc_tx_fee_cap conf,
          vs_max_tx_gas_limit = nc_max_tx_gas_limit conf,
          vs_minimum_priority_fee = nc_minimum_priority_fee conf,
          vs_additional_tasks = nc_additional_validation_tasks conf\<rparr>)"

definition build_pool ::
  "('lc, 'k, 'bs, 'v, 'pool) node_lib \<Rightarrow> 'lc node_config \<Rightarrow> (string, 'pool) outcome" where
  "build_pool K conf =
     and_then (create_blob_store K (nc_blob_cache_size conf)) (\<lambda>blobs.
     and_then (kzg_settings K) (\<lambda>kzg.
       build_and_spawn_maintenance_task K (build_with_tasks K (validator_settings_of conf kzg) blobs) blobs))"

section \<open>The components of a node\<close>

text \<open>
  \<open>components_builder\<close> names the builder of each component, \<open>add_ons\<close> those of the RPC and of the
  engine; \<open>payload_service\<close> is \<open>BasicPayloadServiceBuilder\<close>, which runs the builder it is for, and
  \<open>network\<close> the upstream network.
\<close>

record ('pb, 'xb, 'sb, 'nb, 'cb) components_builder =
  cb_pool :: 'pb
  cb_executor :: 'xb
  cb_payload :: 'sb
  cb_network :: 'nb
  cb_consensus :: 'cb

definition components_builder where
  "components_builder K M defaults payload_service network eth_consensus_new =
     \<lparr>cb_pool = build_pool K,
      cb_executor = build_evm M,
      cb_payload = payload_service (build_payload_builder defaults),
      cb_network = network,
      cb_consensus = build_consensus eth_consensus_new\<rparr>"

record ('ab, 'vb) add_ons =
  ao_eth_api :: 'ab
  ao_engine_validator :: 'vb

definition add_ons where
  "add_ons A bloom eth_validator_new =
     \<lparr>ao_eth_api = build_eth_api A bloom, ao_engine_validator = build_validator eth_validator_new\<rparr>"

section \<open>Blocks from a debug node\<close>

text \<open>An RPC transaction wraps the recovered one; \<open>into_consensus\<close> keeps everything else.\<close>

record 'x rpc_transaction =
  rt_inner :: "'x recovered"

definition rpc_to_primitive_block :: "('x rpc_transaction, 'w) block \<Rightarrow> ('x, 'w) block" where
  "rpc_to_primitive_block blk =
     \<lparr>b_header = b_header blk,
      b_transactions = map (\<lambda>tx. rec_tx (rt_inner tx)) (b_transactions blk),
      b_ommers = b_ommers blk,
      b_withdrawals = b_withdrawals blk\<rparr>"

section \<open>The program\<close>

text \<open>\<open>main\<close>: the components of the offline commands, the module with the one method, and the run.\<close>

definition cli_components ::
  "('c, 'l receipt_ctx \<Rightarrow> 'l receipt, 'ec, 'fa, 'as) evm_constructors
     \<Rightarrow> ('c \<Rightarrow> ('x, 'w, 'r, 'bl, 'e) eth_consensus) \<Rightarrow> 'c
     \<Rightarrow> ('ec, 'fa, 'as) evm_config \<times> ('x, 'w, 'r, 'bl, 'e) eth_consensus" where
  "cli_components M eth_consensus_new chain =
     (evm_config_new M build_receipt chain, cosmos_consensus_new eth_consensus_new chain)"

text \<open>
  A method is registered with the state its closure owns, the semaphore with eight permits.
  \<open>launch\<close> takes the extension of the RPC modules and runs it on their context.
\<close>

record ('ctx, 'md, 'hd) launch_lib =
  rpc_module_new :: 'md
  register_async_method :: "'md \<Rightarrow> string \<Rightarrow> server \<Rightarrow> (string, 'md) outcome"
  merge_configured :: "'ctx \<Rightarrow> 'md \<Rightarrow> (string, unit) outcome"
  launch_node :: "('ctx \<Rightarrow> (string, unit) outcome) \<Rightarrow> (string, 'hd) outcome"
  wait_for_node_exit :: "'hd \<Rightarrow> (string, unit) outcome"

definition extend_rpc_modules :: "('ctx, 'md, 'hd) launch_lib \<Rightarrow> 'ctx \<Rightarrow> (string, unit) outcome" where
  "extend_rpc_modules X ctx =
     and_then (register_async_method X (rpc_module_new X) ''cosmos_sendRawTransaction'' initial_server)
       (\<lambda>module. and_then (merge_configured X ctx module) (\<lambda>_. Ok ()))"

definition run_node :: "('ctx, 'md, 'hd) launch_lib \<Rightarrow> b256 \<Rightarrow> (string, unit) outcome" where
  "run_node X genesis =
     and_then (ensure_genesis genesis) (\<lambda>_.
     and_then (launch_node X (extend_rpc_modules X)) (\<lambda>handle.
       wait_for_node_exit X handle))"

section \<open>Facts\<close>

text \<open>A pool that is built validates the chain's own type and blobs only when neither switch disables
  them; a node with JIT has no executor.\<close>

lemma build_pool_Ok:
  "build_pool K conf = Ok pool \<longleftrightarrow>
     (\<exists>blobs kzg. create_blob_store K (nc_blob_cache_size conf) = Ok blobs \<and> kzg_settings K = Ok kzg
        \<and> build_and_spawn_maintenance_task K (build_with_tasks K (validator_settings_of conf kzg) blobs) blobs
            = Ok pool)"
  by (auto simp: build_pool_def outcome_simps)

lemma validator_settings_simps [simp]:
  "vs_custom_tx_types (validator_settings_of conf kzg) = [TX_TYPE]"
  "vs_eip4844 (validator_settings_of conf kzg) \<longleftrightarrow>
     \<not> nc_disable_blobs_support conf \<and> nc_blobpool_max_count conf \<noteq> 0"
  by (auto simp: validator_settings_of_def Let_def)

lemma build_evm_Ok:
  "build_evm M conf chain = Ok c \<longleftrightarrow> \<not> nc_jit_enabled conf \<and> c = evm_config_new M build_receipt chain"
  by (auto simp: build_evm_def outcome_simps)

text \<open>The offline commands and the running node execute and validate by the same rules: a node that
  has an executor has the one \<open>main\<close> gives the command line for the same chain, and the same
  consensus; and a node of another chain is refused before anything is launched.\<close>

lemma commands_and_node_agree:
  assumes "cb_executor (components_builder K M defaults payload_service network eth_consensus_new) conf chain = Ok evm"
    and "cb_consensus (components_builder K M defaults payload_service network eth_consensus_new) chain = Ok consensus"
  shows "cli_components M eth_consensus_new chain = (evm, consensus)"
  using assms by (simp add: components_builder_def build_evm_Ok build_consensus_def cli_components_def)

lemma foreign_node_never_launches:
  "genesis \<noteq> GENESIS_HASH \<Longrightarrow>
     run_node X genesis = Err ''use the experiment's genesis.json; other chains are unsupported''"
  by (simp add: run_node_def ensure_genesis_def ensure_def)

text \<open>The signer an RPC block claims is forgotten: the imported block is verified from its own bytes.\<close>

lemma rpc_block_signers_ignored:
  "map (\<lambda>tx. rec_tx (rt_inner tx)) (b_transactions blk) = map (\<lambda>tx. rec_tx (rt_inner tx)) (b_transactions blk')
     \<Longrightarrow> b_header blk = b_header blk' \<Longrightarrow> b_ommers blk = b_ommers blk' \<Longrightarrow> b_withdrawals blk = b_withdrawals blk'
     \<Longrightarrow> rpc_to_primitive_block blk = rpc_to_primitive_block blk'"
  by (simp add: rpc_to_primitive_block_def)

end
