(* ===== verification/Network.thy ===== *)
theory Network
  imports Envelope
begin

text \<open>
  The RLP form of a transaction, the one block bodies and peer messages are made of:
  \<open>impl Encodable\<close> and \<open>impl Decodable for CosmosEnvelope\<close> in \<open>src/primitives/envelope.rs\<close>, which
  hand over to the network methods that \<open>Encodable2718\<close> and \<open>Decodable2718\<close> define upstream on
  top of the methods of \<open>Envelope\<close>.
\<close>

section \<open>The upstream methods\<close>

text \<open>
  \<open>network_encode\<close>, \<open>network_len\<close> and \<open>network_decode\<close> are defaults of their traits: they are
  given the dictionary of the type. \<open>error_from\<close> is \<open>From<Eip2718Error> for alloy_rlp::Error\<close>.
\<close>

record 'x network_ops =
  network_encode :: "'x tx_traits \<Rightarrow> 'x \<Rightarrow> bytes"
  network_len :: "'x tx_traits \<Rightarrow> 'x \<Rightarrow> nat"
  network_decode :: "'x tx_traits \<Rightarrow> bytes \<Rightarrow> (eip2718_error, 'x \<times> bytes) outcome"
  error_from :: "eip2718_error \<Rightarrow> rlp_error"

text \<open>
  What their documentation promises: a typed transaction is written as an RLP string around its
  EIP-2718 encoding, a legacy one, of type 0, as it is; the decoder opens the string and passes what is
  behind it, following items included, to \<open>typed_decode\<close>, or passes a list to \<open>fallback_decode\<close>; and it
  panics only if they do.
\<close>

definition opens_list :: "'m rlp_lib_scheme \<Rightarrow> bytes \<Rightarrow> bool" where
  "opens_list L buf \<longleftrightarrow> (\<exists>h tail. header_decode L buf = Ok (h, tail) \<and> list_flag h)"

locale network_form =
  fixes R :: "'m rlp_lib_scheme" and N :: "'x network_ops" and rlp_string :: "bytes \<Rightarrow> bytes"
  assumes network_encode_typed:
      "\<And>D x. t_ty D x \<noteq> 0 \<Longrightarrow> t_encode_2718_len D x = length (t_encode_2718 D x) \<Longrightarrow>
         network_encode N D x = rlp_string (t_encode_2718 D x)"
    and network_len_typed:
      "\<And>D x. t_ty D x \<noteq> 0 \<Longrightarrow> t_encode_2718_len D x = length (t_encode_2718 D x) \<Longrightarrow>
         network_len N D x = length (rlp_string (t_encode_2718 D x))"
    and network_encode_legacy:
      "\<And>D x. t_ty D x = 0 \<Longrightarrow> network_encode N D x = t_encode_2718 D x"
      "\<And>D x. t_ty D x = 0 \<Longrightarrow> network_len N D x = t_encode_2718_len D x"
    and network_decode_list:
      "\<And>D buf x rest. opens_list R buf \<Longrightarrow> t_fallback_decode D buf = Ok (x, rest) \<Longrightarrow>
         network_decode N D buf = Ok (x, rest)"
    and network_decode_string:
      "\<And>D ty body rest x. t_typed_decode D ty (body @ rest) = Ok (x, rest) \<Longrightarrow> body \<noteq> [] \<Longrightarrow>
         Suc (length body) < 2 ^ 64 \<Longrightarrow>
         network_decode N D (rlp_string (ty # body) @ rest) = Ok (x, rest)"
    and network_decode_opens:
      "\<And>D buf x rest. network_decode N D buf = Ok (x, rest) \<Longrightarrow>
         t_fallback_decode D buf = Ok (x, rest)
         \<or> (\<exists>pre ty body. buf = pre @ ty # body \<and> t_typed_decode D ty body = Ok (x, rest))"
    and network_decode_returns:
      "\<And>D buf. (\<And>ty b. t_typed_decode D ty b \<noteq> Panic) \<Longrightarrow> (\<And>b. t_fallback_decode D b \<noteq> Panic) \<Longrightarrow>
         network_decode N D buf \<noteq> Panic"

section \<open>The implementations\<close>

definition envelope_encode ::
  "('vk, 'sg, 'm) prim_lib_scheme \<Rightarrow> 't tx_traits \<Rightarrow> nat \<Rightarrow> 't envelope network_ops \<Rightarrow> 't envelope \<Rightarrow> bytes"
  where
  "envelope_encode L T n N e = network_encode N (envelope_traits L T n) e"

definition envelope_length ::
  "('vk, 'sg, 'm) prim_lib_scheme \<Rightarrow> 't tx_traits \<Rightarrow> nat \<Rightarrow> 't envelope network_ops \<Rightarrow> 't envelope \<Rightarrow> nat"
  where
  "envelope_length L T n N e = network_len N (envelope_traits L T n) e"

definition envelope_decode ::
  "('vk, 'sg, 'm) prim_lib_scheme \<Rightarrow> 't tx_traits \<Rightarrow> nat \<Rightarrow> 't envelope network_ops
     \<Rightarrow> 't envelope decoder" where
  "envelope_decode L T n N buf = map_err (error_from N) (network_decode N (envelope_traits L T n) buf)"

section \<open>Sequences of transactions\<close>

text \<open>A body is the encodings one after the other, and is read item by item.\<close>

definition encode_each :: "('x \<Rightarrow> bytes) \<Rightarrow> 'x list \<Rightarrow> bytes" where
  "encode_each enc xs = concat (map enc xs)"

primrec decode_each :: "'x decoder \<Rightarrow> nat \<Rightarrow> 'x list decoder" where
  "decode_each dec 0 buf = Ok ([], buf)"
| "decode_each dec (Suc n) buf =
     and_then (dec buf) (\<lambda>(x, buf). and_then (decode_each dec n buf) (\<lambda>(xs, buf). Ok (x # xs, buf)))"

lemma decode_each_encode_each:
  assumes "\<And>x rest. x \<in> set xs \<Longrightarrow> dec (enc x @ rest) = Ok (x, rest)"
  shows "decode_each dec (length xs) (encode_each enc xs @ rest) = Ok (xs, rest)"
  using assms by (induction xs) (auto simp: encode_each_def)

section \<open>Facts\<close>

text \<open>
  An item of a sequence: a well-formed Cosmos container, or an Ethereum transaction, typed or legacy,
  that the upstream codec writes and reads in place.
\<close>

definition eth_item :: "'t tx_traits \<Rightarrow> 't \<Rightarrow> bool" where
  "eth_item T t \<longleftrightarrow> t_ty T t \<noteq> 0 \<and> t_encode_2718_len T t = length (t_encode_2718 T t)
     \<and> length (t_encode_2718 T t) < 2 ^ 64
     \<and> (\<exists>ty body. t_encode_2718 T t = ty # body \<and> body \<noteq> [] \<and> ty \<noteq> TX_TYPE
          \<and> (\<forall>rest. t_typed_decode T ty (body @ rest) = Ok (t, rest)))"

definition legacy_item :: "'m rlp_lib_scheme \<Rightarrow> 't tx_traits \<Rightarrow> 't \<Rightarrow> bool" where
  "legacy_item L T t \<longleftrightarrow> t_ty T t = 0 \<and> t_encode_2718_len T t = length (t_encode_2718 T t)
     \<and> (\<forall>rest. opens_list L (t_encode_2718 T t @ rest)
          \<and> t_fallback_decode T (t_encode_2718 T t @ rest) = Ok (t, rest))"

definition network_item ::
  "('vk, 'sg, 'm) prim_lib_scheme \<Rightarrow> 't tx_traits \<Rightarrow> 't envelope \<Rightarrow> bool" where
  "network_item L T e = (case e of Ethereum t \<Rightarrow> eth_item T t \<or> legacy_item L T t | Cosmos tx \<Rightarrow> wf_signed L tx)"

lemma envelope_traits_network [simp]:
  "t_ty (envelope_traits L T n) = envelope_ty T"
  "t_encode_2718_len (envelope_traits L T n) = envelope_encode_2718_len T"
  "t_encode_2718 (envelope_traits L T n) = envelope_encode_2718 T"
  "t_typed_decode (envelope_traits L T n) = envelope_typed_decode L T"
  "t_fallback_decode (envelope_traits L T n) = envelope_fallback_decode T"
  by (simp_all add: envelope_traits_def tx_ops.extend_def)

lemma eth_item_decodes:
  assumes "t_typed_decode T ty (body @ rest) = Ok (t, rest)" "ty \<noteq> TX_TYPE"
  shows "envelope_typed_decode L T ty (body @ rest) = Ok (Ethereum t, rest)"
  using assms by (simp add: envelope_typed_decode_def)

context chain_libs
begin

lemma rlp_list_nonempty: "rlp_list P xs \<noteq> []"
proof
  assume "rlp_list P xs = []"
  then have empty: "header_encode P (list_header 0) = []" by (auto simp: rlp_list_def)
  have "header_decode P rest = Ok (list_header 0, rest)" for rest
    using header_roundtrip [of 0 rest] empty by simp
  moreover have "header_decode P (header_encode P (list_header 1) @ [0]) = Ok (list_header 1, [0])"
    by (rule header_roundtrip) simp_all
  ultimately show False by simp
qed

lemma cosmos_item_body:
  assumes "wf_signed P tx"
  obtains body where "cs_raw tx = TX_TYPE # body" "body \<noteq> []" "length (cs_raw tx) < 2 ^ 64"
    "\<And>rest. envelope_typed_decode P T TX_TYPE (body @ rest) = Ok (Cosmos tx, rest)"
proof -
  let ?body = "rlp_list P (wire_fields P (cs_operation tx) (cs_public_key tx) (signature_bytes P tx))"
  have raw: "cs_raw tx = TX_TYPE # ?body"
    using wf_signed_raw [OF assms] by (simp add: encode_wire_def)
  note wf = wf_signed_eqD [OF assms]
  have "length (cs_raw tx) < 2 ^ 64"
    using decode_wire_OkD(5) [OF decode_wire_encode_wire [OF wf(2-4)]] raw
    by (simp add: encode_wire_def MAX_RAW_TX_def MAX_CALLDATA_def)
  moreover have "envelope_typed_decode P T TX_TYPE (?body @ rest) = Ok (Cosmos tx, rest)" for rest
    using typed_decode_raw [OF assms, of T rest] raw by auto
  ultimately show ?thesis using that [OF raw rlp_list_nonempty] by blast
qed

lemma item_body:
  assumes "network_item P T e" "\<nexists>t. e = Ethereum t \<and> legacy_item P T t"
  obtains ty body where "envelope_encode_2718 T e = ty # body" "body \<noteq> []"
    "Suc (length body) < 2 ^ 64" "envelope_ty T e \<noteq> 0"
    "envelope_encode_2718_len T e = length (envelope_encode_2718 T e)"
    "\<And>rest. envelope_typed_decode P T ty (body @ rest) = Ok (e, rest)"
proof (cases e)
  case (Ethereum t)
  with assms have item: "eth_item T t" by (auto simp: network_item_def)
  then obtain ty body where "t_encode_2718 T t = ty # body" "body \<noteq> []" "ty \<noteq> TX_TYPE"
    "\<And>rest. t_typed_decode T ty (body @ rest) = Ok (t, rest)"
    by (auto simp: eth_item_def)
  with item Ethereum that [of ty body] show ?thesis
    by (simp add: eth_item_def eth_item_decodes envelope_encode_2718_def envelope_encode_2718_len_def
        envelope_ty_def)
next
  case (Cosmos tx)
  with assms have "wf_signed P tx" by (simp add: network_item_def)
  from cosmos_item_body [OF this, of T] obtain body where
    "cs_raw tx = TX_TYPE # body" "body \<noteq> []" "length (cs_raw tx) < 2 ^ 64"
    "\<And>rest. envelope_typed_decode P T TX_TYPE (body @ rest) = Ok (Cosmos tx, rest)"
    by blast
  with Cosmos that [of TX_TYPE body] show ?thesis
    by (simp add: envelope_encode_2718_def envelope_encode_2718_len_def envelope_ty_def
        cosmos_signed_ty_def TX_TYPE_def)
qed

lemma network_item_roundtrip:
  assumes "network_form P N frame" "network_item P T e"
  shows "envelope_decode P T n N (envelope_encode P T n N e @ rest) = Ok (e, rest)"
    and "envelope_length P T n N e = length (envelope_encode P T n N e)"
proof -
  let ?D = "envelope_traits P T n"
  note form = assms(1)
  have "envelope_decode P T n N (envelope_encode P T n N e @ rest) = Ok (e, rest)
    \<and> envelope_length P T n N e = length (envelope_encode P T n N e)"
  proof (cases "\<exists>t. e = Ethereum t \<and> legacy_item P T t")
    case True
    then obtain t where e: "e = Ethereum t" and item: "legacy_item P T t" by blast
    then have legacy: "envelope_ty T e = 0" "envelope_encode_2718 T e = t_encode_2718 T t"
      "envelope_encode_2718_len T e = length (t_encode_2718 T t)"
      by (simp_all add: legacy_item_def envelope_ty_def envelope_encode_2718_def envelope_encode_2718_len_def)
    have "envelope_fallback_decode T (t_encode_2718 T t @ rest) = Ok (e, rest)"
      using item e by (simp add: legacy_item_def envelope_fallback_decode_def)
    with item legacy network_form.network_decode_list [OF form, of "t_encode_2718 T t @ rest" ?D e rest]
      network_form.network_encode_legacy [OF form, of ?D e]
    show ?thesis
      by (simp add: legacy_item_def envelope_decode_def envelope_encode_def envelope_length_def)
  next
    case False
    from item_body [OF assms(2) False] obtain ty body where
      body: "envelope_encode_2718 T e = ty # body" "body \<noteq> []" "Suc (length body) < 2 ^ 64"
        "envelope_ty T e \<noteq> 0" "envelope_encode_2718_len T e = length (envelope_encode_2718 T e)"
        "envelope_typed_decode P T ty (body @ rest) = Ok (e, rest)"
      by metis
    have enc: "envelope_encode P T n N e = frame (ty # body)"
      using network_form.network_encode_typed [OF form, of ?D e] body by (simp add: envelope_encode_def)
    with network_form.network_decode_string [OF form, of ?D ty body rest e] body
      network_form.network_len_typed [OF form, of ?D e]
    show ?thesis by (simp add: envelope_decode_def envelope_length_def)
  qed
  then show "envelope_decode P T n N (envelope_encode P T n N e @ rest) = Ok (e, rest)"
    "envelope_length P T n N e = length (envelope_encode P T n N e)" by simp_all
qed

lemma network_decode_cosmos:
  assumes "network_form P N frame" "envelope_decode P T n N buf = Ok (Cosmos tx, rest)"
  shows "wf_signed P tx \<and> (\<exists>pre. buf = pre @ cs_raw tx @ rest)"
proof -
  from assms(2) have "network_decode N (envelope_traits P T n) buf = Ok (Cosmos tx, rest)"
    by (simp add: envelope_decode_def outcome_simps)
  from network_form.network_decode_opens [OF assms(1) this] obtain pre ty body where
    buf: "buf = pre @ ty # body" and typed: "envelope_typed_decode P T ty body = Ok (Cosmos tx, rest)"
    by (auto simp: envelope_fallback_decode_def outcome_simps)
  moreover from typed have "ty = TX_TYPE"
    by (auto simp: envelope_typed_decode_def outcome_simps split: if_splits)
  ultimately show ?thesis using typed_decode_OkD [of T body "Cosmos tx" rest] by auto
qed

end

section \<open>A reference instance\<close>

text \<open>The framing as EIP-2718 describes it, over the reference RLP.\<close>

definition ref_frame :: "bytes \<Rightarrow> bytes" where
  "ref_frame b = ref_header_encode \<lparr>list_flag = False, payload_length = length b\<rparr> @ b"

definition ref_network_encode :: "'x tx_traits \<Rightarrow> 'x \<Rightarrow> bytes" where
  "ref_network_encode D x =
     (if t_ty D x = 0 then t_encode_2718 D x
      else ref_header_encode \<lparr>list_flag = False, payload_length = t_encode_2718_len D x\<rparr>
           @ t_encode_2718 D x)"

definition ref_network_decode :: "'x tx_traits \<Rightarrow> bytes \<Rightarrow> (eip2718_error, 'x \<times> bytes) outcome" where
  "ref_network_decode D buf =
     and_then (map_err RlpError (ref_header_decode buf)) (\<lambda>(h, tail).
       if list_flag h then t_fallback_decode D buf
       else case tail of
           [] \<Rightarrow> Err (RlpError InputTooShort)
         | ty # body \<Rightarrow>
             and_then (t_typed_decode D ty body) (\<lambda>(x, rest).
               if payload_length h \<noteq> 1 \<and> length tail \<noteq> payload_length h + length rest
               then Err (RlpError UnexpectedLength) else Ok (x, rest)))"

definition ref_network :: "'x network_ops" where
  "ref_network = \<lparr>network_encode = ref_network_encode,
     network_len = (\<lambda>D x. if t_ty D x = 0 then t_encode_2718_len D x else length (ref_network_encode D x)),
     network_decode = ref_network_decode,
     error_from = (\<lambda>e. case e of RlpError r \<Rightarrow> r | UnexpectedType v \<Rightarrow> Custom ''Unexpected type'')\<rparr>"

lemma ref_header_decode_suffix:
  assumes "ref_header_decode buf = Ok (h, tail)"
  shows "\<exists>pre. buf = pre @ tail"
proof (cases buf)
  case Nil
  with assms show ?thesis by simp
next
  case (Cons b bs)
  with assms consider "tail = b # bs" | "tail = bs" | k where "tail = drop k bs"
    by (auto simp: Let_def short_header_def long_header_def split: if_splits)
  then show ?thesis
  proof cases
    case (3 k)
    then have "b # bs = (b # take k bs) @ tail" by simp
    with Cons show ?thesis by blast
  qed (use Cons in \<open>auto intro: exI [of _ "[b]"]\<close>)
qed

lemma ref_network_decode_opens:
  assumes "ref_network_decode D buf = Ok (x, rest)"
  shows "t_fallback_decode D buf = Ok (x, rest)
    \<or> (\<exists>pre ty body. buf = pre @ ty # body \<and> t_typed_decode D ty body = Ok (x, rest))"
proof -
  from assms obtain h tail where header: "ref_header_decode buf = Ok (h, tail)"
    and opened: "t_fallback_decode D buf = Ok (x, rest)
      \<or> (\<exists>ty body. tail = ty # body \<and> t_typed_decode D ty body = Ok (x, rest))"
    by (auto simp: ref_network_decode_def outcome_simps split: if_splits list.splits)
  from ref_header_decode_suffix [OF header] obtain pre where "buf = pre @ tail" by blast
  with opened show ?thesis by blast
qed

interpretation ref_net: network_form ref_libs "ref_network :: 'x network_ops" ref_frame
proof (unfold_locales, goal_cases)
  case (5 D buf x rest)
  then show ?case
    by (auto simp: opens_list_def lib_simps ref_network_def ref_network_decode_def)
next
  case (6 D ty body rest x)
  then have "ref_header_decode (ref_header_encode \<lparr>list_flag = False, payload_length = Suc (length body)\<rparr>
      @ (ty # body @ rest)) = Ok (\<lparr>list_flag = False, payload_length = Suc (length body)\<rparr>, ty # body @ rest)"
    by (intro ref_header_decode_encode) auto
  with 6 show ?case
    by (simp add: ref_network_def ref_network_decode_def ref_frame_def)
next
  case (7 D buf x rest)
  then show ?case by (simp add: ref_network_def ref_network_decode_opens)
next
  case (8 D buf)
  then show ?case
    by (auto simp: ref_network_def ref_network_decode_def outcome_simps ref_header_decode_returns
        split: list.splits if_splits)
qed (simp_all add: ref_network_def ref_network_encode_def ref_frame_def)

section \<open>Properties\<close>

text \<open>C32. Block bodies and peer messages round-trip: a sequence of transactions, Cosmos, typed
  Ethereum and legacy ones in any mix, is read back item by item from its RLP form whatever follows it, and
  every announced length is the length written. A Cosmos transaction read from arbitrary bytes is
  well formed and its raw encoding stands in them right before the rest.\<close>

theorem network_roundtrip:
  assumes "chain_libs L" "network_form L N frame" "\<forall>e \<in> set es. network_item L T e"
  shows "decode_each (envelope_decode L T n N) (length es)
      (encode_each (envelope_encode L T n N) es @ rest) = Ok (es, rest)
    \<and> (\<forall>e \<in> set es. envelope_length L T n N e = length (envelope_encode L T n N e))
    \<and> (envelope_decode L T n N buf = Ok (Cosmos tx, rest')
        \<longrightarrow> wf_signed L tx \<and> (\<exists>pre. buf = pre @ cs_raw tx @ rest'))"
  using assms(3) chain_libs.network_item_roundtrip [OF assms(1,2), of T]
    chain_libs.network_decode_cosmos [OF assms(1,2), of T n buf tx rest']
  by (auto intro: decode_each_encode_each)

text \<open>An Ethereum codec that reads in place: typed content of one byte, legacy content of a list of one
  byte.\<close>

definition ref_legacy :: "bytes \<Rightarrow> bool" where
  "ref_legacy t \<longleftrightarrow> length t = 2 \<and> hd t = 0xc1"

definition ref_eth_inline :: "bytes tx_traits" where
  "ref_eth_inline = ref_eth\<lparr>
     t_ty := (\<lambda>t. if ref_legacy t then 0 else 2),
     t_encode_2718_len := (\<lambda>t. if ref_legacy t then 2 else Suc (length t)),
     t_encode_2718 := (\<lambda>t. if ref_legacy t then t else 2 # t),
     t_typed_decode := (\<lambda>ty b. if ty = 2 \<and> b \<noteq> [] then Ok ([hd b], tl b) else Err (UnexpectedType ty)),
     t_fallback_decode := (\<lambda>b. if ref_legacy (take 2 b) then Ok (take 2 b, drop 2 b) else Err (UnexpectedType 0))\<rparr>"

theorem network_roundtrip_witness:
  "decode_each (envelope_decode ref_libs ref_eth_inline 500 ref_network) 3
      (encode_each (envelope_encode ref_libs ref_eth_inline 500 ref_network)
        [Cosmos sample_tx, Ethereum [7], Ethereum [0xc1, 5]] @ [9])
   = Ok ([Cosmos sample_tx, Ethereum [7], Ethereum [0xc1, 5]], [9])"
proof -
  have "eth_item ref_eth_inline [7]"
    by (simp add: eth_item_def ref_eth_inline_def ref_legacy_def TX_TYPE_def)
  moreover have "legacy_item ref_libs ref_eth_inline [0xc1, 5]"
    by (simp add: legacy_item_def ref_eth_inline_def ref_legacy_def opens_list_def lib_simps
        short_header_def Let_def)
  ultimately have "\<forall>e \<in> set [Cosmos sample_tx, Ethereum [7], Ethereum [0xc1, 5]].
      network_item ref_libs ref_eth_inline e"
    by (simp add: network_item_def)
  from network_roundtrip [THEN conjunct1, OF ref.chain_libs_axioms ref_net.network_form_axioms this,
      of 500 "[9]"]
  show ?thesis by (simp add: numeral_3_eq_3 del: decode_each.simps)
qed

end
