(* ===== verification/Lifecycle.thy ===== *)
theory Lifecycle
  imports Node Network
begin

text \<open>
  The node as a whole: the operations of the components as the steps of one transition system over
  the RPC server, the pool, the chain and the database. The upstream code between them chooses
  freely which steps to take, which transactions to keep and which blocks to import; what it calls
  of this repository, and in which order, is what a step says. The record \<open>W\<close> is what a node is
  assembled from.
\<close>

section \<open>What a block builder executes\<close>

text \<open>
  The candidates that an iterator can still yield. Reading one, \<open>mark_invalid\<close> and \<open>skip_blobs\<close> add
  none. The transactions of a log come from candidates.
\<close>

locale candidate_iterator =
  fixes B :: "('i, 'px, 'x, 'b, 's, 'e, 'z) build_lib_scheme" and items :: "'i \<Rightarrow> 'px set"
  assumes next_item: "\<And>i p i'. best_next B i = Some (p, i') \<Longrightarrow> p \<in> items i \<and> items i' \<subseteq> items i"
    and mark_items: "\<And>i p e. items (best_mark_invalid B i p e) \<subseteq> items i"
    and skip_items: "\<And>i. items (best_skip_blobs B i) \<subseteq> items i"
begin

lemma build_step_items:
  assumes "build_step c B is_cancelled st = Ok (Continue st')"
  shows "items (bs_best st') \<subseteq> items (bs_best st)
    \<and> (bs_builder st' = bs_builder st
       \<or> (\<exists>p \<in> items (bs_best st). \<exists>r. execute B (bs_builder st) (px_to_consensus B p) = (r, bs_builder st') \<and> r \<noteq> Panic))"
  using assms
proof (rule build_step_iterator)
  fix p i
  assume read: "best_next B (bs_best st) = Some (p, i)" "iterator_after B p i (bs_best st')"
    and run: "bs_builder st' = bs_builder st
      \<or> (\<exists>r. execute B (bs_builder st) (px_to_consensus B p) = (r, bs_builder st') \<and> r \<noteq> Panic)"
  have "items (bs_best st') \<subseteq> items i"
    using read(2) by (auto simp: iterator_after_def dest: subsetD [OF mark_items] subsetD [OF skip_items])
  with next_item [OF read(1)] run show ?thesis by blast
qed

end

text \<open>Together with a log of the builder: what a finished loop has executed.\<close>

lemma build_loop_candidates:
  assumes "candidate_iterator B items" "block_building c B gas_of executed"
    and "build_loop c B is_cancelled n st = Some (Ok (Some st'))"
  shows "fst ` set (executed (bs_builder st'))
    \<subseteq> fst ` set (executed (bs_builder st)) \<union> px_to_consensus B ` items (bs_best st)"
  using assms(3)
proof (induction n arbitrary: st)
  case (Suc n)
  show ?case
  proof (cases "build_step c B is_cancelled st")
    case (Ok ctl)
    show ?thesis
    proof (cases ctl)
      case (Continue st1)
      note step = candidate_iterator.build_step_items [OF assms(1) Ok [unfolded Continue]]
      then consider "bs_builder st1 = bs_builder st"
      | p r where "p \<in> items (bs_best st)" "r \<noteq> Panic"
          "execute B (bs_builder st) (px_to_consensus B p) = (r, bs_builder st1)"
        by blast
      then have "fst ` set (executed (bs_builder st1))
          \<subseteq> fst ` set (executed (bs_builder st)) \<union> px_to_consensus B ` items (bs_best st)"
      proof cases
        case 1
        then show ?thesis by simp
      next
        case (2 p r)
        then show ?thesis
          using block_building.execute_Ok [OF assms(2), of "bs_builder st" "px_to_consensus B p" _ "bs_builder st1"]
            block_building.execute_Err [OF assms(2), of "bs_builder st" "px_to_consensus B p" _ "bs_builder st1"]
          by (cases r) auto
      qed
      moreover have "items (bs_best st1) \<subseteq> items (bs_best st)"
        using step by blast
      ultimately have "fst ` set (executed (bs_builder st1)) \<union> px_to_consensus B ` items (bs_best st1)
          \<subseteq> fst ` set (executed (bs_builder st)) \<union> px_to_consensus B ` items (bs_best st)"
        by (simp add: image_mono le_supI2)
      moreover have "build_loop c B is_cancelled n st1 = Some (Ok (Some st'))"
        using Ok Continue Suc.prems by simp
      ultimately show ?thesis using Suc.IH [of st1] by blast
    next
      case (Break st1)
      with Ok Suc.prems build_step_Ok [OF Ok] show ?thesis by auto
    qed (use Ok Suc.prems in simp)
  qed (use Suc.prems in simp_all)
qed simp

section \<open>The state of a node\<close>

text \<open>
  The upstream parts of a node and its own settings: the libraries, the upstream transaction types
  of blocks and of the pool, the upstream methods for both, the pool, the RPC library, the engine,
  the consensus rules and the storage codec. The chain has its newest block first; the database has
  a record for each of its transactions.
\<close>

record ('vk, 'sg, 't, 'p, 's, 'k, 'be, 'q, 'se, 'a, 'rq, 'v, 'w, 'ee, 'f, 'r, 'bl, 'ce, 'y) node_parts =
  np_libs :: "('vk, 'sg) prim_lib"
  np_eth :: "'t tx_traits"
  np_pooled_eth :: "'p tx_traits"
  np_size_base :: nat
  np_upstream :: "'t envelope upstream_tx"
  np_pooled_upstream :: "'p envelope upstream_tx"
  np_bodies :: "'t envelope network_ops"
  np_gossip :: "'p envelope network_ops"
  np_pool :: "('t, 'p, 's, 'k, 'be) pool_lib"
  np_rpc :: "('q, 'se) rpc_lib"
  np_engine :: "('w execution_data, 'a, 'rq, 'v, 't envelope, 'w, 'ee, 'f) engine_lib"
  np_consensus :: "('t envelope, 'w, 'r, 'bl, 'ce) eth_consensus"
  np_compact :: "('t, 'y) compact_ops"
  np_is_eth_type :: "byte \<Rightarrow> bool"
  np_records :: "'t envelope compact_envelope"

record ('t, 's, 'w) node_state =
  ns_server :: server
  ns_pool :: "('t envelope, 's) pool_tx list"
  ns_chain :: "('t envelope, 'w) block list"
  ns_records :: "bytes list"

definition initial_node :: "('t, 's, 'w) node_state" where
  "initial_node = \<lparr>ns_server = initial_server, ns_pool = [], ns_chain = [], ns_records = []\<rparr>"

text \<open>The dictionaries of the two transaction types, and the operations on a part of the state.\<close>

definition block_traits where
  "block_traits W = envelope_traits (np_libs W) (np_eth W) (np_size_base W)"

definition pooled_traits where
  "pooled_traits W = envelope_traits (np_libs W) (np_pooled_eth W) (np_size_base W)"

definition pool_entry where
  "pool_entry W e a = from_pooled (np_pool W) (block_traits W) (np_pooled_eth W) \<lparr>rec_tx = e, rec_signer = a\<rparr>"

definition node_compact where
  "node_compact W = envelope_compact_impl (np_libs W) (np_eth W) (np_is_eth_type W) (np_compact W)"

definition record_of where
  "record_of W e = compress_to_buf (np_records W) (node_compact W) e []"

definition read_record where
  "read_record W r = decompress (np_records W) (node_compact W) r"

definition accepts where
  "accepts W block \<longleftrightarrow> validate_block_pre_execution (np_libs W) (np_consensus W) block = Ok ()"

definition extend_chain ::
  "('t envelope, 'w) block \<Rightarrow> bytes list \<Rightarrow> ('t, 's, 'w) node_state \<Rightarrow> ('t, 's, 'w) node_state" where
  "extend_chain block written s =
     s\<lparr>ns_chain := block # ns_chain s, ns_records := written @ ns_records s\<rparr>"

section \<open>Steps\<close>

text \<open>
  A request enters the server with the size of the pool; a call in flight ends with the pool keeping
  the transaction, or without. A raw transaction is decoded exactly and recovered, a transaction from a peer is
  read from a message and recovered, before the pool sees them. A block comes from the engine API or,
  as the body of a header, from a peer; it joins the chain after pre-execution validation, with the
  records of its transactions. The newest block may be unwound.
\<close>

inductive node_step ::
  "('vk, 'sg, 't, 'p, 's, 'k, 'be, 'q, 'se, 'a, 'rq, 'v, 'w, 'ee, 'f, 'r, 'bl, 'ce, 'y) node_parts
     \<Rightarrow> ('t, 's, 'w) node_state \<Rightarrow> ('t, 's, 'w) node_state \<Rightarrow> bool" for W where
  call: "handle_request (np_libs W) (np_rpc W) (length (ns_pool s)) q (ns_server s) = (r, server) \<Longrightarrow>
    node_step W s (s\<lparr>ns_server := server\<rparr>)"
| submit: "raw \<in> set (sv_in_flight (ns_server s)) \<Longrightarrow>
    decode_2718_exact (np_pooled_upstream W) (pooled_traits W) raw = Ok e \<Longrightarrow>
    try_recover (np_pooled_upstream W) (pooled_traits W) e = Ok a \<Longrightarrow>
    node_step W s (s\<lparr>ns_server := release raw (ns_server s), ns_pool := pool_entry W e a # ns_pool s\<rparr>)"
| give_up: "raw \<in> set (sv_in_flight (ns_server s)) \<Longrightarrow>
    node_step W s (s\<lparr>ns_server := release raw (ns_server s)\<rparr>)"
| gossip: "envelope_decode (np_libs W) (np_pooled_eth W) (np_size_base W) (np_gossip W) message = Ok (e, rest) \<Longrightarrow>
    try_recover (np_pooled_upstream W) (pooled_traits W) e = Ok a \<Longrightarrow>
    node_step W s (s\<lparr>ns_pool := pool_entry W e a # ns_pool s\<rparr>)"
| evict: "node_step W s (s\<lparr>ns_pool := remove1 p (ns_pool s)\<rparr>)"
| import_payload: "convert_payload_to_block (np_engine W) data = Ok block \<Longrightarrow> accepts W block \<Longrightarrow>
    list_all2 (\<lambda>e r. record_of W e = Ok r) (b_transactions block) written \<Longrightarrow>
    node_step W s (extend_chain block written s)"
| import_body: "decode_each (envelope_decode (np_libs W) (np_eth W) (np_size_base W) (np_bodies W)) k message
      = Ok (b_transactions block, rest) \<Longrightarrow> accepts W block \<Longrightarrow>
    list_all2 (\<lambda>e r. record_of W e = Ok r) (b_transactions block) written \<Longrightarrow>
    node_step W s (extend_chain block written s)"
| unwind: "ns_chain s = block # blocks \<Longrightarrow>
    node_step W s (s\<lparr>ns_chain := blocks, ns_records := drop (length (b_transactions block)) (ns_records s)\<rparr>)"

inductive node_reaches ::
  "('vk, 'sg, 't, 'p, 's, 'k, 'be, 'q, 'se, 'a, 'rq, 'v, 'w, 'ee, 'f, 'r, 'bl, 'ce, 'y) node_parts
     \<Rightarrow> ('t, 's, 'w) node_state \<Rightarrow> ('t, 's, 'w) node_state \<Rightarrow> bool" for W where
  stay: "node_reaches W s s"
| step: "node_reaches W s s' \<Longrightarrow> node_step W s' s'' \<Longrightarrow> node_reaches W s s''"

lemma reaches_trans: "node_reaches W s' s'' \<Longrightarrow> node_reaches W s s' \<Longrightarrow> node_reaches W s s''"
  by (induction rule: node_reaches.induct) (auto intro: step)

section \<open>What the parts promise\<close>

text \<open>
  Each part keeps the contract of its component, and the engine reads the transactions of a payload
  exactly, by the methods of their type.
\<close>

locale assembled_node =
  fixes W :: "('vk, 'sg, 't, 'p, 's, 'k, 'be, 'q, 'se, 'a, 'rq, 'v, 'w, 'ee, 'f, 'r, 'bl, 'ce, 'y) node_parts"
    and into :: "'p \<Rightarrow> 't" and body_frame gossip_frame :: "bytes \<Rightarrow> bytes"
  assumes libs: "chain_libs (np_libs W)"
    and block_methods: "upstream_methods (np_upstream W) (block_traits W)"
    and pooled_methods: "upstream_methods (np_pooled_upstream W) (pooled_traits W)"
    and pool: "pool_package (np_pool W) (block_traits W) into"
    and bodies: "network_form (np_libs W) (np_bodies W) body_frame"
    and gossip_form: "network_form (np_libs W) (np_gossip W) gossip_frame"
    and hex_parser: "hex_bytes (np_rpc W)"
    and record_codec: "compact_records (np_records W)"
    and payload_reads: "\<And>data block. ensure_well_formed_payload (np_engine W) data = Ok block \<Longrightarrow>
      list_all2 (\<lambda>raw e. decode_2718_exact (np_upstream W) (block_traits W) raw = Ok e)
        (ed_transactions data) (b_transactions block)"

text \<open>The libraries of a node keep their own contract, and the pool the one for its transactions.\<close>

sublocale assembled_node \<subseteq> node_libs: chain_libs "np_libs W"
  by (rule libs)

sublocale assembled_node \<subseteq> node_pool: pool_package "np_pool W" "block_traits W" into
  by (rule pool)

section \<open>The invariant\<close>

definition genuine :: "('vk, 'sg, 'm) prim_lib_scheme \<Rightarrow> cosmos_signed \<Rightarrow> bool" where
  "genuine L tx \<longleftrightarrow> wf_signed L tx \<and> tx_authorized L tx"

definition genuine_entry :: "('vk, 'sg, 'm) prim_lib_scheme \<Rightarrow> ('t envelope, 's) pool_tx \<Rightarrow> bool" where
  "genuine_entry L p \<longleftrightarrow>
     (\<forall>tx. rec_tx (pt_transaction p) = Cosmos tx \<longrightarrow> genuine L tx \<and> pool_tx_sender p = op_sender (cs_operation tx))"

definition chain_transactions :: "('t, 's, 'w) node_state \<Rightarrow> 't envelope list" where
  "chain_transactions s = concat (map b_transactions (ns_chain s))"

definition node_inv where
  "node_inv W s \<longleftrightarrow> server_ok (np_libs W) (ns_server s)
     \<and> (\<forall>p \<in> set (ns_pool s). genuine_entry (np_libs W) p)
     \<and> (\<forall>tx. Cosmos tx \<in> set (chain_transactions s) \<longrightarrow> genuine (np_libs W) tx)
     \<and> list_all2 (\<lambda>e r. record_of W e = Ok r) (chain_transactions s) (ns_records s)"

lemma decode_each_set:
  assumes "decode_each dec n buf = Ok (xs, rest)" "x \<in> set xs"
  shows "\<exists>b b'. dec b = Ok (x, b')"
  using assms
proof (induction n arbitrary: buf xs)
  case (Suc n)
  then obtain y buf' ys where "dec buf = Ok (y, buf')" "decode_each dec n buf' = Ok (ys, rest)" "xs = y # ys"
    by (auto simp: outcome_simps)
  with Suc show ?case by auto
qed simp

context assembled_node
begin

lemma pool_entry_genuine:
  assumes "\<And>tx. e = Cosmos tx \<Longrightarrow> wf_signed (np_libs W) tx"
    and "try_recover (np_pooled_upstream W) (pooled_traits W) e = Ok a"
  shows "genuine_entry (np_libs W) (pool_entry W e a)"
proof (cases e)
  case (Cosmos tx)
  have "t_recover_signer (pooled_traits W) e = Ok a"
    using assms(2) upstream_methods.try_recover_eq [OF pooled_methods, of e] by simp
  then have "cosmos_signed_verify (np_libs W) tx = Ok a"
    using Cosmos by (simp add: pooled_traits_def envelope_recover_signer_def)
  with assms(1) Cosmos show ?thesis
    by (auto simp: genuine_entry_def genuine_def pool_entry_def node_pool.from_pooled_transaction
        transaction_from_pooled_def pool_tx_sender_def node_libs.cosmos_signed_verify_eq split: if_splits)
qed (simp add: genuine_entry_def pool_entry_def node_pool.from_pooled_transaction transaction_from_pooled_def)

lemma accepted_authorized:
  assumes "accepts W block" "Cosmos tx \<in> set (b_transactions block)"
  shows "tx_authorized (np_libs W) tx"
  using assms
  by (auto simp: accepts_def validate_block_pre_execution_def validate_block_pre_execution_with_tx_root_def
      verify_authorizations_def outcome_simps node_libs.verify_transactions_eq split: if_splits)

lemma payload_wf:
  assumes "convert_payload_to_block (np_engine W) data = Ok block" "Cosmos tx \<in> set (b_transactions block)"
  shows "wf_signed (np_libs W) tx"
proof -
  from assms(1) have "ensure_well_formed_payload (np_engine W) data = Ok block"
    by (simp add: convert_payload_to_block_def outcome_simps)
  from payload_reads [OF this] assms(2) obtain raw where
    "decode_2718_exact (np_upstream W) (block_traits W) raw = Ok (Cosmos tx)"
    by (auto simp: list_all2_conv_all_nth in_set_conv_nth)
  then show ?thesis
    using node_libs.decode_exact_cosmos_iff [OF block_methods [unfolded block_traits_def]]
    by (simp add: block_traits_def)
qed

lemma body_wf:
  assumes "decode_each (envelope_decode (np_libs W) (np_eth W) (np_size_base W) (np_bodies W)) k message = Ok (es, rest)"
    and "Cosmos tx \<in> set es"
  shows "wf_signed (np_libs W) tx"
  using decode_each_set [OF assms] node_libs.network_decode_cosmos [OF bodies] by blast

lemma extend_chain_inv:
  assumes "node_inv W s" "accepts W block" "list_all2 (\<lambda>e r. record_of W e = Ok r) (b_transactions block) written"
    and "\<And>tx. Cosmos tx \<in> set (b_transactions block) \<Longrightarrow> wf_signed (np_libs W) tx"
  shows "node_inv W (extend_chain block written s)"
  using assms accepted_authorized [OF assms(2)]
  by (auto simp: node_inv_def extend_chain_def chain_transactions_def genuine_def intro: list_all2_appendI)

lemma node_step_inv: "node_step W s s' \<Longrightarrow> node_inv W s \<Longrightarrow> node_inv W s'"
proof (induction rule: node_step.induct)
  case (call s q r server)
  then have "rpc_step (np_libs W) (np_rpc W) (ns_server s) (Request (length (ns_pool s)) q r) server"
    by (simp add: rpc_step_request)
  with call show ?case
    by (auto simp: node_inv_def chain_transactions_def intro: rpc_step_ok)
next
  case (submit raw s e a)
  have "wf_signed (np_libs W) tx" if "e = Cosmos tx" for tx
    using submit that node_libs.decode_exact_cosmos_iff [OF pooled_methods [unfolded pooled_traits_def]]
    by (simp add: pooled_traits_def)
  from pool_entry_genuine [OF this] submit show ?case
    by (auto simp: node_inv_def chain_transactions_def release_ok)
next
  case (give_up raw s)
  then show ?case by (simp add: node_inv_def chain_transactions_def release_ok)
next
  case (gossip message e rest a s)
  have "wf_signed (np_libs W) tx" if "e = Cosmos tx" for tx
    using gossip that node_libs.network_decode_cosmos [OF gossip_form] by blast
  from pool_entry_genuine [OF this] gossip show ?case
    by (auto simp: node_inv_def chain_transactions_def)
next
  case (evict s p)
  then show ?case
    using notin_set_remove1 by (fastforce simp: node_inv_def chain_transactions_def)
next
  case (import_payload data block written s)
  then show ?case by (blast intro: extend_chain_inv payload_wf)
next
  case (import_body k message block rest written s)
  then show ?case by (blast intro: extend_chain_inv body_wf)
next
  case (unwind s block blocks)
  then show ?case
    by (auto simp: node_inv_def chain_transactions_def list_all2_append1 dest: list_all2_lengthD)
qed

lemma reaches_inv: "node_reaches W s s' \<Longrightarrow> node_inv W s \<Longrightarrow> node_inv W s'"
  by (induction rule: node_reaches.induct) (auto intro: node_step_inv)

lemma initial_inv: "node_inv W initial_node"
  by (simp add: node_inv_def initial_node_def chain_transactions_def server_ok_def initial_server_def)

lemma record_reads_back:
  assumes "record_of W (Cosmos tx) = Ok r" "wf_signed (np_libs W) tx"
  shows "read_record W r = Ok (Cosmos tx)"
  using node_libs.cosmos_compress_decompress [OF record_codec assms(2), of "np_eth W" "np_is_eth_type W" "np_compact W"] assms(1)
  by (simp add: record_of_def read_record_def node_compact_def)

text \<open>The way of an authorized transaction: the request, the pool, a block, the database.\<close>

lemma genuine_recovers:
  assumes "genuine (np_libs W) tx"
  shows "try_recover (np_pooled_upstream W) (pooled_traits W) (Cosmos tx) = Ok (op_sender (cs_operation tx))"
  using assms
  by (simp add: upstream_methods.try_recover_eq [OF pooled_methods] genuine_def)
    (simp add: pooled_traits_def envelope_recover_signer_def node_libs.cosmos_signed_verify_eq)

lemma genuine_request:
  assumes "genuine (np_libs W) tx" "params_one (np_rpc W) q = Ok (''0x'' @ hex_text (cs_raw tx))"
    and "length (ns_pool s) < 3072" "sv_permits (ns_server s) \<noteq> 0"
  shows "node_step W s (s\<lparr>ns_server := \<lparr>sv_permits = sv_permits (ns_server s) - 1,
    sv_in_flight = cs_raw tx # sv_in_flight (ns_server s)\<rparr>\<rparr>)"
proof -
  from assms(1) have wf: "wf_signed (np_libs W) tx" by (simp add: genuine_def)
  have "check_request (np_libs W) (np_rpc W) (length (ns_pool s)) q = Ok (cs_raw tx)"
    using check_wire_text [OF node_libs.rlp_codec_axioms hex_parser node_libs.wf_signed_eqD(2-4) [OF wf] _ assms(3)]
      assms(2) node_libs.wf_signed_raw [OF wf] by simp
  with assms(4) show ?thesis
    by (intro call [where q = q and r = "Ok (cs_raw tx)"]) (simp add: handle_request_cases)
qed

lemma genuine_submit:
  assumes "genuine (np_libs W) tx" "cs_raw tx \<in> set (sv_in_flight (ns_server s))"
  shows "node_step W s (s\<lparr>ns_server := release (cs_raw tx) (ns_server s),
    ns_pool := pool_entry W (Cosmos tx) (op_sender (cs_operation tx)) # ns_pool s\<rparr>)"
proof -
  have "decode_2718_exact (np_pooled_upstream W) (pooled_traits W) (cs_raw tx) = Ok (Cosmos tx)"
    using assms(1) node_libs.decode_exact_cosmos_iff [OF pooled_methods [unfolded pooled_traits_def]]
    by (simp add: pooled_traits_def genuine_def)
  from submit [OF assms(2) this genuine_recovers [OF assms(1)]] show ?thesis .
qed

lemma genuine_gossip:
  assumes "genuine (np_libs W) tx"
  shows "node_step W s (s\<lparr>ns_pool := pool_entry W (Cosmos tx) (op_sender (cs_operation tx)) # ns_pool s\<rparr>)"
proof -
  let ?message = "envelope_encode (np_libs W) (np_pooled_eth W) (np_size_base W) (np_gossip W) (Cosmos tx)"
  have "envelope_decode (np_libs W) (np_pooled_eth W) (np_size_base W) (np_gossip W) ?message = Ok (Cosmos tx, [])"
    using assms node_libs.network_item_roundtrip(1) [OF gossip_form, where e = "Cosmos tx" and rest = "[]"]
    by (simp add: network_item_def genuine_def)
  from gossip [OF this genuine_recovers [OF assms]] show ?thesis .
qed

lemma genuine_import:
  assumes "genuine (np_libs W) tx" "accepts W block" "b_transactions block = [Cosmos tx]"
  shows "\<exists>written. node_step W s (extend_chain block [written] s)"
proof -
  from assms(1) have wf: "wf_signed (np_libs W) tx" by (simp add: genuine_def)
  let ?enc = "envelope_encode (np_libs W) (np_eth W) (np_size_base W) (np_bodies W)"
  have body: "decode_each (envelope_decode (np_libs W) (np_eth W) (np_size_base W) (np_bodies W)) 1 (?enc (Cosmos tx))
      = Ok (b_transactions block, [])"
    using wf node_libs.network_item_roundtrip(1) [OF bodies, where e = "Cosmos tx" and rest = "[]"]
    by (simp add: network_item_def assms(3))
  have "\<exists>written. record_of W (Cosmos tx) = Ok written"
    using node_libs.cosmos_compress_decompress [OF record_codec wf, of "np_eth W" "np_is_eth_type W" "np_compact W"]
    by (auto simp: record_of_def node_compact_def outcome_simps)
  then obtain written where "record_of W (Cosmos tx) = Ok written" by blast
  with import_body [OF body assms(2), of "[written]"] assms(3) show ?thesis by auto
qed

end

lemma pool_entry_transaction:
  "assembled_node W into body_frame gossip_frame \<Longrightarrow>
     pt_transaction (pool_entry W (Cosmos tx) a) = \<lparr>rec_tx = Cosmos tx, rec_signer = a\<rparr>"
  by (simp add: pool_entry_def pool_package.from_pooled_transaction [OF assembled_node.pool] transaction_from_pooled_def)

section \<open>A reference node\<close>

primrec fold_outcome :: "('a \<Rightarrow> ('e, 'b) outcome) \<Rightarrow> 'a list \<Rightarrow> ('e, 'b list) outcome" where
  "fold_outcome f [] = Ok []"
| "fold_outcome f (x # xs) = and_then (f x) (\<lambda>y. map_ok (Cons y) (fold_outcome f xs))"

lemma fold_outcome_Ok: "fold_outcome f xs = Ok ys \<Longrightarrow> list_all2 (\<lambda>x y. f x = Ok y) xs ys"
  by (induction xs arbitrary: ys) (auto simp: outcome_simps)

definition ref_engine :: "(unit execution_data, unit, unit, unit, bytes envelope, unit, unit, eip2718_error) engine_lib" where
  "ref_engine = \<lparr>
     ensure_well_formed_payload = (\<lambda>data. map_ok block_of (fold_outcome
       (decode_2718_exact ref_upstream (envelope_traits ref_libs ref_eth 0)) (ed_transactions data))),
     into_new_payload_error = (\<lambda>_. ()), execution_requests = (\<lambda>_. None),
     validate_execution_requests = (\<lambda>_. Ok ()), eth_validate_version_specific_fields = (\<lambda>_ _. Ok ())\<rparr>"

definition ref_node ::
  "(bytes, bytes, bytes, bytes, bytes, unit, unit, string, string, unit, unit, unit, unit, unit, eip2718_error, unit,
    unit, unit, unit) node_parts" where
  "ref_node = \<lparr>np_libs = ref_libs, np_eth = ref_eth, np_pooled_eth = ref_eth, np_size_base = 0,
     np_upstream = ref_upstream, np_pooled_upstream = ref_upstream, np_bodies = ref_network,
     np_gossip = ref_network, np_pool = ref_pool, np_rpc = ref_rpc, np_engine = ref_engine,
     np_consensus = lax_consensus, np_compact = ref_compact, np_is_eth_type = (\<lambda>v. v < 5),
     np_records = ref_records\<rparr>"

interpretation ref_assembly: assembled_node ref_node id ref_frame ref_frame
proof (rule assembled_node.intro, goal_cases)
  case (9 data block)
  then show ?case
    by (auto simp: ref_node_def ref_engine_def block_traits_def block_of_def outcome_simps
        dest!: fold_outcome_Ok)
qed (simp_all add: ref_node_def block_traits_def pooled_traits_def ref.chain_libs_axioms env_tx.upstream_methods_axioms
      ref_pool.pool_package_axioms ref_net.network_form_axioms ref_rpc.hex_bytes_axioms ref_store.compact_records_axioms)

interpretation ref_candidates: candidate_iterator ref_build set
  by unfold_locales (auto simp: ref_build_def split: list.splits)

lemma ref_node_sel: "np_libs ref_node = ref_libs" "np_consensus ref_node = lax_consensus"
  by (simp_all add: ref_node_def)

lemma sample_genuine: "genuine (np_libs ref_node) sample_tx"
  using sample_authorized by (simp add: ref_node_def genuine_def tx_authorized_def)

lemma sample_in_pool:
  "node_reaches ref_node initial_node (initial_node\<lparr>ns_pool := [pool_entry ref_node (Cosmos sample_tx) (op_sender sample_op)]\<rparr>)"
  using step [OF stay ref_assembly.genuine_gossip [OF sample_genuine], of initial_node]
  by (simp add: initial_node_def)

lemma sample_entry: "pool_entry ref_node (Cosmos sample_tx) (op_sender sample_op) = sample_pool_tx"
  by (simp add: pool_entry_def ref_node_def block_traits_def sample_pool_tx_def pooled_cosmos_def)

section \<open>Properties\<close>

text \<open>C4. Nothing unauthorized ever gets into a node. Whatever requests, peer messages, blocks, evictions and
  unwindings come in whatever order, in every reachable state the permits add up, every Cosmos
  transaction of the pool is authorized and held for the sender its signed operation names, every
  Cosmos transaction of the chain is well formed and authorized, and the database record at its place
  reads back, without a panic, as that transaction.\<close>

theorem node_holds_only_authorized:
  assumes "assembled_node W into body_frame gossip_frame" "node_reaches W initial_node s"
  shows "sv_permits (ns_server s) + length (sv_in_flight (ns_server s)) = 8
    \<and> (\<forall>p \<in> set (ns_pool s). \<forall>tx. rec_tx (into_consensus p) = Cosmos tx \<longrightarrow>
         wf_signed (np_libs W) tx \<and> tx_authorized (np_libs W) tx
         \<and> pool_tx_sender p = op_sender (cs_operation tx))
    \<and> (\<forall>tx. Cosmos tx \<in> set (chain_transactions s) \<longrightarrow>
         wf_signed (np_libs W) tx \<and> tx_authorized (np_libs W) tx)
    \<and> length (ns_records s) = length (chain_transactions s)
    \<and> (\<forall>i < length (chain_transactions s). \<forall>tx. chain_transactions s ! i = Cosmos tx \<longrightarrow>
         read_record W (ns_records s ! i) = Ok (Cosmos tx))"
proof -
  have inv: "node_inv W s"
    by (rule assembled_node.reaches_inv [OF assms assembled_node.initial_inv [OF assms(1)]])
  have "read_record W (ns_records s ! i) = Ok (Cosmos tx)"
    if "i < length (chain_transactions s)" "chain_transactions s ! i = Cosmos tx" for i tx
  proof (rule assembled_node.record_reads_back [OF assms(1)])
    from inv that show "record_of W (Cosmos tx) = Ok (ns_records s ! i)"
      by (auto simp: node_inv_def dest: list_all2_nthD)
    from that have "Cosmos tx \<in> set (chain_transactions s)" by (metis nth_mem)
    with inv show "wf_signed (np_libs W) tx" by (simp add: node_inv_def genuine_def)
  qed
  with inv show ?thesis
    by (auto simp: node_inv_def server_ok_def genuine_entry_def genuine_def into_consensus_def dest: list_all2_lengthD)
qed

theorem node_holds_only_authorized_witness:
  "\<exists>s p. node_reaches ref_node initial_node s \<and> p \<in> set (ns_pool s)
     \<and> rec_tx (into_consensus p) = Cosmos sample_tx \<and> pool_tx_sender p = op_sender sample_op"
proof -
  let ?p = "pool_entry ref_node (Cosmos sample_tx) (op_sender sample_op)"
  have "rec_tx (into_consensus ?p) = Cosmos sample_tx"
    by (simp add: into_consensus_def pool_entry_transaction [OF ref_assembly.assembled_node_axioms])
  with node_holds_only_authorized [OF ref_assembly.assembled_node_axioms sample_in_pool] have
    "pool_tx_sender ?p = op_sender sample_op" by auto
  with \<open>rec_tx (into_consensus ?p) = Cosmos sample_tx\<close> sample_in_pool show ?thesis
    by (intro exI [of _ "initial_node\<lparr>ns_pool := [?p]\<rparr>"] exI [of _ ?p]) simp
qed

text \<open>C8. A node never builds a block that its own consensus rejects for an authorization: whatever the
  selection loop picks from the pool of a reachable node, however often it skips, marks or fails, the
  block of the executed transactions passes the authorization rule.\<close>

theorem built_blocks_pass_authorization:
  assumes "assembled_node W into body_frame gossip_frame" "node_reaches W initial_node s"
    and "candidate_iterator B items" "block_building c B gas_of executed"
    and "px_to_consensus B = into_consensus" "items best \<subseteq> set (ns_pool s)" "executed builder = []"
    and "build_loop c B is_cancelled fuel (initial_build best builder) = Some (Ok (Some st))"
    and "b_transactions block = map (rec_tx \<circ> fst) (executed (bs_builder st))"
    and "chain_genesis_hash (np_consensus W) = GENESIS_HASH"
  shows "verify_authorizations (np_libs W) (np_consensus W) block = Ok ()"
proof -
  have inv: "node_inv W s"
    by (rule assembled_node.reaches_inv [OF assms(1,2) assembled_node.initial_inv [OF assms(1)]])
  have "fst ` set (executed (bs_builder st)) \<subseteq> into_consensus ` set (ns_pool s)"
    using build_loop_candidates [OF assms(3,4,8)] assms(5-7) by (auto simp: initial_build_def)
  then have "tx_authorized (np_libs W) tx" if "Cosmos tx \<in> set (b_transactions block)" for tx
    using that inv assms(9) by (fastforce simp: node_inv_def genuine_entry_def genuine_def into_consensus_def)
  then show ?thesis
    by (simp add: verify_authorizations_def assms(10)
        chain_libs.verify_transactions_eq [OF assembled_node.libs [OF assms(1)]])
qed

theorem built_blocks_pass_authorization_witness:
  "\<exists>st. build_loop ref_build_config ref_build (\<lambda>_. False) 2 (initial_build [sample_pool_tx] []) = Some (Ok (Some st))
     \<and> bs_cumulative_gas st = 21000
     \<and> verify_authorizations (np_libs ref_node) (np_consensus ref_node) (block_of (map (rec_tx \<circ> fst) (bs_builder st))) = Ok ()"
proof -
  obtain st where st: "build_loop ref_build_config ref_build (\<lambda>_. False) 2 (initial_build [sample_pool_tx] []) = Some (Ok (Some st))"
    "bs_cumulative_gas st = 21000"
    using sample_build_loop by blast
  have "verify_authorizations (np_libs ref_node) (np_consensus ref_node) (block_of (map (rec_tx \<circ> fst) (bs_builder st))) = Ok ()"
    by (rule built_blocks_pass_authorization [OF ref_assembly.assembled_node_axioms sample_in_pool
          ref_candidates.candidate_iterator_axioms ref_build.block_building_axioms _ _ _ st(1)])
      (simp_all add: ref_build_def sample_entry ref_node_sel lax_consensus_def block_of_def)
  with st show ?thesis by blast
qed

text \<open>C23. An authorized transaction can always make its way: from any reachable state with a free permit and
  room in the pool, the request with its hex text, the answer of the pool and the import of a block with
  it, when the upstream rules accept that block, are steps of the node; the permit is free again, the
  pool held the transaction for its sender, the block is the newest of the chain, and its record reads
  back as the transaction.\<close>

theorem authorized_transaction_can_be_included:
  assumes "assembled_node W into body_frame gossip_frame" "node_reaches W initial_node s"
    and "wf_signed (np_libs W) tx" "tx_authorized (np_libs W) tx"
    and "params_one (np_rpc W) q = Ok (''0x'' @ hex_text (cs_raw tx))"
    and "length (ns_pool s) < 3072" "sv_permits (ns_server s) \<noteq> 0"
    and "b_transactions block = [Cosmos tx]" "chain_genesis_hash (np_consensus W) = GENESIS_HASH"
    and "eth_validate_pre_execution (np_consensus W) block None = Ok ()"
  shows "\<exists>pooled included. node_reaches W s pooled \<and> node_reaches W pooled included
    \<and> ns_server included = ns_server s
    \<and> (\<exists>p \<in> set (ns_pool pooled). into_consensus p = \<lparr>rec_tx = Cosmos tx, rec_signer = op_sender (cs_operation tx)\<rparr>)
    \<and> hd (ns_chain included) = block
    \<and> read_record W (hd (ns_records included)) = Ok (Cosmos tx)"
proof -
  note node = assms(1)
  have good: "genuine (np_libs W) tx" using assms(3,4) by (simp add: genuine_def)
  have block: "accepts W block"
    using assms(4,8-10)
    by (simp add: accepts_def validate_block_pre_execution_def validate_block_pre_execution_with_tx_root_def
        verify_authorizations_def chain_libs.verify_transactions_eq [OF assembled_node.libs [OF node]]
        del: verify_transactions.simps)
  let ?p = "pool_entry W (Cosmos tx) (op_sender (cs_operation tx))"
  let ?called = "s\<lparr>ns_server := \<lparr>sv_permits = sv_permits (ns_server s) - 1,
    sv_in_flight = cs_raw tx # sv_in_flight (ns_server s)\<rparr>\<rparr>"
  let ?pooled = "?called\<lparr>ns_server := release (cs_raw tx) (ns_server ?called), ns_pool := ?p # ns_pool ?called\<rparr>"
  have pooled: "node_reaches W s ?pooled"
    by (rule step [OF step [OF stay assembled_node.genuine_request [OF node good assms(5-7)]]
          assembled_node.genuine_submit [OF node good]]) simp
  from assembled_node.genuine_import [OF node good block assms(8)] obtain written where
    imported: "node_step W ?pooled (extend_chain block [written] ?pooled)" by blast
  let ?included = "extend_chain block [written] ?pooled"
  have "node_inv W ?included"
    by (rule assembled_node.node_step_inv [OF node imported assembled_node.reaches_inv [OF node pooled
          assembled_node.reaches_inv [OF node assms(2) assembled_node.initial_inv [OF node]]]])
  then have "record_of W (Cosmos tx) = Ok written"
    by (simp add: node_inv_def chain_transactions_def extend_chain_def assms(8))
  then have "read_record W written = Ok (Cosmos tx)"
    by (rule assembled_node.record_reads_back [OF node _ assms(3)])
  moreover have "ns_server ?pooled = ns_server s"
    using assms(7) by (cases "ns_server s") (simp add: release_def)
  moreover have "into_consensus ?p = \<lparr>rec_tx = Cosmos tx, rec_signer = op_sender (cs_operation tx)\<rparr>"
    by (simp add: into_consensus_def pool_entry_transaction [OF node])
  ultimately show ?thesis
    using pooled step [OF stay imported]
    by (intro exI [of _ ?pooled] exI [of _ ?included]) (simp add: extend_chain_def)
qed

theorem authorized_transaction_can_be_included_witness:
  "\<exists>s. node_reaches ref_node initial_node s \<and> hd (ns_chain s) = block_of [Cosmos sample_tx]
     \<and> read_record ref_node (hd (ns_records s)) = Ok (Cosmos sample_tx)"
proof -
  have "params_one (np_rpc ref_node) s = Ok s" for s by (simp add: ref_node_def ref_rpc_def)
  from authorized_transaction_can_be_included [OF ref_assembly.assembled_node_axioms stay, of sample_tx
      "''0x'' @ hex_text (cs_raw sample_tx)" "block_of [Cosmos sample_tx]", OF _ _ this]
  obtain pooled included where "node_reaches ref_node initial_node pooled" "node_reaches ref_node pooled included"
    "hd (ns_chain included) = block_of [Cosmos sample_tx]"
    "read_record ref_node (hd (ns_records included)) = Ok (Cosmos sample_tx)"
    using sample_genuine
    by (auto simp: genuine_def initial_node_def initial_server_def block_of_def ref_node_def lax_consensus_def)
  then show ?thesis using reaches_trans by blast
qed

text \<open>C19. A value of the container type is always well formed, wherever it comes from: the constructor, the
  typed decoder, the network form, a stored record and the JSON-RPC form yield well-formed containers
  only, the fallback decoder yields none, and the conversions between pool and chain make none that
  was not there.\<close>

theorem every_container_is_well_formed:
  assumes "chain_libs L" "network_form L N frame" "pool_package Q (envelope_traits L T n) into"
  shows "(cosmos_signed_new L op key sg = Ok tx \<longrightarrow> wf_signed L tx)
    \<and> (envelope_typed_decode L T ty buf = Ok (Cosmos tx, rest) \<longrightarrow> wf_signed L tx)
    \<and> envelope_fallback_decode T buf \<noteq> Ok (Cosmos tx, rest)
    \<and> (envelope_decode L T n N buf = Ok (Cosmos tx, rest) \<longrightarrow> wf_signed L tx)
    \<and> (from_tx_compact L S buf kind stored = (Ok (Cosmos tx, rest) :: ('e, _) outcome) \<longrightarrow> wf_signed L tx)
    \<and> (cosmos_signed_deserialize L form = Ok tx \<longrightarrow> wf_signed L tx)
    \<and> (rec_tx (into_consensus (from_pooled Q (envelope_traits L T n) PT r)) = Cosmos tx \<longrightarrow> rec_tx r = Cosmos tx)
    \<and> (pooled_try_from try_into_pooled e = Ok (Cosmos tx) \<longrightarrow> e = Cosmos tx)"
proof (intro conjI impI)
  assume "envelope_typed_decode L T ty buf = Ok (Cosmos tx, rest)"
  with typed_decode_cosmos_type [OF this] show "wf_signed L tx"
    using chain_libs.typed_decode_OkD [OF assms(1), of T buf "Cosmos tx" rest] by auto
next
  assume "from_tx_compact L S buf kind stored = (Ok (Cosmos tx, rest) :: ('e, _) outcome)"
  moreover from this have "kind = COSMOS"
    by (auto simp: from_tx_compact_def outcome_simps Let_def split: if_splits prod.splits)
  ultimately show "wf_signed L tx"
    using chain_libs.from_tx_compact_OkD [OF assms(1), of S buf stored "Cosmos tx" rest, where 'e = 'e] by auto
next
  assume "cosmos_signed_deserialize L form = Ok tx"
  then show "wf_signed L tx"
    by (auto simp: cosmos_signed_deserialize_def outcome_simps split: if_splits intro: new_wf)
next
  assume "rec_tx (into_consensus (from_pooled Q (envelope_traits L T n) PT r)) = Cosmos tx"
  then show "rec_tx r = Cosmos tx"
    by (auto simp: into_consensus_def pool_package.from_pooled_transaction [OF assms(3)] transaction_from_pooled_def
        split: envelope.splits)
next
  assume "pooled_try_from try_into_pooled e = Ok (Cosmos tx)"
  then show "e = Cosmos tx"
    by (auto simp: pooled_try_from_def outcome_simps split: envelope.splits)
qed (auto intro: new_wf simp: fallback_decode_not_cosmos dest: chain_libs.network_decode_cosmos [OF assms(1,2)])

theorem every_container_is_well_formed_witness:
  "envelope_typed_decode ref_libs ref_eth TX_TYPE (tl (cs_raw sample_tx)) = Ok (Cosmos sample_tx, [])
   \<and> wf_signed ref_libs sample_tx"
proof -
  have "cs_raw sample_tx = TX_TYPE # tl (cs_raw sample_tx)"
    by (simp add: sample_tx_def signed_value_def encode_wire_def)
  then have decoded: "envelope_typed_decode ref_libs ref_eth TX_TYPE (tl (cs_raw sample_tx)) = Ok (Cosmos sample_tx, [])"
    by (simp add: ref.typed_decode_all_iff)
  moreover have "wf_signed ref_libs sample_tx"
    using every_container_is_well_formed [OF ref.chain_libs_axioms ref_net.network_form_axioms
        ref_pool.pool_package_axioms, THEN conjunct2, THEN conjunct1] decoded by blast
  ultimately show ?thesis by simp
qed

end
