(* ===== verification/Ledger.thy ===== *)
theory Ledger
  imports Lifecycle "HOL-Library.Multiset"
begin

text \<open>
  What the node promises about Cosmos operations, without bytes, signatures, permits and records: a
  ledger of pending operations and of the operations of each block. Only operations that some key and
  signature authorize enter it. The node refines it.
\<close>

section \<open>The ledger\<close>

record ledger =
  lg_pending :: "operation multiset"
  lg_blocks :: "operation list list"

definition empty_ledger :: ledger where
  "empty_ledger = \<lparr>lg_pending = {#}, lg_blocks = []\<rparr>"

definition permitted :: "('vk, 'sg, 'm) prim_lib_scheme \<Rightarrow> operation \<Rightarrow> bool" where
  "permitted L op \<longleftrightarrow> (\<exists>key sg. authorized L GENESIS_HASH op key sg)"

inductive ledger_step :: "('vk, 'sg, 'm) prim_lib_scheme \<Rightarrow> ledger \<Rightarrow> ledger \<Rightarrow> bool" for L where
  admit: "permitted L op \<Longrightarrow> ledger_step L g (g\<lparr>lg_pending := add_mset op (lg_pending g)\<rparr>)"
| forget: "op \<in># lg_pending g \<Longrightarrow> ledger_step L g (g\<lparr>lg_pending := lg_pending g - {#op#}\<rparr>)"
| seal: "(\<And>op. op \<in> set ops \<Longrightarrow> permitted L op) \<Longrightarrow> ledger_step L g (g\<lparr>lg_blocks := ops # lg_blocks g\<rparr>)"
| undo: "lg_blocks g = ops # blocks \<Longrightarrow> ledger_step L g (g\<lparr>lg_blocks := blocks\<rparr>)"

inductive ledger_reaches :: "('vk, 'sg, 'm) prim_lib_scheme \<Rightarrow> ledger \<Rightarrow> bool" for L where
  empty: "ledger_reaches L empty_ledger"
| more: "ledger_reaches L g \<Longrightarrow> ledger_step L g g' \<Longrightarrow> ledger_reaches L g'"

inductive_cases ledger_stepE: "ledger_step L g g'"

definition ledger_ok :: "('vk, 'sg, 'm) prim_lib_scheme \<Rightarrow> ledger \<Rightarrow> bool" where
  "ledger_ok L g \<longleftrightarrow> (\<forall>op. op \<in># lg_pending g \<longrightarrow> permitted L op)
     \<and> (\<forall>ops \<in> set (lg_blocks g). \<forall>op \<in> set ops. permitted L op)"

lemma ledger_reaches_ok: "ledger_reaches L g \<Longrightarrow> ledger_ok L g"
proof (induction rule: ledger_reaches.induct)
  case empty
  then show ?case by (simp add: ledger_ok_def empty_ledger_def)
next
  case (more g g')
  from more.hyps(2) more.IH show ?case
    by (cases rule: ledger_step.cases) (auto simp: ledger_ok_def dest: in_diffD)
qed

section \<open>The ledger of a node\<close>

fun operations_of :: "'t envelope \<Rightarrow> operation list" where
  "operations_of (Cosmos tx) = [cs_operation tx]"
| "operations_of (Ethereum t) = []"

definition cosmos_operations :: "'t envelope list \<Rightarrow> operation list" where
  "cosmos_operations es = concat (map operations_of es)"

definition ledger_of :: "('t, 's, 'w) node_state \<Rightarrow> ledger" where
  "ledger_of s =
     \<lparr>lg_pending = mset (cosmos_operations (map (rec_tx \<circ> into_consensus) (ns_pool s))),
      lg_blocks = map (cosmos_operations \<circ> b_transactions) (ns_chain s)\<rparr>"

lemma in_operations_of [simp]: "op \<in> set (operations_of e) \<longleftrightarrow> (\<exists>tx. e = Cosmos tx \<and> op = cs_operation tx)"
  by (cases e) auto

lemma in_cosmos_operations: "op \<in> set (cosmos_operations es) \<longleftrightarrow> (\<exists>tx. Cosmos tx \<in> set es \<and> op = cs_operation tx)"
  by (auto simp: cosmos_operations_def)

lemma cosmos_operations_simps [simp]:
  "cosmos_operations [] = []" "cosmos_operations (e # es) = operations_of e @ cosmos_operations es"
  "cosmos_operations (es @ es') = cosmos_operations es @ cosmos_operations es'"
  by (simp_all add: cosmos_operations_def)

lemma genuine_permitted: "genuine L tx \<Longrightarrow> permitted L (cs_operation tx)"
  by (auto simp: genuine_def tx_authorized_def permitted_def)

lemma ledger_of_initial [simp]: "ledger_of initial_node = empty_ledger"
  by (simp add: ledger_of_def initial_node_def empty_ledger_def)

text \<open>The pool gains or loses at most one operation.\<close>

lemma pool_gain:
  assumes "genuine_entry L p" "pool' = p # ns_pool s"
  shows "ledger_of (s\<lparr>ns_server := server, ns_pool := pool'\<rparr>) = ledger_of s
    \<or> ledger_step L (ledger_of s) (ledger_of (s\<lparr>ns_server := server, ns_pool := pool'\<rparr>))"
proof (cases "rec_tx (into_consensus p)")
  case (Cosmos tx)
  with assms(1) have "permitted L (cs_operation tx)"
    by (auto simp: genuine_entry_def into_consensus_def intro: genuine_permitted)
  from admit [OF this, of "ledger_of s"] Cosmos assms(2) show ?thesis
    by (simp add: ledger_of_def)
qed (simp add: assms(2) ledger_of_def)

lemma pool_loss:
  "ledger_of (s\<lparr>ns_pool := remove1 p (ns_pool s)\<rparr>) = ledger_of s
    \<or> ledger_step L (ledger_of s) (ledger_of (s\<lparr>ns_pool := remove1 p (ns_pool s)\<rparr>))"
proof (cases "p \<in> set (ns_pool s)")
  case False
  then show ?thesis by (simp add: remove1_idem)
next
  case True
  then obtain xs ys where split: "ns_pool s = xs @ p # ys" "p \<notin> set xs"
    by (blast dest: split_list_first)
  show ?thesis
  proof (cases "rec_tx (into_consensus p)")
    case (Cosmos tx)
    with split have "cs_operation tx \<in># lg_pending (ledger_of s)" by (simp add: ledger_of_def)
    from forget [OF this, of L] Cosmos split show ?thesis
      by (simp add: ledger_of_def remove1_append)
  qed (simp add: split ledger_of_def remove1_append)
qed

lemma chain_gain:
  assumes "\<And>tx. Cosmos tx \<in> set (b_transactions block) \<Longrightarrow> genuine L tx"
  shows "ledger_step L (ledger_of s) (ledger_of (extend_chain block written s))"
proof -
  have "permitted L op" if "op \<in> set (cosmos_operations (b_transactions block))" for op
    using that assms by (auto simp: in_cosmos_operations intro: genuine_permitted)
  from seal [OF this, of _ "ledger_of s"] show ?thesis
    by (simp add: ledger_of_def extend_chain_def)
qed

context assembled_node
begin

lemma node_step_ledger:
  assumes "node_step W s s'" "node_inv W s"
  shows "ledger_of s' = ledger_of s \<or> ledger_step (np_libs W) (ledger_of s) (ledger_of s')"
proof -
  have inv: "node_inv W s'" by (rule node_step_inv [OF assms])
  from assms(1) inv show ?thesis
  proof (cases rule: node_step.cases)
    case (submit raw e a)
    with inv have "genuine_entry (np_libs W) (pool_entry W e a)" by (simp add: node_inv_def)
    from pool_gain [OF this refl, of s "release raw (ns_server s)"] submit show ?thesis by simp
  next
    case (gossip message e rest a)
    with inv have "genuine_entry (np_libs W) (pool_entry W e a)" by (simp add: node_inv_def)
    from pool_gain [OF this refl, of s "ns_server s"] gossip show ?thesis by simp
  next
    case (evict p)
    with pool_loss show ?thesis by simp
  next
    case (import_payload data block written)
    with inv have "\<And>tx. Cosmos tx \<in> set (b_transactions block) \<Longrightarrow> genuine (np_libs W) tx"
      by (auto simp: node_inv_def chain_transactions_def extend_chain_def)
    from chain_gain [where block = block and s = s and written = written, OF this] import_payload show ?thesis by simp
  next
    case (import_body k message block rest written)
    with inv have "\<And>tx. Cosmos tx \<in> set (b_transactions block) \<Longrightarrow> genuine (np_libs W) tx"
      by (auto simp: node_inv_def chain_transactions_def extend_chain_def)
    from chain_gain [where block = block and s = s and written = written, OF this] import_body show ?thesis by simp
  next
    case (unwind block blocks)
    then have "ledger_step (np_libs W) (ledger_of s)
        ((ledger_of s)\<lparr>lg_blocks := map (cosmos_operations \<circ> b_transactions) blocks\<rparr>)"
      by (intro undo) (simp add: ledger_of_def)
    with unwind show ?thesis by (simp add: ledger_of_def)
  qed (simp_all add: ledger_of_def)
qed

lemma reaches_ledger:
  "node_reaches W s s' \<Longrightarrow> node_inv W s \<Longrightarrow> ledger_reaches (np_libs W) (ledger_of s)
     \<Longrightarrow> ledger_reaches (np_libs W) (ledger_of s')"
proof (induction rule: node_reaches.induct)
  case (step s s' s'')
  then have "node_inv W s'" using reaches_inv by blast
  from node_step_ledger [OF step.hyps(2) this] step show ?case by (auto intro: more)
qed

end

section \<open>Properties\<close>

text \<open>C5. The node refines the ledger of authorized operations: a fresh node is the empty ledger, every step
  of a reachable node changes its ledger by one step of the specification or not at all, so every
  ledger that is ever visible consists of operations that a key and a signature authorize under the
  chain's genesis.\<close>

theorem node_refines_ledger:
  assumes "assembled_node W into body_frame gossip_frame" "node_reaches W initial_node s"
  shows "ledger_reaches (np_libs W) (ledger_of s)
    \<and> (\<forall>s'. node_step W s s' \<longrightarrow>
         ledger_of s' = ledger_of s \<or> ledger_step (np_libs W) (ledger_of s) (ledger_of s'))
    \<and> (\<forall>op. op \<in># lg_pending (ledger_of s) \<longrightarrow> permitted (np_libs W) op)
    \<and> (\<forall>ops \<in> set (lg_blocks (ledger_of s)). \<forall>op \<in> set ops. permitted (np_libs W) op)"
proof -
  note initial = assembled_node.initial_inv [OF assms(1)]
  have "ledger_reaches (np_libs W) (ledger_of s)"
    by (rule assembled_node.reaches_ledger [OF assms initial]) (simp add: ledger_reaches.empty)
  moreover from this have "ledger_ok (np_libs W) (ledger_of s)" by (rule ledger_reaches_ok)
  moreover have "node_inv W s" by (rule assembled_node.reaches_inv [OF assms initial])
  ultimately show ?thesis
    using assembled_node.node_step_ledger [OF assms(1)] by (simp add: ledger_ok_def)
qed

theorem node_refines_ledger_witness:
  "ledger_reaches ref_libs \<lparr>lg_pending = {#sample_op#}, lg_blocks = []\<rparr> \<and> permitted ref_libs sample_op"
proof -
  let ?s = "(initial_node :: (bytes, bytes, unit) node_state)\<lparr>ns_pool := [pool_entry ref_node (Cosmos sample_tx) (op_sender sample_op)]\<rparr>"
  have "ledger_of ?s = \<lparr>lg_pending = {#sample_op#}, lg_blocks = []\<rparr>"
    by (simp add: ledger_of_def into_consensus_def initial_node_def
        pool_entry_transaction [OF ref_assembly.assembled_node_axioms])
  with node_refines_ledger [OF ref_assembly.assembled_node_axioms sample_in_pool] show ?thesis
    by (simp add: ref_node_sel)
qed

end
