(* ===== verification/Admission.thy ===== *)
theory Admission
  imports Lifecycle
begin

text \<open>
  The size of the pool under concurrent requests of \<open>src/main.rs\<close>. A request compares the size with
  3072 and waits for the pool only then, so that several requests may see the same size before any
  of them adds its transaction; what bounds the excess are the permits. The state is the server, the
  number of transactions in the pool, and how many were added without a call that still waits: by
  gossip, by other methods, or for a call that its client dropped.
\<close>

section \<open>Steps\<close>

record admission =
  ad_server :: server
  ad_pool :: nat
  ad_others :: nat

definition initial_admission :: admission where
  "initial_admission = \<lparr>ad_server = initial_server, ad_pool = 0, ad_others = 0\<rparr>"

inductive admission_step ::
  "'m rlp_lib_scheme \<Rightarrow> ('q, 'e) rpc_lib \<Rightarrow> admission \<Rightarrow> admission \<Rightarrow> bool" for L N where
  ask: "handle_request L N (ad_pool a) q (ad_server a) = (r, server) \<Longrightarrow>
    admission_step L N a (a\<lparr>ad_server := server\<rparr>)"
| kept: "raw \<in> set (sv_in_flight (ad_server a)) \<Longrightarrow>
    admission_step L N a (a\<lparr>ad_server := release raw (ad_server a), ad_pool := Suc (ad_pool a)\<rparr>)"
| ended: "raw \<in> set (sv_in_flight (ad_server a)) \<Longrightarrow>
    admission_step L N a (a\<lparr>ad_server := release raw (ad_server a)\<rparr>)"
| other: "admission_step L N a (a\<lparr>ad_pool := Suc (ad_pool a), ad_others := Suc (ad_others a)\<rparr>)"
| removed: "admission_step L N a (a\<lparr>ad_pool := ad_pool a - 1\<rparr>)"

inductive admission_reaches ::
  "'m rlp_lib_scheme \<Rightarrow> ('q, 'e) rpc_lib \<Rightarrow> admission \<Rightarrow> bool" for L N where
  first: "admission_reaches L N initial_admission"
| further: "admission_reaches L N a \<Longrightarrow> admission_step L N a a' \<Longrightarrow> admission_reaches L N a'"

section \<open>The bound\<close>

text \<open>Every free permit stands for a transaction that may still come in above the limit of the check.\<close>

definition admission_ok :: "'m rlp_lib_scheme \<Rightarrow> admission \<Rightarrow> bool" where
  "admission_ok L a \<longleftrightarrow> server_ok L (ad_server a)
     \<and> ad_pool a + length (sv_in_flight (ad_server a)) \<le> 3079 + ad_others a"

lemma admission_server_step:
  "admission_step L N a a' \<Longrightarrow> ad_server a' = ad_server a \<or> (\<exists>e. rpc_step L N (ad_server a) e (ad_server a'))"
  by (induction rule: admission_step.induct) (auto intro: rpc_step.intros)

lemma admission_step_ok: "admission_step L N a a' \<Longrightarrow> admission_ok L a \<Longrightarrow> admission_ok L a'"
proof -
  assume step: "admission_step L N a a'" and ok: "admission_ok L a"
  have "server_ok L (ad_server a')"
    using admission_server_step [OF step] ok by (auto simp: admission_ok_def intro: rpc_step_ok)
  moreover have "ad_pool a' + length (sv_in_flight (ad_server a')) \<le> 3079 + ad_others a'"
    using step ok
  proof (induction rule: admission_step.induct)
    case (ask a q r server)
    then show ?case
      by (auto simp: admission_ok_def server_ok_def handle_request_cases check_request_Ok
          split: outcome.splits if_splits)
  qed (auto simp: admission_ok_def dest!: release_length)
  ultimately show "admission_ok L a'" by (simp add: admission_ok_def)
qed

lemma admission_reaches_ok: "admission_reaches L N a \<Longrightarrow> admission_ok L a"
  by (induction rule: admission_reaches.induct)
    (auto simp: admission_ok_def initial_admission_def server_ok_def initial_server_def
      dest: admission_step_ok [unfolded admission_ok_def server_ok_def, simplified])

section \<open>The bound is met\<close>

text \<open>
  A request that passes the checks of an empty pool passes them up to the limit. Alone it fills the pool
  to 3072; eight at once, when one place is left, fill it to 3079.
\<close>

lemma check_request_room: "check_request L N 0 q = Ok raw \<Longrightarrow> n < 3072 \<Longrightarrow> check_request L N n q = Ok raw"
  by (simp add: check_request_Ok)

definition waiting :: "nat \<Rightarrow> nat \<Rightarrow> bytes \<Rightarrow> admission" where
  "waiting n k raw = \<lparr>ad_server = \<lparr>sv_permits = 8 - k, sv_in_flight = replicate k raw\<rparr>, ad_pool = n, ad_others = 0\<rparr>"

lemma one_more_waits:
  assumes "check_request L N 0 q = Ok raw" "n < 3072" "k < 8"
  shows "admission_step L N (waiting n k raw) (waiting n (Suc k) raw)"
proof -
  have "handle_request L N n q (ad_server (waiting n k raw)) = (Ok raw, ad_server (waiting n (Suc k) raw))"
    using check_request_room [OF assms(1,2)] assms(3) by (simp add: waiting_def handle_request_cases)
  then have "admission_step L N (waiting n k raw) ((waiting n k raw)\<lparr>ad_server := ad_server (waiting n (Suc k) raw)\<rparr>)"
    by (intro ask [where q = q and r = "Ok raw"]) (simp add: waiting_def)
  then show ?thesis by (simp add: waiting_def)
qed

lemma one_is_kept:
  assumes "k < 8"
  shows "admission_step L N (waiting n (Suc k) raw) (waiting (Suc n) k raw)"
proof -
  have "Suc (7 - k) = 8 - k" using assms by simp
  with kept [of raw "waiting n (Suc k) raw" L N] show ?thesis by (simp add: waiting_def release_def)
qed

lemma all_wait:
  assumes "check_request L N 0 q = Ok raw" "n < 3072" "admission_reaches L N (waiting n 0 raw)" "k \<le> 8"
  shows "admission_reaches L N (waiting n k raw)"
  using assms(4)
proof (induction k)
  case 0
  show ?case by (rule assms(3))
next
  case (Suc k)
  then have "admission_reaches L N (waiting n k raw)" "k < 8" by simp_all
  from further [OF this(1) one_more_waits [OF assms(1,2) this(2)]] show ?case .
qed

lemma all_kept:
  assumes "admission_reaches L N (waiting n (j + k) raw)" "j + k \<le> 8"
  shows "admission_reaches L N (waiting (n + j) k raw)"
  using assms
proof (induction j arbitrary: n)
  case (Suc j)
  from further [OF Suc.prems(1) [simplified] one_is_kept] Suc.prems(2)
  have "admission_reaches L N (waiting (Suc n) (j + k) raw)" by simp
  from Suc.IH [OF this] Suc.prems(2) show ?case by simp
qed simp

lemma pool_fills:
  assumes "check_request L N 0 q = Ok raw" "n \<le> 3072"
  shows "admission_reaches L N (waiting n 0 raw)"
  using assms(2)
proof (induction n)
  case 0
  have "waiting 0 0 raw = initial_admission"
    by (simp add: waiting_def initial_admission_def initial_server_def)
  then show ?case by (simp add: first)
next
  case (Suc n)
  then have "admission_reaches L N (waiting n 0 raw)" by simp
  from all_wait [OF assms(1) _ this, of 1] Suc.prems have "admission_reaches L N (waiting n (1 + 0) raw)" by simp
  from all_kept [OF this] show ?case by simp
qed

lemma pool_overfills:
  assumes "check_request L N 0 q = Ok raw"
  shows "admission_reaches L N (waiting 3079 0 raw)"
proof -
  have "admission_reaches L N (waiting 3071 (8 + 0) raw)"
    using all_wait [OF assms _ pool_fills [OF assms], of 3071 8] by simp
  from all_kept [OF this] show ?thesis by simp
qed

section \<open>The node takes such steps\<close>

text \<open>
  The node of \<open>Lifecycle\<close> as the admission sees it: the pool by its size, and a transaction from a peer
  as one of the others.
\<close>

definition admission_of :: "('t, 's, 'w) node_state \<Rightarrow> nat \<Rightarrow> admission" where
  "admission_of s k = \<lparr>ad_server = ns_server s, ad_pool = length (ns_pool s), ad_others = k\<rparr>"

lemma node_step_admission:
  "node_step W s s' \<Longrightarrow> \<exists>j \<le> 1. admission_of s' (k + j) = admission_of s k
     \<or> admission_step (np_libs W) (np_rpc W) (admission_of s k) (admission_of s' (k + j))"
proof (induction rule: node_step.induct)
  case (call s q r server)
  then show ?case
    using ask [of "np_libs W" "np_rpc W" "admission_of s k" q r server]
    by (intro exI [of _ 0]) (simp add: admission_of_def)
next
  case (submit raw s e a)
  then show ?case
    using kept [of raw "admission_of s k" "np_libs W" "np_rpc W"]
    by (intro exI [of _ 0]) (simp add: admission_of_def)
next
  case (give_up raw s)
  then show ?case
    using ended [of raw "admission_of s k" "np_libs W" "np_rpc W"]
    by (intro exI [of _ 0]) (simp add: admission_of_def)
next
  case (gossip message e rest a s)
  show ?case
    using other [of "np_libs W" "np_rpc W" "admission_of s k"]
    by (intro exI [of _ 1]) (simp add: admission_of_def)
next
  case (evict s p)
  show ?case
    using removed [of "np_libs W" "np_rpc W" "admission_of s k"]
    by (intro exI [of _ 0]) (cases "p \<in> set (ns_pool s)"; simp add: admission_of_def length_remove1)
qed (auto simp: admission_of_def extend_chain_def)

lemma node_reaches_admission:
  "node_reaches W initial_node s \<Longrightarrow> \<exists>k. admission_reaches (np_libs W) (np_rpc W) (admission_of s k)"
proof (induction "initial_node :: ('c, 'e, 'm) node_state" s rule: node_reaches.induct)
  case stay
  have "admission_of initial_node 0 = initial_admission"
    by (simp add: admission_of_def initial_node_def initial_admission_def)
  then show ?case by (metis first)
next
  case (step s' s'')
  then obtain k where "admission_reaches (np_libs W) (np_rpc W) (admission_of s' k)" by blast
  with node_step_admission [OF step.hyps(3), of k] show ?case by (metis further)
qed

section \<open>Properties\<close>

text \<open>C15. The limit of 3072 pooled transactions is checked before the pool is asked, yet it is exceeded by at
  most seven: in every interleaving of requests, answers, dropped calls, removals and additions from
  elsewhere, the pool and the calls in flight hold together at most 3079 transactions more than came
  from elsewhere. That bound is exact: whenever some request passes the checks, requests alone fill
  the pool to 3079.\<close>

theorem pool_limit_overshoot:
  assumes "check_request L N 0 q = Ok raw"
  shows "(\<forall>a. admission_reaches L N a \<longrightarrow>
      ad_pool a + length (sv_in_flight (ad_server a)) \<le> 3079 + ad_others a)
    \<and> (\<exists>a. admission_reaches L N a \<and> ad_pool a = 3079 \<and> ad_others a = 0 \<and> ad_server a = initial_server)"
proof -
  have "ad_server (waiting 3079 0 raw) = initial_server" by (simp add: waiting_def initial_server_def)
  then show ?thesis
    using admission_reaches_ok [of L N] pool_overfills [OF assms]
    by (auto simp: admission_ok_def waiting_def intro!: exI [of _ "waiting 3079 0 raw"])
qed

theorem pool_limit_overshoot_witness:
  "\<exists>a. admission_reaches ref_libs ref_rpc a \<and> ad_pool a = 3079 \<and> ad_others a = 0"
proof -
  have "params_one ref_rpc (''0x'' @ hex_text (encode_wire ref_libs fixture_op fixture_key fixture_sig))
      = Ok (''0x'' @ hex_text (encode_wire ref_libs fixture_op fixture_key fixture_sig))"
    by (simp add: ref_rpc_def)
  from check_wire_text [OF ref.rlp_codec_axioms ref_rpc.hex_bytes_axioms fixture_limits(1) fixture_lengths(1,2) this, of 0]
  have "check_request ref_libs ref_rpc 0 (''0x'' @ hex_text (encode_wire ref_libs fixture_op fixture_key fixture_sig))
      = Ok (encode_wire ref_libs fixture_op fixture_key fixture_sig)" by simp
  from pool_limit_overshoot [OF this] show ?thesis by blast
qed

end
