(* ===== verification/Selection.thy ===== *)
theory Selection
  imports Lifecycle "HOL-Library.Sublist"
begin

text \<open>
  The order in which \<open>src/payload/builder.rs\<close> fills a block. The pool's iterator hands its transactions
  out best first; marking one as invalid or skipping the blobs only takes some of the rest away. The
  loop reads one at a time and never goes back, so the block is a subsequence of what the pool offered.
\<close>

section \<open>An iterator over a list\<close>

locale ordered_iterator =
  fixes B :: "('i, 'px, 'x, 'b, 's, 'e, 'z) build_lib_scheme" and rest :: "'i \<Rightarrow> 'px list"
  assumes next_rest: "\<And>i p i'. best_next B i = Some (p, i') \<Longrightarrow> rest i = p # rest i'"
    and next_end: "\<And>i. best_next B i = None \<longleftrightarrow> rest i = []"
    and mark_rest: "\<And>i p e. subseq (rest (best_mark_invalid B i p e)) (rest i)"
    and skip_rest: "\<And>i. subseq (rest (best_skip_blobs B i)) (rest i)"
begin

lemma iterator_after_rest: "iterator_after B p i i' \<Longrightarrow> subseq (rest i') (rest i)"
  using mark_rest skip_rest by (auto simp: iterator_after_def)

end

text \<open>Its items and its length are those of the list.\<close>

lemma subseq_set: "subseq xs ys \<Longrightarrow> set xs \<subseteq> set ys"
  by (auto dest: list_emb_set)

sublocale ordered_iterator \<subseteq> listed: candidate_iterator B "set \<circ> rest"
  using subseq_set [OF mark_rest] subseq_set [OF skip_rest]
  by unfold_locales (auto dest: next_rest)

sublocale ordered_iterator \<subseteq> measured: bounded_iterator B "length \<circ> rest"
  using list_emb_length [OF mark_rest] list_emb_length [OF skip_rest]
  by unfold_locales (auto dest: next_rest)

section \<open>The order of a block\<close>

lemma subseq_sorted_wrt: "subseq xs ys \<Longrightarrow> sorted_wrt P ys \<Longrightarrow> sorted_wrt P xs"
  by (induction rule: list_emb.induct) (auto dest: subseq_set)

lemma sorted_wrt_neq: "sorted_wrt (\<noteq>) xs \<longleftrightarrow> distinct xs"
  by (induction xs) auto

lemma selection_step:
  assumes "ordered_iterator B rest" "block_building c B gas_of executed"
    and "build_step c B is_cancelled st = Ok (Continue st')"
  shows "\<exists>lg. executed (bs_builder st') = executed (bs_builder st) @ lg
    \<and> subseq (map fst lg @ map (px_to_consensus B) (rest (bs_best st'))) (map (px_to_consensus B) (rest (bs_best st)))"
  using assms(3)
proof (rule build_step_iterator)
  fix p i
  assume read: "best_next B (bs_best st) = Some (p, i)" "iterator_after B p i (bs_best st')"
    and run: "bs_builder st' = bs_builder st
      \<or> (\<exists>r. execute B (bs_builder st) (px_to_consensus B p) = (r, bs_builder st') \<and> r \<noteq> Panic)"
  have left: "subseq (map (px_to_consensus B) (rest (bs_best st'))) (map (px_to_consensus B) (rest i))"
    by (intro subseq_map ordered_iterator.iterator_after_rest [OF assms(1) read(2)])
  note rest = ordered_iterator.next_rest [OF assms(1) read(1)]
  from run consider "executed (bs_builder st') = executed (bs_builder st)"
  | gas where "executed (bs_builder st') = executed (bs_builder st) @ [(px_to_consensus B p, gas)]"
  proof (elim disjE exE conjE)
    fix r
    assume "execute B (bs_builder st) (px_to_consensus B p) = (r, bs_builder st')" "r \<noteq> Panic"
    then show thesis
      using block_building.execute_Ok [OF assms(2)] block_building.execute_Err [OF assms(2)] that
      by (cases r) blast+
  qed (use that in simp)
  then show ?thesis
  proof cases
    case 1
    with left rest show ?thesis by (intro exI [of _ "[]"]) (simp add: list_emb_Cons)
  next
    case (2 gas)
    with left rest show ?thesis by (intro exI [of _ "[(px_to_consensus B p, gas)]"]) simp
  qed
qed

lemma selection_loop:
  assumes "ordered_iterator B rest" "block_building c B gas_of executed"
    and "build_loop c B is_cancelled n st = Some (Ok (Some st'))"
  shows "\<exists>lg. executed (bs_builder st') = executed (bs_builder st) @ lg
    \<and> subseq (map fst lg) (map (px_to_consensus B) (rest (bs_best st))) \<and> rest (bs_best st') = []"
  using assms(3)
proof (induction n arbitrary: st)
  case (Suc n)
  show ?case
  proof (cases "build_step c B is_cancelled st")
    case (Ok ctl)
    show ?thesis
    proof (cases ctl)
      case (Continue st1)
      obtain lg where lg: "executed (bs_builder st1) = executed (bs_builder st) @ lg"
        "subseq (map fst lg @ map (px_to_consensus B) (rest (bs_best st1))) (map (px_to_consensus B) (rest (bs_best st)))"
        using selection_step [OF assms(1,2) Ok [unfolded Continue]] by blast
      have "build_loop c B is_cancelled n st1 = Some (Ok (Some st'))"
        using Ok Continue Suc.prems by simp
      then obtain lg' where lg': "executed (bs_builder st') = executed (bs_builder st1) @ lg'"
        "subseq (map fst lg') (map (px_to_consensus B) (rest (bs_best st1)))" "rest (bs_best st') = []"
        using Suc.IH by blast
      have "subseq (map fst (lg @ lg')) (map (px_to_consensus B) (rest (bs_best st)))"
        using subseq_order.trans [OF list_emb_append_mono [OF subseq_order.refl lg'(2)] lg(2)] by simp
      with lg(1) lg'(1,3) show ?thesis by (intro exI [of _ "lg @ lg'"]) simp
    next
      case (Break st1)
      with Ok Suc.prems build_step_Ok [OF Ok] ordered_iterator.next_end [OF assms(1)] show ?thesis by auto
    qed (use Ok Suc.prems in simp)
  qed (use Suc.prems in simp_all)
qed simp

section \<open>A pool that fits\<close>

text \<open>The gas that the guard compares: the two parts from Amsterdam on, the total before.\<close>

definition gas_within :: "build_config \<Rightarrow> ('i, 'b, 's) build_state \<Rightarrow> nat \<Rightarrow> bool" where
  "gas_within c st n \<longleftrightarrow>
     (if bc_is_amsterdam c then unat (bs_regular_gas st) \<le> n \<and> unat (bs_state_gas st) \<le> n
      else unat (bs_cumulative_gas st) \<le> n)"

lemma gas_within_admits:
  assumes "gas_within c st n" "n + unat g \<le> unat (bc_block_gas_limit c)"
  shows "exceeds_gas_limit c (st\<lparr>bs_best := i\<rparr>) g = None"
proof -
  have room: "\<not> saturating_sub (bc_block_gas_limit c) used < g'" if "unat used \<le> n" "g' \<le> g" for used g'
  proof -
    have "used \<le> bc_block_gas_limit c" "unat used + unat g' \<le> unat (bc_block_gas_limit c)"
      using that assms(2) by (simp_all add: word_le_nat_alt)
    then show ?thesis by (simp add: saturating_sub_def word_less_nat_alt unat_sub)
  qed
  show ?thesis
    using assms(1) by (auto simp: gas_within_def exceeds_gas_limit_def Let_def room split: if_splits)
qed

lemma unat_plus_within: "unat a \<le> n \<Longrightarrow> u \<le> g \<Longrightarrow> unat (a + u) \<le> n + unat g"
  for a u g :: u64
  by (simp add: unat_word_ariths word_le_nat_alt)

text \<open>An iteration whose candidate passes every guard and whose execution succeeds.\<close>

lemma fitting_step:
  assumes "block_building c B gas_of executed" "best_next B (bs_best st) = Some (p, i)"
    and "\<not> is_cancelled (bs_polls st)" "x_blob_count B (px_to_consensus B p) = None"
    and "gas_within c st n" "n + unat (px_gas_limit B p) \<le> unat (bc_block_gas_limit c)"
    and "bc_is_osaka c \<Longrightarrow>
      bs_rlp_length st + x_length B (px_to_consensus B p) + bc_withdrawals_rlp_length c + 1024 \<le> bc_max_rlp_block_size c"
    and "execute B (bs_builder st) (px_to_consensus B p) = (Ok gas, b)"
    and "x_effective_tip B (px_to_consensus B p) (bc_base_fee c) \<noteq> None"
  obtains st' where "build_step c B is_cancelled st = Ok (Continue st')" "bs_best st' = i" "bs_builder st' = b"
    "bs_polls st' = Suc (bs_polls st)" "gas_within c st' (n + unat (px_gas_limit B p))"
    "bs_rlp_length st' = bs_rlp_length st + x_length B (px_to_consensus B p)"
proof -
  have "\<not> (bc_is_osaka c \<and> bc_max_rlp_block_size c <
      bs_rlp_length st + x_length B (px_to_consensus B p) + bc_withdrawals_rlp_length c + 1024)"
    using assms(7) by auto
  then have "\<exists>st'. build_step c B is_cancelled st = Ok (Continue st') \<and> bs_best st' = i \<and> bs_builder st' = b
      \<and> bs_polls st' = Suc (bs_polls st)
      \<and> bs_cumulative_gas st' = bs_cumulative_gas st + go_tx_gas_used gas
      \<and> bs_regular_gas st' = bs_regular_gas st + go_block_regular_gas_used gas
      \<and> bs_state_gas st' = bs_state_gas st + go_state_gas_used gas
      \<and> bs_rlp_length st' = bs_rlp_length st + x_length B (px_to_consensus B p)"
    using assms(2-4,8,9) gas_within_admits [OF assms(5,6)]
    by (auto simp: build_step_def include_tx_def account_blobs_def Let_def)
  then obtain st' where st': "build_step c B is_cancelled st = Ok (Continue st')" "bs_best st' = i" "bs_builder st' = b"
      "bs_polls st' = Suc (bs_polls st)"
      "bs_rlp_length st' = bs_rlp_length st + x_length B (px_to_consensus B p)"
    and gas: "bs_cumulative_gas st' = bs_cumulative_gas st + go_tx_gas_used gas"
      "bs_regular_gas st' = bs_regular_gas st + go_block_regular_gas_used gas"
      "bs_state_gas st' = bs_state_gas st + go_state_gas_used gas" by blast
  have "gas_within c st' (n + unat (px_gas_limit B p))"
    using assms(5) gas block_building.gas_used [OF assms(1,8)] block_building.gas_parts [OF assms(1,8)]
      block_building.pool_gas [OF assms(1), of p]
    by (simp add: gas_within_def unat_plus_within)
  with st' show ?thesis using that by blast
qed

text \<open>What is left fits into the block.\<close>

definition fits :: "build_config \<Rightarrow> ('i, 'px, 'x, 'b, 's, 'e, 'z) build_lib_scheme \<Rightarrow> 'px list \<Rightarrow> bool" where
  "fits c B ps \<longleftrightarrow>
     (\<forall>p \<in> set ps. x_blob_count B (px_to_consensus B p) = None
        \<and> x_effective_tip B (px_to_consensus B p) (bc_base_fee c) \<noteq> None)
     \<and> (\<Sum>p\<leftarrow>ps. unat (px_gas_limit B p)) \<le> unat (bc_block_gas_limit c)
     \<and> (bc_is_osaka c \<longrightarrow> (\<Sum>p\<leftarrow>ps. x_length B (px_to_consensus B p)) + bc_withdrawals_rlp_length c + 1024
          \<le> bc_max_rlp_block_size c)"

lemma fitting_loop:
  assumes "ordered_iterator B rest" "block_building c B gas_of executed"
    and "\<And>n. n < length ps \<Longrightarrow> \<not> is_cancelled n" "fits c B ps"
    and "\<And>b pre p post. ps = pre @ p # post \<Longrightarrow> map fst (executed b) = base @ map (px_to_consensus B) pre \<Longrightarrow>
      \<exists>gas b'. execute B b (px_to_consensus B p) = (Ok gas, b')"
    and "ps = done_ps @ rest (bs_best st)" "map fst (executed (bs_builder st)) = base @ map (px_to_consensus B) done_ps"
    and "gas_within c st (\<Sum>p\<leftarrow>done_ps. unat (px_gas_limit B p))"
    and "bs_rlp_length st = (\<Sum>p\<leftarrow>done_ps. x_length B (px_to_consensus B p))" "bs_polls st = length done_ps"
  shows "\<exists>st'. build_loop c B is_cancelled (Suc (length (rest (bs_best st)))) st = Some (Ok (Some st'))
    \<and> map fst (executed (bs_builder st')) = base @ map (px_to_consensus B) ps"
  using assms(6-10)
proof (induction "rest (bs_best st)" arbitrary: st done_ps)
  case Nil
  then have "best_next B (bs_best st) = None" using ordered_iterator.next_end [OF assms(1)] by simp
  with Nil show ?case by (simp add: build_step_def)
next
  case (Cons p ps')
  obtain q i where nxt: "best_next B (bs_best st) = Some (q, i)"
    using Cons.hyps(2) ordered_iterator.next_end [OF assms(1), of "bs_best st"]
    by (cases "best_next B (bs_best st)") auto
  with ordered_iterator.next_rest [OF assms(1)] Cons.hyps(2) have "q = p" and left: "rest i = ps'" by fastforce+
  note nxt = nxt [unfolded \<open>q = p\<close>]
  have all: "ps = done_ps @ p # ps'" using Cons.prems(1) by (simp flip: Cons.hyps(2))
  obtain gas b where run: "execute B (bs_builder st) (px_to_consensus B p) = (Ok gas, b)"
    using assms(5) [OF all Cons.prems(2)] by blast
  have candidate: "\<not> is_cancelled (bs_polls st)" "x_blob_count B (px_to_consensus B p) = None"
    "x_effective_tip B (px_to_consensus B p) (bc_base_fee c) \<noteq> None"
    "(\<Sum>p\<leftarrow>done_ps. unat (px_gas_limit B p)) + unat (px_gas_limit B p) \<le> unat (bc_block_gas_limit c)"
    "bc_is_osaka c \<Longrightarrow>
      bs_rlp_length st + x_length B (px_to_consensus B p) + bc_withdrawals_rlp_length c + 1024 \<le> bc_max_rlp_block_size c"
    using assms(3,4) Cons.prems(4,5) by (auto simp: fits_def all)
  obtain st1 where st1: "build_step c B is_cancelled st = Ok (Continue st1)" "bs_best st1 = i" "bs_builder st1 = b"
    "bs_polls st1 = Suc (bs_polls st)"
    "gas_within c st1 ((\<Sum>p\<leftarrow>done_ps. unat (px_gas_limit B p)) + unat (px_gas_limit B p))"
    "bs_rlp_length st1 = bs_rlp_length st + x_length B (px_to_consensus B p)"
    using fitting_step [where is_cancelled = is_cancelled and c = c, OF assms(2) nxt candidate(1,2)
        Cons.prems(3) candidate(4) _ run candidate(3)] candidate(5) by blast
  have "\<exists>st'. build_loop c B is_cancelled (Suc (length (rest (bs_best st1)))) st1 = Some (Ok (Some st'))
      \<and> map fst (executed (bs_builder st')) = base @ map (px_to_consensus B) ps"
  proof (rule Cons.hyps(1) [of st1 "done_ps @ [p]"])
    show "map fst (executed (bs_builder st1)) = base @ map (px_to_consensus B) (done_ps @ [p])"
      using block_building.execute_Ok [OF assms(2) run] Cons.prems(2) st1(3) by simp
  qed (use st1 left all Cons.prems(4,5) in simp_all)
  then show ?case
    using st1 left by (simp flip: Cons.hyps(2) del: build_loop.simps(1))
qed

interpretation ref_order: ordered_iterator ref_build id
  by unfold_locales (auto simp: ref_build_def split: list.splits)

section \<open>Properties\<close>

text \<open>C12. A block keeps the order of the pool: the transactions that a finished selection executed are a
  subsequence of those that the iterator would have handed out, so that whatever order the pool
  guarantees between them, such as ascending nonces of a sender or no transaction twice, holds in the
  block; and the selection stops only when the iterator has no more.\<close>

theorem selection_keeps_order:
  assumes "ordered_iterator B rest" "block_building c B gas_of executed"
    and "build_loop c B is_cancelled fuel (initial_build best builder) = Some (Ok (Some st))"
  shows "\<exists>lg. executed (bs_builder st) = executed builder @ lg
    \<and> subseq (map fst lg) (map (px_to_consensus B) (rest best))
    \<and> (\<forall>before. sorted_wrt before (map (px_to_consensus B) (rest best)) \<longrightarrow> sorted_wrt before (map fst lg))
    \<and> rest (bs_best st) = []"
  using selection_loop [OF assms] subseq_sorted_wrt by (fastforce simp: initial_build_def)

theorem selection_keeps_order_witness:
  "\<exists>st lg. build_loop ref_build_config ref_build (\<lambda>_. False) 2 (initial_build [sample_pool_tx] []) = Some (Ok (Some st))
     \<and> bs_builder st = lg \<and> subseq (map fst lg) [pt_transaction sample_pool_tx] \<and> distinct (map fst lg)"
proof -
  obtain st where st: "build_loop ref_build_config ref_build (\<lambda>_. False) 2 (initial_build [sample_pool_tx] []) = Some (Ok (Some st))"
    using sample_build_loop by blast
  from selection_keeps_order [OF ref_order.ordered_iterator_axioms ref_build.block_building_axioms st]
  obtain lg where "bs_builder st = lg" "subseq (map fst lg) [pt_transaction sample_pool_tx]"
    "sorted_wrt (\<noteq>) (map (px_to_consensus ref_build) [sample_pool_tx]) \<longrightarrow> sorted_wrt (\<noteq>) (map fst lg)"
    by (auto simp: lib_simps)
  with st show ?thesis by (intro exI [of _ st] exI [of _ lg]) (simp add: sorted_wrt_neq)
qed

text \<open>C13. No transaction is left out without a reason: when the transactions that the pool hands out carry no
  blobs, pay the base fee, have gas limits that fit together into the block and, from Osaka on, fit
  into its size, when each executes after those before it and the job is not cancelled at the poll for any of them, the
  selection returns without a panic, with as many iterations as there are transactions and one more,
  and the block holds all of them, in their order. This is so before Amsterdam, where the guard
  compares the gas used, and from Amsterdam on, where it compares the two parts of the gas.\<close>

theorem fitting_pool_is_included:
  fixes B :: "('i, 'px, 'x, 'b, 's, 'e, 'z) build_lib_scheme"
  assumes "ordered_iterator B rest" "block_building c B gas_of executed"
    and "\<And>n. n < length (rest best) \<Longrightarrow> \<not> is_cancelled n" "fits c B (rest best)"
    and "\<And>b pre p post. rest best = pre @ p # post \<Longrightarrow>
      map fst (executed b) = map fst (executed builder) @ map (px_to_consensus B) pre \<Longrightarrow>
      \<exists>gas b'. execute B b (px_to_consensus B p) = (Ok gas, b')"
  shows "\<exists>st lg. build_loop c B is_cancelled (Suc (length (rest best))) (initial_build best builder) = Some (Ok (Some st))
    \<and> executed (bs_builder st) = executed builder @ lg
    \<and> map fst lg = map (px_to_consensus B) (rest best)"
proof -
  let ?start = "initial_build best builder :: ('i, 'b, 's) build_state"
  have start: "rest best = [] @ rest (bs_best ?start)" by (simp add: initial_build_def)
  have "\<exists>st. build_loop c B is_cancelled (Suc (length (rest (bs_best ?start)))) ?start = Some (Ok (Some st))
      \<and> map fst (executed (bs_builder st)) = map fst (executed builder) @ map (px_to_consensus B) (rest best)"
    by (rule fitting_loop [OF assms(1,2) _ assms(4) _ start])
      (use assms(3,5) in \<open>auto simp: initial_build_def gas_within_def\<close>)
  then obtain st where
    st: "build_loop c B is_cancelled (Suc (length (rest best))) ?start = Some (Ok (Some st))"
    "map fst (executed (bs_builder st)) = map fst (executed builder) @ map (px_to_consensus B) (rest best)"
    by (auto simp: initial_build_def simp del: build_loop.simps)
  moreover obtain lg where "executed (bs_builder st) = executed builder @ lg"
    using selection_loop [OF assms(1,2) st(1)] by (auto simp: initial_build_def)
  ultimately show ?thesis by auto
qed

text \<open>The witness is under the rules of Amsterdam.\<close>

lemma amsterdam_building:
  "block_building (ref_build_config\<lparr>bc_is_amsterdam := True\<rparr>) ref_build
     (\<lambda>x. t_gas_limit (envelope_traits ref_libs ref_eth 0) (rec_tx x)) (\<lambda>b. b)"
  by unfold_locales
    (auto simp: ref_build_def ref_build_config_def ref_push_def ref_execute_def ref_pool.pool_tx_ops_eq
      comap_ops_def wrapped_def into_consensus_def Let_def split: outcome.splits)

theorem fitting_pool_is_included_witness:
  "\<exists>st lg. build_loop (ref_build_config\<lparr>bc_is_amsterdam := True\<rparr>) ref_build (\<lambda>n. 5 < n) 2
       (initial_build [sample_pool_tx] []) = Some (Ok (Some st))
     \<and> bs_builder st = lg \<and> map fst lg = [pt_transaction sample_pool_tx]"
proof -
  let ?c = "ref_build_config\<lparr>bc_is_amsterdam := True\<rparr>"
  have fit: "fits ?c ref_build (id [sample_pool_tx])"
    using sample_pool_tx_simps(3)
    by (simp add: fits_def lib_simps sample_pool_tx_simps(1,2) ref_build_config_def envelope_encode_2718_def)
  have run: "\<exists>gas b'. execute ref_build b (px_to_consensus ref_build p) = (Ok gas, b')"
    if "id [sample_pool_tx] = pre @ p # post" for b pre p post
    using that by (cases pre) (simp_all add: lib_simps sample_pool_tx_simps(1) sample_execute Let_def)
  have "\<exists>st lg. build_loop ?c ref_build (\<lambda>n. 5 < n) (Suc (length (id [sample_pool_tx])))
        (initial_build [sample_pool_tx] []) = Some (Ok (Some st))
      \<and> bs_builder st = [] @ lg \<and> map fst lg = map (px_to_consensus ref_build) (id [sample_pool_tx])"
    using fitting_pool_is_included [OF ref_order.ordered_iterator_axioms amsterdam_building _ fit run,
        of "\<lambda>n. 5 < n" "[]"]
    by (simp del: build_loop.simps)
  then show ?thesis by (simp add: lib_simps numeral_2_eq_2 del: build_loop.simps)
qed

end
