(* ===== verification/Client.thy ===== *)
theory Client
  imports Send_Raw
begin

text \<open>
  \<open>client/src/protocol.ts\<close> and \<open>client/src/rpc.ts\<close>: the client that builds, signs and submits
  Cosmos transactions. A \<open>bigint\<close> is an integer, a hexadecimal text a string, an exception the
  error of an outcome, with its message. The record \<open>J\<close> holds the functions of \<open>ethers\<close> and
  \<open>CosmJS\<close>; the RLP documents of \<open>encodeRlp\<close> are trees of hexadecimal texts. The second half says
  what the client and the node rely on to agree, and what follows.
\<close>

section \<open>Operations\<close>

record client_operation =
  co_chainId :: int
  co_genesisHash :: string
  co_sender :: string
  co_nonce :: int
  co_to :: string
  co_value :: int
  co_input :: string
  co_gasLimit :: int
  co_maxFeePerGas :: int
  co_maxPriorityFeePerGas :: int

definition CLIENT_CHAIN_ID :: int where
  "CLIENT_CHAIN_ID = 366036"

definition CLIENT_MAX_CALLDATA :: nat where
  "CLIENT_MAX_CALLDATA = 32768"

definition RECIPIENT :: string where
  "RECIPIENT = ''0x0000000000000000000000000000000000002000''"

definition RECORDER :: string where
  "RECORDER = ''0x0000000000000000000000000000000000001000''"

definition REVERTER :: string where
  "REVERTER = ''0x0000000000000000000000000000000000001001''"

definition client_operation_of :: "string \<Rightarrow> int \<Rightarrow> client_operation" where
  "client_operation_of genesisHash nonce =
     \<lparr>co_chainId = CLIENT_CHAIN_ID,
      co_genesisHash = genesisHash,
      co_sender = ''0x751e76e8199196d454941c45d1b3a323f1433bd6'',
      co_nonce = nonce,
      co_to = RECIPIENT,
      co_value = 123456789,
      co_input = ''0x'',
      co_gasLimit = 21000,
      co_maxFeePerGas = 2000000000,
      co_maxPriorityFeePerGas = 100000000\<rparr>"

section \<open>The packages\<close>

datatype rlp_item = RlpText string | RlpList "rlp_item list"

text \<open>
  \<open>wallet_from_key\<close> is \<open>Secp256k1Wallet.fromKey\<close>, \<open>get_accounts\<close> gives the addresses of its
  accounts, and \<open>sign_amino\<close> the signed document with the public key and the signature in base64.
\<close>

record 'w client_lib =
  get_bytes :: "string \<Rightarrow> (string, bytes) outcome"
  hexlify :: "bytes \<Rightarrow> string"
  to_be_hex :: "int \<Rightarrow> (string, string) outcome"
  to_utf8_bytes :: "string \<Rightarrow> bytes"
  encode_rlp :: "rlp_item \<Rightarrow> (string, string) outcome"
  keccak256_hex :: "string \<Rightarrow> (string, string) outcome"
  to_base64 :: "bytes \<Rightarrow> string"
  from_base64 :: "string \<Rightarrow> (string, bytes) outcome"
  to_bech32 :: "string \<Rightarrow> bytes \<Rightarrow> (string, string) outcome"
  serialize_sign_doc :: "json \<Rightarrow> bytes"
  js_sha256 :: "bytes \<Rightarrow> bytes"
  js_ripemd160 :: "bytes \<Rightarrow> bytes"
  wallet_from_key :: "bytes \<Rightarrow> string \<Rightarrow> (string, 'w) outcome"
  get_accounts :: "'w \<Rightarrow> string list"
  sign_amino :: "'w \<Rightarrow> string \<Rightarrow> json \<Rightarrow> (string, json \<times> string \<times> string) outcome"

text \<open>\<open>TEST_KEY\<close>, the default key of \<open>sign\<close>.\<close>

definition client_test_key :: "'w client_lib \<Rightarrow> (string, bytes) outcome" where
  "client_test_key J = get_bytes J (''0x'' @ replicate 63 CHR ''0'' @ ''1'')"

section \<open>The payload\<close>

fun decimal :: "nat \<Rightarrow> string" where
  "decimal n = (if n < 10 then [char_of (48 + n)] else decimal (n div 10) @ [char_of (48 + n mod 10)])"

declare decimal.simps [simp del]

definition client_integer :: "'w client_lib \<Rightarrow> int \<Rightarrow> nat \<Rightarrow> (string, string) outcome" where
  "client_integer J n bits =
     (if n < 0 \<or> 2 ^ bits \<le> n then Err (''uint'' @ decimal bits @ '' overflow'')
      else if n = 0 then Ok ''0x'' else to_be_hex J n)"

definition client_fixed :: "'w client_lib \<Rightarrow> string \<Rightarrow> nat \<Rightarrow> (string, string) outcome" where
  "client_fixed J value len =
     and_then (get_bytes J value) (\<lambda>b.
       if length b \<noteq> len then Err (''expected '' @ decimal len @ '' bytes'') else Ok value)"

text \<open>The array literal evaluates its elements from left to right.\<close>

definition payload_items :: "'w client_lib \<Rightarrow> client_operation \<Rightarrow> (string, rlp_item) outcome" where
  "payload_items J op =
     and_then (client_integer J (co_chainId op) 64) (\<lambda>chainId.
     and_then (client_fixed J (co_genesisHash op) 32) (\<lambda>genesisHash.
     and_then (client_fixed J (co_sender op) 20) (\<lambda>sender.
     and_then (client_integer J (co_nonce op) 64) (\<lambda>nonce.
     and_then (client_fixed J (co_to op) 20) (\<lambda>to.
     and_then (client_integer J (co_value op) 256) (\<lambda>value.
     and_then (client_integer J (co_gasLimit op) 64) (\<lambda>gasLimit.
     and_then (client_integer J (co_maxFeePerGas op) 128) (\<lambda>maxFeePerGas.
     and_then (client_integer J (co_maxPriorityFeePerGas op) 128) (\<lambda>maxPriorityFeePerGas.
       Ok (RlpList (map RlpText
         [hexlify J (to_utf8_bytes J ''reth-cosmos-adr036''), ''0x01'', chainId, genesisHash, sender,
          nonce, to, value, co_input op, gasLimit, maxFeePerGas, maxPriorityFeePerGas])))))))))))"

definition client_payload :: "'w client_lib \<Rightarrow> client_operation \<Rightarrow> (string, string) outcome" where
  "client_payload J op =
     and_then (get_bytes J (co_input op)) (\<lambda>input.
     if CLIENT_MAX_CALLDATA < length input then Err ''calldata too large''
     else if co_gasLimit op < 21000 \<or> 30000000 < co_gasLimit op then Err ''gas limit''
     else if co_maxFeePerGas op < co_maxPriorityFeePerGas op then Err ''fee bounds''
     else if co_nonce op = 2 ^ 64 - 1 then Err ''nonce limit''
     else and_then (payload_items J op) (encode_rlp J))"

section \<open>Signing\<close>

definition client_sign_doc :: "'w client_lib \<Rightarrow> client_operation \<Rightarrow> (string, json) outcome" where
  "client_sign_doc J op =
     and_then (client_payload J op) (\<lambda>p.
     and_then (get_bytes J p) (\<lambda>data.
     and_then (get_bytes J (co_sender op)) (\<lambda>sender.
     and_then (to_bech32 J ''cosmos'' sender) (\<lambda>signer.
       Ok (JObject [
         (''account_number'', JString ''0''),
         (''chain_id'', JString ''''),
         (''fee'', JObject [(''amount'', JArray []), (''gas'', JString ''0'')]),
         (''memo'', JString ''''),
         (''msgs'', JArray [JObject [
            (''type'', JString ''sign/MsgSignData''),
            (''value'', JObject [(''data'', JString (to_base64 J data)), (''signer'', JString signer)])]]),
         (''sequence'', JString ''0'')])))))"

record signed_operation =
  so_raw :: string
  so_hash :: string
  so_signBytes :: string
  so_signature :: string
  so_publicKey :: string
  so_sender :: string
  so_cosmos :: string

definition client_sign ::
  "'w client_lib \<Rightarrow> client_operation \<Rightarrow> bytes \<Rightarrow> (string, signed_operation) outcome" where
  "client_sign J op privateKey =
     and_then (wallet_from_key J privateKey ''cosmos'') (\<lambda>wallet.
     case get_accounts J wallet of [] \<Rightarrow> Err ''missing signing account'' | account # _ \<Rightarrow>
     and_then (client_sign_doc J op) (\<lambda>doc.
     and_then (sign_amino J wallet account doc) (\<lambda>(signed, pub_key, signature).
     let signBytes = serialize_sign_doc J signed in
     and_then (client_sign_doc J op) (\<lambda>doc'.
     if hexlify J signBytes \<noteq> hexlify J (serialize_sign_doc J doc')
     then Err ''wallet changed the authorization'' else
     and_then (from_base64 J pub_key) (\<lambda>key.
     and_then (from_base64 J signature) (\<lambda>sig.
     and_then (client_payload J op) (\<lambda>p.
     and_then (encode_rlp J (RlpList [RlpText p, RlpText (hexlify J key), RlpText (hexlify J sig)])) (\<lambda>body.
     let raw = ''0x7e'' @ drop 2 body in
     and_then (keccak256_hex J raw) (\<lambda>hash.
       Ok \<lparr>so_raw = raw, so_hash = hash, so_signBytes = hexlify J signBytes,
           so_signature = hexlify J sig, so_publicKey = hexlify J key,
           so_sender = hexlify J (js_ripemd160 J (js_sha256 J key)),
           so_cosmos = account\<rparr>)))))))))"

section \<open>Submitting\<close>

text \<open>
  \<open>rpc\<close> sends to the local host only. \<open>hostname_of\<close> is \<open>new URL(RPC_URL).hostname\<close>; \<open>fetch\<close> ends
  with the status, whether it is a success, and the parsed body, whose error member has a message.
\<close>

record 'r rpc_body =
  body_result :: 'r
  body_error :: "string option"

type_synonym ('p, 'r) fetcher = "string \<Rightarrow> 'p \<Rightarrow> (string, nat \<times> bool \<times> (string, 'r rpc_body) outcome) outcome"

definition LOCAL_HOSTS :: "string list" where
  "LOCAL_HOSTS = [''127.0.0.1'', ''localhost'', ''[::1]'']"

definition client_rpc ::
  "(string \<Rightarrow> (string, string) outcome) \<Rightarrow> ('p, 'r) fetcher \<Rightarrow> string \<Rightarrow> string \<Rightarrow> 'p \<Rightarrow> (string, 'r) outcome" where
  "client_rpc hostname_of fetch url meth params =
     and_then (hostname_of url) (\<lambda>hostname.
     if hostname \<notin> set LOCAL_HOSTS
     then Err ''experiment RPC must use localhost'' else
     and_then (fetch meth params) (\<lambda>(status, ok, json).
     if \<not> ok then Err (''HTTP '' @ decimal status) else
     and_then json (\<lambda>body.
     case body_error body of
       Some message \<Rightarrow> Err (meth @ '': '' @ message)
     | None \<Rightarrow> Ok (body_result body))))"

text \<open>\<open>receipt\<close> asks at most a hundred times; question \<open>i\<close> goes through \<open>fetch i\<close>.\<close>

primrec poll_receipt ::
  "(nat \<Rightarrow> (string, 'r option) outcome) \<Rightarrow> string \<Rightarrow> nat \<Rightarrow> nat \<Rightarrow> (string, 'r) outcome" where
  "poll_receipt ask hash i 0 = Err (''transaction not included within 10 seconds: '' @ hash)"
| "poll_receipt ask hash i (Suc n) =
     and_then (ask i) (\<lambda>result.
       case result of Some r \<Rightarrow> Ok r | None \<Rightarrow> poll_receipt ask hash (Suc i) n)"

definition client_receipt ::
  "(string \<Rightarrow> (string, string) outcome) \<Rightarrow> (nat \<Rightarrow> (string list, 'r option) fetcher) \<Rightarrow> string \<Rightarrow> string
     \<Rightarrow> (string, 'r) outcome" where
  "client_receipt hostname_of fetch url hash =
     poll_receipt (\<lambda>i. client_rpc hostname_of (fetch i) url ''eth_getTransactionReceipt'' [hash]) hash 0 100"

text \<open>The transport is used for a local host only, and an answer is one of a fetched body without error.\<close>

lemma client_rpc_local:
  assumes "hostname_of url = Ok host" "host \<notin> set LOCAL_HOSTS"
  shows "client_rpc hostname_of fetch url meth params = Err ''experiment RPC must use localhost''"
  using assms by (simp add: client_rpc_def)

lemma client_rpc_Ok:
  "client_rpc hostname_of fetch url meth params = Ok r \<longleftrightarrow>
     (\<exists>host status. hostname_of url = Ok host \<and> host \<in> set LOCAL_HOSTS
        \<and> fetch meth params = Ok (status, True, Ok \<lparr>body_result = r, body_error = None\<rparr>))"
proof -
  have body: "(case body_error b of None \<Rightarrow> Ok (body_result b) | Some m \<Rightarrow> Err (meth @ '': '' @ m)) = Ok r
      \<longleftrightarrow> b = \<lparr>body_result = r, body_error = None\<rparr>" for b
    by (cases b) (simp split: option.split)
  show ?thesis by (auto simp: client_rpc_def outcome_simps body split: if_splits prod.splits)
qed

text \<open>The receipt is the first one that is there, when it comes within the hundred questions and no
  question before it fails.\<close>

lemma poll_receipt_Ok:
  "poll_receipt ask hash i n = Ok r \<longleftrightarrow>
     (\<exists>k < n. ask (i + k) = Ok (Some r) \<and> (\<forall>j < k. ask (i + j) = Ok None))"
proof (induction n arbitrary: i)
  case (Suc n)
  show ?case
  proof (cases "ask i")
    case (Ok a)
    then show ?thesis
      using Suc by (cases a) (auto simp: Ex_less_Suc2 All_less_Suc2 simp del: ex_simps)
  qed (auto simp: Ex_less_Suc2 All_less_Suc2)
qed simp

lemma client_receipt_Ok:
  fixes fetch :: "nat \<Rightarrow> (string list, 'r option) fetcher"
  shows "client_receipt hostname_of fetch url hash = Ok r \<longleftrightarrow>
    (\<exists>k < 100. client_rpc hostname_of (fetch k) url ''eth_getTransactionReceipt'' [hash] = Ok (Some r)
       \<and> (\<forall>j < k. client_rpc hostname_of (fetch j) url ''eth_getTransactionReceipt'' [hash] = Ok None))"
  by (simp add: client_receipt_def poll_receipt_Ok)

section \<open>What the two sides rely on\<close>

text \<open>The bytes of an RLP document, over the RLP of the node.\<close>

fun item_bytes :: "'m rlp_lib_scheme \<Rightarrow> 'w client_lib \<Rightarrow> rlp_item \<Rightarrow> (string, bytes) outcome"
  and items_bytes :: "'m rlp_lib_scheme \<Rightarrow> 'w client_lib \<Rightarrow> rlp_item list \<Rightarrow> (string, bytes) outcome" where
  "item_bytes L J (RlpText s) = map_ok (bytes_encode L) (get_bytes J s)"
| "item_bytes L J (RlpList xs) = map_ok (rlp_list L) (items_bytes L J xs)"
| "items_bytes L J [] = Ok []"
| "items_bytes L J (x # xs) =
     and_then (item_bytes L J x) (\<lambda>b. and_then (items_bytes L J xs) (\<lambda>bs. Ok (b @ bs)))"

text \<open>
  The RLP packages write the same format: an integer is its minimal big-endian bytes, an array its
  bytes. Hexadecimal texts, base64, bech32, the hashes and the sorted JSON are the same functions on
  both sides. Of the wallet only this is assumed: what it signs carries a valid signature in low-S
  form by the compressed key it names; it may change the document.
\<close>

locale client_packages = chain_libs P for P :: "('vk, 'sg, 'm) prim_lib_scheme" +
  fixes J :: "'w client_lib"
  assumes integers_minimal:
      "\<And>v. u8_encode P v = bytes_encode P (min_be (unat v))"
      "\<And>v. u64_encode P v = bytes_encode P (min_be (unat v))"
      "\<And>v. u128_encode P v = bytes_encode P (min_be (unat v))"
      "\<And>v. u256_encode P v = bytes_encode P (min_be (unat v))"
    and arrays_fixed:
      "\<And>v. b256_encode P v = bytes_encode P (word_bytes 32 v)"
      "\<And>v. address_encode P v = bytes_encode P (word_bytes 20 v)"
    and hexlify_text: "\<And>b. hexlify J b = ''0x'' @ hex_text b"
    and get_bytes_text: "\<And>b. get_bytes J (''0x'' @ hex_text b) = Ok b"
    and to_be_hex_minimal:
      "\<And>n. 0 < n \<Longrightarrow> n < 2 ^ 256 \<Longrightarrow> \<exists>s. to_be_hex J n = Ok s \<and> get_bytes J s = Ok (min_be (nat n))"
    and utf8_ascii: "\<And>s. plain_text s \<Longrightarrow> to_utf8_bytes J s = text_bytes s"
    and encode_rlp_Ok: "\<And>i s. encode_rlp J i = Ok s \<longleftrightarrow> (\<exists>b. item_bytes P J i = Ok b \<and> s = hexlify J b)"
    and keccak_text: "\<And>b. keccak256_hex J (hexlify J b) = Ok (hexlify J (word_bytes 32 (keccak256 P b)))"
    and base64_same: "\<And>b. to_base64 J b = base64_standard P b"
    and bech32_same: "\<And>b s. to_bech32 J ''cosmos'' b = Ok s \<longleftrightarrow> bech32_encode P ''cosmos'' (to_base32 P b) = Some s"
    and json_same:
      "\<And>d a. plain_text d \<Longrightarrow> plain_text a \<Longrightarrow>
         json_to_vec P (sign_document d a) = Some (serialize_sign_doc J (sign_document d a))"
    and account_same:
      "\<And>key. js_ripemd160 J (js_sha256 J key) = word_bytes 20 (ripemd160_digest P (word_bytes 32 (sha256_digest P key)))"
    and wallet_signs:
      "\<And>w priv a doc signed pk sg. wallet_from_key J priv ''cosmos'' = Ok w \<Longrightarrow>
         sign_amino J w a doc = Ok (signed, pk, sg) \<Longrightarrow>
         \<exists>key bs vk s. from_base64 J pk = Ok key \<and> length key = 33 \<and> hd key \<in> {2, 3}
           \<and> vk_from_sec1 P key = Some vk
           \<and> from_base64 J sg = Ok bs \<and> length bs = 64 \<and> sig_from_slice P bs = Some s
           \<and> sig_normalize_s P s = None \<and> vk_verify P vk (serialize_sign_doc J signed) s"

section \<open>The same operation on both sides\<close>

definition represents :: "'w client_lib \<Rightarrow> client_operation \<Rightarrow> operation \<Rightarrow> bool" where
  "represents J cop op \<longleftrightarrow>
     co_chainId cop = uint (op_chain_id op)
     \<and> get_bytes J (co_genesisHash cop) = Ok (word_bytes 32 (op_genesis_hash op))
     \<and> get_bytes J (co_sender cop) = Ok (word_bytes 20 (op_sender op))
     \<and> co_nonce cop = uint (op_nonce op)
     \<and> get_bytes J (co_to cop) = Ok (word_bytes 20 (op_to op))
     \<and> co_value cop = uint (op_value op)
     \<and> get_bytes J (co_input cop) = Ok (op_input op)
     \<and> co_gasLimit cop = uint (op_gas_limit op)
     \<and> co_maxFeePerGas cop = uint (op_max_fee_per_gas op)
     \<and> co_maxPriorityFeePerGas cop = uint (op_max_priority_fee_per_gas op)"

lemma represents_unique:
  assumes "represents J cop op" "represents J cop op'"
  shows "op = op'"
  using assms
  by (intro operation.equality) (auto simp: represents_def word_bytes_inject word_uint_eq_iff)

lemma client_fixed_Ok:
  "client_fixed J v k = Ok s \<longleftrightarrow> s = v \<and> (\<exists>b. get_bytes J v = Ok b \<and> length b = k)"
  by (auto simp: client_fixed_def outcome_simps split: if_splits)

lemma uint_word_of_int_range:
  assumes "0 \<le> n" "n < 2 ^ LENGTH('a::len)"
  shows "uint (word_of_int n :: 'a word) = n"
  using assms by (simp add: unsigned_of_int take_bit_int_eq_self)

context client_packages
begin

lemma client_integer_Ok:
  assumes "client_integer J n bits = Ok s" "bits \<le> 256"
  shows "0 \<le> n \<and> n < 2 ^ bits \<and> get_bytes J s = Ok (min_be (nat n))"
proof (cases "n = 0")
  case True
  with assms show ?thesis
    using get_bytes_text [of "[]"] by (auto simp: client_integer_def hex_text_def split: if_splits)
next
  case False
  with assms(1) have n: "0 < n" "n < 2 ^ bits" and s: "to_be_hex J n = Ok s"
    by (auto simp: client_integer_def split: if_splits)
  have "(2::int) ^ bits \<le> 2 ^ 256" using assms(2) by (intro power_increasing) simp_all
  with n have "n < 2 ^ 256" by linarith
  from to_be_hex_minimal [OF n(1) this] s n show ?thesis by auto
qed

lemma client_integer_range:
  assumes "0 \<le> n" "n < 2 ^ bits" "bits \<le> 256"
  shows "\<exists>s. client_integer J n bits = Ok s \<and> get_bytes J s = Ok (min_be (nat n))"
proof (cases "n = 0")
  case True
  with get_bytes_text [of "[]"] show ?thesis by (simp add: client_integer_def hex_text_def)
next
  case False
  have "(2::int) ^ bits \<le> 2 ^ 256" using assms(3) by (intro power_increasing) simp_all
  with assms(2) have "n < 2 ^ 256" by linarith
  moreover have "0 < n" using False assms(1) by simp
  ultimately obtain s where "to_be_hex J n = Ok s" "get_bytes J s = Ok (min_be (nat n))"
    using to_be_hex_minimal by blast
  with False assms(1,2) show ?thesis by (simp add: client_integer_def not_less not_le)
qed

lemma client_integer_word:
  fixes w :: "'a::len word"
  assumes "LENGTH('a) = bits" "bits \<le> 256"
  shows "\<exists>s. client_integer J (uint w) bits = Ok s \<and> get_bytes J s = Ok (min_be (unat w))"
proof -
  have "uint w < 2 ^ bits" using assms(1) by auto
  from client_integer_range [OF _ this assms(2)] show ?thesis by simp
qed

text \<open>The RLP items of a represented operation are the fields of the node's payload.\<close>

lemma PROTOCOL_item: "get_bytes J (hexlify J (to_utf8_bytes J ''reth-cosmos-adr036'')) = Ok PROTOCOL"
  by (simp add: hexlify_text get_bytes_text utf8_ascii plain_text_def plain_char_def PROTOCOL_def
      del: append.simps)

lemma version_item: "get_bytes J ''0x01'' = Ok [1]"
  using get_bytes_text [of "[1]"] by (simp add: hex_text_def hex_digit_char_def)

lemma items_texts:
  assumes "list_all2 (\<lambda>t b. get_bytes J t = Ok b) ts bs"
  shows "items_bytes P J (map RlpText ts) = Ok (concat (map (bytes_encode P) bs))"
  using assms by induction simp_all

definition field_bytes :: "operation \<Rightarrow> bytes list" where
  "field_bytes op =
     [PROTOCOL, [1], min_be (unat (op_chain_id op)), word_bytes 32 (op_genesis_hash op),
      word_bytes 20 (op_sender op), min_be (unat (op_nonce op)), word_bytes 20 (op_to op),
      min_be (unat (op_value op)), op_input op, min_be (unat (op_gas_limit op)),
      min_be (unat (op_max_fee_per_gas op)), min_be (unat (op_max_priority_fee_per_gas op))]"

lemma payload_fields_bytes: "payload_fields P op = concat (map (bytes_encode P) (field_bytes op))"
  by (simp add: payload_fields_def field_bytes_def integers_minimal arrays_fixed min_be_step)

lemma payload_items_represented:
  assumes "represents J cop op"
  shows "\<exists>ts. payload_items J cop = Ok (RlpList (map RlpText ts))
    \<and> list_all2 (\<lambda>t b. get_bytes J t = Ok b) ts (field_bytes op)"
proof -
  note rep = assms [unfolded represents_def]
  obtain a n v g m q where
    "client_integer J (uint (op_chain_id op)) 64 = Ok a" "get_bytes J a = Ok (min_be (unat (op_chain_id op)))"
    "client_integer J (uint (op_nonce op)) 64 = Ok n" "get_bytes J n = Ok (min_be (unat (op_nonce op)))"
    "client_integer J (uint (op_value op)) 256 = Ok v" "get_bytes J v = Ok (min_be (unat (op_value op)))"
    "client_integer J (uint (op_gas_limit op)) 64 = Ok g" "get_bytes J g = Ok (min_be (unat (op_gas_limit op)))"
    "client_integer J (uint (op_max_fee_per_gas op)) 128 = Ok m"
    "get_bytes J m = Ok (min_be (unat (op_max_fee_per_gas op)))"
    "client_integer J (uint (op_max_priority_fee_per_gas op)) 128 = Ok q"
    "get_bytes J q = Ok (min_be (unat (op_max_priority_fee_per_gas op)))"
    using client_integer_word [of 64 "op_chain_id op"] client_integer_word [of 64 "op_nonce op"]
      client_integer_word [of 256 "op_value op"] client_integer_word [of 64 "op_gas_limit op"]
      client_integer_word [of 128 "op_max_fee_per_gas op"]
      client_integer_word [of 128 "op_max_priority_fee_per_gas op"]
    by auto
  moreover from rep have "client_fixed J (co_genesisHash cop) 32 = Ok (co_genesisHash cop)"
    "client_fixed J (co_sender cop) 20 = Ok (co_sender cop)" "client_fixed J (co_to cop) 20 = Ok (co_to cop)"
    by (simp_all add: client_fixed_Ok)
  ultimately show ?thesis
    using rep PROTOCOL_item version_item
    by (intro exI [of _ "[hexlify J (to_utf8_bytes J ''reth-cosmos-adr036''), ''0x01'', a, co_genesisHash cop,
          co_sender cop, n, co_to cop, v, co_input cop, g, m, q]"])
      (simp add: payload_items_def field_bytes_def)
qed

lemma client_integer_fits:
  assumes "\<exists>s. client_integer J n LENGTH('a::len) = Ok s" "LENGTH('a) \<le> 256"
  shows "uint (word_of_int n :: 'a word) = n"
  using client_integer_Ok [of n "LENGTH('a)"] assms by (auto intro: uint_word_of_int_range)

lemma payload_items_represents:
  assumes "payload_items J cop = Ok item" "get_bytes J (co_input cop) = Ok input"
  shows "\<exists>op. represents J cop op"
proof -
  from assms(1) obtain gh sn t where
    bytes: "get_bytes J (co_genesisHash cop) = Ok gh" "length gh = 32"
      "get_bytes J (co_sender cop) = Ok sn" "length sn = 20" "get_bytes J (co_to cop) = Ok t" "length t = 20"
    and ints: "\<exists>s. client_integer J (co_chainId cop) 64 = Ok s" "\<exists>s. client_integer J (co_nonce cop) 64 = Ok s"
      "\<exists>s. client_integer J (co_value cop) 256 = Ok s" "\<exists>s. client_integer J (co_gasLimit cop) 64 = Ok s"
      "\<exists>s. client_integer J (co_maxFeePerGas cop) 128 = Ok s"
      "\<exists>s. client_integer J (co_maxPriorityFeePerGas cop) 128 = Ok s"
    by (auto simp: payload_items_def outcome_simps client_fixed_Ok)
  have arrays: "word_bytes 32 (word_of_nat (be_nat gh) :: b256) = gh"
    "word_bytes 20 (word_of_nat (be_nat sn) :: address) = sn" "word_bytes 20 (word_of_nat (be_nat t) :: address) = t"
    using word_bytes_of_word [of gh, where 'a = 256] word_bytes_of_word [of sn, where 'a = 160]
      word_bytes_of_word [of t, where 'a = 160] bytes by simp_all
  let ?op = "\<lparr>op_chain_id = word_of_int (co_chainId cop), op_genesis_hash = word_of_nat (be_nat gh),
    op_sender = word_of_nat (be_nat sn), op_nonce = word_of_int (co_nonce cop), op_to = word_of_nat (be_nat t),
    op_value = word_of_int (co_value cop), op_input = input, op_gas_limit = word_of_int (co_gasLimit cop),
    op_max_fee_per_gas = word_of_int (co_maxFeePerGas cop),
    op_max_priority_fee_per_gas = word_of_int (co_maxPriorityFeePerGas cop)\<rparr>"
  have "represents J cop ?op"
    using ints bytes arrays assms(2) client_integer_fits [where 'a = 64]
      client_integer_fits [where 'a = 128] client_integer_fits [where 'a = 256]
    by (simp add: represents_def)
  then show ?thesis by blast
qed

lemma represented_limits:
  assumes "represents J cop op" "get_bytes J (co_input cop) = Ok input"
  shows "within_limits op \<longleftrightarrow> \<not> CLIENT_MAX_CALLDATA < length input
    \<and> \<not> (co_gasLimit cop < 21000 \<or> 30000000 < co_gasLimit cop)
    \<and> \<not> co_maxFeePerGas cop < co_maxPriorityFeePerGas cop \<and> co_nonce cop \<noteq> 2 ^ 64 - 1"
proof -
  have ints: "co_gasLimit cop = int (unat (op_gas_limit op))" "co_nonce cop = int (unat (op_nonce op))"
    "co_maxFeePerGas cop = int (unat (op_max_fee_per_gas op))"
    "co_maxPriorityFeePerGas cop = int (unat (op_max_priority_fee_per_gas op))" "input = op_input op"
    using assms by (simp_all add: represents_def)
  obtain g n m q where words: "unat (op_gas_limit op) = g" "unat (op_nonce op) = n"
    "unat (op_max_fee_per_gas op) = m" "unat (op_max_priority_fee_per_gas op) = q"
    by blast
  have "n < 2 ^ 64"
    using unsigned_less [of "op_nonce op", where ?'a = nat] words by simp
  then show ?thesis
    unfolding within_limits_def CLIENT_MAX_CALLDATA_def ints words by auto
qed

lemma client_payload_Ok:
  "client_payload J cop = Ok text \<longleftrightarrow>
     (\<exists>op. represents J cop op \<and> within_limits op \<and> text = hexlify J (payload P op))"
proof
  assume ok: "client_payload J cop = Ok text"
  then obtain input item where input: "get_bytes J (co_input cop) = Ok input"
    and item: "payload_items J cop = Ok item" "encode_rlp J item = Ok text"
    by (auto simp: client_payload_def outcome_simps split: if_splits)
  from payload_items_represents [OF item(1) input] obtain op where op: "represents J cop op" by blast
  from payload_items_represented [OF op] obtain ts where
    "payload_items J cop = Ok (RlpList (map RlpText ts))"
    "list_all2 (\<lambda>t b. get_bytes J t = Ok b) ts (field_bytes op)"
    by blast
  with item have "encode_rlp J (RlpList (map RlpText ts)) = Ok text"
    "list_all2 (\<lambda>t b. get_bytes J t = Ok b) ts (field_bytes op)"
    by simp_all
  then have "text = hexlify J (payload P op)"
    by (auto simp: encode_rlp_Ok items_texts payload_def payload_fields_bytes)
  moreover have "within_limits op"
    using ok input represented_limits [OF op input] by (auto simp: client_payload_def split: if_splits)
  ultimately show "\<exists>op. represents J cop op \<and> within_limits op \<and> text = hexlify J (payload P op)"
    using op by blast
next
  assume "\<exists>op. represents J cop op \<and> within_limits op \<and> text = hexlify J (payload P op)"
  then obtain op where op: "represents J cop op" "within_limits op" "text = hexlify J (payload P op)" by blast
  then have input: "get_bytes J (co_input cop) = Ok (op_input op)" by (simp add: represents_def)
  from payload_items_represented [OF op(1)] obtain ts where
    "payload_items J cop = Ok (RlpList (map RlpText ts))"
    "list_all2 (\<lambda>t b. get_bytes J t = Ok b) ts (field_bytes op)"
    by blast
  with op represented_limits [OF op(1) input] input show "client_payload J cop = Ok text"
    by (simp add: client_payload_def encode_rlp_Ok items_texts payload_def payload_fields_bytes)
qed

lemma client_test_key: "client_test_key J = Ok (replicate 31 0 @ [1])"
proof -
  have "replicate 63 CHR ''0'' @ ''1'' = replicate (2 * 31) CHR ''0'' @ ''01''"
    using replicate_add [of 62 1 "CHR ''0''"] by simp
  also have "\<dots> = hex_text (replicate 31 0 @ [1])"
    unfolding hex_text_zeros by (simp add: hex_text_def hex_digit_char_def)
  finally show ?thesis by (simp only: client_test_key_def get_bytes_text)
qed

lemma get_bytes_hexlify: "get_bytes J (hexlify J b) = Ok b"
  by (simp only: hexlify_text get_bytes_text)

lemma hexlify_inject: "hexlify J b = hexlify J c \<longleftrightarrow> b = c"
  by (metis get_bytes_hexlify outcome.inject(1))

lemma address_bytes_inject: "word_bytes 20 (a :: address) = word_bytes 20 b \<longleftrightarrow> a = b"
  by (rule word_bytes_inject) simp

text \<open>The document both sides sign.\<close>

lemma client_sign_doc_Ok:
  assumes "represents J cop op" "client_payload J cop = Ok (hexlify J (payload P op))"
  shows "\<exists>doc. client_sign_doc J cop = Ok doc \<and> sign_bytes P op = (Ok (serialize_sign_doc J doc) :: ('e, bytes) outcome)"
proof -
  let ?account = "word_bytes 20 (op_sender op)" and ?data = "base64_standard P (payload P op)"
  from bech32_cosmos [of "to_base32 P ?account"] obtain signer where
    signer: "bech32_encode P ''cosmos'' (to_base32 P ?account) = Some signer" "plain_text signer"
    by blast
  then have "to_bech32 J ''cosmos'' ?account = Ok signer" by (simp add: bech32_same)
  with assms have "client_sign_doc J cop = Ok (sign_document ?data signer)"
    by (simp add: client_sign_doc_def represents_def get_bytes_hexlify base64_same sign_document_def)
  moreover have "sign_bytes P op = (Ok (serialize_sign_doc J (sign_document ?data signer)) :: ('e, bytes) outcome)"
    using signer json_same [of ?data signer] base64_plain by (simp add: sign_bytes_def cosmos_address_def)
  ultimately show ?thesis by blast
qed

text \<open>What a signed operation consists of.\<close>

lemma client_sign_OkD:
  assumes "client_sign J cop priv = Ok s"
  obtains op key sg bs where "represents J cop op" "within_limits op" "length key = 33" "length sg = 64"
    "valid_key P key" "signed_by P op key sg" "sign_bytes P op = (Ok bs :: (auth_error, bytes) outcome)"
    "so_raw s = hexlify J (encode_wire P op key sg)"
    "so_hash s = hexlify J (word_bytes 32 (transaction_hash P (encode_wire P op key sg)))"
    "so_signBytes s = hexlify J bs" "so_signature s = hexlify J sg" "so_publicKey s = hexlify J key"
    "so_sender s = hexlify J (word_bytes 20 (key_account P key))"
proof -
  from assms obtain w where w: "wallet_from_key J priv ''cosmos'' = Ok w"
    by (auto simp: client_sign_def outcome_simps)
  with assms obtain account accounts where account: "get_accounts J w = account # accounts"
    by (cases "get_accounts J w") (simp_all add: client_sign_def)
  from assms w account obtain doc signed pk64 sg64 key sg p body hash where
    wallet: "sign_amino J w account doc = Ok (signed, pk64, sg64)"
    and doc: "client_sign_doc J cop = Ok doc" "hexlify J (serialize_sign_doc J signed) = hexlify J (serialize_sign_doc J doc)"
    and keys: "from_base64 J pk64 = Ok key" "from_base64 J sg64 = Ok sg"
    and p: "client_payload J cop = Ok p"
    and body: "encode_rlp J (RlpList [RlpText p, RlpText (hexlify J key), RlpText (hexlify J sg)]) = Ok body"
    and hash: "keccak256_hex J (''0x7e'' @ drop 2 body) = Ok hash"
    and s: "s = \<lparr>so_raw = ''0x7e'' @ drop 2 body, so_hash = hash,
      so_signBytes = hexlify J (serialize_sign_doc J signed), so_signature = hexlify J sg,
      so_publicKey = hexlify J key, so_sender = hexlify J (js_ripemd160 J (js_sha256 J key)), so_cosmos = account\<rparr>"
    by (auto simp: client_sign_def outcome_simps Let_def split: if_splits)
  from p client_payload_Ok obtain op where
    op: "represents J cop op" "within_limits op" and ptext: "p = hexlify J (payload P op)" by blast
  from client_sign_doc_Ok [OF op(1)] p ptext doc(1)
  have msg: "sign_bytes P op = (Ok (serialize_sign_doc J signed) :: (auth_error, bytes) outcome)"
    using doc(2) by (auto simp: hexlify_inject)
  from wallet_signs [OF w wallet] keys obtain vk sig where
    key: "length key = 33" "hd key \<in> {2, 3}" "vk_from_sec1 P key = Some vk"
    and sig: "length sg = 64" "sig_from_slice P sg = Some sig" "sig_normalize_s P sig = None"
      "vk_verify P vk (serialize_sign_doc J signed) sig"
    by auto
  have "body = hexlify J (rlp_list P (wire_fields P op key sg))"
    using body ptext by (simp add: encode_rlp_Ok get_bytes_hexlify wire_fields_def)
  then have raw: "''0x7e'' @ drop 2 body = hexlify J (encode_wire P op key sg)"
    by (simp add: hexlify_text encode_wire_def hex_text_Cons TX_TYPE_def hex_digit_char_def)
  show ?thesis
  proof (rule that [OF op key(1) sig(1) _ _ msg])
    show "valid_key P key" using key by (simp add: valid_key_def)
    show "signed_by P op key sg" using key sig msg by (auto simp: signed_by_def)
    show "so_hash s = hexlify J (word_bytes 32 (transaction_hash P (encode_wire P op key sg)))"
      using hash raw s by (simp add: keccak_text transaction_hash_def)
    show "so_sender s = hexlify J (word_bytes 20 (key_account P key))"
      using s by (simp add: account_same key_account_def)
  qed (use s raw in simp_all)
qed

text \<open>The node's verdict on it.\<close>

lemma verify_signed:
  assumes "within_limits op" "valid_key P key" "signed_by P op key sg"
  shows "verify P op key sg genesis =
    (if op_chain_id op \<noteq> CHAIN_ID \<or> op_genesis_hash op \<noteq> genesis then Err Domain
     else if op_sender op \<noteq> key_account P key then Err Sender else Ok (op_sender op))"
proof (cases "authorized P genesis op key sg")
  case True
  then show ?thesis using verify_Ok_iff [of P op key sg genesis] by (auto simp: authorized_def)
next
  case False
  with assms verify_rejects [OF sign_text_axioms False] show ?thesis
    by (auto simp: authorized_def first_failure_def)
qed

end

end
