(* ===== verification/Client_Interop.thy ===== *)
theory Client_Interop
  imports Client
begin

text \<open>
  What the client and the node promise each other: they agree on which operations there are, on
  every byte of a signed one, and on the verdict. The packages of the client are instantiated over
  the reference libraries, with the wallet of one stand-in key.
\<close>

section \<open>The reference packages\<close>

definition ref_get_bytes :: "string \<Rightarrow> (string, bytes) outcome" where
  "ref_get_bytes s =
     (if take 2 s = ''0x'' then ok_or (hex_pairs (drop 2 s)) ''invalid BytesLike value''
      else Err ''invalid BytesLike value'')"

definition ref_hexlify :: "bytes \<Rightarrow> string" where
  "ref_hexlify b = ''0x'' @ hex_text b"

definition ref_serialize :: "json \<Rightarrow> bytes" where
  "ref_serialize j = text_bytes (json_text j)"

definition ref_client_base :: "unit client_lib" where
  "ref_client_base = \<lparr>
     get_bytes = ref_get_bytes, hexlify = ref_hexlify,
     to_be_hex = (\<lambda>n. Ok (ref_hexlify (min_be (nat n)))), to_utf8_bytes = text_bytes,
     encode_rlp = (\<lambda>_. Err []),
     keccak256_hex = (\<lambda>s. map_ok (\<lambda>b. ref_hexlify (word_bytes 32 (keccak256 ref_libs b))) (ref_get_bytes s)),
     to_base64 = ref_base64, from_base64 = ref_get_bytes,
     to_bech32 = (\<lambda>hrp b. ok_or (ref_bech32_encode hrp (ref_to_base32 b)) ''bech32''),
     serialize_sign_doc = ref_serialize,
     js_sha256 = (\<lambda>b. word_bytes 32 (sha256_digest ref_libs b)),
     js_ripemd160 = (\<lambda>b. word_bytes 20 (ripemd160_digest ref_libs b)),
     wallet_from_key = (\<lambda>_ _. Ok ()), get_accounts = (\<lambda>_. [''cosmos'']),
     sign_amino = (\<lambda>_ _ doc. Ok (doc, ref_hexlify fixture_key,
       ref_hexlify (replicate 63 0 @ [sum_list fixture_key + sum_list (ref_serialize doc)])))\<rparr>"

definition ref_client :: "unit client_lib" where
  "ref_client = ref_client_base\<lparr>encode_rlp := (\<lambda>i. map_ok ref_hexlify (item_bytes ref_libs ref_client_base i))\<rparr>"

lemma ref_client_sel [lib_simps]:
  "get_bytes ref_client = ref_get_bytes" "hexlify ref_client = ref_hexlify"
  "to_be_hex ref_client n = Ok (ref_hexlify (min_be (nat n)))" "to_utf8_bytes ref_client = text_bytes"
  "encode_rlp ref_client i = map_ok ref_hexlify (item_bytes ref_libs ref_client_base i)"
  "keccak256_hex ref_client s
     = map_ok (\<lambda>b. ref_hexlify (word_bytes 32 (keccak256 ref_libs b))) (ref_get_bytes s)"
  "to_base64 ref_client = ref_base64" "from_base64 ref_client = ref_get_bytes"
  "to_bech32 ref_client hrp b = ok_or (ref_bech32_encode hrp (ref_to_base32 b)) ''bech32''"
  "serialize_sign_doc ref_client = ref_serialize"
  "js_sha256 ref_client b = word_bytes 32 (sha256_digest ref_libs b)"
  "js_ripemd160 ref_client b = word_bytes 20 (ripemd160_digest ref_libs b)"
  "wallet_from_key ref_client k p = Ok ()" "get_accounts ref_client w = [''cosmos'']"
  "sign_amino ref_client w a doc = Ok (doc, ref_hexlify fixture_key,
     ref_hexlify (replicate 63 0 @ [sum_list fixture_key + sum_list (ref_serialize doc)]))"
  by (simp_all add: ref_client_def ref_client_base_def)

lemma ref_get_bytes_text [simp]:
  "ref_get_bytes (''0x'' @ hex_text b) = Ok b" "ref_get_bytes (CHR ''0'' # CHR ''x'' # hex_text b) = Ok b"
  by (simp_all add: ref_get_bytes_def hex_pairs_hex_text)

lemma ref_get_bytes_hexlify [simp]: "ref_get_bytes (ref_hexlify b) = Ok b"
  by (simp only: ref_hexlify_def ref_get_bytes_text(1))

lemma items_depend_on_get_bytes:
  "get_bytes J = get_bytes K \<Longrightarrow> item_bytes L J i = item_bytes L K i"
  "get_bytes J = get_bytes K \<Longrightarrow> items_bytes L J xs = items_bytes L K xs"
  by (induction L J i and L J xs rule: item_bytes_items_bytes.induct) simp_all

lemma ref_items: "item_bytes ref_libs ref_client_base i = item_bytes ref_libs ref_client i"
  by (rule items_depend_on_get_bytes) (simp add: ref_client_def)

lemma small_scalar: "\<not> half_order < be_nat (replicate 31 0 @ [b])"
  using unsigned_less [of b, where ?'a = nat] by (simp add: half_order_def be_nat_append)

interpretation ref_interop: client_packages ref_libs ref_client
proof (unfold_locales, goal_cases)
  case (9 n)
  then show ?case by (auto simp: lib_simps)
next
  case (11 i s)
  then show ?case by (simp add: lib_simps ref_items outcome_simps)
next
  case (17 w priv a doc signed pk sg)
  then have "from_base64 ref_client pk = Ok fixture_key"
    "from_base64 ref_client sg = Ok (replicate 63 0 @ [sum_list fixture_key + sum_list (ref_serialize signed)])"
    by (simp_all only: lib_simps outcome.inject prod.inject) (auto simp only: ref_get_bytes_hexlify)
  moreover have "length fixture_key = 33" "hd fixture_key \<in> {2, 3}" by (simp_all add: fixture_key_def)
  ultimately show ?case by (auto simp: lib_simps small_scalar)
qed (auto simp: lib_simps ref_uint_encode_def ref_fixed_encode_def ref_hexlify_def ref_json_to_vec_def
    ref_serialize_def outcome_simps)

section \<open>Two operations of the client\<close>

text \<open>The operation of \<open>fixture.ts\<close> and the transfer that the reference account may send.\<close>

definition fixture_client_op :: client_operation where
  "fixture_client_op = client_operation_of ''0x1111111111111111111111111111111111111111111111111111111111111111'' 0"

definition sample_client_op :: client_operation where
  "sample_client_op =
     (client_operation_of ''0x09171e117af661185d9a4a4ff7cf83d29b4b99893bc95b204c0e6e0a6d6a5272'' 0)
       \<lparr>co_sender := ''0xce870b07029bfcdb2dce28d959f2815b16f81798''\<rparr>"

lemmas hex_eval = lib_simps ref_get_bytes_def client_operation_of_def RECIPIENT_def CLIENT_CHAIN_ID_def
  word_bytes_def be_bytes_numeral

lemma fixture_represented: "represents ref_client fixture_client_op fixture_op"
  by (simp add: represents_def fixture_client_op_def fixture_op_def hex_eval)

lemma sample_represented: "represents ref_client sample_client_op sample_op"
  by (simp add: represents_def sample_client_op_def sample_op_def fixture_op_def GENESIS_HASH_def hex_eval)

lemma ref_sign_Ok:
  assumes "represents ref_client cop op" "within_limits op"
  shows "\<exists>s. client_sign ref_client cop priv = Ok s"
proof -
  have payload: "client_payload ref_client cop = Ok (hexlify ref_client (payload ref_libs op))"
    using assms ref_interop.client_payload_Ok by blast
  from ref_interop.client_sign_doc_Ok [OF assms(1) payload] obtain doc where
    doc: "client_sign_doc ref_client cop = Ok doc" by blast
  have items: "item_bytes ref_libs ref_client_base
      (RlpList [RlpText (ref_hexlify a), RlpText (ref_hexlify b), RlpText (ref_hexlify c)])
    = Ok (rlp_list ref_libs (ref_bytes_encode a @ ref_bytes_encode b @ ref_bytes_encode c))" for a b c
    unfolding ref_items by (simp add: lib_simps)
  have raw: "''0x7e'' @ drop 2 (ref_hexlify b) = ref_hexlify (0x7e # b)" for b
    by (simp add: ref_hexlify_def hex_text_Cons hex_digit_char_def)
  show ?thesis
    using payload doc items raw by (simp add: client_sign_def lib_simps Let_def del: append.simps item_bytes.simps)
qed

section \<open>Properties\<close>

text \<open>C17. The client and the node agree on the operations and on their encoding: the client's \<open>payload\<close>
  succeeds exactly on the operations that the node can represent and accepts within its limits, and
  what it returns is then the text of the node's payload for that operation, byte for byte.\<close>

theorem client_payload_equivalence:
  assumes "client_packages L J"
  shows "client_payload J cop = Ok p \<longleftrightarrow>
    (\<exists>op. represents J cop op \<and> validate_limits op = Ok () \<and> p = ''0x'' @ hex_text (payload L op))"
  using client_packages.client_payload_Ok [OF assms, of cop p]
  by (simp add: client_packages.hexlify_text [OF assms])

theorem client_payload_equivalence_witness:
  "client_payload ref_client fixture_client_op = Ok (''0x'' @ hex_text fixture_payload)
   \<and> \<not> is_ok (client_payload ref_client (fixture_client_op\<lparr>co_gasLimit := 30000001\<rparr>))"
proof (rule conjI)
  show "client_payload ref_client fixture_client_op = Ok (''0x'' @ hex_text fixture_payload)"
    using fixture_represented
    by (subst client_payload_equivalence [OF ref_interop.client_packages_axioms])
      (auto simp: payload_fixture intro!: exI [of _ fixture_op])
qed (simp add: client_payload_def fixture_client_op_def client_operation_of_def lib_simps ref_get_bytes_def)

text \<open>C9. What the client signs, the node understands and judges as the protocol says: the raw text decodes
  to the represented operation with the announced key and signature, the sign bytes and the hash are
  the node's, the text passes every check of the RPC method while the pool has room, and verification
  fails only for another chain or genesis or for a sender that is not the account of the key.\<close>

theorem client_transactions_interoperate:
  assumes "client_packages L J" "client_sign J cop priv = Ok s" "hex_bytes N"
    and "params_one N q = Ok (so_raw s)" "pool_total < 3072"
  shows "\<exists>op key sg raw msg. represents J cop op
    \<and> so_raw s = ''0x'' @ hex_text raw \<and> so_publicKey s = ''0x'' @ hex_text key
    \<and> so_signature s = ''0x'' @ hex_text sg \<and> so_signBytes s = ''0x'' @ hex_text msg
    \<and> so_hash s = ''0x'' @ hex_text (word_bytes 32 (transaction_hash L raw))
    \<and> decode_wire L raw = Ok (op, key, sg) \<and> sign_bytes L op = (Ok msg :: (auth_error, bytes) outcome)
    \<and> check_request L N pool_total q = Ok raw
    \<and> verify L op key sg GENESIS_HASH =
        (if op_chain_id op \<noteq> CHAIN_ID \<or> op_genesis_hash op \<noteq> GENESIS_HASH then Err Domain
         else if so_sender s \<noteq> ''0x'' @ hex_text (word_bytes 20 (op_sender op)) then Err Sender
         else Ok (op_sender op))"
proof -
  note libs = client_packages.axioms(1) [OF assms(1)]
  note rlp = chain_libs.axioms(1) [OF libs]
  note hex = client_packages.hexlify_text [OF assms(1)]
  from client_packages.client_sign_OkD [OF assms(1,2)] obtain op key sg msg where
    op: "represents J cop op" "within_limits op" and sizes: "length key = 33" "length sg = 64"
    and signed: "valid_key L key" "signed_by L op key sg" "sign_bytes L op = (Ok msg :: (auth_error, bytes) outcome)"
    and parts: "so_raw s = hexlify J (encode_wire L op key sg)"
      "so_hash s = hexlify J (word_bytes 32 (transaction_hash L (encode_wire L op key sg)))"
      "so_signBytes s = hexlify J msg" "so_signature s = hexlify J sg" "so_publicKey s = hexlify J key"
      "so_sender s = hexlify J (word_bytes 20 (key_account L key))"
    by metis
  have "so_sender s = hexlify J (word_bytes 20 (op_sender op)) \<longleftrightarrow> op_sender op = key_account L key"
    using parts(6) by (auto simp: client_packages.hexlify_inject [OF assms(1)]
        client_packages.address_bytes_inject [OF assms(1)])
  moreover have "check_request L N pool_total q = Ok (encode_wire L op key sg)"
    using check_wire_text [OF rlp assms(3) op(2) sizes _ assms(5)] assms(4) parts(1) hex by simp
  moreover have "decode_wire L (encode_wire L op key sg) = Ok (op, key, sg)"
    by (rule rlp_codec.decode_wire_encode_wire [OF rlp op(2) sizes])
  ultimately show ?thesis
    using op(1) signed(3) parts client_packages.verify_signed [OF assms(1) op(2) signed(1,2), of GENESIS_HASH]
    by (intro exI [of _ op] exI [of _ key] exI [of _ sg] exI [of _ "encode_wire L op key sg"] exI [of _ msg])
      (simp add: hex)
qed

theorem client_transactions_interoperate_witness:
  "\<exists>s raw op key sg. client_sign ref_client sample_client_op [] = Ok s \<and> so_raw s = ''0x'' @ hex_text raw
     \<and> decode_wire ref_libs raw = Ok (op, key, sg) \<and> verify ref_libs op key sg GENESIS_HASH \<noteq> Err Domain"
proof -
  from ref_sign_Ok [OF sample_represented] obtain s where s: "client_sign ref_client sample_client_op [] = Ok s"
    by (auto simp: fixture_limits)
  have "params_one ref_rpc (so_raw s) = Ok (so_raw s)" by (simp add: ref_rpc_def)
  from client_transactions_interoperate [OF ref_interop.client_packages_axioms s ref_rpc.hex_bytes_axioms this, of 5]
  obtain op key sg raw where op: "represents ref_client sample_client_op op"
    and raw: "so_raw s = ''0x'' @ hex_text raw" "decode_wire ref_libs raw = Ok (op, key, sg)"
    and verdict: "verify ref_libs op key sg GENESIS_HASH =
        (if op_chain_id op \<noteq> CHAIN_ID \<or> op_genesis_hash op \<noteq> GENESIS_HASH then Err Domain
         else if so_sender s \<noteq> ''0x'' @ hex_text (word_bytes 20 (op_sender op)) then Err Sender
         else Ok (op_sender op))"
    by auto
  have "op_chain_id op = CHAIN_ID \<and> op_genesis_hash op = GENESIS_HASH"
    using represents_unique [OF op sample_represented] by (simp add: sample_op_def fixture_op_def CHAIN_ID_def)
  with verdict have "verify ref_libs op key sg GENESIS_HASH \<noteq> Err Domain" by (auto split: if_splits)
  with s raw show ?thesis by blast
qed

end
