(* ===== verification/Client_Numbers.thy ===== *)
theory Client_Numbers
  imports Client_Interop
begin

text \<open>
  \<open>balance\<close> and \<open>nonce\<close> of \<open>client/src/rpc.ts\<close>: the conversion \<open>BigInt(text)\<close> of an answer of the
  node. A string is the list of its code units up to 255, among which tab, line feed, vertical tab,
  form feed, carriage return, space and the no-break space are white space.
\<close>

section \<open>BigInt of a string\<close>

definition js_space :: "char \<Rightarrow> bool" where
  "js_space c \<longleftrightarrow> (of_char c :: nat) \<in> {9, 10, 11, 12, 13, 32, 160}"

definition js_trim :: "string \<Rightarrow> string" where
  "js_trim s = rev (dropWhile js_space (rev (dropWhile js_space s)))"

primrec js_digits :: "nat \<Rightarrow> string \<Rightarrow> nat \<Rightarrow> nat option" where
  "js_digits base [] n = Some n"
| "js_digits base (c # cs) n =
     (case hex_value c of
        None \<Rightarrow> None
      | Some d \<Rightarrow> if d < base then js_digits base cs (base * n + d) else None)"

definition js_natural :: "nat \<Rightarrow> string \<Rightarrow> int option" where
  "js_natural base s = (if s = [] then None else map_option int (js_digits base s 0))"

text \<open>
  The grammar of a string integer literal: nothing at all is zero; a prefix selects the base and
  admits no sign; a decimal number may have one.
\<close>

definition js_integer_literal :: "string \<Rightarrow> int option" where
  "js_integer_literal s =
     (if s = [] then Some 0
      else if take 2 s \<in> {''0x'', ''0X''} then js_natural 16 (drop 2 s)
      else if take 2 s \<in> {''0o'', ''0O''} then js_natural 8 (drop 2 s)
      else if take 2 s \<in> {''0b'', ''0B''} then js_natural 2 (drop 2 s)
      else if hd s = CHR ''-'' then map_option uminus (js_natural 10 (tl s))
      else if hd s = CHR ''+'' then js_natural 10 (tl s)
      else js_natural 10 s)"

definition js_bigint :: "string \<Rightarrow> (string, int) outcome" where
  "js_bigint s = ok_or (js_integer_literal (js_trim s)) (''Cannot convert '' @ s @ '' to a BigInt'')"

section \<open>The two questions\<close>

definition client_balance ::
  "(string \<Rightarrow> (string, string) outcome) \<Rightarrow> (string list, string) fetcher \<Rightarrow> string \<Rightarrow> string \<Rightarrow> (string, int) outcome" where
  "client_balance hostname_of fetch url address =
     and_then (client_rpc hostname_of fetch url ''eth_getBalance'' [address, ''latest'']) js_bigint"

definition client_nonce ::
  "(string \<Rightarrow> (string, string) outcome) \<Rightarrow> (string list, string) fetcher \<Rightarrow> string \<Rightarrow> string \<Rightarrow> (string, int) outcome" where
  "client_nonce hostname_of fetch url address =
     and_then (client_rpc hostname_of fetch url ''eth_getTransactionCount'' [address, ''latest'']) js_bigint"

section \<open>Numerals\<close>

text \<open>The digits of a number without leading zeros; a quantity of the node is \<open>0x\<close> and those of base 16.\<close>

fun numeral_text :: "nat \<Rightarrow> nat \<Rightarrow> string" where
  "numeral_text base n =
     (if base < 2 \<or> n < base then [hex_digit_char n]
      else numeral_text base (n div base) @ [hex_digit_char (n mod base)])"

declare numeral_text.simps [simp del]

definition quantity_text :: "nat \<Rightarrow> string" where
  "quantity_text n = ''0x'' @ numeral_text 16 n"

lemma js_digits_append:
  "js_digits base (s @ t) n = Option.bind (js_digits base s n) (js_digits base t)"
  by (induction s arbitrary: n) (simp_all del: hex_value.simps split: option.split)

lemma js_digits_digit: "d < base \<Longrightarrow> base \<le> 16 \<Longrightarrow> js_digits base [hex_digit_char d] n = Some (base * n + d)"
  by (simp add: hex_value_digit del: hex_value.simps)

lemma js_digits_numeral:
  assumes "2 \<le> base" "base \<le> 16"
  shows "js_digits base (numeral_text base n) 0 = Some n"
  using assms
proof (induction base n rule: numeral_text.induct)
  case (1 base n)
  show ?case
  proof (cases "n < base")
    case True
    with 1 js_digits_digit [of n base 0] show ?thesis by (simp add: numeral_text.simps)
  next
    case False
    with 1 have "js_digits base (numeral_text base n) 0
        = Option.bind (Some (n div base)) (js_digits base [hex_digit_char (n mod base)])"
      by (subst numeral_text.simps) (simp add: js_digits_append del: js_digits.simps)
    also have "\<dots> = Some n"
      using 1 js_digits_digit [of "n mod base" base "n div base"] by (simp del: js_digits.simps)
    finally show ?thesis .
  qed
qed

lemma numeral_text_not_Nil: "numeral_text base n \<noteq> []"
  by (subst numeral_text.simps) simp

lemma hex_digit_not_space: "d < 16 \<Longrightarrow> \<not> js_space (hex_digit_char d)"
proof -
  have "\<forall>d \<in> set [0..<16]. \<not> js_space (hex_digit_char d)"
    by (simp add: upt_rec hex_digit_char_def js_space_def)
  then show "d < 16 \<Longrightarrow> \<not> js_space (hex_digit_char d)" by simp
qed

lemma numeral_not_space: "2 \<le> base \<Longrightarrow> base \<le> 16 \<Longrightarrow> \<not> js_space (last (numeral_text base n))"
  by (subst numeral_text.simps) (auto simp: hex_digit_not_space less_le_trans [OF mod_less_divisor])

lemma js_trim_plain: "s \<noteq> [] \<Longrightarrow> \<not> js_space (hd s) \<Longrightarrow> \<not> js_space (last s) \<Longrightarrow> js_trim s = s"
  by (simp add: js_trim_def dropWhile_eq_self_iff [THEN iffD2] hd_rev)

lemma js_bigint_quantity [simp]: "js_bigint (quantity_text n) = Ok (int n)"
proof -
  have "js_trim (quantity_text n) = quantity_text n"
    using numeral_not_space [of 16 n] by (intro js_trim_plain) (auto simp: quantity_text_def js_space_def numeral_text_not_Nil)
  then show ?thesis
    by (simp add: js_bigint_def js_integer_literal_def js_natural_def numeral_text_not_Nil js_digits_numeral
        quantity_text_def)
qed

text \<open>White space around an answer does not matter, an empty one is zero, and other texts are refused.\<close>

lemma js_bigint_examples:
  "js_bigint '''' = Ok 0" "js_bigint ''0x'' = Err ''Cannot convert 0x to a BigInt''"
  "js_bigint '' 0xfF '' = Ok 255" "js_bigint ''-12'' = Ok (-12)"
  "js_bigint ''-0x1'' = Err ''Cannot convert -0x1 to a BigInt''"
  "js_bigint ''0b12'' = Err ''Cannot convert 0b12 to a BigInt''"
  by (simp_all add: js_bigint_def js_trim_def js_space_def js_integer_literal_def js_natural_def)

section \<open>Properties\<close>

text \<open>C18. The nonce of an account goes from the node through the client into an operation unchanged: when the
  node at a local address answers with a number as a quantity text, \<open>balance\<close> and \<open>nonce\<close> return
  exactly that number; and with the nonce of a \<open>u64\<close> the client's operation has a payload precisely
  when the nonce is not the largest, and that payload is the node's for the operation with this nonce.\<close>

theorem client_reads_node_numbers:
  assumes "client_packages L J" "hostname_of url = Ok host" "host \<in> set LOCAL_HOSTS"
    and "\<And>params. fetch ''eth_getTransactionCount'' params
      = Ok (status, True, Ok \<lparr>body_result = quantity_text (unat (w :: u64)), body_error = None\<rparr>)"
    and "\<And>params. fetch ''eth_getBalance'' params
      = Ok (status, True, Ok \<lparr>body_result = quantity_text b, body_error = None\<rparr>)"
    and "represents J (cop\<lparr>co_nonce := 0\<rparr>) (op\<lparr>op_nonce := 0\<rparr>)" "within_limits (op\<lparr>op_nonce := 0\<rparr>)"
  shows "client_balance hostname_of fetch url address = Ok (int b)
    \<and> (\<exists>n. client_nonce hostname_of fetch url address = Ok n
        \<and> (\<forall>p. client_payload J (cop\<lparr>co_nonce := n\<rparr>) = Ok p \<longleftrightarrow>
             w \<noteq> 0xffffffffffffffff \<and> p = ''0x'' @ hex_text (payload L (op\<lparr>op_nonce := w\<rparr>))))"
proof -
  have rpc: "client_rpc hostname_of fetch url ''eth_getTransactionCount'' params = Ok (quantity_text (unat w))"
    "client_rpc hostname_of fetch url ''eth_getBalance'' params = Ok (quantity_text b)" for params
    using assms(2-5) by (simp_all add: client_rpc_Ok)
  then have read: "client_nonce hostname_of fetch url address = Ok (uint w)"
    "client_balance hostname_of fetch url address = Ok (int b)"
    by (simp_all add: client_nonce_def client_balance_def)
  let ?op = "op\<lparr>op_nonce := w\<rparr>"
  have here: "represents J (cop\<lparr>co_nonce := uint w\<rparr>) ?op"
    using assms(6) by (simp add: represents_def)
  have limits: "within_limits ?op \<longleftrightarrow> w \<noteq> 0xffffffffffffffff"
    using assms(7) nonce_max [of w] by (simp add: within_limits_def)
  have "client_payload J (cop\<lparr>co_nonce := uint w\<rparr>) = Ok p \<longleftrightarrow>
      w \<noteq> 0xffffffffffffffff \<and> p = ''0x'' @ hex_text (payload L ?op)" for p
    unfolding client_packages.client_payload_Ok [OF assms(1)] client_packages.hexlify_text [OF assms(1)]
    using here limits represents_unique by blast
  with read show ?thesis by blast
qed

text \<open>A node at the local host that reports the nonce 5 and the balance 7.\<close>

definition sample_fetch :: "(string list, string) fetcher" where
  "sample_fetch meth params = Ok (200, True,
     Ok \<lparr>body_result = quantity_text (if meth = ''eth_getBalance'' then 7 else unat (5 :: u64)), body_error = None\<rparr>)"

theorem client_reads_node_numbers_witness:
  "\<exists>n. client_nonce (\<lambda>_. Ok ''localhost'') sample_fetch [] [] = Ok n
     \<and> client_balance (\<lambda>_. Ok ''localhost'') sample_fetch [] [] = Ok 7
     \<and> is_ok (client_payload ref_client (fixture_client_op\<lparr>co_nonce := n\<rparr>))"
proof -
  have same: "fixture_client_op\<lparr>co_nonce := 0\<rparr> = fixture_client_op" "fixture_op\<lparr>op_nonce := 0\<rparr> = fixture_op"
    by (simp_all add: fixture_client_op_def client_operation_of_def fixture_op_def)
  have "client_balance (\<lambda>_. Ok ''localhost'') sample_fetch [] [] = Ok (int 7)
    \<and> (\<exists>n. client_nonce (\<lambda>_. Ok ''localhost'') sample_fetch [] [] = Ok n
        \<and> (\<forall>p. client_payload ref_client (fixture_client_op\<lparr>co_nonce := n\<rparr>) = Ok p \<longleftrightarrow>
             (5 :: u64) \<noteq> 0xffffffffffffffff \<and> p = ''0x'' @ hex_text (payload ref_libs (fixture_op\<lparr>op_nonce := 5\<rparr>))))"
    by (rule client_reads_node_numbers [OF ref_interop.client_packages_axioms, where host = "''localhost''" and status = 200])
      (simp_all add: same fixture_represented fixture_limits(1) sample_fetch_def LOCAL_HOSTS_def)
  then show ?thesis by (auto simp: is_ok_iff)
qed

end
