(* ===== verification/Spec2Isabelle.thy ===== *)
theory Spec2Isabelle
  imports Ledger Admission Selection Client_Numbers
begin

text \<open>
  A development beside the node of \<open>reth-cosmos\<close>: a Reth node whose blocks carry, next to Ethereum
  transactions, transactions of type \<open>0x7e\<close> that a Cosmos wallet authorizes by an ADR-036 signature.

  \<^bold>\<open>Parts and theories.\<close>
  \<^item> \<open>crates/cosmos-auth/src/lib.rs\<close>: \<open>Cosmos_Auth\<close> has the operation, its limits, the RLP payload,
    the sign document, \<open>verify\<close>, \<open>encode_wire\<close> and \<open>decode_wire\<close>, in the order of the file.
    \<open>Cosmos_Auth_Facts\<close> has sizes, round trips and canonicity; \<open>Authorization\<close> the specification
    \<open>authorized\<close>, the error of every rejected call, and the properties of the crate; \<open>Fixture\<close>
    reproduces the repository's test vector \<open>adr036-v1.json\<close> in the kernel.
  \<^item> \<open>src/primitives\<close>: \<open>Tx_Type\<close> (\<open>tx_type.rs\<close>), \<open>Cosmos_Signed\<close> (\<open>cosmos.rs\<close>), \<open>Envelope\<close>
    (\<open>envelope.rs\<close>), \<open>Network\<close> (its RLP form) and \<open>Storage\<close> (\<open>storage.rs\<close>). A Rust value of \<open>CosmosSigned\<close> has private fields
    and comes from its constructor: that is the invariant \<open>wf_signed\<close>.
  \<^item> \<open>src/consensus.rs\<close>: \<open>Consensus\<close>. \<open>src/evm.rs\<close>: \<open>Evm_Adapter\<close>. \<open>src/pool.rs\<close>: \<open>Pool_Tx\<close>.
    \<open>src/rpc.rs\<close>: \<open>Rpc_Types\<close>. \<open>src/main.rs\<close>: \<open>Send_Raw\<close>, the method
    \<open>cosmos_sendRawTransaction\<close> with its eight permits as a step relation \<open>rpc_step\<close>, and the check
    of the genesis hash. \<open>src/node.rs\<close>: \<open>Node\<close>, what each builder constructs and with which settings,
    the components they make up, and the run of \<open>main\<close>.
  \<^item> \<open>src/payload\<close>: \<open>Built_Payload\<close> (\<open>built.rs\<close>), \<open>Engine\<close> (\<open>engine.rs\<close>), and for \<open>builder.rs\<close>
    \<open>Payload_Builder\<close> (the selection loop) and \<open>Payload_Job\<close> (what is around it); \<open>Selection\<close> is about
    the order and the completeness of what the loop selects.
  \<^item> \<open>client/src/protocol.ts\<close> and \<open>rpc.ts\<close>: \<open>Client\<close>, the TypeScript program that builds, signs and
    submits operations; \<open>Client_Interop\<close>, that it and the node agree on every byte and verdict;
    \<open>Client_Numbers\<close>, its reading of balances and nonces with \<open>BigInt\<close>.
  \<^item> \<open>Lifecycle\<close> composes the parts: a state of the RPC server, the pool, the chain and the database,
    and the step relation \<open>node_step\<close> over it whose steps are the operations of the other theories;
    \<open>Ledger\<close> is what the node promises about Cosmos operations, and that the steps refine it;
    \<open>Admission\<close> is the size of the pool under concurrent requests, a view that the steps project to.
  \<^item> \<open>Prelude\<close> holds the machine types, the results and the big-endian bytes; \<open>Codec\<close> the locales of
    a canonical and of a framed codec.

  \<^bold>\<open>How the parts interact.\<close> A request passes the checks of \<open>Send_Raw\<close>, is decoded by \<open>Envelope\<close>
  and recovered by \<open>Cosmos_Signed\<close>, is wrapped by \<open>Pool_Tx\<close>, selected by \<open>Payload_Builder\<close>, executed
  through \<open>Evm_Adapter\<close>, sealed into a \<open>Built_Payload\<close>, comes back through the engine API, is checked
  again by \<open>Consensus\<close> and stored by \<open>Storage\<close>. The properties of this theory follow one
  transaction along that path; \<open>Lifecycle\<close> lets requests, peer messages, blocks, evictions and reorganizations
  come in any order, with the upstream code choosing freely between the steps.

  \<^bold>\<open>Code outside the repository\<close> (\<open>alloy\<close>, \<open>reth\<close>,
  \<open>revm\<close>, \<open>k256\<close>, \<open>sha2\<close>, \<open>base64\<close>,
  \<open>bech32\<close>, \<open>serde_json\<close>, \<open>jsonrpsee\<close>, \<open>tokio\<close>)
  is a record of functions that the definitions take as an argument (\<open>L\<close>,
  \<open>T\<close>, \<open>E\<close>, \<open>G\<close>, \<open>U\<close>, \<open>Q\<close>,
  \<open>W\<close>, \<open>N\<close>, \<open>F\<close>, \<open>V\<close>, \<open>B\<close>,
  \<open>K\<close>, \<open>M\<close>, \<open>A\<close>, \<open>X\<close>, \<open>J\<close>); a trait
  is the record of its methods, and in \<open>Lifecycle\<close> and \<open>Ledger\<close> the record
  \<open>W\<close> is all that a node is assembled from. What the sources rely on are the
  assumptions of the locales \<open>rlp_codec\<close>, \<open>sign_text\<close>,
  \<open>signature_layout\<close>, \<open>chain_libs\<close>, \<open>network_form\<close>,
  \<open>compact_records\<close>, \<open>upstream_methods\<close>, \<open>pool_package\<close>,
  \<open>hex_bytes\<close>, \<open>block_building\<close>, \<open>bounded_iterator\<close>,
  \<open>candidate_iterator\<close>, \<open>ordered_iterator\<close>
  (which gives the two before), \<open>assembled_node\<close> and, for \<open>ethers\<close>
  and \<open>CosmJS\<close>, \<open>client_packages\<close>.
  Each has an interpretation: RLP, base64, bech32, JSON and
  hexadecimal text are implemented in full in \<open>Reference_Rlp\<close>, \<open>Reference_Text\<close> and \<open>Send_Raw\<close>; the
  hash functions and signatures are stand-ins, of which no law is assumed, so that the properties
  say what the code does with the answers of the cryptography and nothing about its strength. The
  pool, the upstream transaction methods and the block builder are interpreted over the chain's own
  transactions.

  \<^bold>\<open>Conventions.\<close> \<open>Ok\<close>, \<open>Err\<close> and \<open>Panic\<close> are the results of a call; \<open>?\<close> is \<open>and_then\<close>, \<open>expect\<close> and
  \<open>assert!\<close> are branches to \<open>Panic\<close>, and so are the slices \<open>&xs[n..]\<close>, \<open>&xs[..n]\<close>, \<open>xs[i]\<close> and
  \<open>split_at\<close> out of range. \<open>u8\<close>, \<open>u64\<close>, \<open>u128\<close>, \<open>U256\<close>, \<open>B256\<close> and \<open>Address\<close> are words that
  wrap; lengths in memory are natural numbers. Overflow of a \<open>u64\<close> counter panics in a debug build and
  wraps in a release build: the model wraps, and the properties show that the counters that matter do
  not overflow. In \<open>typed_decode\<close> the sum \<open>h.length() + h.payload_length\<close> is of natural numbers, since
  the header decoder refuses a length beyond its input.

  \<^bold>\<open>Bounds and fuel.\<close> A wire transaction has at most 33280 bytes and the payload at most 213 more than
  the calldata, so the limits of the decoder never refuse what the encoder wrote. The selection loop
  takes fuel because the pool may feed the iterator; fuel beyond the iterator's measure is enough
  and the answer does not depend on it (\<open>selection_returns\<close>, which also accounts for every answer, a
  panic included, by the last iteration); for a list of \<open>n\<close> transactions that fit the block, under the
  rules before Amsterdam and from it on, \<open>n + 1\<close> iterations are shown to select them all. The check of the RPC method against 3072 pooled
  transactions is not atomic with their insertion: the eight permits bound the pool by 3079, and
  \<open>Admission\<close> shows a run that gets there.

  \<^bold>\<open>What the lemmas show.\<close> Decoders are total, exact and canonical; signatures bind every field; no path
  recovers a sender without the full check; containers cannot diverge from their bytes; storage and
  JSON round-trip, and a damaged record panics; consensus rejects before any upstream rule; the EVM sees the fields that were
  signed and the pool reserves their cost; the RPC gate refines a bounded counter and recovers, and
  lets the pool exceed its limit by at most seven; a built block is within its gas, size and blob
  limits, keeps the order of the pool, leaves nothing out without a reason and converts to the envelope of its fork. Across
  the components: the node refines a ledger of authorized operations, so no reachable state holds an
  unauthorized Cosmos transaction, what is
  built from its pool passes its own consensus, an authorized transaction can always get in, and
  client and node write the same bytes.

  \<^bold>\<open>Not modelled.\<close> Upstream behaviour behind the interfaces (pool ordering, execution, state roots,
  networking); the associated types and asynchronous tasks in \<open>node.rs\<close> and \<open>main.rs\<close>;
  the textual form of \<open>serde\<close> (field renaming, quantities as hexadecimal), since \<open>serde\<close> generates
  it; logging; caches that only speed reads up; tests, scripts and the client programs \<open>demo.ts\<close>,
  \<open>e2e.ts\<close>, \<open>ethereum.ts\<close> and \<open>fixture.ts\<close>, which drive a running node and assert what it answers.
\<close>

section \<open>One transaction through the node\<close>

text \<open>C6. One transaction has one identity everywhere: whatever raw bytes the executor accepts as a Cosmos
  transaction with signer \<open>a\<close> also pass the RPC checks as hex text while the pool has room, are what
  the pool transaction broadcasts, give it their hash and the same sender, are authorized for
  consensus, execute with \<open>a\<close> as the caller, and come back from storage as the same transaction.\<close>

theorem transaction_identity:
  fixes PT :: "('p, 'z) tx_traits_scheme"
  assumes "chain_libs L" "upstream_methods U (envelope_traits L T n)"
    and "pool_package Q (envelope_traits L T n) into" "hex_bytes N"
    and "convert U (envelope_traits L T n) raw = Ok (Cosmos tx, a)"
    and "params_one N q = Ok (''0x'' @ hex_text raw)" "pool_total < 3072"
  shows "let p = from_pooled Q (envelope_traits L T n) PT \<lparr>rec_tx = Cosmos tx, rec_signer = a\<rparr> in
    check_request L N pool_total q = Ok raw
    \<and> envelope_encode_2718 T (rec_tx (into_consensus p)) = raw
    \<and> pool_tx_hash (envelope_traits L T n) p = keccak256 L raw \<and> pool_tx_sender p = a
    \<and> verify_transactions L [rec_tx (into_consensus p)] = (Ok () :: ('c consensus_error, unit) outcome)
    \<and> (\<exists>env. from_recovered_tx E (rec_tx (into_consensus p)) (pool_tx_sender p) = (Ok env :: ('e, _) outcome)
         \<and> te_caller env = a)
    \<and> from_tx_compact L S (to_tx_compact L S (rec_tx (into_consensus p)) @ rest) COSMOS
        (envelope_signature S (rec_tx (into_consensus p))) = (Ok (Cosmos tx, rest) :: ('f, _) outcome)"
proof -
  have conv: "wf_signed L tx" "raw = cs_raw tx" "tx_authorized L tx" "a = op_sender (cs_operation tx)"
    using chain_libs.convert_cosmos_iff [OF assms(1,2)] assms(5) by blast+
  note wf = chain_libs.wf_signed_eqD [OF assms(1) conv(1)]
  have raw: "raw = encode_wire L (cs_operation tx) (cs_public_key tx) (signature_bytes L tx)"
    using chain_libs.wf_signed_raw [OF assms(1) conv(1)] conv(2) by simp
  have request: "check_request L N pool_total q = Ok raw"
    using check_wire_text [OF chain_libs.axioms(1) [OF assms(1)] assms(4) wf(2-4) _ assms(7)] assms(6) raw
    by simp
  have "cs_hash tx = keccak256 L raw"
    using new_OkD(3) [OF chain_libs.wf_signed_new [OF assms(1) conv(1)]] conv(2)
    by (simp add: transaction_hash_def)
  with request conv show ?thesis
    using chain_libs.from_tx_compact_cosmos [OF assms(1) conv(1), of S rest]
    by (simp add: Let_def into_consensus_def pool_tx_sender_def pool_tx_hash_def envelope_tx_hash_def
        pool_package.from_pooled_transaction [OF assms(3)] transaction_from_pooled_def
        envelope_encode_2718_def chain_libs.verify_transactions_eq [OF assms(1)]
        from_recovered_tx_def envelope_signature_def)
qed

theorem transaction_identity_witness:
  "check_request ref_libs ref_rpc 9 (''0x'' @ hex_text (cs_raw sample_tx)) = Ok (cs_raw sample_tx)"
proof -
  have "convert ref_upstream (envelope_traits ref_libs ref_eth 0) (cs_raw sample_tx)
      = Ok (Cosmos sample_tx, op_sender sample_op)"
    using ref.convert_cosmos_iff [OF env_tx.upstream_methods_axioms] sample_authorized
    by (simp add: tx_authorized_def)
  moreover have "params_one ref_rpc s = Ok s" for s
    by (simp add: ref_rpc_def)
  ultimately show ?thesis
    using transaction_identity [OF ref.chain_libs_axioms env_tx.upstream_methods_axioms
      ref_pool.pool_package_axioms ref_rpc.hex_bytes_axioms, where PT = ref_eth and E = ref_evm
      and S = ref_compact and rest = "[]" and pool_total = 9, unfolded Let_def, THEN conjunct1]
    by simp
qed

text \<open>C7. A block that passed pre-execution validation can be executed: every Cosmos transaction in it
  recovers, by the unchecked path too, to the sender its signed operation names, is within the limits
  and for this chain, and converts into an environment with that caller and chain id, without a
  panic.\<close>

theorem validated_block_executes:
  assumes "chain_libs L" "validate_block_pre_execution L C block = Ok ()"
    and "Cosmos tx \<in> set (b_transactions block)"
  shows "\<exists>a env. envelope_recover_signer L T (Cosmos tx) = Ok a
    \<and> envelope_recover_signer_unchecked L T (Cosmos tx) = Ok a
    \<and> a = op_sender (cs_operation tx) \<and> within_limits (cs_operation tx)
    \<and> from_recovered_tx E (Cosmos tx) a = (Ok env :: ('e, _) outcome)
    \<and> te_caller env = a \<and> te_chain_id env = Some CHAIN_ID"
proof -
  have "tx_authorized L tx"
    using assms(2,3)
    by (auto simp: validate_block_pre_execution_def validate_block_pre_execution_with_tx_root_def
        verify_authorizations_def outcome_simps chain_libs.verify_transactions_eq [OF assms(1)] split: if_splits)
  then have "cosmos_signed_verify L tx = Ok (op_sender (cs_operation tx))"
    "within_limits (cs_operation tx)" "op_chain_id (cs_operation tx) = CHAIN_ID"
    by (simp_all add: chain_libs.cosmos_signed_verify_eq [OF assms(1)] tx_authorized_def authorized_def)
  then show ?thesis
    by (simp add: envelope_recover_signer_def envelope_recover_signer_unchecked_def from_recovered_tx_def Let_def)
qed

theorem validated_block_executes_witness:
  "envelope_recover_signer_unchecked ref_libs ref_eth (Cosmos sample_tx) = Ok (op_sender sample_op)"
proof -
  have "validate_block_pre_execution ref_libs lax_consensus (block_of [Cosmos sample_tx]) = Ok ()"
    using sample_authorized
    by (simp add: validate_block_pre_execution_def validate_block_pre_execution_with_tx_root_def
        verify_authorizations_def ref.verify_transactions_eq tx_authorized_def lax_consensus_def block_of_def
        del: verify_transactions.simps)
  from validated_block_executes [OF ref.chain_libs_axioms this, of sample_tx ref_eth ref_evm, where 'e = unit]
  show ?thesis by (auto simp: block_of_def)
qed

end
